(* ===== verification/Go_Prelude.thy ===== *)
theory Go_Prelude
  imports Main "HOL-Library.AList" "HOL-Library.Sublist" "HOL-Library.Char_ord"
    "HOL-Library.List_Lexorder"
begin

text \<open>
  The parts of Go's language and standard library that every component of Airlock uses:
  byte strings and the functions of package \<open>strings\<close>, \<open>strconv.Itoa\<close>, the alias
  regular expression, maps as association lists, and the result type of fallible functions.

  A Go string or byte slice is a \<^typ>\<open>string\<close>: a list of \<^typ>\<open>char\<close>, which are bytes.
  Go's \<open>len\<close> is \<^const>\<open>length\<close> and Go's byte-wise string order is the lexicographic order of
  \<open>List_Lexorder\<close> over \<open>Char_ord\<close>. A Go \<open>map[string]T\<close> is an association list with
  distinct keys whose order stands for the (unspecified) iteration order; a Go
  \<open>map[string]struct{}\<close> is a list of distinct strings in the same sense. \<open>strings.ToUpper\<close> and \<open>strings.ToLower\<close> are
  modelled on ASCII letters (other bytes stay as they are), which is exact on ASCII strings.
\<close>

named_theorems go_simps \<open>unfolding rules for the models of Go library functions\<close>
named_theorems amap_simps \<open>lookups in updated association lists\<close>

section \<open>Strings\<close>

type_synonym bytes = string

type_synonym ('k, 'v) amap = "('k \<times> 'v) list"

definition char_between :: "char \<Rightarrow> char \<Rightarrow> char \<Rightarrow> bool" where
  "char_between lo hi c \<longleftrightarrow> lo \<le> c \<and> c \<le> hi"

definition is_lower :: "char \<Rightarrow> bool" where
  "is_lower c \<longleftrightarrow> char_between (CHR ''a'') (CHR ''z'') c"

definition is_upper :: "char \<Rightarrow> bool" where
  "is_upper c \<longleftrightarrow> char_between (CHR ''A'') (CHR ''Z'') c"

definition is_digit :: "char \<Rightarrow> bool" where
  "is_digit c \<longleftrightarrow> char_between (CHR ''0'') (CHR ''9'') c"

definition upper_char :: "char \<Rightarrow> char" where
  "upper_char c = (if is_lower c then char_of ((of_char c :: nat) - 32) else c)"

definition lower_char :: "char \<Rightarrow> char" where
  "lower_char c = (if is_upper c then char_of ((of_char c :: nat) + 32) else c)"

definition to_upper :: "string \<Rightarrow> string" where
  "to_upper s = map upper_char s"

definition to_lower :: "string \<Rightarrow> string" where
  "to_lower s = map lower_char s"

definition has_prefix :: "string \<Rightarrow> string \<Rightarrow> bool" where
  "has_prefix s p \<longleftrightarrow> prefix p s"

definition trim_prefix :: "string \<Rightarrow> string \<Rightarrow> string" where
  "trim_prefix s p = (if prefix p s then drop (length p) s else s)"

definition trim_suffix :: "string \<Rightarrow> string \<Rightarrow> string" where
  "trim_suffix s p = (if suffix p s then take (length s - length p) s else s)"

definition cut_prefix :: "string \<Rightarrow> string \<Rightarrow> string option" where
  "cut_prefix s p = (if prefix p s then Some (drop (length p) s) else None)"

text \<open>\<open>strings.Cut\<close> with a one-byte separator: the parts around its first occurrence.\<close>

fun cut_char :: "char \<Rightarrow> string \<Rightarrow> string \<times> string \<times> bool" where
  "cut_char c [] = ([], [], False)"
| "cut_char c (x # xs) =
     (if x = c then ([], xs, True)
      else (case cut_char c xs of (before, after, found) \<Rightarrow> (x # before, after, found)))"

text \<open>\<open>strings.Split\<close> with a one-byte separator.\<close>

fun split_on :: "char \<Rightarrow> string \<Rightarrow> string list" where
  "split_on c [] = [[]]"
| "split_on c (x # xs) =
     (if x = c then [] # split_on c xs
      else (case split_on c xs of [] \<Rightarrow> [[x]] | y # ys \<Rightarrow> (x # y) # ys))"

fun join_with :: "string \<Rightarrow> string list \<Rightarrow> string" where
  "join_with sep [] = []"
| "join_with sep [x] = x"
| "join_with sep (x # y # ys) = x @ sep @ join_with sep (y # ys)"

text \<open>\<open>strings.Contains\<close> and \<open>strings.ContainsAny\<close>.\<close>

fun contains_str :: "string \<Rightarrow> string \<Rightarrow> bool" where
  "contains_str [] p \<longleftrightarrow> p = []"
| "contains_str (x # xs) p \<longleftrightarrow> prefix p (x # xs) \<or> contains_str xs p"

definition contains_any :: "string \<Rightarrow> string \<Rightarrow> bool" where
  "contains_any s cs \<longleftrightarrow> (\<exists>c\<in>set s. c \<in> set cs)"

abbreviation NUL :: char where "NUL \<equiv> CHR 0x00"
abbreviation TAB :: char where "TAB \<equiv> CHR 0x09"
abbreviation LF :: char where "LF \<equiv> CHR 0x0A"
abbreviation CR :: char where "CR \<equiv> CHR 0x0D"

text \<open>
  The UTF-8 encodings of the code points \<open>unicode.IsSpace\<close> accepts. None is a suffix or a
  prefix of another and each starts with a byte that is no continuation byte, so removing
  these byte sequences from either end is what \<open>strings.TrimSpace\<close> does.
\<close>

definition go_spaces :: "string list" where
  "go_spaces =
     [[CHR 0x09], [CHR 0x0A], [CHR 0x0B], [CHR 0x0C], [CHR 0x0D], [CHR 0x20],
      [CHR 0xC2, CHR 0x85], [CHR 0xC2, CHR 0xA0], [CHR 0xE1, CHR 0x9A, CHR 0x80],
      [CHR 0xE2, CHR 0x80, CHR 0x80], [CHR 0xE2, CHR 0x80, CHR 0x81],
      [CHR 0xE2, CHR 0x80, CHR 0x82], [CHR 0xE2, CHR 0x80, CHR 0x83],
      [CHR 0xE2, CHR 0x80, CHR 0x84], [CHR 0xE2, CHR 0x80, CHR 0x85],
      [CHR 0xE2, CHR 0x80, CHR 0x86], [CHR 0xE2, CHR 0x80, CHR 0x87],
      [CHR 0xE2, CHR 0x80, CHR 0x88], [CHR 0xE2, CHR 0x80, CHR 0x89],
      [CHR 0xE2, CHR 0x80, CHR 0x8A], [CHR 0xE2, CHR 0x80, CHR 0xA8],
      [CHR 0xE2, CHR 0x80, CHR 0xA9], [CHR 0xE2, CHR 0x80, CHR 0xAF],
      [CHR 0xE2, CHR 0x81, CHR 0x9F], [CHR 0xE3, CHR 0x80, CHR 0x80]]"

function trim_with :: "string list \<Rightarrow> string \<Rightarrow> string" where
  "trim_with ps s =
     (case find (\<lambda>p. p \<noteq> [] \<and> prefix p s) ps of
        None \<Rightarrow> s
      | Some p \<Rightarrow> trim_with ps (drop (length p) s))"
  by pat_completeness auto
termination
  by (relation "measure (\<lambda>(ps, s). length s)")
    (auto simp: find_Some_iff prefix_def)

definition trim_space :: "string \<Rightarrow> string" where
  "trim_space s = rev (trim_with (map rev go_spaces) (rev (trim_with go_spaces s)))"

definition contains_space :: "string \<Rightarrow> bool" where
  "contains_space s \<longleftrightarrow> (\<exists>p\<in>set go_spaces. contains_str s p)"

text \<open>
  \<open>strings.EqualFold\<close> against an ASCII string: simple folding maps exactly two code points
  outside ASCII to ASCII letters, U+017F (to s) and U+212A (to k).
\<close>

fun fold_ascii :: "string \<Rightarrow> string" where
  "fold_ascii [] = []"
| "fold_ascii (c # cs) =
     (if c = CHR 0xC5 \<and> prefix [CHR 0xBF] cs then CHR ''s'' # fold_ascii (drop 1 cs)
      else if c = CHR 0xE2 \<and> prefix [CHR 0x84, CHR 0xAA] cs
      then CHR ''k'' # fold_ascii (drop 2 cs)
      else lower_char c # fold_ascii cs)"

definition equal_fold :: "string \<Rightarrow> string \<Rightarrow> bool" where
  "equal_fold s t \<longleftrightarrow> fold_ascii s = fold_ascii t"

text \<open>\<open>strings.ReplaceAll\<close> with a non-empty pattern (callers test it): leftmost matches, no overlap.\<close>

function replace_all :: "string \<Rightarrow> string \<Rightarrow> string \<Rightarrow> string" where
  "replace_all s old new =
     (case s of
        [] \<Rightarrow> []
      | c # cs \<Rightarrow>
          if old \<noteq> [] \<and> prefix old s then new @ replace_all (drop (length old) s) old new
          else c # replace_all cs old new)"
  by pat_completeness auto
termination
  by (relation "measure (\<lambda>(s, old, new). length s)") (auto split: list.splits)

declare trim_with.simps [simp del] replace_all.simps [simp del]

text \<open>\<open>strconv.Itoa\<close> and the verb \<open>%d\<close>.\<close>

fun nat_digits :: "nat \<Rightarrow> string" where
  "nat_digits n =
     (if n < 10 then [char_of (48 + n)] else nat_digits (n div 10) @ [char_of (48 + n mod 10)])"

declare nat_digits.simps [simp del]

definition itoa :: "int \<Rightarrow> string" where
  "itoa i = (if i < 0 then CHR ''-'' # nat_digits (nat (- i)) else nat_digits (nat i))"

section \<open>The alias pattern\<close>

text \<open>
  The regular expression \<^verbatim>\<open>^[a-z0-9][a-z0-9-]{0,62}$\<close> is written out three times in the
  code (routes, sshgw, webui); two more patterns have the same shape with other tail
  classes and lengths.
\<close>

definition slug_pattern :: "(char \<Rightarrow> bool) \<Rightarrow> nat \<Rightarrow> string \<Rightarrow> bool" where
  "slug_pattern tail_ok n s \<longleftrightarrow>
     (case s of
        [] \<Rightarrow> False
      | c # cs \<Rightarrow> (is_lower c \<or> is_digit c) \<and> length cs \<le> n \<and> list_all tail_ok cs)"

definition alias_tail :: "char \<Rightarrow> bool" where
  "alias_tail c \<longleftrightarrow> is_lower c \<or> is_digit c \<or> c = CHR ''-''"

definition alias_pattern :: "string \<Rightarrow> bool" where
  "alias_pattern s \<longleftrightarrow> slug_pattern alias_tail 62 s"

section \<open>Results\<close>

definition is_ok :: "'e + 'a \<Rightarrow> bool" where
  "is_ok r \<longleftrightarrow> (case r of Inl _ \<Rightarrow> False | Inr _ \<Rightarrow> True)"

section \<open>Lemmas on strings\<close>

lemma is_ok_simps [simp]: "is_ok (Inr x)" "\<not> is_ok (Inl e)"
  by (simp_all add: is_ok_def)

lemma is_ok_iff: "is_ok r \<longleftrightarrow> (\<exists>x. r = Inr x)"
  by (cases r) auto

lemma split_on_nonempty [simp]: "split_on c s \<noteq> []"
  by (cases s) (auto split: list.splits)

lemma split_on_append_sep: "split_on c (xs @ c # ys) = split_on c xs @ split_on c ys"
proof (induction xs)
  case (Cons x xs)
  then show ?case by (cases "split_on c xs") auto
qed simp

lemma split_on_no_sep: "c \<notin> set s \<Longrightarrow> split_on c s = [s]"
  by (induction s) auto

lemma split_on_elem_no_sep: "x \<in> set (split_on c s) \<Longrightarrow> c \<notin> set x"
proof (induction s arbitrary: x)
  case (Cons a s)
  then show ?case by (cases "split_on c s") (auto split: if_splits)
qed simp

lemma join_split: "join_with [c] (split_on c s) = s"
proof (induction s)
  case (Cons a s)
  obtain y ys where ys: "split_on c s = y # ys"
    by (metis split_on_nonempty neq_Nil_conv)
  show ?case
  proof (cases "a = c")
    case True
    with Cons ys show ?thesis by simp
  next
    case False
    with Cons ys show ?thesis by (cases ys) auto
  qed
qed simp

lemma cut_char_found:
  "cut_char c s = (a, b, True) \<longleftrightarrow> s = a @ c # b \<and> c \<notin> set a"
proof (induction s arbitrary: a)
  case (Cons x s)
  show ?case
  proof (cases "x = c")
    case True
    then show ?thesis by (cases a) auto
  next
    case False
    obtain a' b' f where *: "cut_char c s = (a', b', f)" by (cases "cut_char c s")
    show ?thesis
    proof (cases a)
      case Nil
      with False * show ?thesis by auto
    next
      case (Cons y ys)
      with False * Cons.IH [of ys] show ?thesis by auto
    qed
  qed
qed simp

lemma cut_char_absent: "c \<notin> set s \<Longrightarrow> cut_char c s = (s, [], False)"
  by (induction s) auto

lemma cut_char_not_found:
  "cut_char c s = (a, b, False) \<longleftrightarrow> a = s \<and> b = [] \<and> c \<notin> set s"
proof (cases "c \<in> set s")
  case True
  then obtain xs ys where s: "s = xs @ c # ys" "c \<notin> set xs" by (meson split_list_first)
  then have "cut_char c s = (xs, ys, True)" by (simp add: cut_char_found)
  with True show ?thesis by simp
qed (auto simp: cut_char_absent)

lemma set_replace_all:
  "set (replace_all s old new) \<subseteq> set s \<union> set new"
proof (induction s old new rule: replace_all.induct)
  case (1 s old new)
  show ?case
  proof (cases s)
    case Nil
    then show ?thesis by (simp add: replace_all.simps)
  next
    case (Cons c cs)
    have d: "set (drop (length old) s) \<subseteq> set s" by (rule set_drop_subset)
    show ?thesis
    proof (cases "old \<noteq> [] \<and> prefix old s")
      case True
      with 1(1) [OF Cons True] d Cons show ?thesis
        by (subst replace_all.simps) auto
    next
      case False
      with 1(2) [OF Cons False] Cons show ?thesis
        by (subst replace_all.simps) auto
    qed
  qed
qed

lemma replace_all_no_match: "\<not> contains_str s old \<Longrightarrow> replace_all s old new = s"
proof (induction s)
  case Nil
  then show ?case by (simp add: replace_all.simps)
next
  case (Cons c cs)
  then show ?case by (subst replace_all.simps) auto
qed

lemma contains_any_append [simp]:
  "contains_any (s @ t) cs \<longleftrightarrow> contains_any s cs \<or> contains_any t cs"
  by (auto simp: contains_any_def)

lemma alias_pattern_length: "alias_pattern s \<Longrightarrow> 0 < length s \<and> length s \<le> 63"
  by (auto simp: alias_pattern_def slug_pattern_def split: list.splits)

lemma nat_digits_nonempty [simp]: "nat_digits n \<noteq> []"
  by (subst nat_digits.simps) simp

lemmas char_class_defs =
  char_between_def is_digit_def is_lower_def is_upper_def less_eq_char_def less_char_def

section \<open>Decimal numbers\<close>

definition digit_value :: "char \<Rightarrow> nat" where
  "digit_value c = of_char c - 48"

definition decimal :: "string \<Rightarrow> nat" where
  "decimal s = foldl (\<lambda>n c. 10 * n + digit_value c) 0 s"

lemma nat_digits_decimal: "decimal (nat_digits n) = n"
proof (induction n rule: nat_digits.induct)
  case (1 n)
  then show ?case
  proof (cases "n < 10")
    case True
    then show ?thesis by (simp add: nat_digits.simps decimal_def digit_value_def)
  next
    case False
    have "decimal (nat_digits n) = 10 * decimal (nat_digits (n div 10)) + n mod 10"
      using False by (subst nat_digits.simps) (simp add: decimal_def digit_value_def)
    with 1 False show ?thesis by simp
  qed
qed

lemma digit_char: "(n::nat) < 10 \<Longrightarrow> is_digit (char_of (48 + n))"
  by (simp add: char_class_defs)

lemma nat_digits_all: "list_all is_digit (nat_digits n)"
proof (induction n rule: nat_digits.induct)
  case (1 n)
  then show ?case
    by (subst nat_digits.simps) (simp add: digit_char)
qed

lemma nat_digits_head: "0 < n \<Longrightarrow> \<exists>c cs. nat_digits n = c # cs \<and> c \<noteq> CHR ''0'' \<and> is_digit c"
proof (induction n rule: nat_digits.induct)
  case (1 n)
  show ?case
  proof (cases "n < 10")
    case True
    have "char_of (48 + n) \<noteq> CHR ''0''"
    proof
      assume "char_of (48 + n) = CHR ''0''"
      then have "of_char (char_of (48 + n) :: char) = (48 :: nat)" by simp
      with True 1(2) show False by simp
    qed
    with True show ?thesis by (subst nat_digits.simps) (simp add: digit_char)
  next
    case False
    then have "0 < n div 10" by (simp add: div_greater_zero_iff)
    with 1(1) False obtain c cs where "nat_digits (n div 10) = c # cs \<and> c \<noteq> CHR ''0'' \<and> is_digit c"
      by blast
    with False show ?thesis by (subst nat_digits.simps) simp
  qed
qed

lemma digits_unsigned: "\<not> prefix ''-'' (nat_digits n)" "\<not> prefix ''+'' (nat_digits n)"
proof -
  obtain c cs where d: "nat_digits n = c # cs" by (metis nat_digits_nonempty neq_Nil_conv)
  have "is_digit c" using nat_digits_all [of n] d by simp
  then show "\<not> prefix ''-'' (nat_digits n)" "\<not> prefix ''+'' (nat_digits n)"
    by (auto simp: d char_class_defs)
qed

section \<open>Association lists as maps\<close>

text \<open>
  \<^const>\<open>AList.update\<close>, \<^const>\<open>AList.delete\<close> and \<^const>\<open>map_of\<close> are Go's map assignment,
  \<open>delete\<close> and index expression. Well-formed maps have distinct keys.
\<close>

definition amap_wf :: "('k, 'v) amap \<Rightarrow> bool" where
  "amap_wf m \<longleftrightarrow> distinct (map fst m)"

lemma amap_wf_Nil [simp]: "amap_wf []"
  by (simp add: amap_wf_def)

lemma amap_wf_update [simp]: "amap_wf m \<Longrightarrow> amap_wf (AList.update k v m)"
  by (simp add: amap_wf_def distinct_update)

lemma amap_wf_delete [simp]: "amap_wf m \<Longrightarrow> amap_wf (AList.delete k m)"
  by (simp add: amap_wf_def distinct_delete)

lemma amap_update [simp, amap_simps]: "map_of (AList.update k v m) = (map_of m)(k \<mapsto> v)"
  by (rule update_conv')

lemma amap_delete [simp, amap_simps]: "map_of (AList.delete k m) = (map_of m)(k := None)"
  by (rule delete_conv')

lemma set_amap_update: "set (AList.update k v m) \<subseteq> insert (k, v) (set m)"
  by (induction m) auto

lemma set_amap_delete: "set (AList.delete k m) \<subseteq> set m"
  by (auto simp: AList.delete_eq)

lemma amap_wf_map_values [simp]:
  "amap_wf (map (\<lambda>(k, v). (k, f k v)) m) \<longleftrightarrow> amap_wf m"
  by (simp add: amap_wf_def case_prod_beta comp_def)

lemma map_of_map_values: "map_of (map (\<lambda>(k, v). (k, f k v)) m) k = map_option (f k) (map_of m k)"
  by (induction m) auto

lemma amap_values:
  "amap_wf m \<Longrightarrow> v \<in> set (map snd m) \<longleftrightarrow> (\<exists>k. map_of m k = Some v)"
  by (force simp: amap_wf_def map_of_eq_Some_iff)

lemma amap_memD: "map_of m k = Some v \<Longrightarrow> (k, v) \<in> set m"
  by (rule map_of_SomeD)

lemma amap_memI: "amap_wf m \<Longrightarrow> (k, v) \<in> set m \<Longrightarrow> map_of m k = Some v"
  by (simp add: amap_wf_def)

lemma amap_keys_conv: "k \<in> set (map fst m) \<longleftrightarrow> map_of m k \<noteq> None"
  by (simp add: map_of_eq_None_iff)

section \<open>Sets of strings\<close>

text \<open>
  A \<open>map[string]struct{}\<close> filled by a loop over a slice: inserting a present key changes nothing.
\<close>

type_synonym gset = "string list"

definition gset_insert :: "gset \<Rightarrow> string \<Rightarrow> gset" where
  "gset_insert s k = (if k \<in> set s then s else s @ [k])"

definition gset_of :: "string list \<Rightarrow> gset" where
  "gset_of ks = foldl gset_insert [] ks"

lemma gset_fold:
  "set (foldl gset_insert s ks) = set s \<union> set ks
   \<and> (distinct s \<longrightarrow> distinct (foldl gset_insert s ks))"
  by (induction ks arbitrary: s) (auto simp: gset_insert_def)

lemma set_gset_of [simp]: "set (gset_of ks) = set ks"
  using gset_fold [of "[]" ks] by (simp add: gset_of_def)

lemma distinct_gset_of [simp]: "distinct (gset_of ks)"
  using gset_fold [of "[]" ks] by (simp add: gset_of_def)

lemma gset_of_Nil_iff [simp]: "gset_of ks = [] \<longleftrightarrow> ks = []"
  by (metis set_gset_of set_empty)

lemma gset_fold_distinct:
  "distinct (s @ ks) \<Longrightarrow> foldl gset_insert s ks = s @ ks"
proof (induction ks arbitrary: s)
  case (Cons k ks)
  then show ?case using Cons.IH [of "s @ [k]"] by (simp add: gset_insert_def)
qed simp

lemma gset_of_distinct: "distinct ks \<Longrightarrow> gset_of ks = ks"
  using gset_fold_distinct [of "[]" ks] by (simp add: gset_of_def)

section \<open>Sorting\<close>

lemma sort_Nil_iff [simp]: "sort xs = [] \<longleftrightarrow> xs = []"
  by (metis length_0_conv length_sort)

lemma list_ex_sort [simp]: "list_ex P (sort xs) = list_ex P xs"
  by (simp add: list_ex_iff)

lemma insort_key_map:
  "insort_key f (h x) (map h xs) = map h (insort_key (\<lambda>y. f (h y)) x xs)"
  by (induction xs) auto

lemma sort_key_map: "sort_key f (map h xs) = map h (sort_key (\<lambda>y. f (h y)) xs)"
  by (induction xs) (simp_all add: insort_key_map)

end
