(* ===== verification/Interfaces.thy ===== *)
theory Interfaces
  imports Go_Prelude
begin

text \<open>
  The contracts between Airlock's components, as locales: what a client calls, the laws the
  provider promises, and the client-side lemmas proved once from those laws.
  \<^item> \<open>bounded_log\<close>: an append-only log that keeps its newest \<open>cap\<close> entries
    (the activity recorder and the SSH command audit);
  \<^item> \<open>slot_pool\<close>: a buffered channel used as a counting semaphore
    (the HTTP gateway's request slots, the SSH gateway's connection and session slots);
  \<^item> \<open>route_registry\<close>: an alias-indexed route table with enable switches, and the
    rollbacks the control server performs on it (the HTTP and the SSH registries);
  \<^item> \<open>secret_slot\<close>: one kind of protected value in a secret store.
  Each is interpreted on the model in the theory of the component that provides it.
\<close>

section \<open>Bounded logs\<close>

locale bounded_log =
  fixes entries :: "'s \<Rightarrow> 'e list"
    and push :: "'s \<Rightarrow> 'e \<Rightarrow> 's"
    and newest :: "'s \<Rightarrow> int \<Rightarrow> 'e list"
    and cap :: nat
  assumes cap_pos: "0 < cap"
    and entries_push: "entries (push s e) = drop (Suc (length (entries s)) - cap) (entries s @ [e])"
    and newest_entries: "newest s n =
      take (if n \<le> 0 \<or> n > int (length (entries s)) then length (entries s) else nat n)
        (rev (entries s))"
begin

lemma push_bounded: "length (entries s) \<le> cap \<Longrightarrow> length (entries (push s e)) \<le> cap"
  by (simp add: entries_push)

lemma push_keeps_suffix: "\<exists>dropped. entries s @ [e] = dropped @ entries (push s e)"
  by (metis append_take_drop_id entries_push)

lemma entries_run:
  "length (entries s) \<le> cap \<Longrightarrow>
   entries (foldl push s es) =
     drop (length (entries s) + length es - cap) (entries s @ es)"
proof (induction es arbitrary: s)
  case Nil
  then show ?case by simp
next
  case (Cons e es)
  let ?m = "Suc (length (entries s)) - cap"
  have le: "?m \<le> length (entries s @ [e])" by simp
  have "entries (foldl push s (e # es)) =
      drop (length (entries (push s e)) + length es - cap) (entries (push s e) @ es)"
    using Cons.IH [OF push_bounded [OF Cons.prems]] by simp
  also have "entries (push s e) @ es = drop ?m ((entries s @ [e]) @ es)"
    using le by (simp add: entries_push del: append_assoc)
  also have "drop (length (entries (push s e)) + length es - cap) (drop ?m ((entries s @ [e]) @ es))
      = drop (length (entries s) + length (e # es) - cap) (entries s @ e # es)"
  proof -
    have "length (entries (push s e)) + length es - cap + ?m
        = length (entries s) + length (e # es) - cap"
      using cap_pos Cons.prems by (simp add: entries_push)
    then show ?thesis by (simp only: drop_drop append_assoc append_Cons append_Nil)
  qed
  finally show ?case .
qed

lemma run_bounded: "length (entries s) \<le> cap \<Longrightarrow> length (entries (foldl push s es)) \<le> cap"
  by (simp add: entries_run)

text \<open>After any run from an empty log, listing everything gives the newest \<open>cap\<close> pushes, newest first.\<close>

lemma newest_run:
  assumes "entries s = []"
  shows "newest (foldl push s es) 0 = take cap (rev es)"
proof -
  have "entries (foldl push s es) = drop (length es - cap) es"
    using entries_run [of s es] assms by simp
  then show ?thesis by (cases "length es \<le> cap") (simp_all add: newest_entries rev_drop)
qed

lemma newest_subset: "set (newest s n) \<subseteq> set (entries s)"
  by (metis newest_entries set_rev set_take_subset)

end

section \<open>Slot pools\<close>

locale slot_pool =
  fixes acquire :: "'p \<Rightarrow> bool \<times> 'p"
    and release :: "'p \<Rightarrow> 'p"
    and used :: "'p \<Rightarrow> nat"
    and capacity :: "'p \<Rightarrow> nat option"
  assumes acquire_ok: "acquire p = (True, p') \<Longrightarrow> capacity p = Some n \<Longrightarrow> used p' = Suc (used p) \<and> used p < n"
    and acquire_full: "acquire p = (False, p') \<Longrightarrow> p' = p \<and> (\<exists>n. capacity p = Some n \<and> n \<le> used p)"
    and release_used: "used (release p) = used p - 1"
    and acquire_capacity: "capacity (snd (acquire p)) = capacity p"
    and release_capacity: "capacity (release p) = capacity p"
begin

definition within :: "'p \<Rightarrow> bool" where
  "within p \<longleftrightarrow> (\<forall>n. capacity p = Some n \<longrightarrow> used p \<le> n)"

lemma acquire_within: "within p \<Longrightarrow> within (snd (acquire p))"
proof (cases "acquire p")
  case (Pair ok p')
  assume "within p"
  then show ?thesis
    using Pair acquire_ok [of p p'] acquire_full [of p p'] acquire_capacity [of p]
    by (cases ok) (auto simp: within_def)
qed

lemma release_within: "within p \<Longrightarrow> within (release p)"
  by (auto simp: within_def release_used release_capacity)

lemma acquire_release_used:
  assumes "acquire p = (True, p')" "capacity p = Some n"
  shows "used (release p') = used p"
  using acquire_ok [OF assms] by (simp add: release_used)

end

section \<open>Route registries\<close>

locale route_registry =
  fixes view :: "'reg \<Rightarrow> string \<Rightarrow> 'route option"
    and inv :: "'reg \<Rightarrow> bool"
    and upsert :: "'reg \<Rightarrow> 'route \<Rightarrow> 'err + 'reg"
    and remove :: "'reg \<Rightarrow> string \<Rightarrow> 'err + 'route \<times> 'reg"
    and set_enabled :: "'reg \<Rightarrow> string \<Rightarrow> bool \<Rightarrow> 'err + 'reg"
    and disable_all :: "'reg \<Rightarrow> 'reg"
    and listing :: "'reg \<Rightarrow> 'route list"
    and lookup :: "'reg \<Rightarrow> string \<Rightarrow> 'err + 'route"
    and alias_of :: "'route \<Rightarrow> string"
    and enabled :: "'route \<Rightarrow> bool"
    and with_enabled :: "bool \<Rightarrow> 'route \<Rightarrow> 'route"
    and admits :: "(string \<Rightarrow> 'route option) \<Rightarrow> 'route \<Rightarrow> bool"
    and not_found :: 'err
  assumes upsert_ok_iff: "inv r \<Longrightarrow> is_ok (upsert r x) \<longleftrightarrow> admits ((view r)(alias_of x := None)) x"
    and upsert_view: "inv r \<Longrightarrow> upsert r x = Inr r' \<Longrightarrow> inv r' \<and> view r' = (view r)(alias_of x \<mapsto> x)"
    and view_alias: "inv r \<Longrightarrow> view r a = Some x \<Longrightarrow> alias_of x = a"
    and view_admits: "inv r \<Longrightarrow> view r a = Some x \<Longrightarrow> admits ((view r)(a := None)) x"
    and remove_none: "view r a = None \<Longrightarrow> remove r a = Inl not_found"
    and remove_some: "inv r \<Longrightarrow> view r a = Some x \<Longrightarrow>
      \<exists>r'. remove r a = Inr (x, r') \<and> inv r' \<and> view r' = (view r)(a := None)"
    and set_enabled_none: "view r a = None \<Longrightarrow> set_enabled r a b = Inl not_found"
    and set_enabled_some: "inv r \<Longrightarrow> view r a = Some x \<Longrightarrow>
      \<exists>r'. set_enabled r a b = Inr r' \<and> inv r' \<and> view r' = (view r)(a \<mapsto> with_enabled b x)"
    and disable_all_view: "inv r \<Longrightarrow>
      inv (disable_all r) \<and> view (disable_all r) = (\<lambda>a. map_option (with_enabled False) (view r a))"
    and listing_view: "inv r \<Longrightarrow> x \<in> set (listing r) \<longleftrightarrow> view r (alias_of x) = Some x"
    and listing_distinct: "inv r \<Longrightarrow> distinct (map alias_of (listing r))"
    and lookup_view: "lookup r a =
      (case view r a of None \<Rightarrow> Inl not_found | Some x \<Rightarrow> if enabled x then Inr x else Inl not_found)"
    and with_enabled_enabled: "enabled (with_enabled b x) = b"
    and with_enabled_twice: "with_enabled b (with_enabled c x) = with_enabled b x"
    and with_enabled_same: "with_enabled (enabled x) x = x"
    and with_enabled_alias: "alias_of (with_enabled b x) = alias_of x"
begin

text \<open>Undoing an insertion of a new alias by deleting it.\<close>

lemma rollback_insert:
  assumes "inv r" "view r (alias_of x) = None" "upsert r x = Inr r1"
  shows "\<exists>r2. remove r1 (alias_of x) = Inr (x, r2) \<and> inv r2 \<and> view r2 = view r"
proof -
  from upsert_view [OF assms(1,3)] have 1: "inv r1" "view r1 = (view r)(alias_of x \<mapsto> x)" by auto
  then obtain r2 where "remove r1 (alias_of x) = Inr (x, r2)" "inv r2"
      "view r2 = (view r1)(alias_of x := None)"
    using remove_some [of r1 "alias_of x" x] by auto
  with 1 assms(2) show ?thesis by (auto simp: fun_upd_idem_iff)
qed

text \<open>Undoing a replacement by putting the previous route back: it is accepted.\<close>

lemma rollback_replace:
  assumes "inv r" "view r a = Some old" "upsert r new = Inr r1" "alias_of new = a"
  shows "\<exists>r2. upsert r1 old = Inr r2 \<and> inv r2 \<and> view r2 = view r"
proof -
  from upsert_view [OF assms(1,3)] assms(4) have 1: "inv r1" "view r1 = (view r)(a \<mapsto> new)" by auto
  have a: "alias_of old = a" using view_alias assms(1,2) by blast
  have "admits ((view r1)(a := None)) old" using 1 view_admits [OF assms(1,2)] by simp
  then obtain r2 where r2: "upsert r1 old = Inr r2"
    using upsert_ok_iff [OF 1(1), of old] a by (auto simp: is_ok_iff)
  from upsert_view [OF 1(1) r2] 1 a assms(2) show ?thesis
    using r2 by (auto simp: fun_upd_idem_iff)
qed

text \<open>Undoing a deletion by putting the deleted route back.\<close>

lemma rollback_remove:
  assumes "inv r" "remove r a = Inr (x, r1)"
  shows "\<exists>r2. upsert r1 x = Inr r2 \<and> inv r2 \<and> view r2 = view r"
proof -
  obtain y where y: "view r a = Some y" using assms(2) remove_none [of r a] by (cases "view r a") auto
  from remove_some [OF assms(1) y] assms(2)
  have 1: "x = y" "inv r1" "view r1 = (view r)(a := None)" by auto
  have a: "alias_of x = a" using view_alias assms(1) y 1(1) by blast
  have "admits ((view r1)(a := None)) x" using 1 view_admits [OF assms(1) y] by simp
  then obtain r2 where r2: "upsert r1 x = Inr r2"
    using upsert_ok_iff [OF 1(2), of x] a by (auto simp: is_ok_iff)
  from upsert_view [OF 1(2) r2] 1 a y show ?thesis
    using r2 by (auto simp: fun_upd_idem_iff)
qed

text \<open>Undoing an enable or disable by restoring the previous flag.\<close>

lemma rollback_enabled:
  assumes "inv r" "view r a = Some x" "set_enabled r a b = Inr r1"
  shows "\<exists>r2. set_enabled r1 a (enabled x) = Inr r2 \<and> inv r2 \<and> view r2 = view r"
proof -
  from set_enabled_some [OF assms(1,2), of b] assms(3)
  have 1: "inv r1" "view r1 = (view r)(a \<mapsto> with_enabled b x)" by auto
  then obtain r2 where "set_enabled r1 a (enabled x) = Inr r2" "inv r2"
      "view r2 = (view r1)(a \<mapsto> with_enabled (enabled x) (with_enabled b x))"
    using set_enabled_some [of r1 a "with_enabled b x" "enabled x"] by auto
  with 1 assms(2) show ?thesis
    by (auto simp: with_enabled_twice with_enabled_same fun_upd_idem_iff)
qed

text \<open>After \<open>disable_all\<close> no lookup succeeds.\<close>

lemma lookup_disable_all: "inv r \<Longrightarrow> lookup (disable_all r) a = Inl not_found"
  by (simp add: lookup_view disable_all_view with_enabled_enabled split: option.splits)

lemma lookup_enabled: "lookup r a = Inr x \<Longrightarrow> view r a = Some x \<and> enabled x"
  by (auto simp: lookup_view split: option.splits if_splits)

text \<open>
  The loop that restores the flags of a list of routes taken before \<open>disable_all\<close>: errors of
  single steps are ignored, as the code ignores them.
\<close>

definition restore_one :: "'reg \<Rightarrow> 'route \<Rightarrow> 'reg" where
  "restore_one r x = (case set_enabled r (alias_of x) (enabled x) of Inl _ \<Rightarrow> r | Inr r' \<Rightarrow> r')"

lemma restore_one_view:
  "inv r \<Longrightarrow> inv (restore_one r x) \<and>
   view (restore_one r x) = (\<lambda>a. if a = alias_of x then map_option (with_enabled (enabled x)) (view r a) else view r a)"
proof (cases "view r (alias_of x)")
  case None
  then show "inv r \<Longrightarrow> ?thesis" by (auto simp: restore_one_def set_enabled_none fun_eq_iff)
next
  case (Some y)
  assume "inv r"
  from set_enabled_some [OF this Some, of "enabled x"] Some show ?thesis
    by (auto simp: restore_one_def fun_eq_iff)
qed

lemma restore_list_view:
  assumes "inv r" "distinct (map alias_of xs)"
  shows "inv (foldl restore_one r xs) \<and>
    view (foldl restore_one r xs) = (\<lambda>a. case find (\<lambda>x. alias_of x = a) xs of
        None \<Rightarrow> view r a | Some x \<Rightarrow> map_option (with_enabled (enabled x)) (view r a))"
  using assms
proof (induction xs arbitrary: r)
  case (Cons x xs)
  have none: "find (\<lambda>y. alias_of y = alias_of x) xs = None"
    using Cons.prems(2) by (auto simp: find_None_iff) (metis imageI)
  show ?case
    using Cons.IH [of "restore_one r x"] restore_one_view [OF Cons.prems(1), of x] Cons.prems none
    by (auto simp: fun_eq_iff split: option.splits)
qed simp

lemma rollback_disable_all:
  assumes "inv r"
  shows "inv (foldl restore_one (disable_all r) (listing r)) \<and>
    view (foldl restore_one (disable_all r) (listing r)) = view r"
proof -
  note d = disable_all_view [OF assms]
  note f = restore_list_view [OF conjunct1 [OF d] listing_distinct [OF assms]]
  have "view (foldl restore_one (disable_all r) (listing r)) a = view r a" for a
  proof (cases "view r a")
    case None
    then show ?thesis using f d by (auto split: option.splits)
  next
    case (Some x)
    then have x: "alias_of x = a" "x \<in> set (listing r)"
      using view_alias assms listing_view by auto
    obtain y where y: "find (\<lambda>x. alias_of x = a) (listing r) = Some y"
      using x by (cases "find (\<lambda>x. alias_of x = a) (listing r)") (auto simp: find_None_iff)
    then have "y \<in> set (listing r)" "alias_of y = a" by (auto simp: find_Some_iff)
    then have "y = x" using Some listing_view [OF assms] by auto
    with y Some f d show ?thesis by (simp add: with_enabled_twice with_enabled_same)
  qed
  with f show ?thesis by auto
qed

end

section \<open>Protected values\<close>

text \<open>
  One kind of protected value in a secret store: what a resolve returns after a put or a
  delete of the same or of another reference. Values that survive storage unchanged are the
  \<open>storable\<close> ones.
\<close>

locale secret_slot =
  fixes put :: "'s \<Rightarrow> string \<Rightarrow> 'v \<Rightarrow> 'e + 's"
    and resolve :: "'s \<Rightarrow> string \<Rightarrow> 'e + 'v"
    and remove :: "'s \<Rightarrow> string \<Rightarrow> 'e + 's"
    and storable :: "'v \<Rightarrow> bool"
    and not_found :: 'e
  assumes put_same: "put s r v = Inr s' \<Longrightarrow> storable v \<Longrightarrow> resolve s' r = Inr v"
    and put_other: "put s r v = Inr s' \<Longrightarrow> q \<noteq> r \<Longrightarrow> resolve s' q = resolve s q"
    and remove_same: "remove s r = Inr s' \<Longrightarrow> resolve s' r = Inl not_found"
    and remove_other: "remove s r = Inr s' \<Longrightarrow> q \<noteq> r \<Longrightarrow> resolve s' q = resolve s q"
begin

lemma replaced:
  assumes "put s r v = Inr s1" "put s1 r w = Inr s2" "storable w"
  shows "resolve s2 r = Inr w \<and> (\<forall>q. q \<noteq> r \<longrightarrow> resolve s2 q = resolve s q)"
  using put_same [OF assms(2,3)] put_other [OF assms(2)] put_other [OF assms(1)] by simp

lemma put_then_remove:
  assumes "put s r v = Inr s1" "remove s1 r = Inr s2"
  shows "resolve s2 r = Inl not_found \<and> (\<forall>q. q \<noteq> r \<longrightarrow> resolve s2 q = resolve s q)"
  using remove_same [OF assms(2)] remove_other [OF assms(2)] put_other [OF assms(1)] by simp

end

text \<open>
  The backend of a secret store: what it holds after a put or a delete that reports success, and
  that neither touches another reference whatever it reports. A reading may fail, but what it
  returns is what is held. Values that can be held are the ones that \<open>fit\<close>.
\<close>

locale secret_backend =
  fixes put :: "'s \<Rightarrow> string \<Rightarrow> 'd \<Rightarrow> 'e option \<times> 's"
    and get :: "'s \<Rightarrow> string \<Rightarrow> 'e + 'd"
    and delete :: "'s \<Rightarrow> string \<Rightarrow> 'e option \<times> 's"
    and stored :: "'s \<Rightarrow> string \<Rightarrow> 'd option"
    and valid :: "string \<Rightarrow> bool"
    and fits :: "'s \<Rightarrow> string \<Rightarrow> 'd \<Rightarrow> bool"
    and not_found :: 'e
  assumes put_stored: "put s r d = (None, s') \<Longrightarrow> valid r \<Longrightarrow> fits s r d \<Longrightarrow> stored s' r = Some d"
    and put_frame: "put s r d = (e, s') \<Longrightarrow> valid r \<Longrightarrow> valid q \<Longrightarrow> q \<noteq> r \<Longrightarrow> stored s' q = stored s q"
    and get_stored: "get s r = Inr d \<Longrightarrow> stored s r = Some d"
    and get_none: "get s r = Inl not_found \<Longrightarrow> stored s r = None"
    and delete_gone: "delete s r = (None, s') \<Longrightarrow> valid r \<Longrightarrow> stored s' r = None"
    and delete_frame: "delete s r = (e, s') \<Longrightarrow> valid r \<Longrightarrow> valid q \<Longrightarrow> q \<noteq> r \<Longrightarrow> stored s' q = stored s q"
begin

text \<open>What is read after a successful put is what was put, and what is read elsewhere is as before.\<close>

lemma read_back:
  assumes "put s r d = (None, s')" "valid r" "fits s r d"
  shows "get s' r \<noteq> Inl not_found" and "get s' r = Inr d' \<Longrightarrow> d' = d"
  using put_stored [OF assms] get_none [of s' r] get_stored [of s' r] by fastforce+

lemma read_elsewhere:
  assumes "put s r d = (e, s')" "valid r" "valid q" "q \<noteq> r" "get s q = Inr v"
  shows "get s' q \<noteq> Inl not_found" and "get s' q = Inr v' \<Longrightarrow> v' = v"
  using put_frame [OF assms(1-4)] get_stored [OF assms(5)] get_none [of s' q] get_stored [of s' q]
  by fastforce+

lemma read_deleted:
  assumes "delete s r = (None, s')" "valid r"
  shows "get s' r \<noteq> Inr d"
  using delete_gone [OF assms] get_stored [of s' r] by fastforce

end

end
