(* ===== verification/Activity.thy ===== *)
theory Activity
  imports Interfaces
begin

text \<open>
  Package \<open>internal/activity\<close>: the in-memory recorder of sanitized events. Times are integers
  (0 is Go's zero time); the generated event identifier and the clock reading are arguments of
  \<open>Record\<close>. The recorder's state is its event list, oldest first.
\<close>

definition maxEvents :: nat where
  "maxEvents = 200"

record activity_event =
  ev_ID :: string
  ev_Time :: int
  ev_RouteAlias :: string
  ev_Category :: string
  ev_EventType :: string
  ev_Caller :: string
  ev_Action :: string
  ev_Result :: string
  ev_DurationMS :: int
  ev_Egress :: string

type_synonym recorder = "activity_event list"

datatype activity_error = ErrInvalidEvent

definition validEvent :: "activity_event \<Rightarrow> bool" where
  "validEvent e =
     (if ev_RouteAlias e = [] \<or> length (ev_RouteAlias e) > 63 \<or> ev_Caller e = []
         \<or> length (ev_Caller e) > 80 \<or> trim_space (ev_Action e) = []
         \<or> length (ev_Action e) > 160 \<or> ev_DurationMS e < 0 then False
      else if ev_Category e \<notin> {''HTTP'', ''SSH'', ''LLM'', ''System''} then False
      else if ev_EventType e \<notin> {''request'', ''command'', ''health''} then False
      else if ev_Result e \<noteq> ''allowed'' \<and> ev_Result e \<noteq> ''blocked'' \<and> ev_Result e \<noteq> ''failed''
      then False
      else ev_Egress e = [] \<or> ev_Egress e = ''Direct'' \<or> ev_Egress e = ''Proxy''
        \<or> ev_Egress e = ''Auto'')"

definition NewMemoryRecorder :: recorder where
  "NewMemoryRecorder = []"

text \<open>The append under the lock, with the trim to the newest \<open>maxEvents\<close>.\<close>

definition append_event :: "recorder \<Rightarrow> activity_event \<Rightarrow> recorder" where
  "append_event events e =
     (let updated = events @ [e] in
      if length updated > maxEvents then drop (length updated - maxEvents) updated else updated)"

definition Record :: "recorder \<Rightarrow> activity_event \<Rightarrow> string \<Rightarrow> int \<Rightarrow> activity_error + recorder" where
  "Record events e newEventID now =
     (if \<not> validEvent e then Inl ErrInvalidEvent
      else
        let e1 = (if ev_ID e = [] then e\<lparr>ev_ID := newEventID\<rparr> else e);
            e2 = (if ev_Time e1 = 0 then e1\<lparr>ev_Time := now\<rparr> else e1)
        in Inr (append_event events e2))"

text \<open>The loop of \<open>List\<close>: indices from the last down to \<open>len - limit\<close>.\<close>

fun list_down :: "'a list \<Rightarrow> nat \<Rightarrow> nat \<Rightarrow> 'a list" where
  "list_down events index 0 = []"
| "list_down events index (Suc n) =
     (case index of 0 \<Rightarrow> [] | Suc i \<Rightarrow> events ! i # list_down events i n)"

definition list_limit :: "'a list \<Rightarrow> int \<Rightarrow> nat" where
  "list_limit events limit =
     (if limit \<le> 0 \<or> limit > int (length events) then length events else nat limit)"

definition List_events :: "recorder \<Rightarrow> int \<Rightarrow> activity_event list" where
  "List_events events limit = list_down events (length events) (list_limit events limit)"

definition event_ok :: "activity_event \<Rightarrow> bool" where
  "event_ok e \<longleftrightarrow> validEvent e \<and> ev_ID e \<noteq> [] \<and> ev_Time e \<noteq> 0"

definition recorder_inv :: "recorder \<Rightarrow> bool" where
  "recorder_inv events \<longleftrightarrow> length events \<le> maxEvents \<and> list_all event_ok events"

section \<open>The recorder is a bounded log\<close>

lemma list_down_take:
  "i \<le> length events \<Longrightarrow> list_down events i n = take n (rev (take i events))"
proof (induction events i n rule: list_down.induct)
  case (2 events index n)
  then show ?case
    by (cases index) (auto simp: take_Suc_conv_app_nth)
qed simp

lemma append_event_drop:
  "append_event events e = drop (Suc (length events) - maxEvents) (events @ [e])"
  by (auto simp: append_event_def Let_def)

lemma List_events_take:
  "List_events events limit =
   take (if limit \<le> 0 \<or> limit > int (length events) then length events else nat limit) (rev events)"
  by (simp add: List_events_def list_down_take list_limit_def)

interpretation activity_log: bounded_log "\<lambda>events. events" append_event List_events maxEvents
  by unfold_locales (simp_all add: maxEvents_def append_event_drop List_events_take)

definition stamped :: "activity_event \<Rightarrow> string \<Rightarrow> int \<Rightarrow> activity_event" where
  "stamped e i now = e\<lparr>ev_ID := (if ev_ID e = [] then i else ev_ID e),
                        ev_Time := (if ev_Time e = 0 then now else ev_Time e)\<rparr>"

lemma validEvent_stamped [simp]: "validEvent (stamped e i now) = validEvent e"
  unfolding validEvent_def stamped_def by simp

lemma Record_cases:
  "Record events e i now =
     (if validEvent e then Inr (append_event events (stamped e i now)) else Inl ErrInvalidEvent)"
  unfolding Record_def stamped_def by simp

lemma event_ok_stamped:
  "validEvent e \<Longrightarrow> i \<noteq> [] \<Longrightarrow> now \<noteq> 0 \<Longrightarrow> event_ok (stamped e i now)"
  by (simp add: event_ok_def) (simp add: stamped_def)

lemma append_event_inv: "recorder_inv events \<Longrightarrow> event_ok e \<Longrightarrow> recorder_inv (append_event events e)"
  using activity_log.push_bounded [of events e]
  by (auto simp: recorder_inv_def append_event_drop list_all_iff dest: in_set_dropD)

lemma Record_inv:
  "recorder_inv events \<Longrightarrow> Record events e i now = Inr events' \<Longrightarrow> i \<noteq> [] \<Longrightarrow> now \<noteq> 0 \<Longrightarrow>
   recorder_inv events'"
  by (auto simp: Record_cases intro!: append_event_inv event_ok_stamped split: if_splits)

end
