(* ===== verification/Go_Codec.thy ===== *)
theory Go_Codec
  imports Go_Prelude "HOL-Library.Word"
begin

text \<open>
  Go's \<open>encoding/hex\<close>, \<open>encoding/base64\<close>, \<open>unicode/utf8\<close>, \<open>crypto/sha256\<close>,
  \<open>crypto/subtle.ConstantTimeCompare\<close>, the percent decoding of \<open>net/url\<close> and \<open>path.Clean\<close>
  on rooted paths: executable models, and the round trips and normal forms the components
  rely on.
\<close>

unbundle bit_operations_syntax

section \<open>Hexadecimal\<close>

definition hex_digit :: "nat \<Rightarrow> char" where
  "hex_digit n = (if n < 10 then char_of (48 + n) else char_of (87 + n))"

definition hex_value :: "char \<Rightarrow> nat option" where
  "hex_value c =
     (let n = of_char c in
      if is_digit c then Some (n - 48)
      else if char_between (CHR ''a'') (CHR ''f'') c then Some (n - 87)
      else if char_between (CHR ''A'') (CHR ''F'') c then Some (n - 55)
      else None)"

fun hex_encode :: "bytes \<Rightarrow> string" where
  "hex_encode [] = []"
| "hex_encode (b # bs) =
     hex_digit (of_char b div 16) # hex_digit (of_char b mod 16) # hex_encode bs"

fun hex_decode :: "string \<Rightarrow> bytes option" where
  "hex_decode [] = Some []"
| "hex_decode [_] = None"
| "hex_decode (x # y # r) =
     (case (hex_value x, hex_value y, hex_decode r) of
        (Some h, Some l, Some bs) \<Rightarrow> Some (char_of (16 * h + l) # bs)
      | _ \<Rightarrow> None)"

section \<open>Base 64\<close>

text \<open>The flag chooses the URL alphabet (\<open>-\<close> and \<open>_\<close>) over the standard one (\<open>+\<close> and \<open>/\<close>).\<close>

definition b64_char :: "bool \<Rightarrow> nat \<Rightarrow> char" where
  "b64_char url n =
     (if n < 26 then char_of (65 + n) else if n < 52 then char_of (71 + n)
      else if n < 62 then char_of (n - 4)
      else if n = 62 then (if url then CHR ''-'' else CHR ''+'')
      else (if url then CHR ''_'' else CHR ''/''))"

definition b64_value :: "bool \<Rightarrow> char \<Rightarrow> nat option" where
  "b64_value url c =
     (let n = of_char c in
      if is_upper c then Some (n - 65) else if is_lower c then Some (n - 71)
      else if is_digit c then Some (n + 4)
      else if c = (if url then CHR ''-'' else CHR ''+'') then Some 62
      else if c = (if url then CHR ''_'' else CHR ''/'') then Some 63
      else None)"

fun b64_encode :: "bool \<Rightarrow> bool \<Rightarrow> bytes \<Rightarrow> string" where
  "b64_encode url pad [] = []"
| "b64_encode url pad [a] =
     (let x = of_char a in
      [b64_char url (x div 4), b64_char url ((x mod 4) * 16)] @ (if pad then ''=='' else []))"
| "b64_encode url pad [a, b] =
     (let x = of_char a; y = of_char b in
      [b64_char url (x div 4), b64_char url ((x mod 4) * 16 + y div 16),
       b64_char url ((y mod 16) * 4)] @ (if pad then ''='' else []))"
| "b64_encode url pad (a # b # c # r) =
     (let x = of_char a; y = of_char b; z = of_char c in
      [b64_char url (x div 4), b64_char url ((x mod 4) * 16 + y div 16),
       b64_char url ((y mod 16) * 4 + z div 64), b64_char url (z mod 64)]
      @ b64_encode url pad r)"

text \<open>
  Decoding without padding. A final group of two or three characters gives one or two bytes;
  its unused low bits are not checked (the encoding is not \<open>Strict\<close>).
\<close>

fun b64_groups :: "bool \<Rightarrow> string \<Rightarrow> bytes option" where
  "b64_groups url [] = Some []"
| "b64_groups url [_] = None"
| "b64_groups url [p, q] =
     (case (b64_value url p, b64_value url q) of
        (Some s, Some t) \<Rightarrow> Some [char_of (s * 4 + t div 16)]
      | _ \<Rightarrow> None)"
| "b64_groups url [p, q, r] =
     (case (b64_value url p, b64_value url q, b64_value url r) of
        (Some s, Some t, Some u) \<Rightarrow>
          Some [char_of (s * 4 + t div 16), char_of ((t mod 16) * 16 + u div 4)]
      | _ \<Rightarrow> None)"
| "b64_groups url (p # q # r # w # rest) =
     (case (b64_value url p, b64_value url q, b64_value url r, b64_value url w,
            b64_groups url rest) of
        (Some s, Some t, Some u, Some v, Some bs) \<Rightarrow>
          Some (char_of (s * 4 + t div 16) # char_of ((t mod 16) * 16 + u div 4)
                # char_of ((u mod 4) * 64 + v) # bs)
      | _ \<Rightarrow> None)"

text \<open>Go's decoder skips carriage returns and line feeds wherever they occur.\<close>

definition raw_b64_decode :: "bool \<Rightarrow> string \<Rightarrow> bytes option" where
  "raw_b64_decode url s = b64_groups url (filter (\<lambda>c. c \<noteq> CR \<and> c \<noteq> LF) s)"

definition strip_padding :: "string \<Rightarrow> string" where
  "strip_padding s =
     (if suffix ''=='' s then take (length s - 2) s
      else if suffix ''='' s then take (length s - 1) s else s)"

definition std_b64_decode :: "string \<Rightarrow> bytes option" where
  "std_b64_decode s =
     (let t = filter (\<lambda>c. c \<noteq> CR \<and> c \<noteq> LF) s in
      if length t mod 4 \<noteq> 0 then None else b64_groups False (strip_padding t))"

abbreviation RawURLEncoding_EncodeToString :: "bytes \<Rightarrow> string" where
  "RawURLEncoding_EncodeToString \<equiv> b64_encode True False"

abbreviation RawStdEncoding_EncodeToString :: "bytes \<Rightarrow> string" where
  "RawStdEncoding_EncodeToString \<equiv> b64_encode False False"

abbreviation StdEncoding_EncodeToString :: "bytes \<Rightarrow> string" where
  "StdEncoding_EncodeToString \<equiv> b64_encode False True"

section \<open>UTF-8\<close>

definition cont_byte :: "char \<Rightarrow> bool" where
  "cont_byte c \<longleftrightarrow> char_between (CHR 0x80) (CHR 0xBF) c"

text \<open>The width of the first valid rune of a string, 0 when there is none.\<close>

fun rune_width :: "string \<Rightarrow> nat" where
  "rune_width [] = 0"
| "rune_width (a # r) =
     (if a < CHR 0x80 then 1
      else case r of
        [] \<Rightarrow> 0
      | b # r2 \<Rightarrow>
          if char_between (CHR 0xC2) (CHR 0xDF) a then (if cont_byte b then 2 else 0)
          else case r2 of
            [] \<Rightarrow> 0
          | c # r3 \<Rightarrow>
              if (a = CHR 0xE0 \<and> char_between (CHR 0xA0) (CHR 0xBF) b
                  \<or> (char_between (CHR 0xE1) (CHR 0xEC) a \<or> a = CHR 0xEE \<or> a = CHR 0xEF)
                    \<and> cont_byte b
                  \<or> a = CHR 0xED \<and> char_between (CHR 0x80) (CHR 0x9F) b)
              then (if cont_byte c then 3 else 0)
              else case r3 of
                [] \<Rightarrow> 0
              | d # _ \<Rightarrow>
                  if (a = CHR 0xF0 \<and> char_between (CHR 0x90) (CHR 0xBF) b
                      \<or> char_between (CHR 0xF1) (CHR 0xF3) a \<and> cont_byte b
                      \<or> a = CHR 0xF4 \<and> char_between (CHR 0x80) (CHR 0x8F) b)
                    \<and> cont_byte c \<and> cont_byte d
                  then 4 else 0)"

function utf8_valid :: "string \<Rightarrow> bool" where
  "utf8_valid s =
     (if s = [] then True
      else if rune_width s = 0 then False else utf8_valid (drop (rune_width s) s))"
  by pat_completeness auto
termination
  by (relation "measure length") auto

text \<open>\<open>encoding/json\<close> replaces every byte that starts no valid rune by U+FFFD.\<close>

function utf8_coerce :: "string \<Rightarrow> string" where
  "utf8_coerce s =
     (if s = [] then []
      else if rune_width s = 0 then [CHR 0xEF, CHR 0xBF, CHR 0xBD] @ utf8_coerce (drop 1 s)
      else take (rune_width s) s @ utf8_coerce (drop (rune_width s) s))"
  by pat_completeness auto
termination
  by (relation "measure length") auto

declare utf8_valid.simps [simp del] utf8_coerce.simps [simp del]

section \<open>SHA-256 and constant-time comparison\<close>

text \<open>
  The round constants and the initial state are, by FIPS 180, the first 32 bits of the fractional
  parts of the cube and square roots of the first primes; \<open>root_bits k n b 0\<close> is the integer
  \<open>k\<close>-th root of \<open>n\<close> below \<open>2 ^ b\<close>, found bit by bit.
\<close>

fun root_bits :: "nat \<Rightarrow> nat \<Rightarrow> nat \<Rightarrow> nat \<Rightarrow> nat" where
  "root_bits k n 0 acc = acc"
| "root_bits k n (Suc b) acc =
     root_bits k n b (if (acc + 2 ^ b) ^ k \<le> n then acc + 2 ^ b else acc)"

definition small_primes :: "nat list" where
  "small_primes = filter (\<lambda>p. list_all (\<lambda>d. p mod d \<noteq> 0) [2..<p]) [2..<312]"

definition sha256_k :: "32 word list" where
  "sha256_k = map (\<lambda>p. word_of_nat (root_bits 3 (p * 2 ^ 96) 36 0)) small_primes"

type_synonym sha_state =
  "32 word \<times> 32 word \<times> 32 word \<times> 32 word \<times> 32 word \<times> 32 word \<times> 32 word \<times> 32 word"

definition sha256_h :: "nat \<Rightarrow> 32 word" where
  "sha256_h p = word_of_nat (root_bits 2 (p * 2 ^ 64) 36 0)"

definition sha256_init :: sha_state where
  "sha256_init = (sha256_h 2, sha256_h 3, sha256_h 5, sha256_h 7,
                  sha256_h 11, sha256_h 13, sha256_h 17, sha256_h 19)"

fun sha256_round :: "sha_state \<Rightarrow> 32 word \<times> 32 word \<Rightarrow> sha_state" where
  "sha256_round (a, b, c, d, e, f, g, h) (k, w) =
     (let s1 = word_rotr 6 e XOR word_rotr 11 e XOR word_rotr 25 e;
          ch = (e AND f) XOR (NOT e AND g);
          t1 = h + s1 + ch + k + w;
          s0 = word_rotr 2 a XOR word_rotr 13 a XOR word_rotr 22 a;
          maj = (a AND b) XOR (a AND c) XOR (b AND c)
      in (t1 + (s0 + maj), a, b, c, d + t1, e, f, g))"

text \<open>The message schedule, most recent word first.\<close>

fun sha256_schedule :: "nat \<Rightarrow> 32 word list \<Rightarrow> 32 word list" where
  "sha256_schedule 0 ws = ws"
| "sha256_schedule (Suc n) ws =
     (let w2 = ws ! 1; w7 = ws ! 6; w15 = ws ! 14; w16 = ws ! 15;
          s0 = word_rotr 7 w15 XOR word_rotr 18 w15 XOR drop_bit 3 w15;
          s1 = word_rotr 17 w2 XOR word_rotr 19 w2 XOR drop_bit 10 w2
      in sha256_schedule n ((s1 + w7 + s0 + w16) # ws))"

fun sha256_words :: "bytes \<Rightarrow> 32 word list" where
  "sha256_words (a # b # c # d # r) =
     word_of_nat (((of_char a * 256 + of_char b) * 256 + of_char c) * 256 + of_char d)
     # sha256_words r"
| "sha256_words _ = []"

fun sha256_add :: "sha_state \<Rightarrow> sha_state \<Rightarrow> sha_state" where
  "sha256_add (a, b, c, d, e, f, g, h) (a', b', c', d', e', f', g', h') =
     (a + a', b + b', c + c', d + d', e + e', f + f', g + g', h + h')"

definition sha256_block :: "sha_state \<Rightarrow> bytes \<Rightarrow> sha_state" where
  "sha256_block st blk =
     sha256_add st
       (foldl sha256_round st (zip sha256_k (rev (sha256_schedule 48 (rev (sha256_words blk))))))"

function sha256_blocks :: "sha_state \<Rightarrow> bytes \<Rightarrow> sha_state" where
  "sha256_blocks st m =
     (if m = [] then st else sha256_blocks (sha256_block st (take 64 m)) (drop 64 m))"
  by pat_completeness auto
termination
  by (relation "measure (\<lambda>(st, m). length m)") auto

definition be_bytes :: "nat \<Rightarrow> nat \<Rightarrow> bytes" where
  "be_bytes n x = map (\<lambda>i. char_of (x div 256 ^ (n - 1 - i))) [0..<n]"

definition sha256_pad :: "bytes \<Rightarrow> bytes" where
  "sha256_pad m =
     m @ CHR 0x80 # replicate ((119 - length m mod 64) mod 64) NUL @ be_bytes 8 (8 * length m)"

definition sha_state_bytes :: "sha_state \<Rightarrow> bytes" where
  "sha_state_bytes st =
     (case st of (a, b, c, d, e, f, g, h) \<Rightarrow>
        concat (map (\<lambda>w. be_bytes 4 (unat w)) [a, b, c, d, e, f, g, h]))"

definition sha256_Sum256 :: "bytes \<Rightarrow> bytes" where
  "sha256_Sum256 m = sha_state_bytes (sha256_blocks sha256_init (sha256_pad m))"

declare sha256_blocks.simps [simp del]

text \<open>\<open>subtle.ConstantTimeCompare\<close>: the bytes' differences are or-ed together.\<close>

definition byte_word :: "char \<Rightarrow> 8 word" where
  "byte_word c = word_of_nat (of_char c)"

fun ct_acc :: "8 word \<Rightarrow> bytes \<Rightarrow> bytes \<Rightarrow> 8 word" where
  "ct_acc v (x # xs) (y # ys) = ct_acc (v OR (byte_word x XOR byte_word y)) xs ys"
| "ct_acc v _ _ = v"

definition ConstantTimeCompare :: "bytes \<Rightarrow> bytes \<Rightarrow> int" where
  "ConstantTimeCompare x y =
     (if length x \<noteq> length y then 0 else if ct_acc 0 x y = 0 then 1 else 0)"

section \<open>Percent decoding and rooted paths\<close>

fun path_unescape :: "string \<Rightarrow> string option" where
  "path_unescape [] = Some []"
| "path_unescape (c # cs) =
     (if c = CHR ''%'' then
        (case cs of
           x # y # r \<Rightarrow>
             (case (hex_value x, hex_value y, path_unescape r) of
                (Some h, Some l, Some t) \<Rightarrow> Some (char_of (16 * h + l) # t)
              | _ \<Rightarrow> None)
         | _ \<Rightarrow> None)
      else map_option ((#) c) (path_unescape cs))"

definition dot_segment :: "string \<Rightarrow> bool" where
  "dot_segment seg \<longleftrightarrow> seg = ''.'' \<or> seg = ''..''"

definition clean_step :: "string list \<Rightarrow> string \<Rightarrow> string list" where
  "clean_step st seg =
     (if seg = [] \<or> seg = ''.'' then st else if seg = ''..'' then drop 1 st else seg # st)"

definition clean_segments :: "string \<Rightarrow> string list" where
  "clean_segments p = rev (foldl clean_step [] (split_on CHR ''/'' p))"

text \<open>\<open>path.Clean\<close> of a path that starts with a slash.\<close>

definition path_clean :: "string \<Rightarrow> string" where
  "path_clean p = ''/'' @ join_with ''/'' (clean_segments p)"

section \<open>Round trips\<close>

lemma of_char_less_256 [simp]: "(of_char c :: nat) < 256"
  by (metis char_of_mod_256 mod_less_divisor nat_of_char_less_256 zero_less_numeral)

lemma hex_value_digit: "n < 16 \<Longrightarrow> hex_value (hex_digit n) = Some n"
  by (simp add: hex_value_def hex_digit_def char_class_defs)

lemma hex_roundtrip: "hex_decode (hex_encode bs) = Some bs"
proof (induction bs)
  case (Cons b bs)
  have "(of_char b :: nat) div 16 < 16" "(of_char b :: nat) mod 16 < 16"
    by (auto simp: less_mult_imp_div_less)
  with Cons show ?case by (simp add: hex_value_digit)
qed simp

lemma length_hex_encode [simp]: "length (hex_encode bs) = 2 * length bs"
  by (induction bs) auto

lemma b64_value_char: "n < 64 \<Longrightarrow> b64_value url (b64_char url n) = Some n"
  by (auto simp: b64_value_def b64_char_def char_class_defs Let_def)

lemma b64_roundtrip: "b64_groups url (b64_encode url False bs) = Some bs"
proof (induction url False bs rule: b64_encode.induct)
  case (2 url a)
  have "(of_char a :: nat) div 4 < 64" using of_char_less_256 [of a] by linarith
  then show ?case by (simp add: Let_def b64_value_char)
next
  case (3 url a b)
  have "(of_char a :: nat) div 4 < 64" "(of_char b :: nat) div 16 < 16"
    using of_char_less_256 [of a] of_char_less_256 [of b] by linarith+
  then show ?case by (simp add: Let_def b64_value_char)
next
  case (4 url a b c r)
  have "(of_char a :: nat) div 4 < 64" "(of_char b :: nat) div 16 < 16"
      "(of_char c :: nat) div 64 < 4"
    using of_char_less_256 [of a] of_char_less_256 [of b] of_char_less_256 [of c] by linarith+
  with 4 show ?case by (simp add: Let_def b64_value_char)
qed simp

lemma b64_char_ge: "(43::nat) \<le> of_char (b64_char url n)"
  by (auto simp: b64_char_def)

lemma b64_char_no_newline [simp]: "b64_char url n \<noteq> CR" "b64_char url n \<noteq> LF"
  using b64_char_ge [of url n] by auto

lemma b64_encode_filter:
  "filter (\<lambda>c. c \<noteq> CR \<and> c \<noteq> LF) (b64_encode url pad bs) = b64_encode url pad bs"
  by (induction url pad bs rule: b64_encode.induct) (simp_all add: Let_def)

lemma raw_b64_roundtrip: "raw_b64_decode url (b64_encode url False bs) = Some bs"
  by (simp add: raw_b64_decode_def b64_encode_filter b64_roundtrip)

lemma utf8_coerce_valid: "utf8_valid s \<Longrightarrow> utf8_coerce s = s"
proof (induction s rule: utf8_valid.induct)
  case (1 s)
  show ?case
  proof (cases "s = [] \<or> rune_width s = 0")
    case True
    with 1(2) show ?thesis by (auto simp: utf8_valid.simps [of s] utf8_coerce.simps [of s])
  next
    case False
    with 1(2) have "utf8_valid (drop (rune_width s) s)" by (simp add: utf8_valid.simps [of s])
    with False 1(1) show ?thesis by (simp add: utf8_coerce.simps [of s])
  qed
qed

lemma utf8_valid_ascii: "list_all (\<lambda>c. c < CHR 0x80) s \<Longrightarrow> utf8_valid s"
proof (induction s)
  case (Cons c s)
  then show ?case by (subst utf8_valid.simps) simp
qed (simp add: utf8_valid.simps)

section \<open>Constant-time comparison is equality\<close>

lemma byte_word_inject: "byte_word x = byte_word y \<longleftrightarrow> x = y"
proof -
  have "unat (byte_word c) = of_char c" for c
    by (simp add: byte_word_def unat_of_nat)
  then show ?thesis by (metis of_char_eq_iff)
qed

lemma xor_zero_iff: "(a :: 8 word) XOR b = 0 \<longleftrightarrow> a = b"
  by (metis xor.assoc xor.left_neutral xor_self_eq)

lemma ct_acc_zero: "length x = length y \<Longrightarrow> ct_acc v x y = 0 \<longleftrightarrow> v = 0 \<and> x = y"
  by (induction x y arbitrary: v rule: list_induct2)
    (auto simp: or_eq_0_iff xor_zero_iff byte_word_inject)

lemma ConstantTimeCompare_iff: "ConstantTimeCompare x y = 1 \<longleftrightarrow> x = y"
  by (auto simp: ConstantTimeCompare_def ct_acc_zero)

lemma length_be_bytes [simp]: "length (be_bytes n x) = n"
  by (simp add: be_bytes_def)

lemma length_sha256 [simp]: "length (sha256_Sum256 m) = 32"
  by (simp add: sha256_Sum256_def sha_state_bytes_def split: prod.splits)

section \<open>Rooted paths\<close>

lemma clean_step_ordinary: "seg \<noteq> [] \<Longrightarrow> \<not> dot_segment seg \<Longrightarrow> clean_step st seg = seg # st"
  by (auto simp: clean_step_def dot_segment_def)

lemma foldl_clean_safe:
  "\<forall>seg\<in>set segs. \<not> dot_segment seg \<Longrightarrow>
   foldl clean_step st segs = rev (filter (\<lambda>seg. seg \<noteq> []) segs) @ st"
  by (induction segs arbitrary: st) (auto simp: clean_step_def dot_segment_def)

lemma foldl_clean_ordinary:
  "\<forall>seg\<in>set st. seg \<noteq> [] \<and> \<not> dot_segment seg \<Longrightarrow>
   seg \<in> set (foldl clean_step st segs) \<Longrightarrow> seg \<noteq> [] \<and> \<not> dot_segment seg"
proof (induction segs arbitrary: st)
  case (Cons s segs)
  have "\<forall>seg\<in>set (clean_step st s). seg \<noteq> [] \<and> \<not> dot_segment seg"
    using Cons.prems(1) by (auto simp: clean_step_def dot_segment_def dest: in_set_dropD)
  with Cons show ?case by simp
qed auto

lemma clean_segments_ordinary:
  "seg \<in> set (clean_segments p) \<Longrightarrow> seg \<noteq> [] \<and> \<not> dot_segment seg"
  using foldl_clean_ordinary [of "[]"] by (auto simp: clean_segments_def)

lemma clean_step_subset: "set (clean_step st seg) \<subseteq> insert seg (set st)"
  by (auto simp: clean_step_def dest: in_set_dropD)

lemma foldl_clean_subset: "set (foldl clean_step st segs) \<subseteq> set st \<union> set segs"
proof (induction segs arbitrary: st)
  case (Cons x segs)
  have "set (foldl clean_step (clean_step st x) segs) \<subseteq> set (clean_step st x) \<union> set segs"
    by (rule Cons.IH)
  then show ?case using clean_step_subset [of st x] by auto
qed simp

lemma clean_segments_subset: "set (clean_segments p) \<subseteq> set (split_on CHR ''/'' p)"
  using foldl_clean_subset [of "[]"] by (auto simp: clean_segments_def)

lemma clean_segments_append:
  assumes "\<forall>seg\<in>set (split_on CHR ''/'' s). \<not> dot_segment seg"
  shows "clean_segments (b @ ''/'' @ s) =
         clean_segments b @ filter (\<lambda>seg. seg \<noteq> []) (split_on CHR ''/'' s)"
  using assms by (simp add: clean_segments_def split_on_append_sep foldl_clean_safe)

lemma path_unescape_append:
  "path_unescape a = Some a' \<Longrightarrow>
   path_unescape (a @ b) = map_option ((@) a') (path_unescape b)"
proof (induction a arbitrary: a' rule: path_unescape.induct)
  case (2 c cs)
  then show ?case
    by (cases "path_unescape b")
      (auto split: if_splits list.splits option.splits simp: option.map_comp comp_def)
qed (cases "path_unescape b"; simp)

lemma hex_digit_ascii: "n < 16 \<Longrightarrow> hex_digit n < CHR 0x80"
  by (simp add: hex_digit_def less_char_def)

lemma hex_encode_utf8 [simp]: "utf8_valid (hex_encode bs)"
proof (rule utf8_valid_ascii)
  show "list_all (\<lambda>c. c < CHR 0x80) (hex_encode bs)"
  proof (induction bs)
    case (Cons b bs)
    have "(of_char b :: nat) div 16 < 16" using of_char_less_256 [of b] by linarith
    with Cons show ?case by (simp add: hex_digit_ascii)
  qed simp
qed

lemma coerce_sorted: "list_all utf8_valid xs \<Longrightarrow> map utf8_coerce (sort xs) = sort xs"
  by (rule map_idI) (simp add: list_all_iff utf8_coerce_valid)

end
