(* ===== verification/Capability.thy ===== *)
theory Capability
  imports Go_Codec
begin

text \<open>
  Package \<open>internal/capability\<close>: local capability tokens. A token is 32 random bytes in the
  URL alphabet behind a fixed prefix; only its SHA-256 digest is stored. The random source is
  an argument (\<open>None\<close> when \<open>rand.Read\<close> fails).
\<close>

type_synonym digest = bytes

datatype capability_error = ErrInvalidToken | ErrRandom

definition tokenBytes :: nat where
  "tokenBytes = 32"

definition zero_digest :: digest where
  "zero_digest = replicate 32 NUL"

definition Hash :: "string \<Rightarrow> digest" where
  "Hash token = sha256_Sum256 token"

definition Generate :: "bytes option \<Rightarrow> capability_error + string \<times> digest" where
  "Generate rand =
     (case rand of
        None \<Rightarrow> Inl ErrRandom
      | Some raw \<Rightarrow>
          let token = ''airlock_'' @ RawURLEncoding_EncodeToString raw
          in Inr (token, Hash token))"

definition Verify :: "string \<Rightarrow> digest \<Rightarrow> capability_error + unit" where
  "Verify token expected =
     (if token = [] then Inl ErrInvalidToken
      else let actual = Hash token in
        if ConstantTimeCompare actual expected \<noteq> 1 then Inl ErrInvalidToken else Inr ())"

lemma Verify_ok_iff: "is_ok (Verify token d) \<longleftrightarrow> token \<noteq> [] \<and> Hash token = d"
  by (simp add: Verify_def Let_def ConstantTimeCompare_iff)

lemma Verify_cases: "Verify token d = (if token \<noteq> [] \<and> Hash token = d then Inr () else Inl ErrInvalidToken)"
  by (simp add: Verify_def Let_def ConstantTimeCompare_iff)

lemma length_Hash [simp]: "length (Hash token) = 32"
  by (simp add: Hash_def)

lemma b64_encode_inject:
  "b64_encode url False x = b64_encode url False y \<longleftrightarrow> x = y"
  by (metis b64_roundtrip option.inject)

lemma length_b64_raw: "length (b64_encode url False bs) = (4 * length bs + 2) div 3"
  by (induction url False bs rule: b64_encode.induct) (auto simp: Let_def)

text \<open>
  \<open>Verify\<close> accepts a token exactly when it is non-empty and its SHA-256 digest is the
  stored one (the or-ed byte differences of the constant-time comparison decide equality), and
  every other token gives \<open>ErrInvalidToken\<close>.
\<close>

theorem Verify_correct:
  "Verify token expected =
     (if token \<noteq> [] \<and> sha256_Sum256 token = expected then Inr () else Inl ErrInvalidToken)"
  by (simp add: Verify_cases Hash_def)

text \<open>
  a token made by \<open>Generate\<close> verifies against the digest returned with it, is 51
  characters long, and different random bytes give different tokens.
\<close>

theorem Generate_correct:
  assumes "length raw = tokenBytes" and "length raw' = tokenBytes"
    and "Generate (Some raw) = Inr (token, d)" and "Generate (Some raw') = Inr (token', d')"
  shows "Verify token d = Inr () \<and> length token = 51 \<and> (token = token' \<longleftrightarrow> raw = raw')"
  using assms
  by (auto simp: Generate_def Let_def Verify_cases length_b64_raw tokenBytes_def b64_encode_inject)

theorem Generate_correct_witness:
  "\<exists>t d t' d'. Generate (Some (replicate 32 NUL)) = Inr (t, d)
     \<and> Generate (Some (replicate 32 (CHR ''a''))) = Inr (t', d')
     \<and> Verify t d = Inr () \<and> length t = 51 \<and> t \<noteq> t'"
proof -
  let ?t = "''airlock_'' @ RawURLEncoding_EncodeToString (replicate 32 NUL)"
  let ?t' = "''airlock_'' @ RawURLEncoding_EncodeToString (replicate 32 (CHR ''a''))"
  have g: "Generate (Some (replicate 32 NUL)) = Inr (?t, Hash ?t)"
      "Generate (Some (replicate 32 (CHR ''a''))) = Inr (?t', Hash ?t')"
    by (simp_all add: Generate_def Let_def)
  have "replicate 32 NUL \<noteq> replicate 32 (CHR ''a'')" by simp
  with g Generate_correct [OF _ _ g] show ?thesis by (auto simp: tokenBytes_def)
qed

end
