(* ===== verification/Routes.thy ===== *)
theory Routes
  imports Capability Interfaces
begin

text \<open>
  Package \<open>internal/routes\<close>, \<open>registry.go\<close>: HTTP and LLM routes, their policies, validation and
  the registry. A policy's \<open>map[string]struct{}\<close> fields are lists of distinct strings; the
  registry is the alias-indexed map (its mutex makes every operation atomic, so operations are
  state-passing functions). Copies of maps (\<open>cloneRoute\<close>, \<open>cloneSet\<close>) are identities on values.
\<close>

datatype routes_error = ErrNotFound | ErrInvalidRoute string

abbreviation KindHTTP :: string where "KindHTTP \<equiv> ''HTTP''"
abbreviation KindLLM :: string where "KindLLM \<equiv> ''LLM''"
abbreviation ProviderOpenAI :: string where "ProviderOpenAI \<equiv> ''openai''"
abbreviation ProviderAnthropic :: string where "ProviderAnthropic \<equiv> ''anthropic''"

definition DefaultLLMMaxRequestBytes :: int where
  "DefaultLLMMaxRequestBytes = 2 * 1024 * 1024"

definition DefaultLLMRequestsPerMinute :: int where
  "DefaultLLMRequestsPerMinute = 60"

definition DefaultLLMMaxConcurrent :: int where
  "DefaultLLMMaxConcurrent = 4"

record http_policy =
  hp_AllowedMethods :: gset
  hp_AllowedQueryKeys :: gset
  hp_AllowedPaths :: gset
  hp_AllowedModels :: gset
  hp_MaxRequestBytes :: int
  hp_MaxOutputTokens :: int
  hp_RequestsPerMinute :: int
  hp_MaxConcurrent :: int
  hp_TrackUsage :: bool

record llm_usage =
  us_Requests :: "64 word"
  us_InputTokens :: "64 word"
  us_OutputTokens :: "64 word"

record http_route =
  hr_Name :: string
  hr_Alias :: string
  hr_Kind :: string
  hr_Provider :: string
  hr_TargetSecretRef :: string
  hr_CapabilityDigest :: digest
  hr_Policy :: http_policy
  hr_Egress :: string
  hr_Enabled :: bool
  hr_Usage :: llm_usage

definition zero_usage :: llm_usage where
  "zero_usage = \<lparr>us_Requests = 0, us_InputTokens = 0, us_OutputTokens = 0\<rparr>"

definition NewHTTPPolicy :: "string list \<Rightarrow> string list \<Rightarrow> http_policy" where
  "NewHTTPPolicy methods queryKeys =
     \<lparr>hp_AllowedMethods = gset_of (map to_upper methods), hp_AllowedQueryKeys = gset_of queryKeys,
      hp_AllowedPaths = [], hp_AllowedModels = [], hp_MaxRequestBytes = 0, hp_MaxOutputTokens = 0,
      hp_RequestsPerMinute = 0, hp_MaxConcurrent = 0, hp_TrackUsage = False\<rparr>"

definition NewLLMPolicy :: "string \<Rightarrow> string list \<Rightarrow> int \<Rightarrow> http_policy" where
  "NewLLMPolicy provider models maxOutputTokens =
     (let paths = (if provider = ProviderOpenAI then [''/v1/responses'', ''/v1/chat/completions'']
                   else if provider = ProviderAnthropic then [''/v1/messages''] else [])
      in (NewHTTPPolicy [''POST''] [])
           \<lparr>hp_AllowedPaths := gset_of paths, hp_AllowedModels := gset_of models,
            hp_MaxRequestBytes := DefaultLLMMaxRequestBytes, hp_MaxOutputTokens := maxOutputTokens,
            hp_RequestsPerMinute := DefaultLLMRequestsPerMinute,
            hp_MaxConcurrent := DefaultLLMMaxConcurrent\<rparr>)"

definition AllowsMethod :: "http_policy \<Rightarrow> string \<Rightarrow> bool" where
  "AllowsMethod p m \<longleftrightarrow> to_upper m \<in> set (hp_AllowedMethods p)"

definition AllowsQueryKey :: "http_policy \<Rightarrow> string \<Rightarrow> bool" where
  "AllowsQueryKey p k \<longleftrightarrow> k \<in> set (hp_AllowedQueryKeys p)"

definition AllowsPath :: "http_policy \<Rightarrow> string \<Rightarrow> bool" where
  "AllowsPath p v \<longleftrightarrow> v \<in> set (hp_AllowedPaths p)"

definition AllowsModel :: "http_policy \<Rightarrow> string \<Rightarrow> bool" where
  "AllowsModel p m \<longleftrightarrow> m \<in> set (hp_AllowedModels p)"

definition EffectiveKind :: "http_route \<Rightarrow> string" where
  "EffectiveKind r = (if hr_Kind r = [] then KindHTTP else hr_Kind r)"

definition validLLMProvider :: "string \<Rightarrow> bool" where
  "validLLMProvider provider \<longleftrightarrow> provider = ProviderOpenAI \<or> provider = ProviderAnthropic"

definition providerAllowsPath :: "string \<Rightarrow> string \<Rightarrow> bool" where
  "providerAllowsPath provider v =
     (if provider = ProviderOpenAI then v = ''/v1/responses'' \<or> v = ''/v1/chat/completions''
      else if provider = ProviderAnthropic then v = ''/v1/messages'' else False)"

definition model_malformed :: "string \<Rightarrow> bool" where
  "model_malformed m \<longleftrightarrow>
     trim_space m \<noteq> m \<or> m = [] \<or> length m > 200 \<or> contains_any m [NUL, CR, LF, TAB]"

definition llm_bounds_violated :: "http_policy \<Rightarrow> bool" where
  "llm_bounds_violated p \<longleftrightarrow>
     hp_AllowedModels p = [] \<or> hp_MaxRequestBytes p < 1 \<or> hp_MaxRequestBytes p > 16 * 1024 * 1024
     \<or> hp_MaxOutputTokens p < 1 \<or> hp_MaxOutputTokens p > 1000000
     \<or> hp_RequestsPerMinute p < 1 \<or> hp_RequestsPerMinute p > 60000
     \<or> hp_MaxConcurrent p < 1 \<or> hp_MaxConcurrent p > 1024"

definition Validate :: "http_route \<Rightarrow> routes_error option" where
  "Validate r =
     (if \<not> alias_pattern (hr_Alias r) then Some (ErrInvalidRoute ''invalid alias'')
      else if hr_TargetSecretRef r = []
      then Some (ErrInvalidRoute ''target secret reference is required'')
      else if length (hp_AllowedMethods (hr_Policy r)) = 0
      then Some (ErrInvalidRoute ''at least one HTTP method is required'')
      else if hr_Egress r \<noteq> [] \<and> hr_Egress r \<noteq> ''Direct'' \<and> hr_Egress r \<noteq> ''Proxy''
        \<and> hr_Egress r \<noteq> ''Auto''
      then Some (ErrInvalidRoute ''invalid egress'')
      else if EffectiveKind r = KindHTTP then
        (if hr_Provider r \<noteq> []
         then Some (ErrInvalidRoute ''HTTP route cannot declare an LLM provider'') else None)
      else if EffectiveKind r = KindLLM then
        (if \<not> validLLMProvider (hr_Provider r) \<or> llm_bounds_violated (hr_Policy r)
         then Some (ErrInvalidRoute ''invalid LLM policy'')
         else if length (hp_AllowedMethods (hr_Policy r)) \<noteq> 1
           \<or> \<not> AllowsMethod (hr_Policy r) ''POST''
           \<or> length (hp_AllowedQueryKeys (hr_Policy r)) \<noteq> 0
           \<or> length (hp_AllowedPaths (hr_Policy r)) = 0
         then Some (ErrInvalidRoute ''invalid LLM request policy'')
         else if list_ex (\<lambda>v. \<not> providerAllowsPath (hr_Provider r) v) (hp_AllowedPaths (hr_Policy r))
         then Some (ErrInvalidRoute ''invalid LLM endpoint'')
         else if list_ex model_malformed (hp_AllowedModels (hr_Policy r))
         then Some (ErrInvalidRoute ''invalid LLM model'')
         else None)
      else Some (ErrInvalidRoute ''invalid route kind''))"

section \<open>The registry\<close>

type_synonym http_registry = "(string, http_route) amap"

definition Upsert :: "http_registry \<Rightarrow> http_route \<Rightarrow> routes_error + http_registry" where
  "Upsert reg route =
     (case Validate route of
        Some e \<Rightarrow> Inl e
      | None \<Rightarrow> Inr (AList.update (hr_Alias route) route reg))"

fun upsert_all :: "http_registry \<Rightarrow> http_route list \<Rightarrow> routes_error + http_registry" where
  "upsert_all reg [] = Inr reg"
| "upsert_all reg (route # rest) =
     (case Upsert reg route of Inl e \<Rightarrow> Inl e | Inr reg' \<Rightarrow> upsert_all reg' rest)"

definition NewRegistry :: "http_route list \<Rightarrow> routes_error + http_registry" where
  "NewRegistry initial = upsert_all [] initial"

definition Lookup :: "http_registry \<Rightarrow> string \<Rightarrow> routes_error + http_route" where
  "Lookup reg a =
     (case map_of reg a of
        None \<Rightarrow> Inl ErrNotFound
      | Some route \<Rightarrow> if \<not> hr_Enabled route then Inl ErrNotFound else Inr route)"

definition Get :: "http_registry \<Rightarrow> string \<Rightarrow> routes_error + http_route" where
  "Get reg a = (case map_of reg a of None \<Rightarrow> Inl ErrNotFound | Some route \<Rightarrow> Inr route)"

definition List_routes :: "http_registry \<Rightarrow> http_route list" where
  "List_routes reg = map snd reg"

definition SetEnabled :: "http_registry \<Rightarrow> string \<Rightarrow> bool \<Rightarrow> routes_error + http_registry" where
  "SetEnabled reg a enabled =
     (case map_of reg a of
        None \<Rightarrow> Inl ErrNotFound
      | Some route \<Rightarrow> Inr (AList.update a (route\<lparr>hr_Enabled := enabled\<rparr>) reg))"

definition add_usage :: "llm_usage \<Rightarrow> 64 word \<Rightarrow> 64 word \<Rightarrow> 64 word \<Rightarrow> llm_usage" where
  "add_usage u requests inputTokens outputTokens =
     u\<lparr>us_Requests := us_Requests u + requests, us_InputTokens := us_InputTokens u + inputTokens,
       us_OutputTokens := us_OutputTokens u + outputTokens\<rparr>"

definition RecordLLMUsage ::
  "http_registry \<Rightarrow> string \<Rightarrow> 64 word \<Rightarrow> 64 word \<Rightarrow> 64 word \<Rightarrow> routes_error + http_registry" where
  "RecordLLMUsage reg a requests inputTokens outputTokens =
     (case map_of reg a of
        None \<Rightarrow> Inl ErrNotFound
      | Some route \<Rightarrow>
          if EffectiveKind route \<noteq> KindLLM \<or> \<not> hp_TrackUsage (hr_Policy route) then Inl ErrNotFound
          else Inr (AList.update a
            (route\<lparr>hr_Usage := add_usage (hr_Usage route) requests inputTokens outputTokens\<rparr>) reg))"

definition ResetLLMUsage :: "http_registry \<Rightarrow> string \<Rightarrow> routes_error + http_registry" where
  "ResetLLMUsage reg a =
     (case map_of reg a of
        None \<Rightarrow> Inl ErrNotFound
      | Some route \<Rightarrow>
          if EffectiveKind route \<noteq> KindLLM then Inl ErrNotFound
          else Inr (AList.update a (route\<lparr>hr_Usage := zero_usage\<rparr>) reg))"

definition Delete :: "http_registry \<Rightarrow> string \<Rightarrow> routes_error + http_route \<times> http_registry" where
  "Delete reg a =
     (case map_of reg a of
        None \<Rightarrow> Inl ErrNotFound
      | Some route \<Rightarrow> Inr (route, AList.delete a reg))"

definition DisableAll :: "http_registry \<Rightarrow> http_registry" where
  "DisableAll reg = map (\<lambda>(a, route). (a, route\<lparr>hr_Enabled := False\<rparr>)) reg"

definition registry_inv :: "http_registry \<Rightarrow> bool" where
  "registry_inv reg \<longleftrightarrow>
     amap_wf reg \<and> list_all (\<lambda>(a, r). hr_Alias r = a \<and> Validate r = None) reg"

section \<open>The registry implements the route-registry contract\<close>

lemma Validate_enabled [simp]: "Validate (r\<lparr>hr_Enabled := b\<rparr>) = Validate r"
  unfolding Validate_def EffectiveKind_def by simp

lemma Validate_usage [simp]: "Validate (r\<lparr>hr_Usage := u\<rparr>) = Validate r"
  unfolding Validate_def EffectiveKind_def by simp

lemma Validate_alias: "Validate r = None \<Longrightarrow> alias_pattern (hr_Alias r)"
  unfolding Validate_def by (simp split: if_splits)

lemma registry_inv_Nil [simp]: "registry_inv []"
  by (simp add: registry_inv_def)

lemma registry_invD:
  "registry_inv reg \<Longrightarrow> map_of reg a = Some r \<Longrightarrow> hr_Alias r = a \<and> Validate r = None"
  by (auto simp: registry_inv_def list_all_iff dest!: amap_memD)

lemma registry_inv_wf: "registry_inv reg \<Longrightarrow> amap_wf reg"
  by (simp add: registry_inv_def)

lemma registry_inv_update:
  assumes "registry_inv reg" "Validate r = None" "hr_Alias r = a"
  shows "registry_inv (AList.update a r reg)"
  using assms set_amap_update [of a r reg] by (auto simp: registry_inv_def list_all_iff)

lemma registry_inv_delete: "registry_inv reg \<Longrightarrow> registry_inv (AList.delete a reg)"
  unfolding registry_inv_def using amap_wf_delete [of reg a] set_amap_delete [of a reg]
  by (auto simp: list_all_iff)

lemma registry_inv_DisableAll: "registry_inv reg \<Longrightarrow> registry_inv (DisableAll reg)"
  by (auto simp: registry_inv_def DisableAll_def list_all_iff
      amap_wf_map_values [where f = "\<lambda>_ r. r\<lparr>hr_Enabled := False\<rparr>"])

lemma Upsert_ok: "Upsert reg r = Inr reg' \<longleftrightarrow> Validate r = None \<and> reg' = AList.update (hr_Alias r) r reg"
  by (auto simp: Upsert_def split: option.splits)

lemma DisableAll_view: "map_of (DisableAll reg) a = map_option (\<lambda>r. r\<lparr>hr_Enabled := False\<rparr>) (map_of reg a)"
  unfolding DisableAll_def by (rule map_of_map_values)

lemma List_routes_mem:
  assumes "registry_inv reg"
  shows "x \<in> set (List_routes reg) \<longleftrightarrow> map_of reg (hr_Alias x) = Some x"
  using amap_values [OF registry_inv_wf [OF assms], of x] registry_invD [OF assms]
  by (auto simp: List_routes_def)

lemma List_routes_aliases: "registry_inv reg \<Longrightarrow> map hr_Alias (List_routes reg) = map fst reg"
  by (auto simp: registry_inv_def List_routes_def list_all_iff)

interpretation http_reg: route_registry
  map_of registry_inv Upsert Delete SetEnabled DisableAll List_routes Lookup
  hr_Alias hr_Enabled "\<lambda>b r. r\<lparr>hr_Enabled := b\<rparr>" "\<lambda>m r. Validate r = None" ErrNotFound
proof (unfold_locales, goal_cases)
  case (1 r x)
  then show ?case by (auto simp: Upsert_def is_ok_def split: option.splits)
next
  case (2 r x r')
  then show ?case by (simp add: Upsert_ok registry_inv_update)
next
  case (3 r a x)
  then show ?case by (simp add: registry_invD)
next
  case (4 r a x)
  then show ?case by (simp add: registry_invD)
next
  case (5 r a)
  then show ?case by (simp add: Delete_def)
next
  case (6 r a x)
  then show ?case by (simp add: Delete_def registry_inv_delete)
next
  case (7 r a b)
  then show ?case by (simp add: SetEnabled_def)
next
  case (8 r a x b)
  then show ?case using registry_invD [OF 8] by (simp add: SetEnabled_def registry_inv_update)
next
  case (9 r)
  then show ?case by (simp add: registry_inv_DisableAll DisableAll_view fun_eq_iff)
next
  case (10 r x)
  then show ?case by (rule List_routes_mem)
next
  case (11 r)
  then show ?case by (simp add: List_routes_aliases registry_inv_wf [unfolded amap_wf_def])
next
  case (12 r a)
  then show ?case by (simp add: Lookup_def split: option.splits)
qed simp_all

section \<open>Every operation keeps the registry invariant\<close>

lemma upsert_all_inv:
  "registry_inv reg \<Longrightarrow> upsert_all reg rs = Inr reg' \<Longrightarrow> registry_inv reg'"
proof (induction rs arbitrary: reg)
  case (Cons r rs)
  from Cons.prems(2) obtain reg1 where "Upsert reg r = Inr reg1" "upsert_all reg1 rs = Inr reg'"
    by (auto split: sum.splits)
  moreover from this Cons.prems(1) have "registry_inv reg1"
    by (auto simp: Upsert_ok registry_inv_update)
  ultimately show ?case by (auto intro: Cons.IH)
qed simp

lemma upsert_all_ok_iff:
  "is_ok (upsert_all reg rs) \<longleftrightarrow> (\<forall>r\<in>set rs. Validate r = None)"
  by (induction rs arbitrary: reg) (auto simp: Upsert_def split: option.splits)

lemma upsert_all_view:
  "upsert_all reg rs = Inr reg' \<Longrightarrow>
   map_of reg' = map_of reg ++ map_of (rev (map (\<lambda>r. (hr_Alias r, r)) rs))"
  by (induction rs arbitrary: reg) (auto simp: Upsert_ok map_add_upd fun_eq_iff map_add_def
      split: sum.splits option.splits)

lemma RecordLLMUsage_inv:
  "registry_inv reg \<Longrightarrow> RecordLLMUsage reg a n i o' = Inr reg' \<Longrightarrow> registry_inv reg'"
  using registry_invD [of reg a]
  by (auto simp: RecordLLMUsage_def registry_inv_update split: option.splits if_splits)

lemma ResetLLMUsage_inv:
  "registry_inv reg \<Longrightarrow> ResetLLMUsage reg a = Inr reg' \<Longrightarrow> registry_inv reg'"
  using registry_invD [of reg a]
  by (auto simp: ResetLLMUsage_def registry_inv_update split: option.splits if_splits)

lemmas registry_op_inv =
  http_reg.upsert_view [THEN conjunct1] registry_inv_DisableAll registry_inv_delete
  RecordLLMUsage_inv ResetLLMUsage_inv upsert_all_inv

lemma SetEnabled_inv: "registry_inv reg \<Longrightarrow> SetEnabled reg a b = Inr reg' \<Longrightarrow> registry_inv reg'"
  using http_reg.set_enabled_some [of reg a _ b] http_reg.set_enabled_none [of reg a b]
  by (cases "map_of reg a") auto

end
