(* ===== verification/Go_Url.thy ===== *)
theory Go_Url
  imports Go_Codec
begin

text \<open>
  The parts of Go's \<open>net/url\<close> and of \<open>http.Header\<close> that the gateways use, translated function by
  function: percent-escaping by component, \<open>Parse\<close>, \<open>String\<close>, \<open>JoinPath\<close>, \<open>ResolveReference\<close>,
  query parsing and encoding, and canonical header maps.
  Zone identifiers in bracketed hosts are the one case \<open>parseHost\<close> leaves out (it rejects them).
\<close>

datatype enc_mode = encodePath | encodeHost | encodeUserPassword | encodeQueryComponent | encodeFragment

definition alnum :: "char \<Rightarrow> bool" where
  "alnum c \<longleftrightarrow> is_lower c \<or> is_upper c \<or> is_digit c"

definition reserved_escape :: "enc_mode \<Rightarrow> char \<Rightarrow> bool" where
  "reserved_escape mode c =
     (case mode of
        encodePath \<Rightarrow> c = CHR ''?''
      | encodeUserPassword \<Rightarrow> c \<in> set ''@/?:''
      | encodeQueryComponent \<Rightarrow> True
      | encodeFragment \<Rightarrow> False
      | encodeHost \<Rightarrow> True)"

definition shouldEscape :: "enc_mode \<Rightarrow> char \<Rightarrow> bool" where
  "shouldEscape mode c =
     (if alnum c then False
      else if mode = encodeHost \<and> (c \<in> set ''!$&()*+,;=:[]<>'' \<or> c = CHR 0x27 \<or> c = CHR 0x22) then False
      else if c \<in> set ''-_.~'' then False
      else if c \<in> set ''$&+,/:;=?@'' then reserved_escape mode c
      else if mode = encodeFragment \<and> c \<in> set ''!()*'' then False
      else True)"

definition upper_hex :: "nat \<Rightarrow> char" where
  "upper_hex n = (if n < 10 then char_of (48 + n) else char_of (55 + n))"

definition escape_char :: "enc_mode \<Rightarrow> char \<Rightarrow> string" where
  "escape_char mode c =
     (if shouldEscape mode c then
        (if c = CHR '' '' \<and> mode = encodeQueryComponent then ''+''
         else [CHR ''%'', upper_hex (of_char c div 16), upper_hex (of_char c mod 16)])
      else [c])"

definition url_escape :: "enc_mode \<Rightarrow> string \<Rightarrow> string" where
  "url_escape mode s = concat (map (escape_char mode) s)"

text \<open>\<open>unescape\<close>: \<open>None\<close> stands for the escape and invalid-host errors.\<close>

fun url_unescape :: "enc_mode \<Rightarrow> string \<Rightarrow> string option" where
  "url_unescape mode [] = Some []"
| "url_unescape mode (c # cs) =
     (if c = CHR ''%'' then
        (case cs of
           a # b # rest \<Rightarrow>
             (case (hex_value a, hex_value b) of
                (Some x, Some y) \<Rightarrow>
                  if mode = encodeHost \<and> x < 8 \<and> \<not> (a = CHR ''2'' \<and> b = CHR ''5'') then None
                  else map_option ((#) (char_of (16 * x + y))) (url_unescape mode rest)
              | _ \<Rightarrow> None)
         | _ \<Rightarrow> None)
      else if c = CHR ''+'' \<and> mode = encodeQueryComponent
      then map_option ((#) (CHR '' '')) (url_unescape mode cs)
      else if mode = encodeHost \<and> c < CHR 0x80 \<and> shouldEscape mode c then None
      else map_option ((#) c) (url_unescape mode cs))"

definition validEncoded :: "string \<Rightarrow> enc_mode \<Rightarrow> bool" where
  "validEncoded s mode \<longleftrightarrow>
     list_all (\<lambda>c. c \<in> set ''!$&()*+,;=:@[]%'' \<or> c = CHR 0x27 \<or> \<not> shouldEscape mode c) s"

section \<open>URLs\<close>

record userinfo =
  ui_username :: string
  ui_password :: "string option"

record go_url =
  u_Scheme :: string
  u_Opaque :: string
  u_User :: "userinfo option"
  u_Host :: string
  u_Path :: string
  u_RawPath :: string
  u_OmitHost :: bool
  u_ForceQuery :: bool
  u_RawQuery :: string
  u_Fragment :: string
  u_RawFragment :: string

definition empty_url :: go_url where
  "empty_url = \<lparr>u_Scheme = [], u_Opaque = [], u_User = None, u_Host = [], u_Path = [], u_RawPath = [],
     u_OmitHost = False, u_ForceQuery = False, u_RawQuery = [], u_Fragment = [], u_RawFragment = []\<rparr>"

definition setPath :: "go_url \<Rightarrow> string \<Rightarrow> go_url option" where
  "setPath u p =
     (case url_unescape encodePath p of
        None \<Rightarrow> None
      | Some decoded \<Rightarrow>
          Some (u\<lparr>u_Path := decoded,
                  u_RawPath := (if p = url_escape encodePath decoded then [] else p)\<rparr>))"

definition EscapedPath :: "go_url \<Rightarrow> string" where
  "EscapedPath u =
     (if u_RawPath u \<noteq> [] \<and> validEncoded (u_RawPath u) encodePath
         \<and> url_unescape encodePath (u_RawPath u) = Some (u_Path u) then u_RawPath u
      else if u_Path u = ''*'' then ''*''
      else url_escape encodePath (u_Path u))"

definition setFragment :: "go_url \<Rightarrow> string \<Rightarrow> go_url option" where
  "setFragment u f =
     (case url_unescape encodeFragment f of
        None \<Rightarrow> None
      | Some decoded \<Rightarrow>
          Some (u\<lparr>u_Fragment := decoded,
                  u_RawFragment := (if f = url_escape encodeFragment decoded then [] else f)\<rparr>))"

definition EscapedFragment :: "go_url \<Rightarrow> string" where
  "EscapedFragment u =
     (if u_RawFragment u \<noteq> [] \<and> validEncoded (u_RawFragment u) encodeFragment
         \<and> url_unescape encodeFragment (u_RawFragment u) = Some (u_Fragment u) then u_RawFragment u
      else url_escape encodeFragment (u_Fragment u))"

definition userinfo_String :: "userinfo \<Rightarrow> string" where
  "userinfo_String ui =
     url_escape encodeUserPassword (ui_username ui)
     @ (case ui_password ui of None \<Rightarrow> [] | Some p \<Rightarrow> '':'' @ url_escape encodeUserPassword p)"

definition first_segment_colon :: "string \<Rightarrow> bool" where
  "first_segment_colon p \<longleftrightarrow> CHR '':'' \<in> set (fst (cut_char CHR ''/'' p))"

definition authority_String :: "go_url \<Rightarrow> string" where
  "authority_String u =
     (if u_Scheme u \<noteq> [] \<or> u_Host u \<noteq> [] \<or> u_User u \<noteq> None then
        (if u_OmitHost u \<and> u_Host u = [] \<and> u_User u = None then []
         else (if u_Host u \<noteq> [] \<or> u_Path u \<noteq> [] \<or> u_User u \<noteq> None then ''//'' else [])
           @ (case u_User u of None \<Rightarrow> [] | Some ui \<Rightarrow> userinfo_String ui @ ''@'')
           @ (if u_Host u \<noteq> [] then url_escape encodeHost (u_Host u) else []))
      else [])"

definition url_String :: "go_url \<Rightarrow> string" where
  "url_String u =
     (let scheme = (if u_Scheme u \<noteq> [] then u_Scheme u @ '':'' else []);
          body = (if u_Opaque u \<noteq> [] then u_Opaque u
                  else
                    let auth = authority_String u; p = EscapedPath u in
                    auth
                    @ (if p \<noteq> [] \<and> hd p \<noteq> CHR ''/'' \<and> u_Host u \<noteq> [] then ''/'' else [])
                    @ (if scheme @ auth = [] \<and> first_segment_colon p then ''./'' else [])
                    @ p)
      in scheme @ body
         @ (if u_ForceQuery u \<or> u_RawQuery u \<noteq> [] then ''?'' @ u_RawQuery u else [])
         @ (if u_Fragment u \<noteq> [] then ''#'' @ EscapedFragment u else []))"

section \<open>Parse\<close>

text \<open>
  \<open>getScheme\<close>: \<open>None\<close> for "missing protocol scheme", otherwise the scheme (possibly empty) and
  the rest. The loop index being 0 is \<open>acc = []\<close>.
\<close>

fun getScheme_from :: "string \<Rightarrow> string \<Rightarrow> string \<Rightarrow> (string \<times> string) option" where
  "getScheme_from raw acc [] = Some ([], raw)"
| "getScheme_from raw acc (c # cs) =
     (if is_lower c \<or> is_upper c then getScheme_from raw (acc @ [c]) cs
      else if is_digit c \<or> c \<in> set ''+-.'' then
        (if acc = [] then Some ([], raw) else getScheme_from raw (acc @ [c]) cs)
      else if c = CHR '':'' then (if acc = [] then None else Some (acc, cs))
      else Some ([], raw))"

definition getScheme :: "string \<Rightarrow> (string \<times> string) option" where
  "getScheme raw = getScheme_from raw [] raw"

definition contains_ctl :: "string \<Rightarrow> bool" where
  "contains_ctl s \<longleftrightarrow> list_ex (\<lambda>c. c < CHR '' '' \<or> c = CHR 0x7F) s"

text \<open>\<open>strings.LastIndex\<close> with a one-byte separator, as the two parts around it.\<close>

fun cut_last :: "char \<Rightarrow> string \<Rightarrow> (string \<times> string) option" where
  "cut_last c [] = None"
| "cut_last c (x # xs) =
     (case cut_last c xs of
        Some (a, b) \<Rightarrow> Some (x # a, b)
      | None \<Rightarrow> if x = c then Some ([], xs) else None)"

definition validOptionalPort :: "string \<Rightarrow> bool" where
  "validOptionalPort port \<longleftrightarrow>
     (case port of [] \<Rightarrow> True | c # cs \<Rightarrow> c = CHR '':'' \<and> list_all is_digit cs)"

definition parseHost :: "string \<Rightarrow> string option" where
  "parseHost host =
     (if prefix ''['' host then
        (case cut_last CHR '']'' host of
           None \<Rightarrow> None
         | Some (inside, colonPort) \<Rightarrow>
             if \<not> validOptionalPort colonPort then None
             else if contains_str inside ''%25'' then None
             else url_unescape encodeHost host)
      else
        (case cut_last CHR '':'' host of
           Some (_, port) \<Rightarrow> if \<not> list_all is_digit port then None else url_unescape encodeHost host
         | None \<Rightarrow> url_unescape encodeHost host))"

definition validUserinfo :: "string \<Rightarrow> bool" where
  "validUserinfo s \<longleftrightarrow> list_all (\<lambda>c. alnum c \<or> c \<in> set ''-._:~!$&()*+,;=%@'' \<or> c = CHR 0x27) s"

definition parse_user :: "string \<Rightarrow> userinfo option" where
  "parse_user info =
     (if CHR '':'' \<notin> set info then
        map_option (\<lambda>n. \<lparr>ui_username = n, ui_password = None\<rparr>) (url_unescape encodeUserPassword info)
      else
        (case cut_char CHR '':'' info of
           (name, pass, _) \<Rightarrow>
             (case (url_unescape encodeUserPassword name, url_unescape encodeUserPassword pass) of
                (Some n, Some p) \<Rightarrow> Some \<lparr>ui_username = n, ui_password = Some p\<rparr>
              | _ \<Rightarrow> None)))"

definition parseAuthority :: "string \<Rightarrow> (userinfo option \<times> string) option" where
  "parseAuthority authority =
     (case cut_last CHR ''@'' authority of
        None \<Rightarrow> map_option (\<lambda>h. (None, h)) (parseHost authority)
      | Some (info, hostpart) \<Rightarrow>
          (case parseHost hostpart of
             None \<Rightarrow> None
           | Some h \<Rightarrow>
               if \<not> validUserinfo info then None
               else map_option (\<lambda>ui. (Some ui, h)) (parse_user info)))"

definition count_char :: "char \<Rightarrow> string \<Rightarrow> nat" where
  "count_char c s = length (filter (\<lambda>x. x = c) s)"

definition split_query :: "string \<Rightarrow> string \<times> bool \<times> string" where
  "split_query rest =
     (if suffix ''?'' rest \<and> count_char CHR ''?'' rest = 1
      then (take (length rest - 1) rest, True, [])
      else (case cut_char CHR ''?'' rest of (a, q, _) \<Rightarrow> (a, False, q)))"

definition parse_no_fragment :: "string \<Rightarrow> go_url option" where
  "parse_no_fragment raw =
     (if contains_ctl raw then None
      else if raw = ''*'' then Some (empty_url\<lparr>u_Path := ''*''\<rparr>)
      else case getScheme raw of
        None \<Rightarrow> None
      | Some (scheme, rest0) \<Rightarrow>
          (case split_query rest0 of (rest, force, query) \<Rightarrow>
             let u = empty_url\<lparr>u_Scheme := to_lower scheme, u_ForceQuery := force, u_RawQuery := query\<rparr> in
             if \<not> prefix ''/'' rest \<and> scheme \<noteq> [] then Some (u\<lparr>u_Opaque := rest\<rparr>)
             else if \<not> prefix ''/'' rest \<and> first_segment_colon rest then None
             else if (scheme \<noteq> [] \<or> \<not> prefix ''///'' rest) \<and> prefix ''//'' rest then
               (let authority = takeWhile (\<lambda>c. c \<noteq> CHR ''/'') (drop 2 rest);
                    p = dropWhile (\<lambda>c. c \<noteq> CHR ''/'') (drop 2 rest)
                in case parseAuthority authority of
                     None \<Rightarrow> None
                   | Some (user, host) \<Rightarrow> setPath (u\<lparr>u_User := user, u_Host := host\<rparr>) p)
             else if scheme \<noteq> [] \<and> prefix ''/'' rest then setPath (u\<lparr>u_OmitHost := True\<rparr>) rest
             else setPath u rest))"

definition url_Parse :: "string \<Rightarrow> go_url option" where
  "url_Parse raw =
     (case cut_char CHR ''#'' raw of (body, frag, _) \<Rightarrow>
        case parse_no_fragment body of
          None \<Rightarrow> None
        | Some u \<Rightarrow> if frag = [] then Some u else setFragment u frag)"

section \<open>JoinPath and ResolveReference\<close>

text \<open>
  \<open>URL.JoinPath\<close> with one element: \<open>path.Join\<close> skips an empty element and cleans the rest, one
  trailing slash of the element is kept, and an error of \<open>setPath\<close> leaves the URL as it was.
\<close>

definition joined_path :: "string \<Rightarrow> string \<Rightarrow> string" where
  "joined_path base elem =
     (let b = (if prefix ''/'' base then base else ''/'' @ base);
          c = path_clean (if elem = [] then b else b @ ''/'' @ elem);
          p = (if prefix ''/'' base then c else drop 1 c)
      in if suffix ''/'' elem \<and> \<not> suffix ''/'' p then p @ ''/'' else p)"

definition url_JoinPath :: "go_url \<Rightarrow> string \<Rightarrow> go_url" where
  "url_JoinPath u elem =
     (case setPath u (joined_path (EscapedPath u) elem) of None \<Rightarrow> u | Some u' \<Rightarrow> u')"

definition JoinPath :: "string \<Rightarrow> string \<Rightarrow> string option" where
  "JoinPath base elem = map_option (\<lambda>u. url_String (url_JoinPath u elem)) (url_Parse base)"

text \<open>The loop of \<open>resolvePath\<close>; the accumulator is what follows the leading slash of the builder.\<close>

fun resolve_loop :: "string \<Rightarrow> bool \<Rightarrow> string list \<Rightarrow> string" where
  "resolve_loop dst first [] = dst"
| "resolve_loop dst first (elem # rest) =
     (if elem = ''.'' then resolve_loop dst False rest
      else if elem = ''..'' then
        (case cut_last CHR ''/'' dst of
           None \<Rightarrow> resolve_loop [] True rest
         | Some (pre, _) \<Rightarrow> resolve_loop pre first rest)
      else resolve_loop (dst @ (if first then [] else ''/'') @ elem) False rest)"

definition resolvePath :: "string \<Rightarrow> string \<Rightarrow> string" where
  "resolvePath base ref =
     (let full = (if ref = [] then base
                  else if hd ref \<noteq> CHR ''/'' then
                    (case cut_last CHR ''/'' base of None \<Rightarrow> ref | Some (d, _) \<Rightarrow> d @ ''/'' @ ref)
                  else ref)
      in if full = [] then []
         else
           let elems = split_on CHR ''/'' full;
               dst = resolve_loop [] True elems @ (if dot_segment (last elems) then ''/'' else [])
           in if prefix ''/'' dst then dst else ''/'' @ dst)"

definition with_path :: "go_url \<Rightarrow> string \<Rightarrow> go_url" where
  "with_path u p = (case setPath u p of None \<Rightarrow> u | Some u' \<Rightarrow> u')"

definition ResolveReference :: "go_url \<Rightarrow> go_url \<Rightarrow> go_url" where
  "ResolveReference u ref =
     (let url = ref\<lparr>u_Scheme := (if u_Scheme ref = [] then u_Scheme u else u_Scheme ref)\<rparr> in
      if u_Scheme ref \<noteq> [] \<or> u_Host ref \<noteq> [] \<or> u_User ref \<noteq> None
      then with_path url (resolvePath (EscapedPath ref) [])
      else if u_Opaque ref \<noteq> [] then url\<lparr>u_User := None, u_Host := [], u_Path := []\<rparr>
      else
        let bare = (u_Path ref = [] \<and> \<not> u_ForceQuery ref \<and> u_RawQuery ref = []);
            url = (if bare then
                     (if u_Fragment ref = []
                      then url\<lparr>u_RawQuery := u_RawQuery u, u_Fragment := u_Fragment u,
                               u_RawFragment := u_RawFragment u\<rparr>
                      else url\<lparr>u_RawQuery := u_RawQuery u\<rparr>)
                   else url)
        in if u_Path ref = [] \<and> u_Opaque u \<noteq> []
           then url\<lparr>u_Opaque := u_Opaque u, u_User := None, u_Host := [], u_Path := []\<rparr>
           else with_path (url\<lparr>u_Host := u_Host u, u_User := u_User u\<rparr>)
                  (resolvePath (EscapedPath u) (EscapedPath ref)))"

section \<open>Queries\<close>

type_synonym values_map = "(string, string list) amap"

definition add_value :: "values_map \<Rightarrow> string \<Rightarrow> string \<Rightarrow> values_map" where
  "add_value m k v = AList.update k ((case map_of m k of None \<Rightarrow> [] | Some vs \<Rightarrow> vs) @ [v]) m"

definition query_pair :: "values_map \<Rightarrow> string \<Rightarrow> values_map" where
  "query_pair m part =
     (if CHR '';'' \<in> set part \<or> part = [] then m
      else case cut_char CHR ''='' part of (k, v, _) \<Rightarrow>
        (case (url_unescape encodeQueryComponent k, url_unescape encodeQueryComponent v) of
           (Some k', Some v') \<Rightarrow> add_value m k' v'
         | _ \<Rightarrow> m))"

definition ParseQuery :: "string \<Rightarrow> values_map" where
  "ParseQuery query = foldl query_pair [] (split_on CHR ''&'' query)"

definition encode_value :: "string \<Rightarrow> string \<Rightarrow> string" where
  "encode_value k v = url_escape encodeQueryComponent k @ ''='' @ url_escape encodeQueryComponent v"

definition Values_Encode :: "values_map \<Rightarrow> string" where
  "Values_Encode m =
     join_with ''&'' (concat (map (\<lambda>(k, vs). map (encode_value k) vs) (sort_key fst m)))"

section \<open>Headers\<close>

type_synonym header = values_map

definition token_char :: "char \<Rightarrow> bool" where
  "token_char c \<longleftrightarrow> alnum c \<or> c \<in> set ''!#$%&*+-.^_|~'' \<or> c = CHR 0x27 \<or> c = CHR 0x60"

fun canonical_from :: "bool \<Rightarrow> string \<Rightarrow> string" where
  "canonical_from up [] = []"
| "canonical_from up (c # cs) =
     (if up then upper_char c else lower_char c) # canonical_from (c = CHR ''-'') cs"

definition CanonicalHeaderKey :: "string \<Rightarrow> string" where
  "CanonicalHeaderKey k = (if list_all token_char k then canonical_from True k else k)"

definition header_Values :: "header \<Rightarrow> string \<Rightarrow> string list" where
  "header_Values h k = (case map_of h (CanonicalHeaderKey k) of None \<Rightarrow> [] | Some vs \<Rightarrow> vs)"

definition header_Get :: "header \<Rightarrow> string \<Rightarrow> string" where
  "header_Get h k = (case header_Values h k of [] \<Rightarrow> [] | v # _ \<Rightarrow> v)"

definition header_Add :: "header \<Rightarrow> string \<Rightarrow> string \<Rightarrow> header" where
  "header_Add h k v = add_value h (CanonicalHeaderKey k) v"

definition header_Set :: "header \<Rightarrow> string \<Rightarrow> string \<Rightarrow> header" where
  "header_Set h k v = AList.update (CanonicalHeaderKey k) [v] h"

definition header_Del :: "header \<Rightarrow> string \<Rightarrow> header" where
  "header_Del h k = AList.delete (CanonicalHeaderKey k) h"

section \<open>Escaping round trips\<close>

definition pchar :: "char \<Rightarrow> bool" where
  "pchar c \<longleftrightarrow> c \<in> set ''!$&()*+,;=:@[]%'' \<or> c = CHR 0x27 \<or> \<not> shouldEscape encodePath c"

lemma hex_value_upper: "n < 16 \<Longrightarrow> hex_value (upper_hex n) = Some n"
  by (simp add: hex_value_def upper_hex_def char_class_defs)

lemma upper_hex_alnum: "n < 16 \<Longrightarrow> alnum (upper_hex n)"
  by (simp add: upper_hex_def alnum_def char_class_defs)

lemma of_char_div_16 [simp]: "(of_char c :: nat) div 16 < 16"
  using of_char_less_256 [of c] by linarith

lemma alnum_percent [simp]: "\<not> alnum (CHR ''%'')"
  by (simp add: alnum_def char_class_defs)

lemma percent_escaped [simp]: "shouldEscape mode (CHR ''%'')"
  by (simp add: shouldEscape_def)

lemma unescape_escape_path: "url_unescape encodePath (url_escape encodePath s @ t)
    = map_option ((@) s) (url_unescape encodePath t)"
proof (induction s)
  case Nil
  then show ?case by (simp add: url_escape_def option.map_ident)
next
  case (Cons c s)
  have mod: "of_char c = 16 * (of_char c div 16) + (of_char c mod 16 :: nat)" by simp
  show ?case
  proof (cases "shouldEscape encodePath c")
    case True
    then show ?thesis using Cons
      by (simp add: url_escape_def escape_char_def hex_value_upper option.map_comp comp_def)
  next
    case False
    then have "c \<noteq> CHR ''%''" by auto
    with False Cons show ?thesis
      by (simp add: url_escape_def escape_char_def option.map_comp comp_def)
  qed
qed

lemma unescape_escape: "url_unescape encodePath (url_escape encodePath s) = Some s"
  using unescape_escape_path [of s "[]"] by simp

lemma pchar_unescaped: "\<not> shouldEscape encodePath c \<Longrightarrow> pchar c"
  by (simp add: pchar_def)

lemma alnum_pchar: "alnum c \<Longrightarrow> pchar c"
  by (simp add: pchar_def shouldEscape_def)

lemma escape_pchar: "list_all pchar (url_escape encodePath s)"
  by (induction s)
    (auto simp: url_escape_def escape_char_def list_all_iff alnum_pchar upper_hex_alnum
      intro: pchar_unescaped, simp add: pchar_def)

lemma unescaped_cases:
  assumes "\<not> shouldEscape encodePath c"
  shows "alnum c \<or> c \<in> set ''-_.~'' \<or> c \<in> set ''$&+,/:;=?@'' \<and> c \<noteq> CHR ''?''"
  using assms unfolding shouldEscape_def reserved_escape_def
  by (simp only: enc_mode.case enc_mode.distinct simp_thms if_False split: if_split_asm) blast?

lemma pchar_cases: "pchar c \<Longrightarrow> alnum c \<or> c \<in> set ''!$&()*+,;=:@[]%-_.~/'' \<or> c = CHR 0x27"
proof -
  assume "pchar c"
  then consider "c \<in> set ''!$&()*+,;=:@[]%''" | "c = CHR 0x27" | "\<not> shouldEscape encodePath c"
    unfolding pchar_def by blast
  then show ?thesis
  proof cases
    case 1
    have "set ''!$&()*+,;=:@[]%'' \<subseteq> set ''!$&()*+,;=:@[]%-_.~/''" by simp
    with 1 show ?thesis by blast
  next
    case 3
    have "set ''-_.~'' \<subseteq> set ''!$&()*+,;=:@[]%-_.~/''"
        "set ''$&+,/:;=?@'' - {CHR ''?''} \<subseteq> set ''!$&()*+,;=:@[]%-_.~/''" by auto
    with unescaped_cases [OF 3] show ?thesis by blast
  qed simp
qed

lemma alnum_printable: "alnum c \<Longrightarrow> \<not> c < CHR '' '' \<and> c \<notin> set ''#?/@:%['' \<and> c \<noteq> CHR 0x5C \<and> c \<noteq> CHR 0x7F"
  by (auto simp: alnum_def char_class_defs)

lemma pchar_plain: "pchar c \<Longrightarrow> c \<noteq> CHR ''#'' \<and> c \<noteq> CHR ''?'' \<and> \<not> c < CHR '' '' \<and> c \<noteq> CHR 0x7F"
  by (drule pchar_cases) (elim disjE, use alnum_printable [of c] in force, auto simp: less_char_def)

lemma EscapedPath_pchar: "list_all pchar (EscapedPath u)"
proof -
  have "pchar (CHR ''*'')" by (simp add: pchar_def)
  then show ?thesis
    using escape_pchar [of "u_Path u"]
    by (auto simp: EscapedPath_def validEncoded_def list_all_iff pchar_def)
qed

lemma unescape_EscapedPath: "url_unescape encodePath (EscapedPath u) = Some (u_Path u)"
  by (auto simp: EscapedPath_def unescape_escape)

section \<open>Parsing what String prints\<close>

definition host_char :: "char \<Rightarrow> bool" where
  "host_char c \<longleftrightarrow> \<not> shouldEscape encodeHost c"

definition plain_host :: "string \<Rightarrow> bool" where
  "plain_host h \<longleftrightarrow> h \<noteq> [] \<and> list_all host_char h \<and> parseHost h = Some h"

definition http_url :: "go_url \<Rightarrow> bool" where
  "http_url u \<longleftrightarrow> (u_Scheme u = ''http'' \<or> u_Scheme u = ''https'') \<and> u_Opaque u = []
     \<and> u_User u = None \<and> plain_host (u_Host u) \<and> \<not> u_OmitHost u \<and> \<not> u_ForceQuery u
     \<and> u_RawQuery u = [] \<and> u_Fragment u = [] \<and> u_RawFragment u = []"

definition rooted :: "string \<Rightarrow> string" where
  "rooted p = (if p \<noteq> [] \<and> hd p \<noteq> CHR ''/'' then ''/'' @ p else p)"

lemma host_char_cases:
  assumes "host_char c"
  shows "alnum c \<or> c \<in> set ''!$&()*+,;=:[]<>-_.~'' \<or> c = CHR 0x27 \<or> c = CHR 0x22"
proof -
  have "alnum c \<or> c \<in> set ''!$&()*+,;=:[]<>'' \<or> c = CHR 0x27 \<or> c = CHR 0x22 \<or> c \<in> set ''-_.~''"
    using assms unfolding host_char_def shouldEscape_def reserved_escape_def
    by (simp only: enc_mode.case enc_mode.distinct simp_thms if_False split: if_split_asm) blast?
  moreover have "set ''!$&()*+,;=:[]<>'' \<union> set ''-_.~'' \<subseteq> set ''!$&()*+,;=:[]<>-_.~''" by simp
  ultimately show ?thesis by blast
qed

lemma host_char_plain:
  "host_char c \<Longrightarrow> c \<noteq> CHR ''#'' \<and> c \<noteq> CHR ''?'' \<and> c \<noteq> CHR ''/'' \<and> c \<noteq> CHR ''@'' \<and> c \<noteq> CHR ''%''
     \<and> \<not> c < CHR '' '' \<and> c \<noteq> CHR 0x7F"
  by (drule host_char_cases) (elim disjE, use alnum_printable [of c] in force, auto simp: less_char_def)

lemma escape_host: "list_all host_char h \<Longrightarrow> url_escape encodeHost h = h"
  by (induction h) (simp_all add: url_escape_def escape_char_def host_char_def)

lemma cut_last_absent: "c \<notin> set s \<Longrightarrow> cut_last c s = None"
  by (induction s) auto

lemma parseAuthority_plain:
  assumes "plain_host h"
  shows "parseAuthority h = Some (None, h)"
proof -
  have "CHR ''@'' \<notin> set h" using assms host_char_plain by (auto simp: plain_host_def list_all_iff)
  with assms show ?thesis by (simp add: parseAuthority_def plain_host_def cut_last_absent)
qed

lemma getScheme_http:
  "getScheme (''http:'' @ r) = Some (''http'', r)" "getScheme (''https:'' @ r) = Some (''https'', r)"
  by (simp_all add: getScheme_def char_class_defs)

lemma rooted_slash: "rooted p = [] \<or> prefix ''/'' (rooted p)"
  by (cases p) (auto simp: rooted_def)

lemma split_query_none:
  assumes "CHR ''?'' \<notin> set s"
  shows "split_query s = (s, False, [])"
proof -
  have "\<not> suffix ''?'' s" using assms by (auto simp: suffix_def)
  with assms show ?thesis by (simp add: split_query_def cut_char_absent)
qed

lemma until_slash:
  assumes "c \<notin> set h" "p = [] \<or> prefix [c] p"
  shows "takeWhile (\<lambda>x. x \<noteq> c) (h @ p) = h" "dropWhile (\<lambda>x. x \<noteq> c) (h @ p) = p"
  using assms by (induction h) (auto simp: prefix_def)

lemma parse_http:
  assumes "scheme = ''http'' \<or> scheme = ''https''" "plain_host h"
    "list_all pchar p" "p = [] \<or> prefix ''/'' p"
  shows "url_Parse (scheme @ ''://'' @ h @ p) = setPath (empty_url\<lparr>u_Scheme := scheme, u_Host := h\<rparr>) p"
proof -
  let ?raw = "scheme @ ''://'' @ h @ p"
  have h: "\<forall>c\<in>set h. c \<noteq> CHR ''#'' \<and> c \<noteq> CHR ''?'' \<and> c \<noteq> CHR ''/'' \<and> \<not> c < CHR '' '' \<and> c \<noteq> CHR 0x7F"
    using assms(2) host_char_plain by (auto simp: plain_host_def list_all_iff)
  have p: "\<forall>c\<in>set p. c \<noteq> CHR ''#'' \<and> c \<noteq> CHR ''?'' \<and> \<not> c < CHR '' '' \<and> c \<noteq> CHR 0x7F"
    using assms(3) pchar_plain by (auto simp: list_all_iff)
  have absent: "CHR ''#'' \<notin> set h" "CHR ''#'' \<notin> set p" "CHR ''?'' \<notin> set h" "CHR ''?'' \<notin> set p"
      "CHR ''/'' \<notin> set h"
    using h p by blast+
  have nofrag: "cut_char CHR ''#'' ?raw = (?raw, [], False)"
    using absent assms(1) by (intro cut_char_absent) auto
  have ctl: "\<not> contains_ctl ?raw"
  proof -
    have "\<not> contains_ctl (h @ p)" unfolding contains_ctl_def list_ex_iff set_append using h p by blast
    then show ?thesis using assms(1) by (auto simp: contains_ctl_def less_char_def)
  qed
  have scheme: "getScheme ?raw = Some (scheme, ''//'' @ h @ p)"
    using assms(1) getScheme_http [of "''//'' @ h @ p"] by auto
  have query: "split_query (''//'' @ h @ p) = (''//'' @ h @ p, False, [])"
    using absent by (intro split_query_none) simp
  have lower: "to_lower scheme = scheme"
    using assms(1) by (auto simp: to_lower_def lower_char_def char_class_defs)
  have auth: "takeWhile (\<lambda>c. c \<noteq> CHR ''/'') (h @ p) = h" "dropWhile (\<lambda>c. c \<noteq> CHR ''/'') (h @ p) = p"
    using until_slash [of "CHR ''/''" h p] absent(5) assms(4) by blast+
  have "scheme \<noteq> []" "?raw \<noteq> ''*''" using assms(1) by auto
  then have "parse_no_fragment ?raw = setPath (empty_url\<lparr>u_Scheme := scheme, u_Host := h\<rparr>) p"
    unfolding parse_no_fragment_def scheme using query ctl auth parseAuthority_plain [OF assms(2)] lower
    by (simp add: Let_def empty_url_def)
  then show ?thesis unfolding url_Parse_def nofrag by (simp add: setPath_def split: option.splits)
qed

lemma String_http:
  assumes "http_url u"
  shows "url_String u = u_Scheme u @ ''://'' @ u_Host u @ rooted (EscapedPath u)"
  using assms
  by (auto simp: http_url_def plain_host_def url_String_def authority_String_def escape_host
      rooted_def Let_def)

lemma unescape_slash: "url_unescape encodePath (CHR ''/'' # p) = map_option ((#) (CHR ''/'')) (url_unescape encodePath p)"
  by simp

lemma rooted_pchar: "list_all pchar p \<Longrightarrow> list_all pchar (rooted p)"
  by (auto simp: rooted_def pchar_def shouldEscape_def reserved_escape_def alnum_def char_class_defs)

lemma validEncoded_pchar: "validEncoded s encodePath = list_all pchar s"
  unfolding validEncoded_def pchar_def ..

lemma setPath_EscapedPath:
  assumes "setPath u p = Some v" "list_all pchar p" "p = [] \<or> prefix ''/'' p"
  shows "EscapedPath v = p"
proof -
  obtain d where d: "url_unescape encodePath p = Some d"
      "v = u\<lparr>u_Path := d, u_RawPath := (if p = url_escape encodePath d then [] else p)\<rparr>"
    using assms(1) by (auto simp: setPath_def split: option.splits)
  have "d \<noteq> ''*''"
    using assms(3) d(1) by (auto simp: prefix_def)
  moreover have "p \<noteq> url_escape encodePath d \<Longrightarrow> p \<noteq> []"
    using d(1) by (auto simp: url_escape_def)
  ultimately show ?thesis
    using d assms(2) by (auto simp: EscapedPath_def validEncoded_pchar)
qed

section \<open>Decoding segment by segment\<close>

abbreviation unesc :: "string \<Rightarrow> string option" where
  "unesc \<equiv> url_unescape encodePath"

definition decoded :: "string \<Rightarrow> string" where
  "decoded s = (case unesc s of None \<Rightarrow> [] | Some d \<Rightarrow> d)"

definition slashed :: "string list \<Rightarrow> string" where
  "slashed segs = concat (map (\<lambda>s. CHR ''/'' # s) segs)"

lemma unesc_append:
  "unesc a = Some a' \<Longrightarrow> unesc (a @ b) = map_option ((@) a') (unesc b)"
proof (induction "encodePath" a arbitrary: a' rule: url_unescape.induct)
  case 1
  then show ?case by (cases "unesc b") simp_all
next
  case (2 c cs)
  show ?case
  proof (cases "c = CHR ''%''")
    case True
    from "2.prems" True obtain x y rest h l r where "cs = x # y # rest" "hex_value x = Some h"
        "hex_value y = Some l" "unesc rest = Some r" "a' = char_of (16 * h + l) # r"
      by (auto split: list.splits option.splits)
    with 2(1) True show ?thesis
      by (cases "unesc b") (auto simp: option.map_comp comp_def)
  next
    case False
    with 2 show ?thesis by (cases "unesc b") (auto simp: option.map_comp comp_def)
  qed
qed

lemma hex_value_slash [simp]: "hex_value (CHR ''/'') = None"
  by (simp add: hex_value_def char_class_defs)

lemma unesc_before_slash: "unesc (a @ CHR ''/'' # b) = Some z \<Longrightarrow> \<exists>a'. unesc a = Some a'"
proof (induction "encodePath" a arbitrary: z rule: url_unescape.induct)
  case (2 c cs)
  show ?case
  proof (cases "c = CHR ''%''")
    case True
    show ?thesis
    proof (cases cs)
      case Nil
      with 2 True show ?thesis by (auto split: list.splits)
    next
      case (Cons x ys)
      show ?thesis
      proof (cases ys)
        case Nil
        with Cons "2.prems" True show ?thesis by (auto split: option.splits)
      next
        case (Cons y rest)
        with \<open>cs = x # ys\<close> 2(1) "2.prems" True show ?thesis
          by (auto split: option.splits)
      qed
    qed
  next
    case False
    with 2 show ?thesis by auto
  qed
qed simp

lemma unesc_slash: "unesc (a @ CHR ''/'' # b) = Some z \<longleftrightarrow>
   (\<exists>a' b'. unesc a = Some a' \<and> unesc b = Some b' \<and> z = a' @ CHR ''/'' # b')"
  using unesc_before_slash [of a b z] unesc_append [of a _ "CHR ''/'' # b"] by fastforce

lemma split_join:
  "xs \<noteq> [] \<Longrightarrow> split_on c (join_with [c] xs) = concat (map (split_on c) xs)"
  by (induction "[c]" xs rule: join_with.induct) (simp_all add: split_on_append_sep)

lemma split_first: "c \<in> set s \<Longrightarrow> \<exists>a b. s = a @ c # b \<and> split_on c s = a # split_on c b"
proof -
  assume "c \<in> set s"
  then obtain a b where "s = a @ c # b" "c \<notin> set a" by (meson split_list_first)
  then show ?thesis by (auto simp: split_on_append_sep split_on_no_sep)
qed

lemma unesc_split:
  "unesc s = Some z \<Longrightarrow>
   (\<forall>x\<in>set (split_on CHR ''/'' s). unesc x = Some (decoded x))
   \<and> z = join_with ''/'' (map decoded (split_on CHR ''/'' s))"
proof (induction "length s" arbitrary: s z rule: less_induct)
  case less
  show ?case
  proof (cases "CHR ''/'' \<in> set s")
    case False
    with less.prems show ?thesis by (simp add: split_on_no_sep decoded_def)
  next
    case True
    then obtain a b where s: "s = a @ CHR ''/'' # b" "split_on CHR ''/'' s = a # split_on CHR ''/'' b"
      using split_first by blast
    with less.prems obtain a' b' where d: "unesc a = Some a'" "unesc b = Some b'" "z = a' @ CHR ''/'' # b'"
      by (auto simp: unesc_slash)
    obtain y ys where ys: "split_on CHR ''/'' b = y # ys" by (metis split_on_nonempty neq_Nil_conv)
    from less.hyps [of b b'] s d ys show ?thesis by (auto simp: decoded_def)
  qed
qed

definition no_dots :: "string \<Rightarrow> bool" where
  "no_dots s \<longleftrightarrow> list_all (\<lambda>seg. \<not> dot_segment seg) (split_on CHR ''/'' s)"

lemma no_dots_slash: "no_dots (a @ CHR ''/'' # b) \<longleftrightarrow> no_dots a \<and> no_dots b"
  by (simp add: no_dots_def split_on_append_sep)

lemma no_dots_Nil [simp]: "no_dots []"
  by (simp add: no_dots_def dot_segment_def)

lemma no_dots_decoded:
  assumes "unesc s = Some z" "no_dots z" "x \<in> set (split_on CHR ''/'' s)"
  shows "no_dots (decoded x)"
proof -
  have "z = join_with ''/'' (map decoded (split_on CHR ''/'' s))" using unesc_split assms(1) by blast
  then have "split_on CHR ''/'' z = concat (map (split_on CHR ''/'') (map decoded (split_on CHR ''/'' s)))"
    by (simp add: split_join)
  with assms(2,3) show ?thesis by (auto simp: no_dots_def list_all_iff)
qed

lemma unesc_slashed:
  "\<forall>x\<in>set segs. unesc x = Some (decoded x) \<Longrightarrow> unesc (slashed segs) = Some (slashed (map decoded segs))"
  by (induction segs) (simp_all add: slashed_def unesc_append)

lemma no_dots_slashed: "\<forall>x\<in>set segs. no_dots x \<Longrightarrow> no_dots (slashed segs)"
proof (induction segs)
  case (Cons x segs)
  show ?case
  proof (cases segs)
    case Nil
    with Cons show ?thesis using no_dots_slash [of "[]" x] by (simp add: slashed_def)
  next
    case (Cons y ys)
    with Cons.IH Cons.prems have "no_dots (slashed (y # ys))" by simp
    then have "no_dots ([] @ CHR ''/'' # y @ slashed ys)" by (simp add: slashed_def)
    then have "no_dots (y @ slashed ys)" using no_dots_slash [of "[]" "y @ slashed ys"] by simp
    with Cons Cons.prems show ?thesis
      using no_dots_slash [of "[]" "x @ CHR ''/'' # y @ slashed ys"]
        no_dots_slash [of x "y @ slashed ys"] by (simp add: slashed_def)
  qed
qed (simp add: slashed_def)

lemma path_clean_slashed:
  "path_clean p = (if clean_segments p = [] then ''/'' else slashed (clean_segments p))"
proof -
  have "segs \<noteq> [] \<Longrightarrow> ''/'' @ join_with ''/'' segs = slashed segs" for segs
    by (induction "''/''" segs rule: join_with.induct) (simp_all add: slashed_def)
  then show ?thesis by (simp add: path_clean_def)
qed

end
