(* ===== verification/Go_Json.thy ===== *)
theory Go_Json
  imports Go_Codec
begin

text \<open>
  The parts of Go's \<open>encoding/json\<close> that the LLM gateway uses, on text: the scanner (as a
  function that returns what follows a valid value), decoding into \<open>map[string]json.RawMessage\<close>,
  \<open>string\<close>, \<open>int\<close> and \<open>uint64\<close>, and encoding of such maps and of strings. A \<open>RawMessage\<close> is the text
  of one value. The scanner recurses with fuel; twice the length of the text and two is enough,
  because of two nested calls at least one is made on a shorter text. \<open>encoding/json\<close>'s nesting limit of
  10000 is the depth argument.
\<close>

definition is_ws :: "char \<Rightarrow> bool" where
  "is_ws c \<longleftrightarrow> c = CHR '' '' \<or> c = TAB \<or> c = CR \<or> c = LF"

definition skip_ws :: "string \<Rightarrow> string" where
  "skip_ws s = dropWhile is_ws s"

abbreviation QUOTE :: char where "QUOTE \<equiv> CHR 0x22"
abbreviation BACKSLASH :: char where "BACKSLASH \<equiv> CHR 0x5C"

section \<open>Scanning\<close>

definition is_hex :: "char \<Rightarrow> bool" where
  "is_hex c \<longleftrightarrow> hex_value c \<noteq> None"

text \<open>The rest after the closing quote of a string literal whose opening quote is consumed.\<close>

fun skip_string :: "string \<Rightarrow> string option" where
  "skip_string [] = None"
| "skip_string (c # cs) =
     (if c = QUOTE then Some cs
      else if c = BACKSLASH then
        (case cs of
           [] \<Rightarrow> None
         | e # r \<Rightarrow>
             if e = QUOTE \<or> e = BACKSLASH \<or> e \<in> set ''/bfnrt'' then skip_string r
             else if e = CHR ''u'' then
               (case r of
                  h1 # h2 # h3 # h4 # r' \<Rightarrow>
                    if list_all is_hex [h1, h2, h3, h4] then skip_string r' else None
                | _ \<Rightarrow> None)
             else None)
      else if c < CHR '' '' then None
      else skip_string cs)"

definition skip_digits :: "string \<Rightarrow> string option" where
  "skip_digits s = (case s of [] \<Rightarrow> None | c # cs \<Rightarrow> if is_digit c then Some (dropWhile is_digit s) else None)"

definition skip_fraction :: "string \<Rightarrow> string option" where
  "skip_fraction s = (if prefix ''.'' s then skip_digits (drop 1 s) else Some s)"

definition skip_exponent :: "string \<Rightarrow> string option" where
  "skip_exponent s =
     (if prefix ''e'' s \<or> prefix ''E'' s then
        (let r = drop 1 s in skip_digits (if prefix ''+'' r \<or> prefix ''-'' r then drop 1 r else r))
      else Some s)"

definition skip_number :: "string \<Rightarrow> string option" where
  "skip_number s =
     (let r = (if prefix ''-'' s then drop 1 s else s) in
      case (if prefix ''0'' r then Some (drop 1 r) else skip_digits r) of
        None \<Rightarrow> None
      | Some r1 \<Rightarrow> (case skip_fraction r1 of None \<Rightarrow> None | Some r2 \<Rightarrow> skip_exponent r2))"

fun skip_value :: "nat \<Rightarrow> nat \<Rightarrow> string \<Rightarrow> string option"
  and skip_members :: "nat \<Rightarrow> nat \<Rightarrow> string \<Rightarrow> string option"
  and skip_elements :: "nat \<Rightarrow> nat \<Rightarrow> string \<Rightarrow> string option" where
  "skip_value 0 depth s = None"
| "skip_value (Suc n) depth s =
     (case s of
        [] \<Rightarrow> None
      | c # cs \<Rightarrow>
          if c = QUOTE then skip_string cs
          else if c = CHR ''{'' then
            (if depth = 0 then None
             else let r = skip_ws cs in
               if prefix ''}'' r then Some (drop 1 r) else skip_members n (depth - 1) r)
          else if c = CHR ''['' then
            (if depth = 0 then None
             else let r = skip_ws cs in
               if prefix '']'' r then Some (drop 1 r) else skip_elements n (depth - 1) r)
          else if prefix ''true'' s then Some (drop 4 s)
          else if prefix ''false'' s then Some (drop 5 s)
          else if prefix ''null'' s then Some (drop 4 s)
          else skip_number s)"
| "skip_members 0 depth s = None"
| "skip_members (Suc n) depth s =
     (case s of
        c # cs \<Rightarrow>
          if c \<noteq> QUOTE then None
          else (case skip_string cs of
            None \<Rightarrow> None
          | Some r \<Rightarrow>
              (case skip_ws r of
                 d # ds \<Rightarrow>
                   if d \<noteq> CHR '':'' then None
                   else (case skip_value n depth (skip_ws ds) of
                     None \<Rightarrow> None
                   | Some r2 \<Rightarrow>
                       (case skip_ws r2 of
                          e # es \<Rightarrow>
                            if e = CHR ''}'' then Some es
                            else if e = CHR '','' then skip_members n depth (skip_ws es)
                            else None
                        | [] \<Rightarrow> None))
               | [] \<Rightarrow> None))
      | [] \<Rightarrow> None)"
| "skip_elements 0 depth s = None"
| "skip_elements (Suc n) depth s =
     (case skip_value n depth s of
        None \<Rightarrow> None
      | Some r \<Rightarrow>
          (case skip_ws r of
             e # es \<Rightarrow>
               if e = CHR '']'' then Some es
               else if e = CHR '','' then skip_elements n depth (skip_ws es)
               else None
           | [] \<Rightarrow> None))"

definition maxNestingDepth :: nat where
  "maxNestingDepth = 10000"

definition scan_value :: "string \<Rightarrow> string option" where
  "scan_value s = skip_value (2 * length s + 2) maxNestingDepth s"

definition json_Valid :: "string \<Rightarrow> bool" where
  "json_Valid s \<longleftrightarrow> (case scan_value (skip_ws s) of None \<Rightarrow> False | Some r \<Rightarrow> skip_ws r = [])"

section \<open>Decoding\<close>

definition hex4 :: "string \<Rightarrow> nat" where
  "hex4 s = foldl (\<lambda>n c. 16 * n + (case hex_value c of None \<Rightarrow> 0 | Some v \<Rightarrow> v)) 0 s"

definition utf8_encode :: "nat \<Rightarrow> string" where
  "utf8_encode r =
     (if r < 128 then [char_of r]
      else if r < 2048 then [char_of (192 + r div 64), char_of (128 + r mod 64)]
      else if r < 65536
      then [char_of (224 + r div 4096), char_of (128 + r div 64 mod 64), char_of (128 + r mod 64)]
      else [char_of (240 + r div 262144), char_of (128 + r div 4096 mod 64),
            char_of (128 + r div 64 mod 64), char_of (128 + r mod 64)])"

definition surrogate :: "nat \<Rightarrow> bool" where
  "surrogate r \<longleftrightarrow> 55296 \<le> r \<and> r < 57344"

definition simple_escape :: "char \<Rightarrow> char" where
  "simple_escape e =
     (if e = CHR ''b'' then CHR 0x08 else if e = CHR ''f'' then CHR 0x0C
      else if e = CHR ''n'' then LF else if e = CHR ''r'' then CR
      else if e = CHR ''t'' then TAB else e)"

text \<open>The content of a valid string literal up to its closing quote, before coercion to UTF-8.\<close>

fun unquote :: "string \<Rightarrow> string" where
  "unquote [] = []"
| "unquote (c # cs) =
     (if c = QUOTE then []
      else if c = BACKSLASH then
        (case cs of
           [] \<Rightarrow> []
         | e # r \<Rightarrow>
             if e = CHR ''u'' then
               (case r of
                  h1 # h2 # h3 # h4 # r' \<Rightarrow>
                    (let u = hex4 [h1, h2, h3, h4] in
                     if \<not> surrogate u then utf8_encode u @ unquote r'
                     else case r' of
                       b # v # g1 # g2 # g3 # g4 # r'' \<Rightarrow>
                         (let u2 = hex4 [g1, g2, g3, g4] in
                          if b = BACKSLASH \<and> v = CHR ''u'' \<and> list_all is_hex [g1, g2, g3, g4]
                             \<and> u < 56320 \<and> 56320 \<le> u2 \<and> u2 < 57344
                          then utf8_encode (65536 + (u - 55296) * 1024 + (u2 - 56320)) @ unquote r''
                          else utf8_encode 65533 @ unquote r')
                     | _ \<Rightarrow> utf8_encode 65533 @ unquote r')
                | _ \<Rightarrow> [])
             else simple_escape e # unquote r)
      else c # unquote cs)"

definition decode_string :: "string \<Rightarrow> string" where
  "decode_string after_quote = utf8_coerce (unquote after_quote)"

text \<open>
  The members of a valid object after its opening brace, each with the text of its value; the
  last of two members with the same name wins.
\<close>

fun raw_members :: "nat \<Rightarrow> (string, string) amap \<Rightarrow> string \<Rightarrow> (string, string) amap" where
  "raw_members 0 m s = m"
| "raw_members (Suc n) m s =
     (case skip_ws s of
        c # cs \<Rightarrow>
          if c \<noteq> QUOTE then m
          else (case skip_string cs of
            None \<Rightarrow> m
          | Some r \<Rightarrow>
              let v = skip_ws (drop 1 (skip_ws r)) in
              (case scan_value v of
                 None \<Rightarrow> m
               | Some r2 \<Rightarrow>
                   let m' = AList.update (decode_string cs) (take (length v - length r2) v) m in
                   (case skip_ws r2 of
                      e # es \<Rightarrow> if e = CHR '','' then raw_members n m' es else m'
                    | [] \<Rightarrow> m')))
      | [] \<Rightarrow> m)"

datatype 'a unmarshalled = BadJSON | Null | Decoded 'a

text \<open>\<open>json.Unmarshal\<close> into a nil map: \<open>Null\<close> leaves the map nil.\<close>

definition unmarshal_object :: "string \<Rightarrow> (string, string) amap unmarshalled" where
  "unmarshal_object s =
     (if \<not> json_Valid s then BadJSON
      else case skip_ws s of
        c # cs \<Rightarrow>
          if c = CHR ''{'' then Decoded (raw_members (Suc (length s)) [] cs)
          else if c = CHR ''n'' then Null else BadJSON
      | [] \<Rightarrow> BadJSON)"

text \<open>Into a string, an \<open>int\<close> and a \<open>uint64\<close>: \<open>null\<close> is no error and leaves the zero value.\<close>

definition unmarshal_string :: "string \<Rightarrow> string unmarshalled" where
  "unmarshal_string s =
     (if \<not> json_Valid s then BadJSON
      else case skip_ws s of
        c # cs \<Rightarrow> if c = QUOTE then Decoded (decode_string cs) else if c = CHR ''n'' then Null else BadJSON
      | [] \<Rightarrow> BadJSON)"

definition number_text :: "string \<Rightarrow> string" where
  "number_text s = takeWhile (\<lambda>c. \<not> is_ws c) (skip_ws s)"

definition unmarshal_int :: "string \<Rightarrow> int unmarshalled" where
  "unmarshal_int s =
     (if \<not> json_Valid s then BadJSON
      else
        let t = number_text s; digits = (if prefix ''-'' t then drop 1 t else t);
            v = (if prefix ''-'' t then - int (decimal digits) else int (decimal digits))
        in if t = ''null'' then Null
           else if digits = [] \<or> \<not> list_all is_digit digits \<or> v < - (2 ^ 63) \<or> v \<ge> 2 ^ 63 then BadJSON
           else Decoded v)"

definition unmarshal_uint64 :: "string \<Rightarrow> nat unmarshalled" where
  "unmarshal_uint64 s =
     (if \<not> json_Valid s then BadJSON
      else
        let t = number_text s in
        if t = ''null'' then Null
        else if t = [] \<or> \<not> list_all is_digit t \<or> decimal t \<ge> 2 ^ 64 then BadJSON
        else Decoded (decimal t))"

section \<open>Encoding\<close>

definition u_escape :: "nat \<Rightarrow> string" where
  "u_escape n = [BACKSLASH] @ ''u00'' @ [hex_digit (n div 16), hex_digit (n mod 16)]"

text \<open>U+2028 and U+2029 in UTF-8.\<close>

definition line_separator :: "string \<Rightarrow> bool" where
  "line_separator s \<longleftrightarrow> prefix [CHR 0xE2, CHR 0x80, CHR 0xA8] s \<or> prefix [CHR 0xE2, CHR 0x80, CHR 0xA9] s"

definition html_char :: "char \<Rightarrow> bool" where
  "html_char c \<longleftrightarrow> c = CHR ''<'' \<or> c = CHR ''>'' \<or> c = CHR ''&''"

definition separator_escape :: "string \<Rightarrow> string" where
  "separator_escape s =
     [BACKSLASH] @ (if prefix [CHR 0xE2, CHR 0x80, CHR 0xA8] s then ''u2028'' else ''u2029'')"

function quote_body :: "string \<Rightarrow> string" where
  "quote_body s =
     (case s of
        [] \<Rightarrow> []
      | c # cs \<Rightarrow>
          if c = QUOTE \<or> c = BACKSLASH then BACKSLASH # c # quote_body cs
          else if c = CHR 0x08 then BACKSLASH # CHR ''b'' # quote_body cs
          else if c = CHR 0x0C then BACKSLASH # CHR ''f'' # quote_body cs
          else if c = LF then BACKSLASH # CHR ''n'' # quote_body cs
          else if c = CR then BACKSLASH # CHR ''r'' # quote_body cs
          else if c = TAB then BACKSLASH # CHR ''t'' # quote_body cs
          else if c < CHR '' '' \<or> html_char c then u_escape (of_char c) @ quote_body cs
          else if line_separator s then separator_escape s @ quote_body (drop 3 s)
          else if rune_width s = 0 then BACKSLASH # ''ufffd'' @ quote_body cs
          else take (rune_width s) s @ quote_body (drop (rune_width s) s))"
  by pat_completeness auto
termination
  by (relation "measure length") (auto simp: line_separator_def prefix_def)

declare quote_body.simps [simp del]

definition json_quote :: "string \<Rightarrow> string" where
  "json_quote s = [QUOTE] @ quote_body s @ [QUOTE]"

text \<open>\<open>compact\<close> with HTML escaping, which encoding applies to a \<open>RawMessage\<close>.\<close>

function compact :: "bool \<Rightarrow> string \<Rightarrow> string" where
  "compact in_string s =
     (case s of
        [] \<Rightarrow> []
      | c # cs \<Rightarrow>
          if html_char c then u_escape (of_char c) @ compact in_string cs
          else if line_separator s then separator_escape s @ compact in_string (drop 3 s)
          else if in_string then
            (if c = BACKSLASH then c # take 1 cs @ compact True (drop 1 cs)
             else c # compact (c \<noteq> QUOTE) cs)
          else if is_ws c then compact False cs
          else c # compact (c = QUOTE) cs)"
  by pat_completeness auto
termination
  by (relation "measure (\<lambda>(b, s). length s)") (auto simp: line_separator_def prefix_def)

declare compact.simps [simp del]

definition marshal_raw_object :: "(string, string) amap \<Rightarrow> string" where
  "marshal_raw_object m =
     ''{'' @ join_with '','' (map (\<lambda>(k, raw). json_quote k @ '':'' @ compact False raw) (sort_key fst m))
     @ ''}''"

definition marshal_string_map :: "(string, string) amap \<Rightarrow> string" where
  "marshal_string_map m =
     ''{'' @ join_with '','' (map (\<lambda>(k, v). json_quote k @ '':'' @ json_quote v) (sort_key fst m)) @ ''}''"

end
