(* ===== verification/Http_Llm.thy ===== *)
theory Http_Llm
  imports Routes Go_Url Go_Json
begin

text \<open>
  Package \<open>internal/httpgw\<close>, \<open>llm.go\<close>: the checks an LLM request body goes through before it is
  forwarded, and the token counts taken from responses. Requests and replies of the HTTP gateway
  are declared here because both files of the package use them. \<open>uint64\<close> counters are
  \<^typ>\<open>64 word\<close>, so the sums wrap as in Go.
\<close>

datatype request_body = NilBody | UnreadableBody | BodyBytes bytes

record in_request =
  iq_Method :: string
  iq_URL :: go_url
  iq_Header :: header
  iq_RemoteAddr :: string
  iq_ContentLength :: int
  iq_Body :: request_body

record reply =
  rp_Status :: int
  rp_Header :: header
  rp_Body :: bytes

section \<open>Usage capture\<close>

definition maxLLMUsageCaptureBytes :: nat where
  "maxLLMUsageCaptureBytes = 8388608"

record usage_capture =
  uc_payload :: bytes
  uc_truncated :: bool

definition newLLMUsageCapture :: usage_capture where
  "newLLMUsageCapture = \<lparr>uc_payload = [], uc_truncated = False\<rparr>"

definition capture_Write :: "usage_capture \<Rightarrow> bytes \<Rightarrow> usage_capture" where
  "capture_Write c payload =
     (if uc_truncated c then c
      else if length (uc_payload c) + length payload > maxLLMUsageCaptureBytes
      then c\<lparr>uc_truncated := True, uc_payload := []\<rparr>
      else c\<lparr>uc_payload := uc_payload c @ payload\<rparr>)"

definition capture_Clear :: "usage_capture \<Rightarrow> usage_capture" where
  "capture_Clear c = \<lparr>uc_payload = [], uc_truncated = False\<rparr>"

fun firstTokenCount :: "(string, string) amap \<Rightarrow> string list \<Rightarrow> 64 word" where
  "firstTokenCount usage [] = 0"
| "firstTokenCount usage (key # keys) =
     (case map_of usage key of
        None \<Rightarrow> firstTokenCount usage keys
      | Some raw \<Rightarrow>
          (case unmarshal_uint64 raw of
             BadJSON \<Rightarrow> firstTokenCount usage keys
           | Null \<Rightarrow> 0
           | Decoded n \<Rightarrow> word_of_nat n))"

definition parseLLMUsageObject :: "string \<Rightarrow> 64 word \<times> 64 word" where
  "parseLLMUsageObject payload =
     (case unmarshal_object payload of
        Decoded usage \<Rightarrow>
          let inputTokens = firstTokenCount usage [''input_tokens'', ''prompt_tokens''];
              inputTokens' =
                (if map_of usage ''input_tokens'' \<noteq> None
                 then inputTokens + firstTokenCount usage [''cache_creation_input_tokens'']
                      + firstTokenCount usage [''cache_read_input_tokens'']
                 else inputTokens)
          in (inputTokens', firstTokenCount usage [''output_tokens'', ''completion_tokens''])
      | _ \<Rightarrow> (0, 0))"

definition max_counts :: "64 word \<times> 64 word \<Rightarrow> 64 word \<times> 64 word \<Rightarrow> 64 word \<times> 64 word" where
  "max_counts a b = (max (fst a) (fst b), max (snd a) (snd b))"

text \<open>The recursion goes into nested objects, whose text is shorter; the fuel is the text's length and one.\<close>

fun extract_usage :: "nat \<Rightarrow> string \<Rightarrow> 64 word \<times> 64 word" where
  "extract_usage 0 payload = (0, 0)"
| "extract_usage (Suc n) payload =
     (case unmarshal_object payload of
        Decoded object \<Rightarrow>
          (let counts = (case map_of object ''usage'' of
                           None \<Rightarrow> (0, 0) | Some usage \<Rightarrow> parseLLMUsageObject usage);
               counts' = (case map_of object ''response'' of
                            None \<Rightarrow> counts
                          | Some nested \<Rightarrow> max_counts counts (extract_usage n nested))
           in (case map_of object ''message'' of
                 None \<Rightarrow> counts'
               | Some nested \<Rightarrow> max_counts counts' (extract_usage n nested)))
      | _ \<Rightarrow> (0, 0))"

definition extractLLMTokenUsage :: "string \<Rightarrow> 64 word \<times> 64 word" where
  "extractLLMTokenUsage payload = extract_usage (Suc (length payload)) payload"

definition usage_line :: "64 word \<times> 64 word \<Rightarrow> string \<Rightarrow> 64 word \<times> 64 word" where
  "usage_line counts line =
     (let trimmed = trim_space line in
      if \<not> prefix ''data:'' trimmed then counts
      else
        let data = trim_space (trim_prefix trimmed ''data:'') in
        if data = [] \<or> data = ''[DONE]'' then counts
        else max_counts counts (extractLLMTokenUsage data))"

definition TokenUsage :: "usage_capture \<Rightarrow> bool \<Rightarrow> 64 word \<times> 64 word" where
  "TokenUsage c streaming =
     (if uc_truncated c \<or> uc_payload c = [] then (0, 0)
      else if \<not> streaming then extractLLMTokenUsage (uc_payload c)
      else foldl usage_line (0, 0) (split_on LF (uc_payload c)))"

section \<open>Request validation\<close>

record llm_request_error =
  le_Status :: int
  le_Code :: string
  le_Message :: string

definition invalidLLMRequest :: "string \<Rightarrow> llm_request_error" where
  "invalidLLMRequest message = \<lparr>le_Status = 400, le_Code = ''invalid_request'', le_Message = message\<rparr>"

definition request_too_large :: llm_request_error where
  "request_too_large =
     \<lparr>le_Status = 413, le_Code = ''request_too_large'', le_Message = ''request body is too large''\<rparr>"

definition output_field :: "(string, string) amap \<Rightarrow> string \<Rightarrow> string \<Rightarrow> llm_request_error + string" where
  "output_field object provider endpointPath =
     (if provider = ProviderOpenAI then
        (if endpointPath = ''/v1/responses'' then Inr ''max_output_tokens''
         else if endpointPath = ''/v1/chat/completions'' then
           (let modern = (map_of object ''max_completion_tokens'' \<noteq> None);
                legacy = (map_of object ''max_tokens'' \<noteq> None)
            in if modern \<and> legacy then Inl (invalidLLMRequest ''use only one output token field'')
               else if legacy then Inr ''max_tokens'' else Inr ''max_completion_tokens'')
         else Inl (invalidLLMRequest ''endpoint is not supported''))
      else Inr ''max_tokens'')"

definition enforceOutputLimit ::
  "(string, string) amap \<Rightarrow> string \<Rightarrow> string \<Rightarrow> int \<Rightarrow> llm_request_error + (string, string) amap" where
  "enforceOutputLimit object provider endpointPath limit =
     (case output_field object provider endpointPath of
        Inl e \<Rightarrow> Inl e
      | Inr field \<Rightarrow>
          (case map_of object field of
             Some raw \<Rightarrow>
               (case unmarshal_int raw of
                  Decoded requested \<Rightarrow>
                    if requested < 1
                    then Inl (invalidLLMRequest (field @ '' must be a positive integer''))
                    else if requested > limit
                    then Inl \<lparr>le_Status = 400, le_Code = ''output_limit_exceeded'',
                               le_Message = ''requested output tokens exceed this route'' @ [CHR 0x27]
                                 @ ''s limit''\<rparr>
                    else Inr object
                | _ \<Rightarrow> Inl (invalidLLMRequest (field @ '' must be a positive integer'')))
           | None \<Rightarrow> Inr (AList.update field (itoa limit) object)))"

definition model_allowed :: "http_policy \<Rightarrow> (string, string) amap \<Rightarrow> bool" where
  "model_allowed policy object =
     (case map_of object ''model'' of
        None \<Rightarrow> False
      | Some raw \<Rightarrow>
          (case unmarshal_string raw of
             BadJSON \<Rightarrow> False
           | Null \<Rightarrow> AllowsModel policy []
           | Decoded model \<Rightarrow> AllowsModel policy model))"

definition prepareLLMRequest :: "in_request \<Rightarrow> http_route \<Rightarrow> string \<Rightarrow> llm_request_error + bytes" where
  "prepareLLMRequest request route endpointPath =
     (let limit = hp_MaxRequestBytes (hr_Policy route) in
      case iq_Body request of
        NilBody \<Rightarrow> Inl (invalidLLMRequest ''request body is required'')
      | body \<Rightarrow>
          if iq_ContentLength request > limit then Inl request_too_large
          else (case body of
            BodyBytes content \<Rightarrow>
              let payload = take (nat (limit + 1)) content in
              if int (length payload) > limit then Inl request_too_large
              else (case unmarshal_object payload of
                Decoded object \<Rightarrow>
                  if \<not> model_allowed (hr_Policy route) object
                  then Inl \<lparr>le_Status = 403, le_Code = ''model_not_allowed'',
                             le_Message = ''model is not allowed by this route''\<rparr>
                  else (case enforceOutputLimit object (hr_Provider route) endpointPath
                               (hp_MaxOutputTokens (hr_Policy route)) of
                    Inl e \<Rightarrow> Inl e
                  | Inr object' \<Rightarrow> Inr (marshal_raw_object object'))
              | _ \<Rightarrow> Inl (invalidLLMRequest ''request body must be a JSON object''))
          | _ \<Rightarrow> Inl (invalidLLMRequest ''request body could not be read'')))"

section \<open>Errors in the provider's format\<close>

definition llm_error_payload :: "string \<Rightarrow> string \<Rightarrow> string \<Rightarrow> string" where
  "llm_error_payload provider code message =
     (if provider = ProviderAnthropic then
        ''{'' @ json_quote ''error'' @ '':''
        @ marshal_string_map [(''type'', code), (''message'', ''airlock: '' @ message)]
        @ '','' @ json_quote ''type'' @ '':'' @ json_quote ''error'' @ ''}''
      else
        ''{'' @ json_quote ''error'' @ '':''
        @ marshal_string_map [(''message'', ''airlock: '' @ message), (''type'', ''airlock_policy_error''),
            (''code'', code)]
        @ ''}'')"

definition writeLLMError :: "header \<Rightarrow> string \<Rightarrow> int \<Rightarrow> string \<Rightarrow> string \<Rightarrow> reply" where
  "writeLLMError h provider status code message =
     \<lparr>rp_Status = status,
      rp_Header = header_Set (header_Set h ''Content-Type'' ''application/json'') ''Cache-Control'' ''no-store'',
      rp_Body = llm_error_payload provider code message @ [LF]\<rparr>"

section \<open>Numbers written by the gateway are read back\<close>

lemma digit_not_ws: "is_digit c \<Longrightarrow> \<not> is_ws c"
  by (auto simp: is_ws_def char_class_defs)

lemma digit_plain: "is_digit c \<Longrightarrow> c \<noteq> QUOTE \<and> c \<noteq> CHR ''{'' \<and> c \<noteq> CHR ''['' \<and> c \<noteq> CHR ''t''
    \<and> c \<noteq> CHR ''f'' \<and> c \<noteq> CHR ''n'' \<and> c \<noteq> CHR ''-''"
  by (auto simp: char_class_defs)

lemma digits_scanned:
  assumes "s = c # cs" "c \<noteq> CHR ''0''" "list_all is_digit s"
  shows "json_Valid s \<and> number_text s = s"
proof -
  have c: "is_digit c" using assms by simp
  have drop: "dropWhile is_digit s = []" using assms(3) by (simp add: list_all_iff)
  have "skip_ws s = s" using assms(1) digit_not_ws [OF c] by (simp add: skip_ws_def)
  moreover have "takeWhile (\<lambda>c. \<not> is_ws c) s = s"
    using assms(3) digit_not_ws by (auto simp: list_all_iff)
  moreover have "skip_number s = Some []"
  proof -
    have "skip_digits s = Some []" using assms(1) c drop by (simp add: skip_digits_def)
    moreover have "\<not> prefix ''-'' s" "\<not> prefix ''0'' s" using assms(1,2) digit_plain [OF c] by auto
    ultimately show ?thesis by (simp add: skip_number_def skip_fraction_def skip_exponent_def)
  qed
  then have "scan_value s = Some []"
    using assms(1) digit_plain [OF c] by (auto simp: scan_value_def)
  ultimately show ?thesis by (simp add: json_Valid_def number_text_def skip_ws_def)
qed

lemma unmarshal_int_itoa:
  assumes "1 \<le> n" "n < 2 ^ 63"
  shows "unmarshal_int (itoa n) = Decoded n"
proof -
  have i: "itoa n = nat_digits (nat n)" using assms by (simp add: itoa_def)
  obtain c cs where h: "nat_digits (nat n) = c # cs" "c \<noteq> CHR ''0''" "is_digit c"
    using nat_digits_head [of "nat n"] assms by auto
  have v: "json_Valid (itoa n)" "number_text (itoa n) = itoa n"
    using digits_scanned [OF h(1,2) nat_digits_all] i by simp_all
  have "\<not> prefix ''-'' (itoa n)" "itoa n \<noteq> ''null''"
    using h digit_plain [OF h(3)] i by auto
  moreover have "list_all is_digit (itoa n)" "itoa n \<noteq> []" "decimal (itoa n) = nat n"
    using i by (simp_all add: nat_digits_all nat_digits_decimal)
  ultimately show ?thesis using v assms by (simp add: unmarshal_int_def Let_def)
qed

section \<open>The output limit\<close>

lemma enforceOutputLimit_ok:
  assumes "enforceOutputLimit object provider path limit = Inr object'" "1 \<le> limit" "limit < 2 ^ 63"
  shows "\<exists>field n. output_field object provider path = Inr field
    \<and> (\<exists>raw. map_of object' field = Some raw \<and> unmarshal_int raw = Decoded n) \<and> 1 \<le> n \<and> n \<le> limit
    \<and> (\<forall>k. k \<noteq> field \<longrightarrow> map_of object' k = map_of object k)
    \<and> (map_of object field \<noteq> None \<longrightarrow> object' = object)"
  using assms unmarshal_int_itoa [OF assms(2,3)]
  by (auto simp: enforceOutputLimit_def split: sum.splits option.splits unmarshalled.splits if_splits)

lemma prepareLLMRequest_ok:
  assumes "prepareLLMRequest request route path = Inr validated"
  shows "\<exists>content object object'. iq_Body request = BodyBytes content
    \<and> int (length content) \<le> hp_MaxRequestBytes (hr_Policy route)
    \<and> iq_ContentLength request \<le> hp_MaxRequestBytes (hr_Policy route)
    \<and> unmarshal_object content = Decoded object \<and> model_allowed (hr_Policy route) object
    \<and> enforceOutputLimit object (hr_Provider route) path (hp_MaxOutputTokens (hr_Policy route)) = Inr object'
    \<and> validated = marshal_raw_object object'"
proof -
  let ?limit = "hp_MaxRequestBytes (hr_Policy route)"
  obtain content where c: "iq_Body request = BodyBytes content"
    using assms by (auto simp: prepareLLMRequest_def Let_def split: request_body.splits if_splits)
  have len: "int (length (take (nat (?limit + 1)) content)) \<le> ?limit" "iq_ContentLength request \<le> ?limit"
    using assms c by (auto simp: prepareLLMRequest_def Let_def split: if_splits)
  then have whole: "take (nat (?limit + 1)) content = content" by (auto simp: min_def split: if_splits)
  from assms c len whole show ?thesis
    by (auto simp: prepareLLMRequest_def Let_def split: unmarshalled.splits if_splits sum.splits)
qed

section \<open>Nested objects are shorter\<close>

lemma length_skip_ws: "length (skip_ws s) \<le> length s"
  by (simp add: skip_ws_def length_dropWhile_le)

lemma skip_string_length: "skip_string s = Some r \<Longrightarrow> length r \<le> length s"
proof (induction s arbitrary: r rule: skip_string.induct)
  case (2 c cs)
  consider (q) "c = QUOTE" | (b) "c \<noteq> QUOTE" "c = BACKSLASH" | (o) "c \<noteq> QUOTE" "c \<noteq> BACKSLASH" by blast
  then show ?case
  proof cases
    case q
    with "2.prems" show ?thesis by simp
  next
    case o
    with 2 show ?thesis by (force split: if_splits)
  next
    case b
    with "2.prems" obtain e t where cs: "cs = e # t" by (auto split: list.splits)
    show ?thesis
    proof (cases "e = QUOTE \<or> e = BACKSLASH \<or> e \<in> set ''/bfnrt''")
      case True
      with "2.prems" b cs have "skip_string t = Some r" by auto
      with "2.IH"(1) b cs True show ?thesis by fastforce
    next
      case False
      with "2.prems" b cs obtain h1 h2 h3 h4 t' where "t = h1 # h2 # h3 # h4 # t'" "skip_string t' = Some r"
          "e = CHR ''u''" "list_all is_hex [h1, h2, h3, h4]"
        by (auto split: if_splits list.splits)
      with "2.IH"(2) b cs False show ?thesis by fastforce
    qed
  qed
qed simp

lemma skip_digits_length: "skip_digits s = Some r \<Longrightarrow> length r \<le> length s"
  by (auto simp: skip_digits_def length_dropWhile_le le_SucI split: list.splits if_splits)

lemma skip_fraction_length: "skip_fraction s = Some r \<Longrightarrow> length r \<le> length s"
  by (auto simp: skip_fraction_def dest!: skip_digits_length split: if_splits)

lemma skip_exponent_length: "skip_exponent s = Some r \<Longrightarrow> length r \<le> length s"
  by (auto simp: skip_exponent_def Let_def dest!: skip_digits_length split: if_splits)

lemma skip_number_length: "skip_number s = Some r \<Longrightarrow> length r \<le> length s"
  by (fastforce simp: skip_number_def Let_def dest!: skip_digits_length skip_fraction_length
      skip_exponent_length split: if_splits option.splits)

lemma skip_lengths:
  "skip_value n d s = Some r \<Longrightarrow> length r \<le> length s"
  "skip_members n d s = Some r \<Longrightarrow> length r \<le> length s"
  "skip_elements n d s = Some r \<Longrightarrow> length r \<le> length s"
proof (induction n d s and n d s and n d s arbitrary: r and r and r
    rule: skip_value_skip_members_skip_elements.induct)
  case (2 n d s)
  then obtain c cs where s: "s = c # cs" by (auto split: list.splits)
  note ws = length_skip_ws [of cs]
  show ?case
  proof (cases "c = CHR ''{'' \<or> c = CHR ''[''")
    case True
    with 2 s ws show ?thesis by (fastforce simp: Let_def split: if_splits)
  next
    case False
    with "2.prems" have "skip_string cs = Some r \<or> (\<exists>k. r = drop k (c # cs)) \<or> skip_number (c # cs) = Some r"
      unfolding s
      by (simp only: skip_value.simps list.case de_Morgan_disj simp_thms if_False option.inject
          split: if_split_asm) blast+
    then show ?thesis using s by (auto dest!: skip_string_length skip_number_length)
  qed
next
  case (4 n d s)
  from 4(3) obtain cs r1 ds r2 e es where p: "s = QUOTE # cs" "skip_string cs = Some r1"
      "skip_ws r1 = CHR '':'' # ds" "skip_value n d (skip_ws ds) = Some r2" "skip_ws r2 = e # es"
      "e = CHR ''}'' \<and> r = es \<or> e \<noteq> CHR ''}'' \<and> e = CHR '','' \<and> skip_members n d (skip_ws es) = Some r"
    by (auto split: list.splits option.splits if_splits)
  have "length r2 \<le> length (skip_ws ds)" using 4(1) p by blast
  moreover have "length r \<le> length es"
    using 4(2) p length_skip_ws [of es] by fastforce
  ultimately show ?case
    using p skip_string_length [OF p(2)] length_skip_ws [of r1] length_skip_ws [of ds] length_skip_ws [of r2]
    by simp
next
  case (6 n d s)
  from 6(3) obtain r2 e es where p: "skip_value n d s = Some r2" "skip_ws r2 = e # es"
      "e = CHR '']'' \<and> r = es \<or> e \<noteq> CHR '']'' \<and> e = CHR '','' \<and> skip_elements n d (skip_ws es) = Some r"
    by (auto split: list.splits option.splits if_splits)
  have "length r2 \<le> length s" using 6(1) p by blast
  moreover have "length r \<le> length es"
    using 6(2) p length_skip_ws [of es] by fastforce
  ultimately show ?case using p length_skip_ws [of r2] by simp
qed simp_all

lemma scan_value_length: "scan_value s = Some r \<Longrightarrow> length r \<le> length s"
  unfolding scan_value_def by (rule skip_lengths(1))

lemma raw_members_length:
  "map_of (raw_members n m s) k = Some raw \<Longrightarrow> map_of m k = Some raw \<or> length raw \<le> length s"
proof (induction n m s rule: raw_members.induct)
  case (2 n m s)
  show ?case
  proof (cases "\<exists>cs r r2. skip_ws s = QUOTE # cs \<and> skip_string cs = Some r
      \<and> scan_value (skip_ws (drop 1 (skip_ws r))) = Some r2")
    case False
    with "2.prems" have "map_of m k = Some raw"
      by (auto simp: Let_def split: list.splits option.splits if_splits)
    then show ?thesis by simp
  next
    case True
    then obtain cs r r2 where p: "skip_ws s = QUOTE # cs" "skip_string cs = Some r"
      "scan_value (skip_ws (drop 1 (skip_ws r))) = Some r2" by blast
    define v where "v = skip_ws (drop 1 (skip_ws r))"
    have v: "length v \<le> length s" "length r2 \<le> length v"
      using p skip_string_length [OF p(2)] length_skip_ws [of s] length_skip_ws [of r]
        length_skip_ws [of "drop 1 (skip_ws r)"] scan_value_length [OF p(3)]
      by (simp_all add: v_def)
    define m' where "m' = AList.update (decode_string cs) (take (length v - length r2) v) m"
    have m': "map_of m' k = Some raw \<Longrightarrow> map_of m k = Some raw \<or> length raw \<le> length s"
      using v by (auto simp: m'_def split: if_splits)
    show ?thesis
    proof (cases "\<exists>es. skip_ws r2 = CHR '','' # es")
      case True
      then obtain es where es: "skip_ws r2 = CHR '','' # es" by blast
      then have "map_of (raw_members n m' es) k = Some raw"
        using "2.prems" p by (simp add: Let_def v_def m'_def)
      moreover have "length es \<le> length s" using es v length_skip_ws [of r2] by simp
      ultimately show ?thesis
        using "2.IH" [OF p(1) _ p(2) v_def _ m'_def es] p(3) m' v_def by force
    next
      case False
      then have "map_of m' k = Some raw"
        using "2.prems" p by (auto simp: Let_def v_def m'_def split: list.splits if_splits)
      then show ?thesis by (rule m')
    qed
  qed
qed simp

lemma member_shorter:
  assumes "unmarshal_object s = Decoded object" "map_of object k = Some raw"
  shows "length raw < length s"
proof -
  obtain cs where "skip_ws s = CHR ''{'' # cs" "object = raw_members (Suc (length s)) [] cs"
    using assms(1) by (auto simp: unmarshal_object_def split: if_splits list.splits)
  then show ?thesis
    using raw_members_length [of "Suc (length s)" "[]" cs k raw] assms(2) length_skip_ws [of s] by simp
qed

lemma extract_usage_fuel:
  "length payload < n \<Longrightarrow> extract_usage n payload = extractLLMTokenUsage payload"
proof (induction "length payload" arbitrary: payload n rule: less_induct)
  case less
  obtain m where n: "n = Suc m" using less.prems by (cases n) auto
  have "extract_usage m raw = extract_usage (length payload) raw"
    if "unmarshal_object payload = Decoded object" "map_of object k = Some raw" for object k raw
  proof -
    have "length raw < length payload" using member_shorter that by blast
    with less n show ?thesis by simp
  qed
  then show ?case
    unfolding n extractLLMTokenUsage_def extract_usage.simps Let_def
    by (auto split: unmarshalled.splits option.splits)
qed

section \<open>Capturing the usage\<close>

lemma capture_truncated: "uc_truncated c \<Longrightarrow> foldl capture_Write c chunks = c"
  by (induction chunks) (simp_all add: capture_Write_def)

lemma capture_fold:
  assumes "\<not> uc_truncated c" "length (uc_payload c) \<le> maxLLMUsageCaptureBytes"
  shows "foldl capture_Write c chunks =
    (if length (uc_payload c @ concat chunks) \<le> maxLLMUsageCaptureBytes
     then c\<lparr>uc_payload := uc_payload c @ concat chunks\<rparr>
     else c\<lparr>uc_truncated := True, uc_payload := []\<rparr>)"
  using assms
proof (induction chunks arbitrary: c)
  case (Cons chunk chunks)
  show ?case
  proof (cases "length (uc_payload c) + length chunk > maxLLMUsageCaptureBytes")
    case True
    with Cons.prems have "capture_Write c chunk = c\<lparr>uc_truncated := True, uc_payload := []\<rparr>"
      by (simp add: capture_Write_def)
    with True show ?thesis by (simp add: capture_truncated)
  next
    case False
    with Cons.prems have "capture_Write c chunk = c\<lparr>uc_payload := uc_payload c @ chunk\<rparr>"
      by (simp add: capture_Write_def)
    with False Cons.IH [of "c\<lparr>uc_payload := uc_payload c @ chunk\<rparr>"] Cons.prems show ?thesis by simp
  qed
qed simp

text \<open>A concrete LLM route and request for the witness.\<close>

definition quoted :: "string \<Rightarrow> string" where
  "quoted s = [QUOTE] @ s @ [QUOTE]"

definition sample_llm_route :: http_route where
  "sample_llm_route = \<lparr>hr_Name = ''LLM'', hr_Alias = ''llm'', hr_Kind = KindLLM,
     hr_Provider = ProviderAnthropic, hr_TargetSecretRef = ''routes/llm'',
     hr_CapabilityDigest = replicate 32 (CHR ''a''), hr_Policy = NewLLMPolicy ProviderAnthropic [''m''] 100,
     hr_Egress = ''Direct'', hr_Enabled = True, hr_Usage = zero_usage\<rparr>"

definition sample_llm_request :: in_request where
  "sample_llm_request = \<lparr>iq_Method = ''POST'', iq_URL = empty_url, iq_Header = [], iq_RemoteAddr = [],
     iq_ContentLength = 13, iq_Body = BodyBytes (''{'' @ quoted ''model'' @ '':'' @ quoted ''m'' @ ''}'')\<rparr>"

lemma trim_space_m: "trim_space ''m'' = ''m''"
  by (simp add: trim_space_def go_spaces_def trim_with.simps)

lemma sample_llm_policy:
  "hr_Policy sample_llm_route = \<lparr>hp_AllowedMethods = [''POST''], hp_AllowedQueryKeys = [],
     hp_AllowedPaths = [''/v1/messages''], hp_AllowedModels = [''m''], hp_MaxRequestBytes = 2097152,
     hp_MaxOutputTokens = 100, hp_RequestsPerMinute = 60, hp_MaxConcurrent = 4, hp_TrackUsage = False\<rparr>"
  by (simp add: sample_llm_route_def NewLLMPolicy_def NewHTTPPolicy_def DefaultLLMMaxRequestBytes_def
      DefaultLLMRequestsPerMinute_def DefaultLLMMaxConcurrent_def gset_of_def gset_insert_def
      to_upper_def upper_char_def char_class_defs)

lemma sample_llm_valid: "Validate sample_llm_route = None" "EffectiveKind sample_llm_route = KindLLM"
proof -
  have "alias_pattern ''llm''"
    by (simp add: alias_pattern_def slug_pattern_def alias_tail_def char_class_defs)
  moreover have "to_upper ''POST'' = ''POST''"
    by (simp add: to_upper_def upper_char_def char_class_defs)
  moreover have "hr_Alias sample_llm_route = ''llm''" "hr_TargetSecretRef sample_llm_route = ''routes/llm''"
      "hr_Egress sample_llm_route = ''Direct''" "hr_Provider sample_llm_route = ProviderAnthropic"
    by (simp_all add: sample_llm_route_def)
  moreover show kind: "EffectiveKind sample_llm_route = KindLLM"
    by (simp add: EffectiveKind_def sample_llm_route_def)
  ultimately show "Validate sample_llm_route = None"
    unfolding Validate_def sample_llm_policy kind
    by (simp add: validLLMProvider_def llm_bounds_violated_def AllowsMethod_def providerAllowsPath_def
        model_malformed_def trim_space_m contains_any_def)
qed

lemma sample_llm_object:
  "unmarshal_object (''{'' @ quoted ''model'' @ '':'' @ quoted ''m'' @ ''}'') = Decoded [(''model'', quoted ''m'')]"
  by (simp add: unmarshal_object_def json_Valid_def scan_value_def quoted_def skip_ws_def is_ws_def
      eval_nat_numeral maxNestingDepth_def Let_def less_char_def decode_string_def utf8_coerce_valid
      utf8_valid_ascii)

lemma sample_llm_model: "unmarshal_string (quoted ''m'') = Decoded ''m''"
  by (simp add: unmarshal_string_def json_Valid_def scan_value_def quoted_def skip_ws_def is_ws_def
      eval_nat_numeral less_char_def decode_string_def utf8_coerce_valid utf8_valid_ascii)

section \<open>Properties\<close>

lemma llm_route_bounds:
  assumes "Validate route = None" "EffectiveKind route = KindLLM"
  shows "1 \<le> hp_MaxOutputTokens (hr_Policy route)" "hp_MaxOutputTokens (hr_Policy route) < 2 ^ 63"
    "\<not> AllowsModel (hr_Policy route) []"
  using assms
  by (auto simp: Validate_def llm_bounds_violated_def AllowsModel_def list_ex_iff model_malformed_def
      split: if_splits)

lemma output_field_names:
  "output_field object provider path = Inr field \<Longrightarrow>
   field = ''max_output_tokens'' \<or> field = ''max_tokens'' \<or> field = ''max_completion_tokens''"
  by (auto simp: output_field_def Let_def split: if_splits)

text \<open>
  C15: A request body that an LLM route forwards obeys the route's policy: the body was a JSON
  object within the size limit; the object that is forwarded names an allowed model; the output
  limit field that this provider and endpoint use is present and is an integer between 1 and the
  route's maximum, having been set to the maximum when the client left it out; and every other
  member is the client's.
\<close>

theorem llm_request_policy_enforced:
  assumes "Validate route = None" "EffectiveKind route = KindLLM"
    and "prepareLLMRequest request route path = Inr validated"
  shows "\<exists>content object object' field raw n rawModel model.
    iq_Body request = BodyBytes content
    \<and> int (length content) \<le> hp_MaxRequestBytes (hr_Policy route)
    \<and> unmarshal_object content = Decoded object \<and> validated = marshal_raw_object object'
    \<and> map_of object' ''model'' = Some rawModel \<and> unmarshal_string rawModel = Decoded model
    \<and> AllowsModel (hr_Policy route) model
    \<and> output_field object (hr_Provider route) path = Inr field
    \<and> map_of object' field = Some raw \<and> unmarshal_int raw = Decoded n
    \<and> 1 \<le> n \<and> n \<le> hp_MaxOutputTokens (hr_Policy route)
    \<and> (\<forall>k. k \<noteq> field \<longrightarrow> map_of object' k = map_of object k)
    \<and> (map_of object field = None \<longrightarrow> raw = itoa (hp_MaxOutputTokens (hr_Policy route)))"
proof -
  note bounds = llm_route_bounds [OF assms(1,2)]
  obtain content object object' where p: "iq_Body request = BodyBytes content"
      "int (length content) \<le> hp_MaxRequestBytes (hr_Policy route)"
      "unmarshal_object content = Decoded object" "model_allowed (hr_Policy route) object"
      "enforceOutputLimit object (hr_Provider route) path (hp_MaxOutputTokens (hr_Policy route)) = Inr object'"
      "validated = marshal_raw_object object'"
    using prepareLLMRequest_ok [OF assms(3)] by blast
  from enforceOutputLimit_ok [OF p(5) bounds(1,2)] obtain field raw n where f:
      "output_field object (hr_Provider route) path = Inr field" "map_of object' field = Some raw"
      "unmarshal_int raw = Decoded n" "1 \<le> n" "n \<le> hp_MaxOutputTokens (hr_Policy route)"
      "\<forall>k. k \<noteq> field \<longrightarrow> map_of object' k = map_of object k" by blast
  have "''model'' \<noteq> field" using output_field_names [OF f(1)] by auto
  moreover obtain rawModel model where "map_of object ''model'' = Some rawModel"
      "unmarshal_string rawModel = Decoded model" "AllowsModel (hr_Policy route) model"
    using p(4) bounds(3) by (auto simp: model_allowed_def split: option.splits unmarshalled.splits)
  moreover have "map_of object field = None \<Longrightarrow> raw = itoa (hp_MaxOutputTokens (hr_Policy route))"
    using p(5) f(1,2) by (auto simp: enforceOutputLimit_def)
  ultimately show ?thesis using p f by metis
qed

theorem llm_request_policy_enforced_witness:
  "\<exists>validated object'. prepareLLMRequest sample_llm_request sample_llm_route ''/v1/messages'' = Inr validated
    \<and> validated = marshal_raw_object object' \<and> map_of object' ''max_tokens'' = Some ''100''"
proof -
  have "itoa 100 = ''100''" by (simp add: itoa_def nat_digits.simps char_of_def bit_0)
  moreover have "length (''{'' @ quoted ''model'' @ '':'' @ quoted ''m'' @ ''}'') = 13" by (simp add: quoted_def)
  ultimately have ok: "prepareLLMRequest sample_llm_request sample_llm_route ''/v1/messages''
      = Inr (marshal_raw_object [(''model'', quoted ''m''), (''max_tokens'', ''100'')])"
    using sample_llm_object sample_llm_model
    by (simp add: prepareLLMRequest_def sample_llm_request_def sample_llm_policy Let_def model_allowed_def
        AllowsModel_def enforceOutputLimit_def output_field_def del: append_Cons append_Nil)
      (simp add: sample_llm_route_def)
  show ?thesis
    using llm_request_policy_enforced [OF sample_llm_valid ok] ok by auto
qed

text \<open>
  Whatever chunks a response is delivered in, the usage capture never holds more than 8 MiB;
  up to that size it holds exactly the bytes delivered, and beyond it it holds nothing and reports
  no usage instead of a wrong one.
\<close>

theorem usage_capture_bounded:
  "length (uc_payload (foldl capture_Write newLLMUsageCapture chunks)) \<le> 8388608
    \<and> (if length (concat chunks) \<le> 8388608
       then foldl capture_Write newLLMUsageCapture chunks = \<lparr>uc_payload = concat chunks, uc_truncated = False\<rparr>
       else TokenUsage (foldl capture_Write newLLMUsageCapture chunks) streaming = (0, 0)
         \<and> uc_payload (foldl capture_Write newLLMUsageCapture chunks) = [])"
  using capture_fold [of newLLMUsageCapture chunks]
  by (auto simp: newLLMUsageCapture_def maxLLMUsageCaptureBytes_def TokenUsage_def)



end
