(* ===== verification/Go_Net.thy ===== *)
theory Go_Net
  imports Go_Url
begin

text \<open>
  The parts of Go's \<open>net\<close>, \<open>net/netip\<close> and \<open>strconv\<close> that the gateways and the daemon use:
  splitting and joining host and port, IP address parsing and classification, \<open>strconv.Atoi\<close>,
  and \<open>URL.Hostname\<close> / \<open>URL.Port\<close>. An IP address is its sixteen bytes, as in \<open>net.IP\<close>.
\<close>

section \<open>Host and port\<close>

definition SplitHostPort :: "string \<Rightarrow> (string \<times> string) option" where
  "SplitHostPort hostport =
     (case cut_last CHR '':'' hostport of
        None \<Rightarrow> None
      | Some (hostpart, port) \<Rightarrow>
          if prefix ''['' hostport then
            (case cut_char CHR '']'' hostport of (inside, after, found) \<Rightarrow>
               if \<not> found \<or> after \<noteq> CHR '':'' # port then None
               else if CHR ''['' \<in> set (drop 1 hostport) \<or> CHR '']'' \<in> set after then None
               else Some (drop 1 inside, port))
          else if CHR '':'' \<in> set hostpart then None
          else if CHR ''['' \<in> set hostport \<or> CHR '']'' \<in> set hostport then None
          else Some (hostpart, port))"

definition JoinHostPort :: "string \<Rightarrow> string \<Rightarrow> string" where
  "JoinHostPort host port =
     (if CHR '':'' \<in> set host then ''['' @ host @ '']:'' @ port else host @ '':'' @ port)"

definition url_splitHostPort :: "string \<Rightarrow> string \<times> string" where
  "url_splitHostPort hostPort =
     (case (case cut_last CHR '':'' hostPort of
              Some (h, p) \<Rightarrow> if list_all is_digit p then (h, p) else (hostPort, [])
            | None \<Rightarrow> (hostPort, [])) of (host, port) \<Rightarrow>
        (if prefix ''['' host \<and> suffix '']'' host then take (length host - 2) (drop 1 host) else host,
         port))"

definition url_Hostname :: "go_url \<Rightarrow> string" where
  "url_Hostname u = fst (url_splitHostPort (u_Host u))"

definition url_Port :: "go_url \<Rightarrow> string" where
  "url_Port u = snd (url_splitHostPort (u_Host u))"

section \<open>Numbers\<close>

definition Atoi :: "string \<Rightarrow> int option" where
  "Atoi s =
     (let digits = (if prefix ''-'' s \<or> prefix ''+'' s then drop 1 s else s);
          v = (if prefix ''-'' s then - int (decimal digits) else int (decimal digits))
      in if digits = [] \<or> \<not> list_all is_digit digits then None
         else if v < - (2 ^ 63) \<or> v \<ge> 2 ^ 63 then None else Some v)"

lemma Atoi_digits: "n < 2 ^ 63 \<Longrightarrow> Atoi (nat_digits n) = Some (int n)"
proof -
  assume "n < 2 ^ 63"
  then have "int n < 2 ^ 63" by (metis of_nat_less_iff of_nat_numeral of_nat_power)
  then show ?thesis by (simp add: Atoi_def nat_digits_all nat_digits_decimal digits_unsigned)
qed

section \<open>IP addresses\<close>

type_synonym ip = "nat list"

definition octet :: "string \<Rightarrow> nat option" where
  "octet s =
     (if s = [] \<or> \<not> list_all is_digit s \<or> (length s > 1 \<and> hd s = CHR ''0'') \<or> decimal s > 255
      then None else Some (decimal s))"

definition parse_ipv4 :: "string \<Rightarrow> ip option" where
  "parse_ipv4 s =
     (case map octet (split_on CHR ''.'' s) of
        [Some a, Some b, Some c, Some d] \<Rightarrow> Some [a, b, c, d]
      | _ \<Rightarrow> None)"

definition hex_number :: "string \<Rightarrow> nat" where
  "hex_number s = foldl (\<lambda>n c. 16 * n + (case hex_value c of None \<Rightarrow> 0 | Some v \<Rightarrow> v)) 0 s"

function ip6_loop :: "ip \<Rightarrow> nat option \<Rightarrow> string \<Rightarrow> (ip \<times> nat option) option" where
  "ip6_loop ip ell s =
     (if length ip \<ge> 16 then (if s = [] then Some (ip, ell) else None)
      else
        let ds = takeWhile (\<lambda>c. hex_value c \<noteq> None) s; r = drop (length ds) s;
            ip' = ip @ [hex_number ds div 256, hex_number ds mod 256]
        in if ds = [] \<or> length ds > 4 then None
           else if prefix ''.'' r then
             (if ell = None \<and> length ip \<noteq> 12 then None
              else if length ip + 4 > 16 then None
              else map_option (\<lambda>f. (ip @ f, ell)) (parse_ipv4 s))
           else if r = [] then Some (ip', ell)
           else if hd r \<noteq> CHR '':'' \<or> length r = 1 then None
           else if hd (drop 1 r) = CHR '':'' then
             (if ell \<noteq> None then None
              else if drop 2 r = [] then Some (ip', Some (length ip'))
              else ip6_loop ip' (Some (length ip')) (drop 2 r))
           else ip6_loop ip' ell (drop 1 r))"
  by pat_completeness auto
termination
  by (relation "measure (\<lambda>(ip, ell, s). length s)") (auto simp: Let_def)

declare ip6_loop.simps [simp del]

definition expand_ellipsis :: "ip \<times> nat option \<Rightarrow> ip option" where
  "expand_ellipsis p =
     (case p of (ip, ell) \<Rightarrow>
        if length ip < 16 then
          (case ell of None \<Rightarrow> None
           | Some e \<Rightarrow> Some (take e ip @ replicate (16 - length ip) 0 @ drop e ip))
        else if ell \<noteq> None then None else Some ip)"

definition parse_ipv6 :: "string \<Rightarrow> ip option" where
  "parse_ipv6 s =
     (if CHR ''%'' \<in> set s then None
      else if s = ''::'' then Some (replicate 16 0)
      else case (if prefix ''::'' s then ip6_loop [] (Some 0) (drop 2 s) else ip6_loop [] None s) of
        None \<Rightarrow> None
      | Some r \<Rightarrow> expand_ellipsis r)"

definition v4_prefix :: ip where
  "v4_prefix = replicate 10 0 @ [255, 255]"

text \<open>\<open>net.ParseIP\<close>: the first of dot, colon and percent sign decides the syntax.\<close>

definition ParseIP :: "string \<Rightarrow> ip option" where
  "ParseIP s =
     (case find (\<lambda>c. c \<in> {CHR ''.'', CHR '':'', CHR ''%''}) s of
        None \<Rightarrow> None
      | Some c \<Rightarrow>
          if c = CHR ''.'' then map_option ((@) v4_prefix) (parse_ipv4 s)
          else if c = CHR '':'' then parse_ipv6 s else None)"

definition To4 :: "ip \<Rightarrow> ip option" where
  "To4 ip =
     (if length ip = 4 then Some ip
      else if length ip = 16 \<and> take 12 ip = v4_prefix then Some (drop 12 ip) else None)"

definition IsLoopback :: "ip \<Rightarrow> bool" where
  "IsLoopback ip =
     (case To4 ip of
        Some ip4 \<Rightarrow> ip4 ! 0 = 127
      | None \<Rightarrow> ip = replicate 15 0 @ [1])"

definition IsPrivate :: "ip \<Rightarrow> bool" where
  "IsPrivate ip =
     (case To4 ip of
        Some ip4 \<Rightarrow> ip4 ! 0 = 10 \<or> (ip4 ! 0 = 172 \<and> ip4 ! 1 div 16 = 1) \<or> (ip4 ! 0 = 192 \<and> ip4 ! 1 = 168)
      | None \<Rightarrow> length ip = 16 \<and> ip ! 0 div 2 = 126)"

definition IsUnspecified :: "ip \<Rightarrow> bool" where
  "IsUnspecified ip \<longleftrightarrow> To4 ip = Some (replicate 4 0) \<or> ip = replicate 16 0"

section \<open>Lemmas\<close>

lemma cut_last_None: "cut_last c s = None \<longleftrightarrow> c \<notin> set s"
  by (induction s) (auto split: option.splits)

lemma cut_last_intro: "c \<notin> set b \<Longrightarrow> cut_last c (a @ c # b) = Some (a, b)"
  by (induction a) (simp_all add: cut_last_absent)

lemma cut_last_Some: "cut_last c s = Some (a, b) \<longleftrightarrow> s = a @ c # b \<and> c \<notin> set b"
proof
  show "cut_last c s = Some (a, b) \<Longrightarrow> s = a @ c # b \<and> c \<notin> set b"
    by (induction s arbitrary: a) (auto split: option.splits if_splits simp: cut_last_None)
qed (auto simp: cut_last_intro)

text \<open>Splitting what \<open>JoinHostPort\<close> joined gives the parts back.\<close>

lemma Split_JoinHostPort:
  assumes "CHR ''['' \<notin> set host" "CHR '']'' \<notin> set host" "CHR '':'' \<notin> set port"
    "CHR ''['' \<notin> set port" "CHR '']'' \<notin> set port"
  shows "SplitHostPort (JoinHostPort host port) = Some (host, port)"
proof (cases "CHR '':'' \<in> set host")
  case True
  have "cut_last CHR '':'' ((''['' @ host @ '']'') @ CHR '':'' # port) = Some (''['' @ host @ '']'', port)"
    by (rule cut_last_intro) (rule assms(3))
  moreover have "cut_char CHR '']'' ((''['' @ host) @ CHR '']'' # (CHR '':'' # port))
      = (''['' @ host, CHR '':'' # port, True)"
    using assms(2) by (subst cut_char_found) auto
  ultimately show ?thesis using True assms by (simp add: SplitHostPort_def JoinHostPort_def)
next
  case False
  have "cut_last CHR '':'' (host @ CHR '':'' # port) = Some (host, port)"
    by (rule cut_last_intro) (rule assms(3))
  moreover have "\<not> prefix ''['' (host @ CHR '':'' # port)"
    using assms(1) by (cases host) auto
  ultimately show ?thesis using False assms by (simp add: SplitHostPort_def JoinHostPort_def)
qed

end
