(* ===== verification/Egress.thy ===== *)
theory Egress
  imports Go_Net
begin

text \<open>
  Package \<open>internal/egress\<close>: the manager that sends requests and dials connections directly,
  through the configured proxy, or directly with a proxy fallback. The network is an argument
  (what dialing, TLS handshakes, the CONNECT exchange, the SOCKS5 library and the transports
  answer); every operation returns what it tried, in order, beside its result. A transport is
  determined by the proxy URL it was built with; closing its idle connections has no result and
  is left out, as are connection deadlines.
\<close>

abbreviation Direct :: string where "Direct \<equiv> ''Direct''"
abbreviation Proxy :: string where "Proxy \<equiv> ''Proxy''"
abbreviation Auto :: string where "Auto \<equiv> ''Auto''"

definition DefaultSecretReference :: string where
  "DefaultSecretReference = ''egress/default''"

text \<open>A network error as \<open>errors.Is\<close> and \<open>errors.As\<close> see it.\<close>

record net_failure =
  nf_Canceled :: bool
  nf_DeadlineExceeded :: bool
  nf_DNSError :: bool
  nf_OpError :: "string option"

datatype egress_error = ErrProxyUnavailable | EgressError string | NetError net_failure

record out_request =
  oq_Method :: string
  oq_URL :: string
  oq_Header :: header
  oq_Body :: "bytes option"
  oq_GetBody :: "bool option"
  oq_retryMarked :: bool

record http_response =
  rs_StatusCode :: int
  rs_Header :: header
  rs_Body :: bytes

text \<open>
  \<open>oq_Body\<close> is \<open>None\<close> for a nil body and for \<open>http.NoBody\<close>; \<open>oq_GetBody\<close> is \<open>None\<close> for a nil
  \<open>GetBody\<close> and otherwise says whether calling it succeeds.
\<close>

definition AllowConnectivityRetry :: "out_request \<Rightarrow> out_request" where
  "AllowConnectivityRetry request = request\<lparr>oq_retryMarked := True\<rparr>"

datatype via = ViaDirect | ViaProxy go_url

type_synonym trip_result = "http_response option \<times> egress_error option"

datatype conn =
    PlainConn string string
  | ConnectTunnel string bool string
  | SocksTunnel string string

record connect_request =
  cq_Target :: string
  cq_ProxyAuthorization :: "string option"

record network =
  nw_trip :: "via \<Rightarrow> out_request \<Rightarrow> trip_result"
  nw_dial :: "string \<Rightarrow> string \<Rightarrow> egress_error option"
  nw_tls_ok :: "string \<Rightarrow> bool"
  nw_connect_write_ok :: "connect_request \<Rightarrow> bool"
  nw_connect_status :: "connect_request \<Rightarrow> int option"
  nw_socks_init_ok :: bool
  nw_socks_context_ok :: bool
  nw_socks :: "string \<Rightarrow> string \<Rightarrow> (string \<times> string) option \<Rightarrow> string \<Rightarrow> egress_error option"

section \<open>The manager\<close>

record manager =
  em_proxy :: "go_url option"
  em_proxyURL :: "go_url option"

definition NewManager :: manager where
  "NewManager = \<lparr>em_proxy = None, em_proxyURL = None\<rparr>"

definition ValidateProxyURL :: "go_url option \<Rightarrow> egress_error option" where
  "ValidateProxyURL proxyURL =
     (case proxyURL of
        None \<Rightarrow> Some (EgressError ''invalid proxy URL'')
      | Some u \<Rightarrow>
          if u_Host u = [] \<or> u_RawQuery u \<noteq> [] \<or> u_Fragment u \<noteq> [] \<or> (u_Path u \<noteq> [] \<and> u_Path u \<noteq> ''/'')
          then Some (EgressError ''invalid proxy URL'')
          else if to_lower (u_Scheme u) \<in> {''http'', ''https'', ''socks5'', ''socks5h''} then None
          else Some (EgressError ''unsupported proxy scheme''))"

definition Configure :: "manager \<Rightarrow> go_url option \<Rightarrow> egress_error + manager" where
  "Configure m proxyURL =
     (case ValidateProxyURL proxyURL of
        Some e \<Rightarrow> Inl e
      | None \<Rightarrow> Inr (m\<lparr>em_proxy := proxyURL, em_proxyURL := proxyURL\<rparr>))"

definition Clear :: "manager \<Rightarrow> manager" where
  "Clear m = m\<lparr>em_proxy := None, em_proxyURL := None\<rparr>"

definition Configured :: "manager \<Rightarrow> bool" where
  "Configured m \<longleftrightarrow> em_proxy m \<noteq> None \<and> em_proxyURL m \<noteq> None"

definition retryableConnectivityError :: "egress_error option \<Rightarrow> bool" where
  "retryableConnectivityError err =
     (case err of
        Some (NetError f) \<Rightarrow>
          if nf_Canceled f \<or> nf_DeadlineExceeded f then False
          else if nf_DNSError f then True
          else nf_OpError f = Some ''dial'' \<or> nf_OpError f = Some ''connect''
      | _ \<Rightarrow> False)"

definition safeToRetry :: "out_request \<Rightarrow> bool" where
  "safeToRetry request =
     (if oq_Method request = ''GET'' \<or> oq_Method request = ''HEAD'' then oq_Body request = None
      else oq_retryMarked request \<and> oq_GetBody request \<noteq> None)"

section \<open>Round trips\<close>

definition roundTripAuto :: "network \<Rightarrow> manager \<Rightarrow> out_request \<Rightarrow> (via \<times> out_request) list \<times> trip_result" where
  "roundTripAuto net m request =
     (case nw_trip net ViaDirect request of (response, err) \<Rightarrow>
        if err = None \<or> response \<noteq> None \<or> \<not> safeToRetry request \<or> \<not> retryableConnectivityError err
        then ([(ViaDirect, request)], (response, err))
        else case em_proxy m of
          None \<Rightarrow> ([(ViaDirect, request)], (None, err))
        | Some p \<Rightarrow>
            if oq_GetBody request = Some False then ([(ViaDirect, request)], (None, err))
            else ([(ViaDirect, request), (ViaProxy p, request)], nw_trip net (ViaProxy p) request))"

definition RoundTrip ::
  "network \<Rightarrow> manager \<Rightarrow> string \<Rightarrow> out_request \<Rightarrow> (via \<times> out_request) list \<times> trip_result" where
  "RoundTrip net m policy request =
     (if policy = [] \<or> policy = Direct then ([(ViaDirect, request)], nw_trip net ViaDirect request)
      else if policy = Proxy then
        (case em_proxy m of
           None \<Rightarrow> ([], (None, Some ErrProxyUnavailable))
         | Some p \<Rightarrow> ([(ViaProxy p, request)], nw_trip net (ViaProxy p) request))
      else if policy = Auto then roundTripAuto net m request
      else ([], (None, Some (EgressError ''invalid egress policy''))))"

section \<open>Dialing\<close>

type_synonym dial_result = "(string \<times> string) list \<times> (egress_error + conn)"

definition dial :: "network \<Rightarrow> string \<Rightarrow> string \<Rightarrow> dial_result" where
  "dial net nw address =
     ([(nw, address)],
      (case nw_dial net nw address of None \<Rightarrow> Inr (PlainConn nw address) | Some e \<Rightarrow> Inl e))"

definition proxy_address :: "go_url \<Rightarrow> string" where
  "proxy_address proxyURL =
     (if url_Port proxyURL = [] then
        JoinHostPort (url_Hostname proxyURL)
          (if equal_fold (u_Scheme proxyURL) ''https'' then ''443'' else ''80'')
      else u_Host proxyURL)"

definition connect_request_for :: "go_url \<Rightarrow> string \<Rightarrow> connect_request" where
  "connect_request_for proxyURL address =
     \<lparr>cq_Target = address,
      cq_ProxyAuthorization =
        (case u_User proxyURL of
           None \<Rightarrow> None
         | Some ui \<Rightarrow>
             Some (''Basic '' @ StdEncoding_EncodeToString (ui_username ui @ '':''
               @ (case ui_password ui of None \<Rightarrow> [] | Some p \<Rightarrow> p))))\<rparr>"

definition dialHTTPConnect :: "network \<Rightarrow> string \<Rightarrow> string \<Rightarrow> go_url \<Rightarrow> dial_result" where
  "dialHTTPConnect net nw address proxyURL =
     (let proxyAddress = proxy_address proxyURL;
          tls = equal_fold (u_Scheme proxyURL) ''https'';
          request = connect_request_for proxyURL address
      in case dial net nw proxyAddress of
           (tried, Inl e) \<Rightarrow> (tried, Inl e)
         | (tried, Inr _) \<Rightarrow>
             (tried,
              if tls \<and> \<not> nw_tls_ok net (url_Hostname proxyURL)
              then Inl (EgressError ''proxy TLS handshake failed'')
              else if \<not> nw_connect_write_ok net request
              then Inl (EgressError ''proxy CONNECT request failed'')
              else case nw_connect_status net request of
                None \<Rightarrow> Inl (EgressError ''proxy CONNECT response failed'')
              | Some status \<Rightarrow>
                  if status \<noteq> 200
                  then Inl (EgressError (''proxy CONNECT rejected with status '' @ itoa status))
                  else Inr (ConnectTunnel proxyAddress tls address)))"

definition dialSOCKS5 :: "network \<Rightarrow> string \<Rightarrow> string \<Rightarrow> go_url \<Rightarrow> dial_result" where
  "dialSOCKS5 net nw address proxyURL =
     (let authentication =
            (case u_User proxyURL of
               None \<Rightarrow> None
             | Some ui \<Rightarrow> Some (ui_username ui, case ui_password ui of None \<Rightarrow> [] | Some p \<Rightarrow> p))
      in if \<not> nw_socks_init_ok net then ([], Inl (EgressError ''initialize SOCKS5 proxy''))
         else if \<not> nw_socks_context_ok net
         then ([], Inl (EgressError ''SOCKS5 proxy does not support cancellation''))
         else ([(nw, u_Host proxyURL)],
               (case nw_socks net nw (u_Host proxyURL) authentication address of
                  None \<Rightarrow> Inr (SocksTunnel (u_Host proxyURL) address)
                | Some e \<Rightarrow> Inl e)))"

definition dialProxy :: "network \<Rightarrow> manager \<Rightarrow> string \<Rightarrow> string \<Rightarrow> dial_result" where
  "dialProxy net m nw address =
     (case em_proxyURL m of
        None \<Rightarrow> ([], Inl ErrProxyUnavailable)
      | Some proxyURL \<Rightarrow>
          let scheme = to_lower (u_Scheme proxyURL) in
          if scheme = ''http'' \<or> scheme = ''https'' then dialHTTPConnect net nw address proxyURL
          else if scheme = ''socks5'' \<or> scheme = ''socks5h'' then dialSOCKS5 net nw address proxyURL
          else ([], Inl (EgressError ''unsupported proxy scheme'')))"

definition result_error :: "egress_error + conn \<Rightarrow> egress_error option" where
  "result_error r = (case r of Inl e \<Rightarrow> Some e | Inr _ \<Rightarrow> None)"

definition DialContext :: "network \<Rightarrow> manager \<Rightarrow> string \<Rightarrow> string \<Rightarrow> string \<Rightarrow> dial_result" where
  "DialContext net m policy nw address =
     (if \<not> has_prefix nw ''tcp'' \<or> address = [] then ([], Inl (EgressError ''unsupported egress dial''))
      else if policy = [] \<or> policy = Direct then dial net nw address
      else if policy = Proxy then dialProxy net m nw address
      else if policy = Auto then
        (case dial net nw address of (tried, r) \<Rightarrow>
           if result_error r = None \<or> \<not> retryableConnectivityError (result_error r) then (tried, r)
           else if \<not> Configured m then (tried, r)
           else case dialProxy net m nw address of (tried', r') \<Rightarrow> (tried @ tried', r'))
      else ([], Inl (EgressError ''invalid egress policy'')))"

section \<open>Reachable managers\<close>

inductive manager_reachable :: "manager \<Rightarrow> bool" where
  manager_new: "manager_reachable NewManager"
| manager_configure: "manager_reachable m \<Longrightarrow> Configure m u = Inr m' \<Longrightarrow> manager_reachable m'"
| manager_clear: "manager_reachable m \<Longrightarrow> manager_reachable (Clear m)"

definition manager_inv :: "manager \<Rightarrow> bool" where
  "manager_inv m \<longleftrightarrow> em_proxy m = em_proxyURL m
     \<and> (em_proxyURL m \<noteq> None \<longrightarrow> ValidateProxyURL (em_proxyURL m) = None)"

lemma manager_reachable_inv: "manager_reachable m \<Longrightarrow> manager_inv m"
  by (induction rule: manager_reachable.induct)
    (auto simp: manager_inv_def NewManager_def Configure_def Clear_def split: option.splits)

lemma dialProxy_tried:
  assumes "manager_inv m" "dialProxy net m nw address = (tried, r)"
  shows "\<exists>u. tried = [] \<or> em_proxyURL m = Some u \<and> (tried = [(nw, proxy_address u)] \<or> tried = [(nw, u_Host u)])"
  using assms(2)
  by (auto simp: dialProxy_def dialHTTPConnect_def dialSOCKS5_def dial_def Let_def
      split: option.splits if_splits sum.splits prod.splits)

lemma dialProxy_conn: "dialProxy net m nw address = (tried, Inr c) \<Longrightarrow>
    (\<exists>a tls. c = ConnectTunnel a tls address) \<or> (\<exists>a. c = SocksTunnel a address)"
  by (auto simp: dialProxy_def dialHTTPConnect_def dialSOCKS5_def dial_def Let_def
      split: option.splits if_splits sum.splits prod.splits)

definition sample_proxy :: go_url where
  "sample_proxy = empty_url\<lparr>u_Scheme := ''http'', u_Host := ''p:1''\<rparr>"

lemma sample_proxy_reachable:
  "manager_reachable \<lparr>em_proxy = Some sample_proxy, em_proxyURL = Some sample_proxy\<rparr>"
  by (rule manager_configure [OF manager_new, of "Some sample_proxy"])
    (simp add: Configure_def ValidateProxyURL_def sample_proxy_def empty_url_def NewManager_def
      to_lower_def lower_char_def char_class_defs)

section \<open>Properties\<close>

text \<open>
  C22: Egress policies are obeyed on every request. The direct policy uses the direct transport
  only; the proxy policy never uses it, and fails when no proxy is configured; \<open>Auto\<close> tries the
  direct transport first and goes to the proxy only when direct sending failed with a
  connectivity error before any response and the request can be replayed (an empty GET or HEAD,
  or a marked request with a replayable body). The retry sends the same request, and no policy
  makes more than two attempts.
\<close>

theorem RoundTrip_obeys_policy:
  assumes "RoundTrip net m policy request = (tried, response, err)"
  shows "(policy \<in> {[], Direct} \<longrightarrow> tried = [(ViaDirect, request)])
    \<and> (policy = Proxy \<longrightarrow> (\<forall>(v, r)\<in>set tried. v \<noteq> ViaDirect)
         \<and> (em_proxy m = None \<longrightarrow> tried = [] \<and> err = Some ErrProxyUnavailable))
    \<and> (policy = Auto \<longrightarrow> (tried = [(ViaDirect, request)] \<or>
         (\<exists>p. em_proxy m = Some p \<and> tried = [(ViaDirect, request), (ViaProxy p, request)]
            \<and> fst (nw_trip net ViaDirect request) = None
            \<and> retryableConnectivityError (snd (nw_trip net ViaDirect request))
            \<and> safeToRetry request)))
    \<and> (policy \<notin> {[], Direct, Proxy, Auto} \<longrightarrow> tried = [] \<and> response = None \<and> err \<noteq> None)
    \<and> length tried \<le> 2"
proof -
  have auto: "policy = Auto \<Longrightarrow> roundTripAuto net m request = (tried, response, err)"
    using assms by (simp add: RoundTrip_def)
  then show ?thesis
    using assms
    by (cases "policy = Auto")
      (auto simp: RoundTrip_def roundTripAuto_def split: if_splits option.splits prod.splits)
qed

definition failing_network :: network where
  "failing_network =
     \<lparr>nw_trip = (\<lambda>v r. (None, Some (NetError \<lparr>nf_Canceled = False, nf_DeadlineExceeded = False,
        nf_DNSError = True, nf_OpError = None\<rparr>))),
      nw_dial = (\<lambda>_ _. None), nw_tls_ok = (\<lambda>_. True), nw_connect_write_ok = (\<lambda>_. True),
      nw_connect_status = (\<lambda>_. Some 200), nw_socks_init_ok = True, nw_socks_context_ok = True,
      nw_socks = (\<lambda>_ _ _ _. None)\<rparr>"

theorem RoundTrip_obeys_policy_witness:
  "\<exists>tried response err. RoundTrip failing_network
      \<lparr>em_proxy = Some sample_proxy, em_proxyURL = Some sample_proxy\<rparr> Auto
      \<lparr>oq_Method = ''GET'', oq_URL = ''http://h/'', oq_Header = [], oq_Body = None, oq_GetBody = None,
       oq_retryMarked = False\<rparr> = (tried, response, err) \<and> length tried = 2"
proof -
  let ?m = "\<lparr>em_proxy = Some sample_proxy, em_proxyURL = Some sample_proxy\<rparr>"
  let ?r = "\<lparr>oq_Method = ''GET'', oq_URL = ''http://h/'', oq_Header = [], oq_Body = None,
    oq_GetBody = None, oq_retryMarked = False\<rparr>"
  obtain tried response err where t: "RoundTrip failing_network ?m Auto ?r = (tried, response, err)"
    by (metis prod.exhaust)
  have "length tried \<le> 2" using RoundTrip_obeys_policy [OF t] by simp
  moreover have "length tried = 2"
    using t by (auto simp: RoundTrip_def roundTripAuto_def failing_network_def safeToRetry_def
        retryableConnectivityError_def)
  ultimately show ?thesis using t by blast
qed

text \<open>
  Dialing through the proxy policy never dials the target: every address dialed belongs to
  the configured proxy, whose URL passed validation, and a connection it returns is a tunnel to
  the requested address. Without a configured proxy nothing is dialed and the dial fails.
\<close>

theorem DialContext_proxy_never_direct:
  assumes "manager_reachable m" "DialContext net m Proxy nw address = (tried, r)"
  shows "(\<forall>(n, a)\<in>set tried. \<exists>u. em_proxyURL m = Some u \<and> ValidateProxyURL (Some u) = None
            \<and> (a = proxy_address u \<or> a = u_Host u))
    \<and> (\<forall>c. r = Inr c \<longrightarrow> (\<exists>p tls. c = ConnectTunnel p tls address) \<or> (\<exists>p. c = SocksTunnel p address))
    \<and> (\<not> Configured m \<longrightarrow> tried = [] \<and> \<not> is_ok r)"
proof -
  note inv = manager_reachable_inv [OF assms(1)]
  show ?thesis
  proof (cases "\<not> has_prefix nw ''tcp'' \<or> address = []")
    case True
    with assms(2) show ?thesis by (auto simp: DialContext_def)
  next
    case False
    with assms(2) have d: "dialProxy net m nw address = (tried, r)" by (simp add: DialContext_def)
    have "\<not> Configured m \<Longrightarrow> tried = [] \<and> \<not> is_ok r"
      using d inv by (auto simp: dialProxy_def Configured_def manager_inv_def split: option.splits)
    moreover have "\<forall>c. r = Inr c \<longrightarrow>
        (\<exists>p tls. c = ConnectTunnel p tls address) \<or> (\<exists>p. c = SocksTunnel p address)"
      using dialProxy_conn d by blast
    moreover have "\<forall>(n, a)\<in>set tried. \<exists>u. em_proxyURL m = Some u \<and> ValidateProxyURL (Some u) = None
        \<and> (a = proxy_address u \<or> a = u_Host u)"
      using dialProxy_tried [OF inv d] inv by (auto simp: manager_inv_def)
    ultimately show ?thesis by blast
  qed
qed

theorem DialContext_proxy_never_direct_witness:
  "\<exists>tried r. DialContext failing_network
      \<lparr>em_proxy = Some sample_proxy, em_proxyURL = Some sample_proxy\<rparr> Proxy ''tcp'' ''target:22'' = (tried, r)
    \<and> list_all (\<lambda>(n, a). a = proxy_address sample_proxy \<or> a = u_Host sample_proxy) tried"
proof -
  obtain tried r where d: "DialContext failing_network
      \<lparr>em_proxy = Some sample_proxy, em_proxyURL = Some sample_proxy\<rparr> Proxy ''tcp'' ''target:22''
      = (tried, r)" by fastforce
  from DialContext_proxy_never_direct [OF sample_proxy_reachable d] d show ?thesis by (auto simp: list_all_iff)
qed

end
