(* ===== verification/Private_File.thy ===== *)
theory Private_File
  imports Go_Codec
begin

text \<open>
  Package \<open>internal/securefs\<close> (its Unix file) and the file access that the route metadata,
  SSH metadata, command audit and local secret stores share line by line: the guarded open of
  an owner-only file, and the atomic replacement through a temporary file.

  The operating system is an argument: the results of the calls the code makes, in the order it
  makes them. The content of a file is what \<open>encoding/json\<close> decodes from it (with unknown fields
  disallowed): no document at all, or a document and whether more data follows it. Writing a
  document and decoding it again gives the document with every string forced to valid UTF-8,
  which is the only way \<open>encoding/json\<close> changes these documents; each store states it for its own
  document type.
\<close>

unbundle bit_operations_syntax

datatype file_type = Regular | Directory | Symlink | Socket | OtherFile

record file_info =
  fi_Type :: file_type
  fi_Perm :: "32 word"
  fi_Size :: int

datatype lstat_result = StatNotExist | StatFailed | StatOk file_info

record dir_calls =
  dc_mkdir_ok :: bool
  dc_lstat :: lstat_result
  dc_chmod_ok :: bool

datatype securefs_error = ErrMkdir | ErrPermission | ErrChmod

definition EnsurePrivateDirectory :: "dir_calls \<Rightarrow> securefs_error option" where
  "EnsurePrivateDirectory os =
     (if \<not> dc_mkdir_ok os then Some ErrMkdir
      else case dc_lstat os of
        StatOk info \<Rightarrow>
          if fi_Type info \<noteq> Directory then Some ErrPermission
          else if \<not> dc_chmod_ok os then Some ErrChmod else None
      | _ \<Rightarrow> Some ErrPermission)"

definition IsPrivateRegularFile :: "file_info \<Rightarrow> bool" where
  "IsPrivateRegularFile info \<longleftrightarrow> fi_Type info = Regular \<and> fi_Perm info AND 63 = 0"

section \<open>Guarded open\<close>

record read_calls =
  rc_dir :: dir_calls
  rc_lstat :: lstat_result
  rc_open_ok :: bool
  rc_fstat_ok :: bool
  rc_same_file :: bool

datatype 'd file_text = NotJSON | JSONDoc 'd bool

text \<open>
  The opening part of every \<open>Load\<close>: \<open>Inr False\<close> when the file does not exist, \<open>Inr True\<close> when it
  is open for decoding. The four messages are those of the calling store.
\<close>

definition open_private ::
  "string \<Rightarrow> string \<Rightarrow> string \<Rightarrow> string \<Rightarrow> int \<Rightarrow> read_calls \<Rightarrow> string + bool" where
  "open_private dir_msg invalid_msg open_msg changed_msg max_bytes os =
     (if EnsurePrivateDirectory (rc_dir os) \<noteq> None then Inl dir_msg
      else case rc_lstat os of
        StatNotExist \<Rightarrow> Inr False
      | StatFailed \<Rightarrow> Inl invalid_msg
      | StatOk info \<Rightarrow>
          if \<not> IsPrivateRegularFile info \<or> fi_Size info > max_bytes then Inl invalid_msg
          else if \<not> rc_open_ok os then Inl open_msg
          else if \<not> rc_fstat_ok os \<or> \<not> rc_same_file os then Inl changed_msg
          else Inr True)"

section \<open>Atomic replacement\<close>

record write_calls =
  wc_dir :: dir_calls
  wc_create_ok :: bool
  wc_protect_ok :: bool
  wc_encode_ok :: bool
  wc_sync_ok :: bool
  wc_close_ok :: bool
  wc_rename_ok :: bool
  wc_syncdir_ok :: bool

text \<open>
  The closing part of every \<open>Save\<close>: create, protect, encode, sync and close a temporary file,
  rename it over the target, sync the directory. The result is the error (if any) and the
  target's content afterwards; only the rename changes it.
\<close>

definition install_private ::
  "string \<Rightarrow> string \<Rightarrow> write_calls \<Rightarrow> 'f \<Rightarrow> 'f option \<Rightarrow> string option \<times> 'f option" where
  "install_private noun dir_noun os new old =
     (if \<not> wc_create_ok os then (Some (''create '' @ noun), old)
      else if \<not> wc_protect_ok os then (Some (''protect '' @ noun), old)
      else if \<not> wc_encode_ok os then (Some (''encode '' @ noun), old)
      else if \<not> wc_sync_ok os then (Some (''sync '' @ noun), old)
      else if \<not> wc_close_ok os then (Some (''close '' @ noun), old)
      else if \<not> wc_rename_ok os then (Some (''install '' @ noun), old)
      else if \<not> wc_syncdir_ok os then (Some (''sync '' @ dir_noun), Some new)
      else (None, Some new))"

definition all_writes_ok :: "write_calls \<Rightarrow> bool" where
  "all_writes_ok os \<longleftrightarrow> EnsurePrivateDirectory (wc_dir os) = None \<and> wc_create_ok os \<and> wc_protect_ok os
     \<and> wc_encode_ok os \<and> wc_sync_ok os \<and> wc_close_ok os \<and> wc_rename_ok os \<and> wc_syncdir_ok os"

lemma install_private_ok:
  "install_private noun dn os new old = (None, f) \<Longrightarrow> f = Some new"
  by (auto simp: install_private_def split: if_splits)

lemma install_private_error:
  "install_private noun dn os new old = (Some e, f) \<Longrightarrow> f = old \<or> f = Some new \<and> \<not> wc_syncdir_ok os"
  by (auto simp: install_private_def split: if_splits)

lemma install_private_atomic: "snd (install_private noun dn os new old) \<in> {old, Some new}"
  by (simp add: install_private_def)

lemma install_private_all_ok:
  "all_writes_ok os \<Longrightarrow> install_private noun dn os new old = (None, Some new)"
  by (simp add: install_private_def all_writes_ok_def)

lemma open_private_private:
  "open_private d i p c n os = Inr True \<Longrightarrow>
   \<exists>info. rc_lstat os = StatOk info \<and> IsPrivateRegularFile info \<and> fi_Size info \<le> n"
  by (auto simp: open_private_def split: if_splits lstat_result.splits)

text \<open>A run of the operating system calls in which everything succeeds.\<close>

definition sample_dir :: dir_calls where
  "sample_dir = \<lparr>dc_mkdir_ok = True,
     dc_lstat = StatOk \<lparr>fi_Type = Directory, fi_Perm = 448, fi_Size = 0\<rparr>, dc_chmod_ok = True\<rparr>"

definition sample_writes :: write_calls where
  "sample_writes = \<lparr>wc_dir = sample_dir, wc_create_ok = True, wc_protect_ok = True,
     wc_encode_ok = True, wc_sync_ok = True, wc_close_ok = True, wc_rename_ok = True,
     wc_syncdir_ok = True\<rparr>"

definition sample_reads :: read_calls where
  "sample_reads = \<lparr>rc_dir = sample_dir,
     rc_lstat = StatOk \<lparr>fi_Type = Regular, fi_Perm = 384, fi_Size = 512\<rparr>,
     rc_open_ok = True, rc_fstat_ok = True, rc_same_file = True\<rparr>"

lemmas sample_file_defs = sample_dir_def sample_writes_def sample_reads_def

lemma sample_writes_ok: "all_writes_ok sample_writes"
  by (simp add: all_writes_ok_def sample_file_defs EnsurePrivateDirectory_def)

lemma sample_reads_ok:
  "512 \<le> n \<Longrightarrow> open_private d i p c n sample_reads = Inr True"
  by (simp add: open_private_def sample_file_defs EnsurePrivateDirectory_def
      IsPrivateRegularFile_def)

end
