(* ===== verification/Secrets.thy ===== *)
theory Secrets
  imports Go_Net Private_File Interfaces
begin

text \<open>
  Package \<open>internal/secrets\<close>: the protected values (\<open>store.go\<close>), the in-memory store, the store
  over a key-value backend (\<open>keychain_store.go\<close>) and the backend that keeps its entries in an
  owner-only file (\<open>file_store.go\<close>).

  A backend is a map from references to payloads together with, for every call that changes it,
  what happened to the call: whether it reported success and whether the change was made (a file
  backend can fail after the rename). A payload is the JSON object the store writes, as the record
  of all fields such objects have; a field a writer omits is empty, which is also how decoding
  into a structure with other fields sees it. The SSH library's key parsers are arguments.
\<close>

datatype secrets_error =
    ErrSecretNotFound | ErrInvalidReference | ErrContextDone | SecretError string

record http_target =
  ht_BaseURL :: "go_url option"
  ht_Headers :: header

type_synonym proxy_config = "go_url option"

record ssh_target =
  st_Address :: string
  st_Username :: string
  st_Password :: bytes
  st_PrivateKey :: bytes
  st_PrivateKeyPassword :: bytes
  st_ExpectedHostKey :: bytes

type_synonym host_identity = bytes

text \<open>The two key parsers of the SSH library: whether they accept a key.\<close>

record key_parsers =
  kp_ParsePrivateKey :: "bytes \<Rightarrow> bool"
  kp_ParsePublicKey :: "bytes \<Rightarrow> bool"

definition StoreModeKeychain :: string where
  "StoreModeKeychain = ''keychain''"

definition StoreModeLocalFile :: string where
  "StoreModeLocalFile = ''local_file''"

section \<open>Validation\<close>

text \<open>The regular expression \<^verbatim>\<open>^[a-z0-9][a-z0-9/_-]{0,127}$\<close>.\<close>

definition reference_tail :: "char \<Rightarrow> bool" where
  "reference_tail c \<longleftrightarrow> is_lower c \<or> is_digit c \<or> c = CHR ''/'' \<or> c = CHR ''_'' \<or> c = CHR ''-''"

definition validateReference :: "string \<Rightarrow> secrets_error option" where
  "validateReference reference =
     (if \<not> slug_pattern reference_tail 127 reference then Some ErrInvalidReference else None)"

definition validateSSHHostIdentity :: "key_parsers \<Rightarrow> host_identity \<Rightarrow> secrets_error option" where
  "validateSSHHostIdentity kp identity =
     (if identity = [] then Some (SecretError ''invalid SSH host identity'')
      else if \<not> kp_ParsePrivateKey kp identity then Some (SecretError ''invalid SSH host identity'')
      else None)"

definition validateSSHTarget :: "key_parsers \<Rightarrow> ssh_target \<Rightarrow> secrets_error option" where
  "validateSSHTarget kp t =
     (case SplitHostPort (st_Address t) of
        None \<Rightarrow> Some (SecretError ''invalid SSH target'')
      | Some (host, portText) \<Rightarrow>
          if host = [] then Some (SecretError ''invalid SSH target'')
          else case Atoi portText of
            None \<Rightarrow> Some (SecretError ''invalid SSH target'')
          | Some port \<Rightarrow>
              if port < 1 \<or> port > 65535 \<or> st_Username t = [] \<or> length (st_Username t) > 255
                 \<or> NUL \<in> set (st_Username t)
              then Some (SecretError ''invalid SSH target'')
              else
                let hasPassword = (length (st_Password t) > 0);
                    hasPrivateKey = (length (st_PrivateKey t) > 0)
                in if hasPassword = hasPrivateKey
                      \<or> (\<not> hasPrivateKey \<and> length (st_PrivateKeyPassword t) > 0)
                   then Some (SecretError ''invalid SSH authentication'')
                   else if length (st_ExpectedHostKey t) = 0
                   then Some (SecretError ''invalid SSH host key'')
                   else if \<not> kp_ParsePublicKey kp (st_ExpectedHostKey t)
                   then Some (SecretError ''invalid SSH host key'')
                   else None)"

definition validateProxyConfig :: "proxy_config \<Rightarrow> secrets_error option" where
  "validateProxyConfig config =
     (case config of
        None \<Rightarrow> Some (SecretError ''invalid proxy config'')
      | Some u \<Rightarrow>
          if u_Host u = [] \<or> u_RawQuery u \<noteq> [] \<or> u_Fragment u \<noteq> []
             \<or> (u_Path u \<noteq> [] \<and> u_Path u \<noteq> ''/'')
          then Some (SecretError ''invalid proxy config'')
          else if u_Scheme u \<in> {''http'', ''https'', ''socks5'', ''socks5h''} then None
          else Some (SecretError ''invalid proxy config''))"

section \<open>The memory store\<close>

record memory_store =
  ms_targets :: "(string, http_target) amap"
  ms_proxies :: "(string, proxy_config) amap"
  ms_ssh :: "(string, ssh_target) amap"
  ms_identity :: "(string, host_identity) amap"

definition NewMemoryStore :: memory_store where
  "NewMemoryStore = \<lparr>ms_targets = [], ms_proxies = [], ms_ssh = [], ms_identity = []\<rparr>"

definition resolve_in :: "(string, 'v) amap \<Rightarrow> string \<Rightarrow> secrets_error + 'v" where
  "resolve_in m reference =
     (case validateReference reference of
        Some e \<Rightarrow> Inl e
      | None \<Rightarrow> (case map_of m reference of None \<Rightarrow> Inl ErrSecretNotFound | Some v \<Rightarrow> Inr v))"

definition Mem_PutSSHHostIdentity ::
  "key_parsers \<Rightarrow> memory_store \<Rightarrow> string \<Rightarrow> host_identity \<Rightarrow> secrets_error + memory_store" where
  "Mem_PutSSHHostIdentity kp s reference identity =
     (case validateReference reference of
        Some e \<Rightarrow> Inl e
      | None \<Rightarrow>
          (case validateSSHHostIdentity kp identity of
             Some e \<Rightarrow> Inl e
           | None \<Rightarrow> Inr (s\<lparr>ms_identity := AList.update reference identity (ms_identity s)\<rparr>)))"

definition Mem_ResolveSSHHostIdentity :: "memory_store \<Rightarrow> string \<Rightarrow> secrets_error + host_identity" where
  "Mem_ResolveSSHHostIdentity s reference = resolve_in (ms_identity s) reference"

definition Mem_PutSSHTarget ::
  "key_parsers \<Rightarrow> memory_store \<Rightarrow> string \<Rightarrow> ssh_target \<Rightarrow> secrets_error + memory_store" where
  "Mem_PutSSHTarget kp s reference target =
     (case validateReference reference of
        Some e \<Rightarrow> Inl e
      | None \<Rightarrow>
          (case validateSSHTarget kp target of
             Some e \<Rightarrow> Inl e
           | None \<Rightarrow> Inr (s\<lparr>ms_ssh := AList.update reference target (ms_ssh s)\<rparr>)))"

definition Mem_ResolveSSHTarget :: "memory_store \<Rightarrow> string \<Rightarrow> secrets_error + ssh_target" where
  "Mem_ResolveSSHTarget s reference = resolve_in (ms_ssh s) reference"

definition Mem_PutProxyConfig ::
  "memory_store \<Rightarrow> string \<Rightarrow> proxy_config \<Rightarrow> secrets_error + memory_store" where
  "Mem_PutProxyConfig s reference config =
     (case validateReference reference of
        Some e \<Rightarrow> Inl e
      | None \<Rightarrow>
          (case validateProxyConfig config of
             Some e \<Rightarrow> Inl e
           | None \<Rightarrow> Inr (s\<lparr>ms_proxies := AList.update reference config (ms_proxies s)\<rparr>)))"

definition Mem_ResolveProxyConfig :: "memory_store \<Rightarrow> string \<Rightarrow> secrets_error + proxy_config" where
  "Mem_ResolveProxyConfig s reference = resolve_in (ms_proxies s) reference"

definition Mem_PutHTTPTarget ::
  "memory_store \<Rightarrow> string \<Rightarrow> http_target \<Rightarrow> secrets_error + memory_store" where
  "Mem_PutHTTPTarget s reference target =
     (case validateReference reference of
        Some e \<Rightarrow> Inl e
      | None \<Rightarrow> Inr (s\<lparr>ms_targets := AList.update reference target (ms_targets s)\<rparr>))"

definition Mem_ResolveHTTPTarget :: "memory_store \<Rightarrow> string \<Rightarrow> secrets_error + http_target" where
  "Mem_ResolveHTTPTarget s reference = resolve_in (ms_targets s) reference"

definition Mem_DeleteTarget :: "memory_store \<Rightarrow> string \<Rightarrow> secrets_error + memory_store" where
  "Mem_DeleteTarget s reference =
     (case validateReference reference of
        Some e \<Rightarrow> Inl e
      | None \<Rightarrow>
          if map_of (ms_targets s) reference = None \<and> map_of (ms_proxies s) reference = None
             \<and> map_of (ms_ssh s) reference = None \<and> map_of (ms_identity s) reference = None
          then Inl ErrSecretNotFound
          else Inr \<lparr>ms_targets = AList.delete reference (ms_targets s),
                    ms_proxies = AList.delete reference (ms_proxies s),
                    ms_ssh = AList.delete reference (ms_ssh s),
                    ms_identity = AList.delete reference (ms_identity s)\<rparr>)"

section \<open>The store over a backend\<close>

record payload =
  pl_version :: int
  pl_base_url :: string
  pl_headers :: header
  pl_url :: string
  pl_address :: string
  pl_username :: string
  pl_password :: bytes
  pl_private_key :: bytes
  pl_private_key_password :: bytes
  pl_expected_host_key :: bytes

definition empty_payload :: payload where
  "empty_payload = \<lparr>pl_version = 1, pl_base_url = [], pl_headers = [], pl_url = [], pl_address = [],
     pl_username = [], pl_password = [], pl_private_key = [], pl_private_key_password = [],
     pl_expected_host_key = []\<rparr>"

type_synonym backend = "(string, payload) amap"

record call_outcome =
  co_reported :: bool
  co_applied :: bool

definition backend_Put :: "call_outcome \<Rightarrow> backend \<Rightarrow> string \<Rightarrow> payload \<Rightarrow> bool \<times> backend" where
  "backend_Put out b reference data =
     (co_reported out, if co_applied out then AList.update reference data b else b)"

definition backend_Get :: "bool \<Rightarrow> backend \<Rightarrow> string \<Rightarrow> secrets_error + payload" where
  "backend_Get ok b reference =
     (if \<not> ok then Inl (SecretError ''backend'')
      else case map_of b reference of None \<Rightarrow> Inl ErrSecretNotFound | Some p \<Rightarrow> Inr p)"

definition backend_Delete :: "call_outcome \<Rightarrow> backend \<Rightarrow> string \<Rightarrow> secrets_error option \<times> backend" where
  "backend_Delete out b reference =
     (if map_of b reference = None then (Some ErrSecretNotFound, b)
      else (if co_reported out then None else Some (SecretError ''backend''),
            if co_applied out then AList.delete reference b else b))"

definition coerce_header :: "header \<Rightarrow> header" where
  "coerce_header h = map (\<lambda>(k, vs). (utf8_coerce k, map utf8_coerce vs)) h"

definition http_scheme_ok :: "go_url \<Rightarrow> bool" where
  "http_scheme_ok u \<longleftrightarrow> u_Scheme u = ''http'' \<or> u_Scheme u = ''https''"

definition PutHTTPTarget ::
  "bool \<Rightarrow> call_outcome \<Rightarrow> backend \<Rightarrow> string \<Rightarrow> http_target \<Rightarrow> secrets_error option \<times> backend" where
  "PutHTTPTarget ctx_done out b reference target =
     (if ctx_done then (Some ErrContextDone, b)
      else case validateReference reference of
        Some e \<Rightarrow> (Some e, b)
      | None \<Rightarrow>
          (case ht_BaseURL target of
             None \<Rightarrow> (Some (SecretError ''invalid HTTP target''), b)
           | Some u \<Rightarrow>
               if \<not> http_scheme_ok u \<or> u_Host u = []
               then (Some (SecretError ''invalid HTTP target''), b)
               else
                 let data = empty_payload\<lparr>pl_base_url := utf8_coerce (url_String u),
                              pl_headers := coerce_header (ht_Headers target)\<rparr>
                 in (case backend_Put out b reference data of
                       (ok, b') \<Rightarrow> (if ok then None else Some (SecretError ''store protected target''), b'))))"

definition ResolveHTTPTarget :: "bool \<Rightarrow> bool \<Rightarrow> backend \<Rightarrow> string \<Rightarrow> secrets_error + http_target" where
  "ResolveHTTPTarget ctx_done ok b reference =
     (if ctx_done then Inl ErrContextDone
      else case validateReference reference of
        Some e \<Rightarrow> Inl e
      | None \<Rightarrow>
          (case backend_Get ok b reference of
             Inl e \<Rightarrow> Inl e
           | Inr stored \<Rightarrow>
               if pl_version stored \<noteq> 1 then Inl (SecretError ''decode protected target'')
               else case url_Parse (pl_base_url stored) of
                 None \<Rightarrow> Inl (SecretError ''decode protected target'')
               | Some u \<Rightarrow>
                   if u_Host u = [] \<or> \<not> http_scheme_ok u
                   then Inl (SecretError ''decode protected target'')
                   else Inr \<lparr>ht_BaseURL = Some u, ht_Headers = pl_headers stored\<rparr>))"

definition PutProxyConfig ::
  "bool \<Rightarrow> call_outcome \<Rightarrow> backend \<Rightarrow> string \<Rightarrow> proxy_config \<Rightarrow> secrets_error option \<times> backend" where
  "PutProxyConfig ctx_done out b reference config =
     (if ctx_done then (Some ErrContextDone, b)
      else case validateReference reference of
        Some e \<Rightarrow> (Some e, b)
      | None \<Rightarrow>
          (case validateProxyConfig config of
             Some e \<Rightarrow> (Some e, b)
           | None \<Rightarrow>
               let data = empty_payload\<lparr>pl_url :=
                     utf8_coerce (case config of None \<Rightarrow> [] | Some u \<Rightarrow> url_String u)\<rparr>
               in (case backend_Put out b reference data of
                     (ok, b') \<Rightarrow> (if ok then None else Some (SecretError ''store protected proxy''), b'))))"

definition ResolveProxyConfig :: "bool \<Rightarrow> bool \<Rightarrow> backend \<Rightarrow> string \<Rightarrow> secrets_error + proxy_config" where
  "ResolveProxyConfig ctx_done ok b reference =
     (if ctx_done then Inl ErrContextDone
      else case validateReference reference of
        Some e \<Rightarrow> Inl e
      | None \<Rightarrow>
          (case backend_Get ok b reference of
             Inl e \<Rightarrow> Inl e
           | Inr stored \<Rightarrow>
               if pl_version stored \<noteq> 1 then Inl (SecretError ''decode protected proxy'')
               else case url_Parse (pl_url stored) of
                 None \<Rightarrow> Inl (SecretError ''decode protected proxy'')
               | Some u \<Rightarrow>
                   if validateProxyConfig (Some u) \<noteq> None
                   then Inl (SecretError ''decode protected proxy'') else Inr (Some u)))"

definition ssh_payload :: "ssh_target \<Rightarrow> payload" where
  "ssh_payload t = empty_payload
     \<lparr>pl_address := utf8_coerce (st_Address t), pl_username := utf8_coerce (st_Username t),
      pl_password := st_Password t, pl_private_key := st_PrivateKey t,
      pl_private_key_password := st_PrivateKeyPassword t,
      pl_expected_host_key := st_ExpectedHostKey t\<rparr>"

definition payload_ssh :: "payload \<Rightarrow> ssh_target" where
  "payload_ssh p =
     \<lparr>st_Address = pl_address p, st_Username = pl_username p, st_Password = pl_password p,
      st_PrivateKey = pl_private_key p, st_PrivateKeyPassword = pl_private_key_password p,
      st_ExpectedHostKey = pl_expected_host_key p\<rparr>"

definition PutSSHTarget ::
  "key_parsers \<Rightarrow> bool \<Rightarrow> call_outcome \<Rightarrow> backend \<Rightarrow> string \<Rightarrow> ssh_target
   \<Rightarrow> secrets_error option \<times> backend" where
  "PutSSHTarget kp ctx_done out b reference target =
     (if ctx_done then (Some ErrContextDone, b)
      else case validateReference reference of
        Some e \<Rightarrow> (Some e, b)
      | None \<Rightarrow>
          (case validateSSHTarget kp target of
             Some e \<Rightarrow> (Some e, b)
           | None \<Rightarrow>
               (case backend_Put out b reference (ssh_payload target) of
                  (ok, b') \<Rightarrow>
                    (if ok then None else Some (SecretError ''store protected SSH target''), b'))))"

definition ResolveSSHTarget ::
  "key_parsers \<Rightarrow> bool \<Rightarrow> bool \<Rightarrow> backend \<Rightarrow> string \<Rightarrow> secrets_error + ssh_target" where
  "ResolveSSHTarget kp ctx_done ok b reference =
     (if ctx_done then Inl ErrContextDone
      else case validateReference reference of
        Some e \<Rightarrow> Inl e
      | None \<Rightarrow>
          (case backend_Get ok b reference of
             Inl e \<Rightarrow> Inl e
           | Inr stored \<Rightarrow>
               if pl_version stored \<noteq> 1 then Inl (SecretError ''decode protected SSH target'')
               else
                 let target = payload_ssh stored in
                 if validateSSHTarget kp target \<noteq> None
                 then Inl (SecretError ''decode protected SSH target'') else Inr target))"

definition PutSSHHostIdentity ::
  "key_parsers \<Rightarrow> bool \<Rightarrow> call_outcome \<Rightarrow> backend \<Rightarrow> string \<Rightarrow> host_identity
   \<Rightarrow> secrets_error option \<times> backend" where
  "PutSSHHostIdentity kp ctx_done out b reference identity =
     (if ctx_done then (Some ErrContextDone, b)
      else case validateReference reference of
        Some e \<Rightarrow> (Some e, b)
      | None \<Rightarrow>
          (case validateSSHHostIdentity kp identity of
             Some e \<Rightarrow> (Some e, b)
           | None \<Rightarrow>
               (case backend_Put out b reference (empty_payload\<lparr>pl_private_key := identity\<rparr>) of
                  (ok, b') \<Rightarrow>
                    (if ok then None else Some (SecretError ''store protected SSH host identity''), b'))))"

definition ResolveSSHHostIdentity ::
  "key_parsers \<Rightarrow> bool \<Rightarrow> bool \<Rightarrow> backend \<Rightarrow> string \<Rightarrow> secrets_error + host_identity" where
  "ResolveSSHHostIdentity kp ctx_done ok b reference =
     (if ctx_done then Inl ErrContextDone
      else case validateReference reference of
        Some e \<Rightarrow> Inl e
      | None \<Rightarrow>
          (case backend_Get ok b reference of
             Inl e \<Rightarrow> Inl e
           | Inr stored \<Rightarrow>
               if pl_version stored \<noteq> 1 then Inl (SecretError ''decode protected SSH host identity'')
               else if validateSSHHostIdentity kp (pl_private_key stored) \<noteq> None
               then Inl (SecretError ''decode protected SSH host identity'')
               else Inr (pl_private_key stored)))"

definition DeleteTarget ::
  "bool \<Rightarrow> call_outcome \<Rightarrow> backend \<Rightarrow> string \<Rightarrow> secrets_error option \<times> backend" where
  "DeleteTarget ctx_done out b reference =
     (if ctx_done then (Some ErrContextDone, b)
      else case validateReference reference of
        Some e \<Rightarrow> (Some e, b)
      | None \<Rightarrow> backend_Delete out b reference)"

section \<open>The file backend\<close>

definition fileBackendVersion :: int where
  "fileBackendVersion = 1"

definition maxFileBackendBytes :: int where
  "maxFileBackendBytes = 16777216"

text \<open>
  The document of the file backend; \<open>fd_Entries\<close> is \<open>None\<close> when the file holds a null map. The
  size of a payload's encoding is an argument.
\<close>

record backend_document =
  fd_Version :: int
  fd_Entries :: "backend option"

type_synonym backend_file = "backend_document file_text option"

definition file_load ::
  "(payload \<Rightarrow> nat) \<Rightarrow> read_calls \<Rightarrow> backend_file \<Rightarrow> string + backend" where
  "file_load psize os file =
     (case open_private ''create or protect local secret directory'' ''invalid local secret file''
             ''open local secret file'' ''local secret file changed while opening''
             maxFileBackendBytes os of
        Inl e \<Rightarrow> Inl e
      | Inr False \<Rightarrow> Inr []
      | Inr True \<Rightarrow>
          (case file of
             Some (JSONDoc document trailing) \<Rightarrow>
               if fd_Version document \<noteq> fileBackendVersion then Inl ''decode local secret file''
               else (case fd_Entries document of
                 None \<Rightarrow> Inl ''decode local secret file''
               | Some entries \<Rightarrow>
                   if trailing then Inl ''local secret file has trailing data''
                   else if list_ex (\<lambda>(reference, data).
                             validateReference reference \<noteq> None \<or> psize data > 1048576) entries
                   then Inl ''invalid local secret entry''
                   else Inr entries)
           | _ \<Rightarrow> Inl ''decode local secret file''))"

definition file_save :: "write_calls \<Rightarrow> backend \<Rightarrow> backend_file \<Rightarrow> string option \<times> backend_file" where
  "file_save os entries old =
     install_private ''local secret file'' ''local secret directory'' os
       (JSONDoc \<lparr>fd_Version = fileBackendVersion, fd_Entries = Some entries\<rparr> False) old"

definition file_Put ::
  "(payload \<Rightarrow> nat) \<Rightarrow> read_calls \<Rightarrow> write_calls \<Rightarrow> backend_file \<Rightarrow> string \<Rightarrow> payload
   \<Rightarrow> string option \<times> backend_file" where
  "file_Put psize ros wos file reference data =
     (case file_load psize ros file of
        Inl e \<Rightarrow> (Some e, file)
      | Inr entries \<Rightarrow> file_save wos (AList.update reference data entries) file)"

definition file_Get ::
  "(payload \<Rightarrow> nat) \<Rightarrow> read_calls \<Rightarrow> backend_file \<Rightarrow> string \<Rightarrow> secrets_error + payload" where
  "file_Get psize ros file reference =
     (case file_load psize ros file of
        Inl e \<Rightarrow> Inl (SecretError e)
      | Inr entries \<Rightarrow>
          (case map_of entries reference of None \<Rightarrow> Inl ErrSecretNotFound | Some data \<Rightarrow> Inr data))"

definition file_Delete ::
  "(payload \<Rightarrow> nat) \<Rightarrow> read_calls \<Rightarrow> write_calls \<Rightarrow> backend_file \<Rightarrow> string
   \<Rightarrow> secrets_error option \<times> backend_file" where
  "file_Delete psize ros wos file reference =
     (case file_load psize ros file of
        Inl e \<Rightarrow> (Some (SecretError e), file)
      | Inr entries \<Rightarrow>
          (case map_of entries reference of
             None \<Rightarrow> (Some ErrSecretNotFound, file)
           | Some _ \<Rightarrow>
               (case file_save wos (AList.delete reference entries) file of
                  (err, file') \<Rightarrow> (map_option SecretError err, file'))))"

text \<open>Opening a store over the file reads it once, and so refuses a file it could not use.\<close>

definition Secret_NewFileStore ::
  "(payload \<Rightarrow> nat) \<Rightarrow> read_calls \<Rightarrow> backend_file \<Rightarrow> secrets_error + backend" where
  "Secret_NewFileStore psize os file =
     (case file_load psize os file of Inl e \<Rightarrow> Inl (SecretError e) | Inr entries \<Rightarrow> Inr entries)"

text \<open>The map a backend file stands for.\<close>

definition file_entries :: "backend_file \<Rightarrow> backend" where
  "file_entries file =
     (case file of
        Some (JSONDoc document _) \<Rightarrow> (case fd_Entries document of None \<Rightarrow> [] | Some es \<Rightarrow> es)
      | _ \<Rightarrow> [])"

section \<open>The stores keep what they are given\<close>

lemma resolve_in_update:
  "resolve_in (AList.update r v m) q =
     (if q = r \<and> validateReference r = None then Inr v else resolve_in m q)"
  by (auto simp: resolve_in_def split: option.splits)

lemma resolve_in_delete:
  "resolve_in (AList.delete r m) q =
     (if q = r \<and> validateReference r = None then Inl ErrSecretNotFound else resolve_in m q)"
  by (auto simp: resolve_in_def split: option.splits)

lemma Mem_DeleteTarget_ok:
  "Mem_DeleteTarget s r = Inr s' \<Longrightarrow> validateReference r = None
   \<and> ms_targets s' = AList.delete r (ms_targets s) \<and> ms_proxies s' = AList.delete r (ms_proxies s)
   \<and> ms_ssh s' = AList.delete r (ms_ssh s) \<and> ms_identity s' = AList.delete r (ms_identity s)"
  by (auto simp: Mem_DeleteTarget_def split: option.splits if_splits)

interpretation mem_http: secret_slot Mem_PutHTTPTarget Mem_ResolveHTTPTarget Mem_DeleteTarget
  "\<lambda>_. True" ErrSecretNotFound
  by unfold_locales
    (auto simp: Mem_PutHTTPTarget_def Mem_ResolveHTTPTarget_def resolve_in_update resolve_in_delete
      dest!: Mem_DeleteTarget_ok split: option.splits)

interpretation mem_proxy: secret_slot Mem_PutProxyConfig Mem_ResolveProxyConfig Mem_DeleteTarget
  "\<lambda>_. True" ErrSecretNotFound
  by unfold_locales
    (auto simp: Mem_PutProxyConfig_def Mem_ResolveProxyConfig_def resolve_in_update resolve_in_delete
      dest!: Mem_DeleteTarget_ok split: option.splits)

interpretation mem_ssh: secret_slot "Mem_PutSSHTarget kp" Mem_ResolveSSHTarget Mem_DeleteTarget
  "\<lambda>_. True" ErrSecretNotFound
  for kp
  by unfold_locales
    (auto simp: Mem_PutSSHTarget_def Mem_ResolveSSHTarget_def resolve_in_update resolve_in_delete
      dest!: Mem_DeleteTarget_ok split: option.splits)

interpretation mem_identity: secret_slot "Mem_PutSSHHostIdentity kp" Mem_ResolveSSHHostIdentity
  Mem_DeleteTarget "\<lambda>_. True" ErrSecretNotFound
  for kp
  by unfold_locales
    (auto simp: Mem_PutSSHHostIdentity_def Mem_ResolveSSHHostIdentity_def resolve_in_update
      resolve_in_delete dest!: Mem_DeleteTarget_ok split: option.splits)

text \<open>The same contract for the store over a backend whose calls go through.\<close>

definition went_through :: call_outcome where
  "went_through = \<lparr>co_reported = True, co_applied = True\<rparr>"

definition as_sum :: "'e option \<times> 's \<Rightarrow> 'e + 's" where
  "as_sum r = (case r of (None, s) \<Rightarrow> Inr s | (Some e, _) \<Rightarrow> Inl e)"

interpretation kept_backend: secret_backend
  "\<lambda>b r p. case backend_Put went_through b r p of (ok, b') \<Rightarrow> (if ok then None else Some (SecretError ''backend''), b')"
  "backend_Get ok" "backend_Delete went_through" map_of "\<lambda>_. True" "\<lambda>_ _ _. True" ErrSecretNotFound
  by unfold_locales
    (auto simp: backend_Put_def backend_Get_def backend_Delete_def went_through_def split: option.splits if_splits)

definition ssh_target_utf8 :: "ssh_target \<Rightarrow> bool" where
  "ssh_target_utf8 t \<longleftrightarrow> utf8_valid (st_Address t) \<and> utf8_valid (st_Username t)"

lemma payload_ssh_roundtrip: "ssh_target_utf8 t \<Longrightarrow> payload_ssh (ssh_payload t) = t"
  by (simp add: payload_ssh_def ssh_payload_def ssh_target_utf8_def utf8_coerce_valid empty_payload_def)

lemma as_sum_Inr: "as_sum r = Inr s \<longleftrightarrow> r = (None, s)"
  by (auto simp: as_sum_def split: prod.splits option.splits)

lemma DeleteTarget_ok:
  "DeleteTarget False went_through b r = (None, b') \<Longrightarrow>
   validateReference r = None \<and> b' = AList.delete r b"
  by (auto simp: DeleteTarget_def backend_Delete_def went_through_def split: option.splits if_splits)

lemma backend_Get_update:
  "backend_Get True (AList.update r p b) q = (if q = r then Inr p else backend_Get True b q)"
  by (simp add: backend_Get_def)

lemma backend_Get_delete:
  "backend_Get True (AList.delete r b) q = (if q = r then Inl ErrSecretNotFound else backend_Get True b q)"
  by (simp add: backend_Get_def)

lemma ssh_payload_version [simp]: "pl_version (ssh_payload t) = 1"
  by (simp add: ssh_payload_def empty_payload_def)

lemma PutSSHTarget_ok:
  "PutSSHTarget kp False went_through b r t = (None, b') \<Longrightarrow>
   validateReference r = None \<and> validateSSHTarget kp t = None \<and> b' = AList.update r (ssh_payload t) b"
  by (auto simp: PutSSHTarget_def backend_Put_def went_through_def split: option.splits if_splits)

interpretation kept_ssh: secret_slot
  "\<lambda>b r t. as_sum (PutSSHTarget kp False went_through b r t)" "ResolveSSHTarget kp False True"
  "\<lambda>b r. as_sum (DeleteTarget False went_through b r)" ssh_target_utf8 ErrSecretNotFound
  for kp
  by unfold_locales
    (auto simp: as_sum_Inr ResolveSSHTarget_def backend_Get_update backend_Get_delete
      payload_ssh_roundtrip Let_def dest!: PutSSHTarget_ok DeleteTarget_ok split: option.splits)

lemma PutSSHHostIdentity_ok:
  "PutSSHHostIdentity kp False went_through b r i = (None, b') \<Longrightarrow>
   validateReference r = None \<and> validateSSHHostIdentity kp i = None
   \<and> b' = AList.update r (empty_payload\<lparr>pl_private_key := i\<rparr>) b"
  by (auto simp: PutSSHHostIdentity_def backend_Put_def went_through_def split: option.splits if_splits)

interpretation kept_identity: secret_slot
  "\<lambda>b r i. as_sum (PutSSHHostIdentity kp False went_through b r i)"
  "ResolveSSHHostIdentity kp False True"
  "\<lambda>b r. as_sum (DeleteTarget False went_through b r)" "\<lambda>_. True" ErrSecretNotFound
  for kp
  by unfold_locales
    (auto simp: as_sum_Inr ResolveSSHHostIdentity_def backend_Get_update backend_Get_delete
      empty_payload_def dest!: PutSSHHostIdentity_ok DeleteTarget_ok split: option.splits)

text \<open>A base URL as \<open>url.Parse\<close> makes it: its raw path is recorded only when it differs from the default escaping.\<close>

definition canonical_base :: "go_url \<Rightarrow> bool" where
  "canonical_base u \<longleftrightarrow> http_url u \<and> (EscapedPath u = [] \<or> prefix ''/'' (EscapedPath u))
     \<and> u_RawPath u = (if EscapedPath u = url_escape encodePath (u_Path u) then [] else EscapedPath u)"

lemma parse_canonical:
  assumes "canonical_base u"
  shows "url_Parse (url_String u) = Some u"
proof -
  have hu: "http_url u" using assms by (simp add: canonical_base_def)
  have p: "EscapedPath u = [] \<or> prefix ''/'' (EscapedPath u)"
    using assms by (simp add: canonical_base_def)
  then have r: "rooted (EscapedPath u) = EscapedPath u" by (auto simp: rooted_def prefix_def)
  have "url_Parse (url_String u)
      = setPath (empty_url\<lparr>u_Scheme := u_Scheme u, u_Host := u_Host u\<rparr>) (EscapedPath u)"
    unfolding String_http [OF hu] r using hu EscapedPath_pchar p by (intro parse_http) (auto simp: http_url_def)
  also have "\<dots> = Some (empty_url\<lparr>u_Scheme := u_Scheme u, u_Host := u_Host u, u_Path := u_Path u,
      u_RawPath := u_RawPath u\<rparr>)"
    using assms by (simp add: setPath_def unescape_EscapedPath canonical_base_def)
  also have "empty_url\<lparr>u_Scheme := u_Scheme u, u_Host := u_Host u, u_Path := u_Path u,
      u_RawPath := u_RawPath u\<rparr> = u"
    using hu by (cases u) (simp add: http_url_def empty_url_def)
  finally show ?thesis .
qed

definition http_storable :: "http_target \<Rightarrow> bool" where
  "http_storable t \<longleftrightarrow> (\<exists>u. ht_BaseURL t = Some u \<and> canonical_base u \<and> utf8_valid (url_String u))
     \<and> coerce_header (ht_Headers t) = ht_Headers t"

definition http_payload :: "http_target \<Rightarrow> payload" where
  "http_payload t = empty_payload
     \<lparr>pl_base_url := utf8_coerce (case ht_BaseURL t of None \<Rightarrow> [] | Some u \<Rightarrow> url_String u),
      pl_headers := coerce_header (ht_Headers t)\<rparr>"

lemma PutHTTPTarget_ok:
  "PutHTTPTarget False went_through b r t = (None, b') \<Longrightarrow>
   validateReference r = None \<and> b' = AList.update r (http_payload t) b
   \<and> (\<exists>u. ht_BaseURL t = Some u \<and> http_scheme_ok u \<and> u_Host u \<noteq> [])"
  by (auto simp: PutHTTPTarget_def backend_Put_def went_through_def http_payload_def Let_def
      split: option.splits if_splits)

lemma http_payload_parse:
  "http_storable t \<Longrightarrow> url_Parse (pl_base_url (http_payload t)) = ht_BaseURL t
     \<and> pl_headers (http_payload t) = ht_Headers t \<and> pl_version (http_payload t) = 1"
  by (auto simp: http_storable_def http_payload_def utf8_coerce_valid parse_canonical empty_payload_def)

interpretation kept_http: secret_slot
  "\<lambda>b r t. as_sum (PutHTTPTarget False went_through b r t)" "ResolveHTTPTarget False True"
  "\<lambda>b r. as_sum (DeleteTarget False went_through b r)" http_storable ErrSecretNotFound
proof (unfold_locales, goal_cases)
  case (1 s r v s')
  then have "PutHTTPTarget False went_through s r v = (None, s')" by (simp add: as_sum_Inr)
  from PutHTTPTarget_ok [OF this] http_payload_parse [OF 1(2)] show ?case
    by (auto simp: ResolveHTTPTarget_def backend_Get_update) (metis http_target.surjective old.unit.exhaust)?
qed (auto simp: as_sum_Inr ResolveHTTPTarget_def backend_Get_update backend_Get_delete
      dest!: PutHTTPTarget_ok DeleteTarget_ok split: option.splits)

section \<open>The file backend refines the map backend\<close>

lemma file_load_ok: "file_load psize ros file = Inr es \<Longrightarrow>
    es = [] \<or> (es = file_entries file \<and> (\<forall>(r, d)\<in>set es. validateReference r = None \<and> psize d \<le> 1048576))"
  by (auto simp: file_load_def file_entries_def list_ex_iff
      split: sum.splits bool.splits option.splits file_text.splits if_splits)

lemma file_save_cases:
  "file_save wos es old = (err, f) \<Longrightarrow>
   (err = None \<longrightarrow> file_entries f = es) \<and> (f = old \<or> file_entries f = es)
   \<and> (err \<noteq> None \<and> f \<noteq> old \<longrightarrow> \<not> wc_syncdir_ok wos)"
  by (auto simp: file_save_def install_private_def file_entries_def split: if_splits)

lemma file_load_saved:
  assumes "file_save wos es old = (None, f)"
    "open_private ''create or protect local secret directory'' ''invalid local secret file''
       ''open local secret file'' ''local secret file changed while opening''
       maxFileBackendBytes ros = Inr True"
    "\<forall>(r, d)\<in>set es. validateReference r = None \<and> psize d \<le> 1048576"
  shows "file_load psize ros f = Inr es"
proof -
  have "f = Some (JSONDoc \<lparr>fd_Version = fileBackendVersion, fd_Entries = Some es\<rparr> False)"
    using assms(1) unfolding file_save_def by (rule install_private_ok)
  with assms(2,3) show ?thesis by (auto simp: file_load_def list_ex_iff)
qed

definition sample_target :: http_target where
  "sample_target = \<lparr>ht_BaseURL = Some (empty_url\<lparr>u_Scheme := ''https'', u_Host := ''h''\<rparr>),
     ht_Headers = [(''X-Api-Key'', [''k''])]\<rparr>"

definition sample_ssh_target :: ssh_target where
  "sample_ssh_target = \<lparr>st_Address = ''h:22'', st_Username = ''root'', st_Password = ''pw'',
     st_PrivateKey = [], st_PrivateKeyPassword = [], st_ExpectedHostKey = ''key''\<rparr>"

definition sample_parsers :: key_parsers where
  "sample_parsers = \<lparr>kp_ParsePrivateKey = (\<lambda>k. k \<noteq> []), kp_ParsePublicKey = (\<lambda>k. k \<noteq> [])\<rparr>"

lemma sample_references: "validateReference ''ssh/box'' = None" "validateReference ''routes/api'' = None"
  by (simp_all add: validateReference_def slug_pattern_def reference_tail_def char_class_defs)

lemma sample_ssh_target_valid: "validateSSHTarget sample_parsers sample_ssh_target = None"
  by (simp add: validateSSHTarget_def sample_ssh_target_def sample_parsers_def SplitHostPort_def
      Atoi_def decimal_def digit_value_def char_class_defs)

lemma sample_host: "plain_host ''h''"
  by (simp add: plain_host_def host_char_def shouldEscape_def alnum_def parseHost_def char_class_defs)

lemma sample_base_canonical: "canonical_base (empty_url\<lparr>u_Scheme := ''https'', u_Host := ''h''\<rparr>)"
  using sample_host
  by (simp add: canonical_base_def http_url_def empty_url_def EscapedPath_def url_escape_def)

lemma sample_target_storable: "http_storable sample_target"
proof -
  let ?u = "empty_url\<lparr>u_Scheme := ''https'', u_Host := ''h''\<rparr>"
  have hu: "http_url ?u" using sample_base_canonical by (simp add: canonical_base_def)
  have "url_String ?u = ''https://h''"
    unfolding String_http [OF hu] by (simp add: empty_url_def EscapedPath_def url_escape_def rooted_def)
  then show ?thesis
    using sample_base_canonical
    by (auto simp: http_storable_def sample_target_def coerce_header_def utf8_coerce_valid
        utf8_valid_ascii less_char_def intro!: exI [of _ ?u])
qed

section \<open>Properties\<close>

text \<open>
  C20: A protected SSH target and a protected HTTP target put under different references of one
  store both resolve to exactly what was put, replacing one leaves the other alone, and after a
  delete the reference resolves to not found while the other still resolves.
\<close>

theorem protected_targets_kept:
  assumes "PutSSHTarget kp False went_through b r t = (None, b1)" "ssh_target_utf8 t"
    and "PutHTTPTarget False went_through b1 q h = (None, b2)" "http_storable h"
    and "DeleteTarget False went_through b2 r = (None, b3)" "q \<noteq> r"
  shows "ResolveSSHTarget kp False True b1 r = Inr t \<and> ResolveSSHTarget kp False True b2 r = Inr t
    \<and> ResolveHTTPTarget False True b2 q = Inr h
    \<and> ResolveSSHTarget kp False True b3 r = Inl ErrSecretNotFound
    \<and> ResolveHTTPTarget False True b3 q = Inr h"
proof -
  have b1: "ResolveSSHTarget kp False True b1 r = Inr t"
    using kept_ssh.put_same [of kp b r t b1] assms(1,2) by (simp add: as_sum_Inr)
  have b2: "b2 = AList.update q (http_payload h) b1" using PutHTTPTarget_ok [OF assms(3)] by simp
  with b1 assms(6) have "ResolveSSHTarget kp False True b2 r = Inr t"
    by (simp add: ResolveSSHTarget_def backend_Get_update split: option.splits)
  moreover have "ResolveHTTPTarget False True b2 q = Inr h"
    using kept_http.put_same [of b1 q h b2] assms(3,4) by (simp add: as_sum_Inr)
  moreover have "ResolveSSHTarget kp False True b3 r = Inl ErrSecretNotFound"
    using kept_ssh.remove_same [of b2 r b3 kp] assms(5) by (simp add: as_sum_Inr)
  moreover have "ResolveHTTPTarget False True b3 q = ResolveHTTPTarget False True b2 q"
    using kept_http.remove_other [of b2 r b3 q] assms(5,6) by (simp add: as_sum_Inr)
  ultimately show ?thesis using b1 by simp
qed

theorem protected_targets_kept_witness:
  "\<exists>b1 b2. PutSSHTarget sample_parsers False went_through [] ''ssh/box'' sample_ssh_target = (None, b1)
    \<and> PutHTTPTarget False went_through b1 ''routes/api'' sample_target = (None, b2)
    \<and> ResolveSSHTarget sample_parsers False True b2 ''ssh/box'' = Inr sample_ssh_target
    \<and> ResolveHTTPTarget False True b2 ''routes/api'' = Inr sample_target"
proof -
  let ?b1 = "[(''ssh/box'', ssh_payload sample_ssh_target)]"
  let ?b2 = "?b1 @ [(''routes/api'', http_payload sample_target)]"
  have u8: "ssh_target_utf8 sample_ssh_target"
    by (simp add: ssh_target_utf8_def sample_ssh_target_def utf8_valid_ascii less_char_def)
  have p1: "PutSSHTarget sample_parsers False went_through [] ''ssh/box'' sample_ssh_target = (None, ?b1)"
    using sample_references(1) sample_ssh_target_valid
    by (simp add: PutSSHTarget_def backend_Put_def went_through_def)
  have p2: "PutHTTPTarget False went_through ?b1 ''routes/api'' sample_target = (None, ?b2)"
    using sample_references(2)
    by (simp add: PutHTTPTarget_def backend_Put_def went_through_def http_payload_def sample_target_def
        http_scheme_ok_def empty_url_def Let_def)
  have p3: "DeleteTarget False went_through ?b2 ''ssh/box''
      = (None, [(''routes/api'', http_payload sample_target)])"
    using sample_references(1) by (simp add: DeleteTarget_def backend_Delete_def went_through_def)
  show ?thesis
    using protected_targets_kept [OF p1 u8 p2 sample_target_storable p3] p1 p2 by auto
qed



end
