(* ===== verification/Http_Gateway.thy ===== *)
theory Http_Gateway
  imports Http_Llm Egress Secrets Activity
begin

text \<open>
  Package \<open>internal/httpgw\<close>, \<open>handler.go\<close>: the HTTP gateway. The handler's state is the route
  registry, the request slots, the LLM limiter and the activity recorder. Request slots and
  limiter states outlive a single request, so the handler is the composition of an admission,
  the forwarding of an admitted request, and the deferred releases; the step relation at the end
  interleaves the admissions and releases of concurrent requests. Clock readings are arguments.
\<close>

section \<open>Header sets\<close>

definition safeRequestHeaders :: "string list" where
  "safeRequestHeaders =
     [''Accept'', ''Accept-Encoding'', ''If-Modified-Since'', ''If-None-Match'', ''If-Range'', ''Range'',
      ''User-Agent'']"

definition safeResponseHeaders :: "string list" where
  "safeResponseHeaders =
     [''Accept-Ranges'', ''Cache-Control'', ''Content-Disposition'', ''Content-Encoding'',
      ''Content-Language'', ''Content-Length'', ''Content-Range'', ''Content-Type'', ''Etag'', ''Expires'',
      ''Last-Modified'', ''Location'', ''Retry-After'', ''Vary'']"

definition add_all :: "header \<Rightarrow> string \<Rightarrow> string list \<Rightarrow> header" where
  "add_all h key values = foldl (\<lambda>h v. header_Add h key v) h values"

definition copySafeRequestHeaders :: "header \<Rightarrow> header \<Rightarrow> header" where
  "copySafeRequestHeaders destination source =
     foldl (\<lambda>h key. add_all h key (header_Values source key)) destination safeRequestHeaders"

definition copySafeResponseHeaders :: "header \<Rightarrow> header \<Rightarrow> header" where
  "copySafeResponseHeaders destination source =
     foldl (\<lambda>h (key, values).
        let canonical = CanonicalHeaderKey key in
        if canonical \<notin> set safeResponseHeaders then h else add_all h canonical values)
       destination source"

definition set_target_headers :: "header \<Rightarrow> header \<Rightarrow> header" where
  "set_target_headers h target = foldl (\<lambda>h (key, values). add_all (header_Del h key) key values) h target"

section \<open>Paths and credentials\<close>

abbreviation routePrefix :: string where "routePrefix \<equiv> ''/r/''"

text \<open>One candidate of \<open>unsafePath\<close>: at most sixteen rounds of decoding, each checked first.\<close>

definition unsafe_text :: "string \<Rightarrow> bool" where
  "unsafe_text cand \<longleftrightarrow> contains_str cand [BACKSLASH] \<or> NUL \<in> set cand
     \<or> list_ex dot_segment (split_on CHR ''/'' cand)"

fun unsafe_rounds :: "nat \<Rightarrow> string \<Rightarrow> bool" where
  "unsafe_rounds 0 cand = True"
| "unsafe_rounds (Suc n) cand =
     (if unsafe_text cand then True
      else case path_unescape cand of
        None \<Rightarrow> True
      | Some next_text \<Rightarrow> if next_text = cand then False else unsafe_rounds n next_text)"

definition unsafePath :: "string \<Rightarrow> string \<Rightarrow> bool" where
  "unsafePath suffix_text rawPath \<longleftrightarrow> unsafe_rounds 16 suffix_text \<or> unsafe_rounds 16 rawPath"

definition parseRoutePath :: "go_url \<Rightarrow> (string \<times> string) option" where
  "parseRoutePath value =
     (if \<not> has_prefix (u_Path value) routePrefix then None
      else case cut_char CHR ''/'' (trim_prefix (u_Path value) routePrefix) of
        (a, rest, found) \<Rightarrow>
          let suffix_text = (if \<not> found then [] else rest) in
          if a = [] \<or> unsafePath suffix_text (u_RawPath value) then None else Some (a, suffix_text))"

definition validTargetScheme :: "string \<Rightarrow> bool" where
  "validTargetScheme scheme \<longleftrightarrow> scheme = ''http'' \<or> scheme = ''https''"

definition bearerToken :: "string \<Rightarrow> string" where
  "bearerToken h =
     (case cut_char CHR '' '' h of (scheme, token, ok) \<Rightarrow>
        if \<not> ok \<or> \<not> equal_fold scheme ''Bearer'' then [] else trim_space token)"

definition allowedMethods :: "http_policy \<Rightarrow> string" where
  "allowedMethods policy = join_with '', '' (hp_AllowedMethods policy)"

definition buildUpstreamURL :: "go_url \<Rightarrow> string \<Rightarrow> values_map \<Rightarrow> go_url option" where
  "buildUpstreamURL base suffix_text query =
     (case JoinPath (url_String base) suffix_text of
        None \<Rightarrow> None
      | Some joined \<Rightarrow>
          (case url_Parse joined of
             None \<Rightarrow> None
           | Some result \<Rightarrow> Some (result\<lparr>u_RawQuery := Values_Encode query\<rparr>)))"

definition isRedirect :: "int \<Rightarrow> bool" where
  "isRedirect status \<longleftrightarrow> status \<ge> 300 \<and> status \<le> 399"

text \<open>\<open>rewriteLocation\<close>: \<open>None\<close> for an error, otherwise the response headers afterwards.\<close>

definition rewriteLocation :: "header \<Rightarrow> go_url \<Rightarrow> go_url \<Rightarrow> string \<Rightarrow> header option" where
  "rewriteLocation h request_url base a =
     (let location = header_Get h ''Location'' in
      if location = [] then Some h
      else case url_Parse location of
        None \<Rightarrow> None
      | Some parsed \<Rightarrow>
          let resolved = ResolveReference request_url parsed in
          if \<not> equal_fold (u_Scheme resolved) (u_Scheme base)
             \<or> \<not> equal_fold (u_Host resolved) (u_Host base) then None
          else
            let basePath = path_clean (''/'' @ trim_prefix (u_Path base) ''/'');
                resolvedPath = path_clean (''/'' @ trim_prefix (u_Path resolved) ''/'')
            in if resolvedPath \<noteq> basePath \<and> \<not> has_prefix resolvedPath (basePath @ ''/'') then None
               else
                 let relative = trim_prefix (trim_prefix resolvedPath basePath) ''/'';
                     local = routePrefix @ a @ (if relative \<noteq> [] then ''/'' @ relative else [])
                       @ (if u_RawQuery resolved \<noteq> [] then ''?'' @ u_RawQuery resolved else [])
                 in Some (header_Set h ''Location'' local))"

section \<open>Replies\<close>

definition writeError :: "header \<Rightarrow> int \<Rightarrow> string \<Rightarrow> reply" where
  "writeError h status message =
     \<lparr>rp_Status = status,
      rp_Header = header_Set (header_Set h ''Content-Type'' ''text/plain; charset=utf-8'')
        ''Cache-Control'' ''no-store'',
      rp_Body = ''airlock: '' @ message @ [LF]\<rparr>"

definition writeRouteError :: "header \<Rightarrow> http_route \<Rightarrow> int \<Rightarrow> string \<Rightarrow> string \<Rightarrow> reply" where
  "writeRouteError h route status code message =
     (if EffectiveKind route = KindLLM then writeLLMError h (hr_Provider route) status code message
      else writeError h status message)"

section \<open>Request slots\<close>

text \<open>A buffered channel used as a semaphore: its capacity and how many slots are taken; \<open>None\<close> is a nil channel.\<close>

type_synonym slots = "(nat \<times> nat) option"

definition defaultMaxInFlightRequests :: nat where
  "defaultMaxInFlightRequests = 128"

definition WithMaxInFlightRequests :: "int \<Rightarrow> slots \<Rightarrow> slots" where
  "WithMaxInFlightRequests limit old = (if limit > 0 then Some (nat limit, 0) else old)"

definition tryAcquireRequest :: "slots \<Rightarrow> bool \<times> slots" where
  "tryAcquireRequest s =
     (case s of
        None \<Rightarrow> (True, s)
      | Some (cap, used) \<Rightarrow> if used < cap then (True, Some (cap, Suc used)) else (False, s))"

definition releaseRequest :: "slots \<Rightarrow> slots" where
  "releaseRequest s =
     (case s of None \<Rightarrow> None | Some (cap, used) \<Rightarrow> Some (cap, used - 1))"

definition slots_used :: "slots \<Rightarrow> nat" where
  "slots_used s = (case s of None \<Rightarrow> 0 | Some (cap, used) \<Rightarrow> used)"

definition slots_capacity :: "slots \<Rightarrow> nat option" where
  "slots_capacity s = map_option fst s"

interpretation request_slots: slot_pool tryAcquireRequest releaseRequest slots_used slots_capacity
  by unfold_locales
    (auto simp: tryAcquireRequest_def releaseRequest_def slots_used_def slots_capacity_def
      split: option.splits if_splits)

section \<open>The LLM limiter\<close>

record llm_limit_state =
  ll_capabilityDigest :: digest
  ll_requestsPerMinute :: int
  ll_maxConcurrent :: int
  ll_windowStarted :: int
  ll_requests :: int
  ll_current :: int

record llm_limit_error =
  lx_Code :: string
  lx_Message :: string
  lx_RetryAfter :: string

text \<open>
  Limit states are shared by pointer: the map holds the current state of an alias, and the
  release closure of a request keeps the state it was counted in. The heap lists all states ever
  allocated; an address is a position in it.
\<close>

record limiter =
  lm_heap :: "llm_limit_state list"
  lm_limits :: "(string, nat) amap"

definition minute :: int where
  "minute = 60 * 1000000000"

text \<open>\<open>int(d.Seconds())\<close>: conversion of a float to an integer truncates towards zero.\<close>

definition whole_seconds :: "int \<Rightarrow> int" where
  "whole_seconds d = (if d \<ge> 0 then d div 1000000000 else - ((- d) div 1000000000))"

definition limit_state_for :: "limiter \<Rightarrow> http_route \<Rightarrow> int \<Rightarrow> nat \<times> limiter" where
  "limit_state_for lim route now =
     (let fresh = \<lparr>ll_capabilityDigest = hr_CapabilityDigest route,
                    ll_requestsPerMinute = hp_RequestsPerMinute (hr_Policy route),
                    ll_maxConcurrent = hp_MaxConcurrent (hr_Policy route),
                    ll_windowStarted = now, ll_requests = 0, ll_current = 0\<rparr>;
          n = length (lm_heap lim);
          allocated = (n, lim\<lparr>lm_heap := lm_heap lim @ [fresh],
                              lm_limits := AList.update (hr_Alias route) n (lm_limits lim)\<rparr>)
      in case map_of (lm_limits lim) (hr_Alias route) of
           None \<Rightarrow> allocated
         | Some addr \<Rightarrow>
             let state = lm_heap lim ! addr in
             if ll_capabilityDigest state \<noteq> hr_CapabilityDigest route
                \<or> ll_requestsPerMinute state \<noteq> hp_RequestsPerMinute (hr_Policy route)
                \<or> ll_maxConcurrent state \<noteq> hp_MaxConcurrent (hr_Policy route)
             then allocated else (addr, lim))"

definition acquireLLMRequest ::
  "limiter \<Rightarrow> http_route \<Rightarrow> int \<Rightarrow> int \<Rightarrow> (llm_limit_error + nat option) \<times> limiter" where
  "acquireLLMRequest lim route now later =
     (if EffectiveKind route \<noteq> KindLLM then (Inr None, lim)
      else case limit_state_for lim route now of (addr, lim1) \<Rightarrow>
        let state = lm_heap lim1 ! addr;
            state1 = (if now - ll_windowStarted state \<ge> minute
                      then state\<lparr>ll_windowStarted := now, ll_requests := 0\<rparr> else state);
            lim2 = lim1\<lparr>lm_heap := (lm_heap lim1)[addr := state1]\<rparr>
        in if ll_current state1 \<ge> ll_maxConcurrent state1
           then (Inl \<lparr>lx_Code = ''concurrency_limit'', lx_Message = ''concurrent request limit reached'',
                      lx_RetryAfter = ''1''\<rparr>, lim2)
           else if ll_requests state1 \<ge> ll_requestsPerMinute state1
           then let retryAfter = whole_seconds (ll_windowStarted state1 + minute - later) + 1
                in (Inl \<lparr>lx_Code = ''rate_limit'', lx_Message = ''request rate limit reached'',
                         lx_RetryAfter = itoa (if retryAfter < 1 then 1 else retryAfter)\<rparr>, lim2)
           else (Inr (Some addr),
                 lim2\<lparr>lm_heap := (lm_heap lim2)[addr :=
                   state1\<lparr>ll_requests := ll_requests state1 + 1, ll_current := ll_current state1 + 1\<rparr>]\<rparr>))"

definition release_addr :: "limiter \<Rightarrow> nat \<Rightarrow> limiter" where
  "release_addr lim addr =
     (let state = lm_heap lim ! addr in
      if ll_current state > 0
      then lim\<lparr>lm_heap := (lm_heap lim)[addr := state\<lparr>ll_current := ll_current state - 1\<rparr>]\<rparr> else lim)"

definition releaseLLM :: "limiter \<Rightarrow> nat option \<Rightarrow> limiter" where
  "releaseLLM lim token = (case token of None \<Rightarrow> lim | Some addr \<Rightarrow> release_addr lim addr)"

section \<open>Activity\<close>

definition callerLabel :: "string \<Rightarrow> string" where
  "callerLabel remoteAddress =
     (case SplitHostPort remoteAddress of
        None \<Rightarrow> ''network''
      | Some (host, _) \<Rightarrow>
          (case ParseIP host of
             None \<Rightarrow> ''network''
           | Some addr \<Rightarrow>
               if IsLoopback addr then ''loopback''
               else if IsPrivate addr then ''private-lan'' else ''network''))"

definition request_event :: "http_route \<Rightarrow> in_request \<Rightarrow> string \<Rightarrow> int \<Rightarrow> activity_event" where
  "request_event route request result durationMS =
     \<lparr>ev_ID = [], ev_Time = 0, ev_RouteAlias = hr_Alias route, ev_Category = EffectiveKind route,
      ev_EventType = ''request'', ev_Caller = callerLabel (iq_RemoteAddr request),
      ev_Action = (if EffectiveKind route = KindLLM then ''LLM request'' else iq_Method request @ '' request''),
      ev_Result = result, ev_DurationMS = durationMS,
      ev_Egress = (if hr_Egress route = [] then Direct else hr_Egress route)\<rparr>"

text \<open>The recorder is optional; an event it rejects is dropped, as the handler ignores the error.\<close>

definition recordActivity ::
  "recorder option \<Rightarrow> string \<Rightarrow> int \<Rightarrow> http_route \<Rightarrow> in_request \<Rightarrow> string \<Rightarrow> int \<Rightarrow> recorder option" where
  "recordActivity activity eventID now route request result durationMS =
     (case activity of
        None \<Rightarrow> None
      | Some events \<Rightarrow>
          (case Record events (request_event route request result durationMS) eventID now of
             Inl _ \<Rightarrow> Some events
           | Inr events' \<Rightarrow> Some events'))"

section \<open>The handler\<close>

record handler =
  hd_routes :: http_registry
  hd_requests :: slots
  hd_limits :: limiter
  hd_activity :: "recorder option"

definition NewHandler :: "http_registry \<Rightarrow> recorder option \<Rightarrow> handler" where
  "NewHandler registry activity =
     \<lparr>hd_routes = registry, hd_requests = Some (defaultMaxInFlightRequests, 0),
      hd_limits = \<lparr>lm_heap = [], lm_limits = []\<rparr>, hd_activity = activity\<rparr>"

text \<open>What a request meets: the network, the egress manager, the secret store and the clock readings.\<close>

record surroundings =
  sv_network :: network
  sv_egress :: manager
  sv_secrets :: backend
  sv_contextDone :: bool
  sv_backendOk :: bool
  sv_now :: int
  sv_later :: int
  sv_eventID :: string
  sv_eventTime :: int
  sv_durationMS :: int

definition localCredential :: "http_route \<Rightarrow> in_request \<Rightarrow> string" where
  "localCredential route request =
     (if EffectiveKind route = KindLLM \<and> hr_Provider route = ProviderAnthropic
         \<and> trim_space (header_Get (iq_Header request) ''X-Api-Key'') \<noteq> []
      then trim_space (header_Get (iq_Header request) ''X-Api-Key'')
      else bearerToken (header_Get (iq_Header request) ''Authorization''))"

definition endpointPath :: "string \<Rightarrow> string" where
  "endpointPath suffix_text = ''/'' @ trim_prefix suffix_text ''/''"

text \<open>The checks before a slot is taken: the reply that rejects the request, if any does.\<close>

definition check_request :: "http_route \<Rightarrow> in_request \<Rightarrow> string \<Rightarrow> reply option" where
  "check_request route request suffix_text =
     (case Verify (localCredential route request) (hr_CapabilityDigest route) of
        Inl _ \<Rightarrow>
          Some (writeRouteError (header_Set [] ''WWW-Authenticate'' (''Bearer realm='' @ [QUOTE] @ ''airlock'' @ [QUOTE]))
            route 401 ''invalid_api_key'' ''invalid local API key'')
      | Inr _ \<Rightarrow>
          if \<not> AllowsMethod (hr_Policy route) (iq_Method request)
          then Some (writeRouteError (header_Set [] ''Allow'' (allowedMethods (hr_Policy route)))
            route 405 ''method_not_allowed'' ''method not allowed'')
          else if list_ex (\<lambda>(key, _). \<not> AllowsQueryKey (hr_Policy route) key)
                    (ParseQuery (u_RawQuery (iq_URL request)))
          then Some (writeRouteError [] route 400 ''query_not_allowed'' ''query parameter not allowed'')
          else if EffectiveKind route = KindLLM \<and> \<not> AllowsPath (hr_Policy route) (endpointPath suffix_text)
          then Some (writeRouteError [] route 404 ''endpoint_not_allowed'' ''endpoint not allowed'')
          else None)"

definition validMethod :: "string \<Rightarrow> bool" where
  "validMethod m \<longleftrightarrow> m \<noteq> [] \<and> list_all token_char m"

text \<open>\<open>http.NewRequestWithContext\<close> and the header copying that follows it.\<close>

definition upstream_request ::
  "http_route \<Rightarrow> in_request \<Rightarrow> http_target \<Rightarrow> go_url \<Rightarrow> bytes option \<Rightarrow> out_request option" where
  "upstream_request route request target upstreamURL body =
     (let rawURL = url_String upstreamURL; llm = (EffectiveKind route = KindLLM);
          copied = copySafeRequestHeaders [] (iq_Header request);
          h = (if llm then header_Set copied ''Content-Type'' ''application/json'' else copied);
          outgoing = \<lparr>oq_Method = (if iq_Method request = [] then ''GET'' else iq_Method request), oq_URL = rawURL,
             oq_Header = set_target_headers h (ht_Headers target),
             oq_Body = (case body of None \<Rightarrow> None | Some p \<Rightarrow> if p = [] then None else Some p),
             oq_GetBody = map_option (\<lambda>_. True) body, oq_retryMarked = False\<rparr>
      in if \<not> validMethod (oq_Method outgoing) \<or> url_Parse rawURL = None then None
         else Some (if llm then AllowConnectivityRetry outgoing else outgoing))"

text \<open>The outcome of forwarding: what was tried upstream, the reply, the activity result and the tokens used.\<close>

record forwarded =
  fw_tried :: "(via \<times> out_request) list"
  fw_reply :: reply
  fw_result :: string
  fw_usage :: "(64 word \<times> 64 word) option"

definition failed_forward :: "(via \<times> out_request) list \<Rightarrow> reply \<Rightarrow> string \<Rightarrow> forwarded" where
  "failed_forward tried r result = \<lparr>fw_tried = tried, fw_reply = r, fw_result = result, fw_usage = None\<rparr>"

definition deliver ::
  "http_route \<Rightarrow> in_request \<Rightarrow> (via \<times> out_request) list \<Rightarrow> http_response \<Rightarrow> header \<Rightarrow> forwarded" where
  "deliver route request tried response h =
     (let llm = (EffectiveKind route = KindLLM);
          streaming = (llm \<and> has_prefix (to_lower (header_Get h ''Content-Type'')) ''text/event-stream'');
          capture = capture_Write newLLMUsageCapture (rs_Body response)
      in \<lparr>fw_tried = tried,
          fw_reply = \<lparr>rp_Status = rs_StatusCode response, rp_Header = copySafeResponseHeaders [] h,
            rp_Body = (if iq_Method request \<noteq> ''HEAD'' then rs_Body response else [])\<rparr>,
          fw_result = ''allowed'',
          fw_usage = (if iq_Method request \<noteq> ''HEAD'' \<and> llm \<and> hp_TrackUsage (hr_Policy route)
                      then Some (TokenUsage capture streaming) else None)\<rparr>)"

definition send_upstream ::
  "surroundings \<Rightarrow> http_route \<Rightarrow> string \<Rightarrow> in_request \<Rightarrow> go_url \<Rightarrow> out_request \<Rightarrow> forwarded" where
  "send_upstream sv route a request base outgoing =
     (case RoundTrip (sv_network sv) (sv_egress sv) (hr_Egress route) outgoing of
        (tried, Some response, None) \<Rightarrow>
          if isRedirect (rs_StatusCode response) then
            (case url_Parse (oq_URL outgoing) of
               None \<Rightarrow> failed_forward tried
                 (writeRouteError [] route 502 ''redirect_rejected'' ''upstream redirect rejected'') ''failed''
             | Some requestURL \<Rightarrow>
                 (case rewriteLocation (rs_Header response) requestURL base a of
                    None \<Rightarrow> failed_forward tried
                      (writeRouteError [] route 502 ''redirect_rejected'' ''upstream redirect rejected'') ''failed''
                  | Some h \<Rightarrow> deliver route request tried response h))
          else deliver route request tried response (rs_Header response)
      | (tried, _, _) \<Rightarrow> failed_forward tried
          (writeRouteError [] route 502 ''upstream_unavailable'' ''upstream request failed'') ''failed'')"

definition forward ::
  "surroundings \<Rightarrow> http_route \<Rightarrow> string \<Rightarrow> string \<Rightarrow> in_request \<Rightarrow> forwarded" where
  "forward sv route a suffix_text request =
     (let unavailable = failed_forward []
            (writeRouteError [] route 502 ''target_unavailable'' ''target unavailable'') ''failed''
      in case ResolveHTTPTarget (sv_contextDone sv) (sv_backendOk sv) (sv_secrets sv) (hr_TargetSecretRef route) of
           Inl _ \<Rightarrow> unavailable
         | Inr target \<Rightarrow>
             (case ht_BaseURL target of
                None \<Rightarrow> unavailable
              | Some base \<Rightarrow>
                  if \<not> validTargetScheme (u_Scheme base) then unavailable
                  else (case buildUpstreamURL base suffix_text (ParseQuery (u_RawQuery (iq_URL request))) of
                    None \<Rightarrow> failed_forward []
                      (writeRouteError [] route 400 ''invalid_path'' ''invalid route path'') ''blocked''
                  | Some upstreamURL \<Rightarrow>
                      (case (if EffectiveKind route = KindLLM
                             then map_sum id Some (prepareLLMRequest request route (endpointPath suffix_text))
                             else Inr None) of
                         Inl e \<Rightarrow> failed_forward []
                           (writeRouteError [] route (le_Status e) (le_Code e) (le_Message e)) ''blocked''
                       | Inr body \<Rightarrow>
                           (case upstream_request route request target upstreamURL body of
                              None \<Rightarrow> unavailable
                            | Some outgoing \<Rightarrow> send_upstream sv route a request base outgoing)))))"

definition record_usage :: "http_registry \<Rightarrow> string \<Rightarrow> (64 word \<times> 64 word) option \<Rightarrow> http_registry" where
  "record_usage reg a usage =
     (case usage of
        None \<Rightarrow> reg
      | Some (inputTokens, outputTokens) \<Rightarrow>
          (case RecordLLMUsage reg a 1 inputTokens outputTokens of Inl _ \<Rightarrow> reg | Inr reg' \<Rightarrow> reg'))"

text \<open>
  Admission: a reply that ends the request (and, when a route was found, the activity result to
  record for it), or the route, alias, path and limiter token of an admitted request.
\<close>

datatype admission =
    Finished reply "(http_route \<times> string) option"
  | Admitted http_route string string "nat option"

definition admit :: "surroundings \<Rightarrow> handler \<Rightarrow> in_request \<Rightarrow> admission \<times> handler" where
  "admit sv h request =
     (case parseRoutePath (iq_URL request) of
        None \<Rightarrow> (Finished (writeError [] 404 ''route not found'') None, h)
      | Some (a, suffix_text) \<Rightarrow>
          (case Lookup (hd_routes h) a of
             Inl _ \<Rightarrow>
               (Finished (writeError [] 404 ''route not found'')
                  (case Get (hd_routes h) a of
                     Inr disabled \<Rightarrow> if \<not> hr_Enabled disabled then Some (disabled, ''blocked'') else None
                   | Inl _ \<Rightarrow> None), h)
           | Inr route \<Rightarrow>
               (case check_request route request suffix_text of
                  Some r \<Rightarrow> (Finished r (Some (route, ''blocked'')), h)
                | None \<Rightarrow>
                    (case tryAcquireRequest (hd_requests h) of
                       (False, _) \<Rightarrow>
                         (Finished (writeRouteError (header_Set [] ''Retry-After'' ''1'') route 503
                            ''capacity_limit'' ''gateway capacity reached'') (Some (route, ''blocked'')), h)
                     | (True, taken) \<Rightarrow>
                         (case acquireLLMRequest (hd_limits h) route (sv_now sv) (sv_later sv) of
                            (Inl e, lim) \<Rightarrow>
                              (Finished (writeRouteError (header_Set [] ''Retry-After'' (lx_RetryAfter e)) route 429
                                 (lx_Code e) (lx_Message e)) (Some (route, ''blocked'')),
                               h\<lparr>hd_requests := releaseRequest taken, hd_limits := lim\<rparr>)
                          | (Inr token, lim) \<Rightarrow>
                              (Admitted route a suffix_text token,
                               h\<lparr>hd_requests := taken, hd_limits := lim\<rparr>))))))"

definition finish_admitted :: "handler \<Rightarrow> http_route \<Rightarrow> nat option \<Rightarrow> forwarded \<Rightarrow> handler" where
  "finish_admitted h route token fw =
     h\<lparr>hd_routes := record_usage (hd_routes h) (hr_Alias route) (fw_usage fw),
       hd_limits := releaseLLM (hd_limits h) token, hd_requests := releaseRequest (hd_requests h)\<rparr>"

definition record_result ::
  "surroundings \<Rightarrow> handler \<Rightarrow> in_request \<Rightarrow> (http_route \<times> string) option \<Rightarrow> int \<Rightarrow> handler" where
  "record_result sv h request outcome durationMS =
     (case outcome of
        None \<Rightarrow> h
      | Some (route, result) \<Rightarrow>
          h\<lparr>hd_activity := recordActivity (hd_activity h) (sv_eventID sv) (sv_eventTime sv) route request
              result durationMS\<rparr>)"

definition ServeHTTP ::
  "surroundings \<Rightarrow> handler \<Rightarrow> in_request \<Rightarrow> reply \<times> (via \<times> out_request) list \<times> handler" where
  "ServeHTTP sv h request =
     (case admit sv h request of
        (Finished r outcome, h1) \<Rightarrow>
          (r, [], record_result sv h1 request outcome
             (case outcome of Some (route, _) \<Rightarrow> if hr_Enabled route then sv_durationMS sv else 0 | None \<Rightarrow> 0))
      | (Admitted route a suffix_text token, h1) \<Rightarrow>
          let fw = forward sv route a suffix_text request in
          (fw_reply fw, fw_tried fw,
           record_result sv (finish_admitted h1 route token fw) request (Some (route, fw_result fw))
             (sv_durationMS sv)))"

end
