(* ===== verification/Http_Paths.thy ===== *)
theory Http_Paths
  imports Http_Gateway
begin

text \<open>
  What the HTTP gateway guarantees about paths: a route path that is accepted stays safe under
  any number of further percent-decodings, the upstream URL stays on the target's origin and below
  its base path, and redirects are mapped back into the route or rejected.
\<close>

section \<open>Accepted paths are safe under repeated decoding\<close>

fun decode_times :: "nat \<Rightarrow> string \<Rightarrow> string option" where
  "decode_times 0 s = Some s"
| "decode_times (Suc k) s =
     (case path_unescape s of None \<Rightarrow> None | Some t \<Rightarrow> decode_times k t)"

lemma decode_times_fixed: "path_unescape s = Some s \<Longrightarrow> decode_times k s = Some s"
  by (induction k) simp_all

lemma unsafe_rounds_safe:
  "\<not> unsafe_rounds n s \<Longrightarrow> \<exists>t. decode_times k s = Some t \<and> \<not> unsafe_text t"
proof (induction n arbitrary: s k)
  case (Suc n)
  from Suc.prems have safe: "\<not> unsafe_text s" by (auto split: if_splits)
  with Suc.prems obtain t where t: "path_unescape s = Some t" "t = s \<or> \<not> unsafe_rounds n t"
    by (auto split: option.splits if_splits)
  show ?case
  proof (cases "t = s")
    case True
    with t(1) safe decode_times_fixed [of s k] show ?thesis by simp
  next
    case False
    with t Suc.IH [of t] safe show ?thesis by (cases k) auto
  qed
qed simp

lemma path_unescape_unesc: "path_unescape s = unesc s"
proof (induction s rule: path_unescape.induct)
  case (2 c cs)
  then show ?case
    by (auto split: list.splits option.splits if_splits)
qed simp

lemma safe_suffix:
  assumes "\<not> unsafePath s raw"
  shows "\<exists>z. unesc s = Some z \<and> no_dots s \<and> no_dots z"
proof -
  have r: "\<not> unsafe_rounds 16 s" using assms by (simp add: unsafePath_def)
  have "\<not> unsafe_text s" using unsafe_rounds_safe [OF r, of 0] by simp
  moreover obtain z where "path_unescape s = Some z" "\<not> unsafe_text z"
    using unsafe_rounds_safe [OF r, of 1] by (auto split: option.splits)
  ultimately show ?thesis
    by (auto simp: path_unescape_unesc unsafe_text_def no_dots_def list_all_iff list_ex_iff)
qed

section \<open>The upstream path stays below the base path\<close>

lemma clean_segments_slash: "clean_segments (CHR ''/'' # p) = clean_segments p"
  by (simp add: clean_segments_def clean_step_def)

definition base_prefix :: "go_url \<Rightarrow> string" where
  "base_prefix base = slashed (map decoded (clean_segments (EscapedPath base)))"

definition named_segments :: "string \<Rightarrow> string list" where
  "named_segments s = filter (\<lambda>seg. seg \<noteq> []) (split_on CHR ''/'' s)"

lemma joined_path_parts:
  assumes "no_dots s" "B = [] \<or> prefix ''/'' B"
  defines "segs \<equiv> clean_segments B @ named_segments s"
  shows "\<exists>t. (t = [] \<or> t = ''/'') \<and> joined_path B s =
    (if prefix ''/'' B then (if segs = [] then ''/'' else slashed segs @ t)
     else (if segs = [] then t else drop 1 (slashed segs) @ t))"
proof -
  let ?b = "if prefix ''/'' B then B else ''/'' @ B"
  have cb: "clean_segments ?b = clean_segments B" by (simp add: clean_segments_slash)
  have "clean_segments (if s = [] then ?b else ?b @ ''/'' @ s) = segs"
  proof (cases "s = []")
    case True
    then show ?thesis by (simp add: cb segs_def named_segments_def)
  next
    case False
    have "\<forall>seg\<in>set (split_on CHR ''/'' s). \<not> dot_segment seg"
      using assms(1) by (simp add: no_dots_def list_all_iff)
    from clean_segments_append [OF this, of ?b] False show ?thesis
      by (simp only: if_False cb segs_def named_segments_def)
  qed
  then have c: "path_clean (if s = [] then ?b else ?b @ ''/'' @ s)
      = (if segs = [] then ''/'' else slashed segs)"
    by (simp add: path_clean_slashed)
  show ?thesis
    unfolding joined_path_def Let_def c
    by (cases "suffix ''/'' s") (auto intro: exI [of _ "''/''"] exI [of _ "[]"])
qed

lemma named_decoded:
  assumes "unesc s = Some z"
  shows "\<forall>x\<in>set (named_segments s). unesc x = Some (decoded x)"
  using unesc_split [OF assms] by (auto simp: named_segments_def)

lemma clean_decoded:
  assumes "unesc B = Some z"
  shows "\<forall>x\<in>set (clean_segments B). unesc x = Some (decoded x)"
  using unesc_split [OF assms] clean_segments_subset [of B] by auto

lemma named_no_dots:
  assumes "unesc s = Some z" "no_dots z"
  shows "no_dots (slashed (map decoded (named_segments s)))"
  using no_dots_decoded [OF assms] by (intro no_dots_slashed) (auto simp: named_segments_def)

lemma slashed_append: "slashed (xs @ ys) = slashed xs @ slashed ys"
  by (simp add: slashed_def)

lemma slashed_prefix: "slashed xs = [] \<or> prefix ''/'' (slashed xs)"
  by (cases xs) (simp_all add: slashed_def)

lemma no_dots_trailing: "t = [] \<or> t = ''/'' \<Longrightarrow> no_dots (x @ t) = no_dots x"
  using no_dots_slash [of x "[]"] by auto

lemma no_dots_rooted: "no_dots (CHR ''/'' # x) = no_dots x"
  using no_dots_slash [of "[]" x] by simp

lemma joined_below_base:
  assumes "prefix ''/'' B" "unesc B = Some b" "unesc s = Some z" "no_dots s" "no_dots z"
  shows "\<exists>rest. unesc (joined_path B s) = Some (slashed (map decoded (clean_segments B)) @ rest)
    \<and> no_dots rest \<and> (rest = [] \<or> prefix ''/'' rest) \<and> prefix ''/'' (joined_path B s)"
proof -
  define cs where "cs = clean_segments B"
  define ns where "ns = named_segments s"
  obtain t where t: "t = [] \<or> t = ''/''"
      "joined_path B s = (if cs @ ns = [] then ''/'' else slashed (cs @ ns) @ t)"
    using joined_path_parts [OF assms(4), of B] assms(1) unfolding cs_def ns_def by auto
  show ?thesis
  proof (cases "cs @ ns = []")
    case True
    have "no_dots ''/''" using no_dots_rooted [of "[]"] by simp
    with True t show ?thesis unfolding cs_def [symmetric] by (intro exI [of _ "''/''"]) (simp add: slashed_def)
  next
    case False
    have "unesc (slashed (cs @ ns)) = Some (slashed (map decoded (cs @ ns)))"
      using clean_decoded [OF assms(2)] named_decoded [OF assms(3)]
      by (intro unesc_slashed) (auto simp: cs_def ns_def)
    moreover have "unesc t = Some t" using t(1) by auto
    ultimately have "unesc (slashed (cs @ ns) @ t)
        = Some (slashed (map decoded cs) @ slashed (map decoded ns) @ t)"
      using unesc_append [of "slashed (cs @ ns)" _ t] by (simp add: slashed_append)
    then have "unesc (joined_path B s) = Some (slashed (map decoded cs) @ slashed (map decoded ns) @ t)"
      unfolding t(2) using False by (simp only: if_False)
    moreover have "no_dots (slashed (map decoded ns) @ t)"
      using named_no_dots [OF assms(3,5)] no_dots_trailing [OF t(1)] by (simp add: ns_def)
    moreover have "slashed (map decoded ns) @ t = [] \<or> prefix ''/'' (slashed (map decoded ns) @ t)"
      using slashed_prefix [of "map decoded ns"] t(1) by (auto simp: prefix_def)
    moreover have "prefix ''/'' (joined_path B s)"
      using False t(2) slashed_prefix [of "cs @ ns"] by (cases cs; cases ns) (auto simp: slashed_def)
    ultimately show ?thesis unfolding cs_def by blast
  qed
qed

lemma joined_at_root:
  assumes "unesc s = Some z" "no_dots s" "no_dots z"
  shows "\<exists>P. unesc (joined_path [] s) = Some P \<and> no_dots P"
proof -
  define ns where "ns = named_segments s"
  have "clean_segments [] = []" by (simp add: clean_segments_def clean_step_def)
  then obtain t where t: "t = [] \<or> t = ''/''"
      "joined_path [] s = (if ns = [] then t else drop 1 (slashed ns) @ t)"
    using joined_path_parts [OF assms(2), of "[]"] unfolding ns_def by (auto simp only: append_Nil prefix_Nil list.simps if_False)
  have ut: "unesc t = Some t" "no_dots t" using t(1) no_dots_rooted [of "[]"] by auto
  show ?thesis
  proof (cases ns)
    case Nil
    with t ut show ?thesis by simp
  next
    case (Cons n rest)
    have u: "unesc (slashed ns) = Some (slashed (map decoded ns))"
      using named_decoded [OF assms(1)] by (intro unesc_slashed) (auto simp: ns_def)
    obtain x y where shape: "slashed ns = CHR ''/'' # x" "slashed (map decoded ns) = CHR ''/'' # y"
      using Cons by (simp add: slashed_def)
    then have "unesc (drop 1 (slashed ns)) = Some y" using u by simp
    moreover have "no_dots y"
      using named_no_dots [OF assms(1,3)] shape(2) no_dots_rooted [of y] by (simp add: ns_def)
    ultimately show ?thesis
      using Cons t ut no_dots_trailing [OF t(1)] by (simp add: unesc_append)
  qed
qed

lemma setPath_fields:
  "setPath u p = Some v \<Longrightarrow>
   v = u\<lparr>u_Path := u_Path v, u_RawPath := u_RawPath v\<rparr> \<and> unesc p = Some (u_Path v)"
  by (auto simp: setPath_def split: option.splits)

lemma EscapedPath_rooted:
  assumes "setPath u p = Some v" "prefix ''/'' p"
  shows "prefix ''/'' (EscapedPath v)"
proof -
  obtain r where p: "p = CHR ''/'' # r" using assms(2) by (auto simp: prefix_def)
  obtain d where d: "v = u\<lparr>u_Path := CHR ''/'' # d, u_RawPath :=
      (if p = url_escape encodePath (CHR ''/'' # d) then [] else p)\<rparr>"
    using assms(1) p by (auto simp: setPath_def split: option.splits)
  have "escape_char encodePath (CHR ''/'') = ''/''"
    by (simp add: escape_char_def shouldEscape_def reserved_escape_def alnum_def char_class_defs)
  then have "prefix ''/'' (url_escape encodePath (CHR ''/'' # d))" by (simp add: url_escape_def)
  with d p show ?thesis by (auto simp: EscapedPath_def)
qed

text \<open>The URL that is parsed back from a joined URL: origin kept, path decoded from what was joined.\<close>

lemma parse_joined:
  assumes "http_url u" "setPath u p = Some v"
  shows "\<exists>w. url_Parse (url_String v) = Some w \<and> u_Scheme w = u_Scheme u \<and> u_Host w = u_Host u
    \<and> u_User w = None \<and> u_Opaque w = [] \<and> u_Fragment w = []
    \<and> (u_Path w = u_Path v \<or> u_Path w = CHR ''/'' # u_Path v)
    \<and> (prefix ''/'' p \<longrightarrow> u_Path w = u_Path v) \<and> (u_Path w = [] \<or> prefix ''/'' (u_Path w))"
proof -
  obtain d r where d: "v = u\<lparr>u_Path := d, u_RawPath := r\<rparr>"
    using assms(2) by (auto simp: setPath_def split: option.splits)
  have v: "http_url v" "u_Scheme v = u_Scheme u" "u_Host v = u_Host u"
    using assms(1) by (simp_all add: d http_url_def)
  let ?e = "rooted (EscapedPath v)"
  have "url_Parse (url_String v) = setPath (empty_url\<lparr>u_Scheme := u_Scheme v, u_Host := u_Host v\<rparr>) ?e"
    unfolding String_http [OF v(1)]
    using v(1) EscapedPath_pchar rooted_pchar rooted_slash
    by (intro parse_http) (auto simp: http_url_def)
  moreover have "\<exists>d. unesc ?e = Some d \<and> (d = u_Path v \<or> d = CHR ''/'' # u_Path v)
      \<and> (d = [] \<or> prefix ''/'' d) \<and> (prefix ''/'' p \<longrightarrow> d = u_Path v)"
  proof (cases "EscapedPath v \<noteq> [] \<and> hd (EscapedPath v) \<noteq> CHR ''/''")
    case True
    then have "\<not> prefix ''/'' p" using EscapedPath_rooted [OF assms(2)] by (cases "EscapedPath v") auto
    with True show ?thesis using unescape_EscapedPath [of v] by (simp add: rooted_def)
  next
    case False
    then have "EscapedPath v = [] \<or> (\<exists>r. EscapedPath v = CHR ''/'' # r)"
      by (cases "EscapedPath v") auto
    with False show ?thesis using unescape_EscapedPath [of v]
      by (auto simp: rooted_def) (metis Cons_prefix_Cons Nil_prefix)
  qed
  ultimately show ?thesis using v by (auto simp: setPath_def empty_url_def)
qed


section \<open>What the gateway promises about paths\<close>

lemma parseRoutePath_parts:
  assumes "parseRoutePath u = Some (a, s)"
  shows "a \<noteq> [] \<and> CHR ''/'' \<notin> set a \<and> \<not> unsafePath s (u_RawPath u)
    \<and> (u_Path u = routePrefix @ a \<and> s = [] \<or> u_Path u = routePrefix @ a @ ''/'' @ s)"
proof -
  obtain r where r: "u_Path u = routePrefix @ r"
    using assms by (auto simp: parseRoutePath_def has_prefix_def prefix_def split: if_splits)
  then have t: "trim_prefix (u_Path u) routePrefix = r"
    by (simp add: trim_prefix_def has_prefix_def)
  obtain b rest found where c: "cut_char CHR ''/'' r = (b, rest, found)" by (cases "cut_char CHR ''/'' r")
  have "a = b" "b \<noteq> []" "s = (if found then rest else [])" "\<not> unsafePath s (u_RawPath u)"
    using assms by (auto simp: parseRoutePath_def r t c Let_def trim_prefix_def has_prefix_def split: if_splits)
  moreover have "found \<Longrightarrow> r = b @ ''/'' @ rest \<and> CHR ''/'' \<notin> set b"
      "\<not> found \<Longrightarrow> b = r \<and> CHR ''/'' \<notin> set b"
    using c by (auto simp: cut_char_found cut_char_not_found)
  ultimately show ?thesis using r by (cases found) auto
qed

text \<open>
  C13: a route path that is accepted names one alias, without a slash, and its remainder and its raw
  form contain no backslash, no NUL and no dot segment, however often they are percent-decoded again.
\<close>

theorem accepted_path_safe:
  assumes "parseRoutePath u = Some (a, s)"
  shows "a \<noteq> [] \<and> CHR ''/'' \<notin> set a
    \<and> (u_Path u = routePrefix @ a \<and> s = [] \<or> u_Path u = routePrefix @ a @ ''/'' @ s)
    \<and> (\<forall>k. \<exists>t. decode_times k s = Some t \<and> \<not> unsafe_text t)
    \<and> (\<forall>k. \<exists>t. decode_times k (u_RawPath u) = Some t \<and> \<not> unsafe_text t)"
  using parseRoutePath_parts [OF assms] unsafe_rounds_safe unfolding unsafePath_def by blast

theorem accepted_path_safe_witness:
  "parseRoutePath (empty_url\<lparr>u_Path := ''/r/gh/v1/a%20b''\<rparr>) = Some (''gh'', ''v1/a%20b'')
   \<and> (\<exists>t. decode_times 2 ''v1/a%20b'' = Some t \<and> \<not> unsafe_text t)"
proof -
  have p: "parseRoutePath (empty_url\<lparr>u_Path := ''/r/gh/v1/a%20b''\<rparr>) = Some (''gh'', ''v1/a%20b'')"
    by code_simp
  from accepted_path_safe [OF p] p show ?thesis by blast
qed

lemma buildUpstreamURL_joined:
  assumes "canonical_base base" "setPath base (joined_path (EscapedPath base) s) = Some v"
    "url_Parse (url_String v) = Some w"
  shows "buildUpstreamURL base s q = Some (w\<lparr>u_RawQuery := Values_Encode q\<rparr>)"
  using assms by (simp add: buildUpstreamURL_def JoinPath_def url_JoinPath_def parse_canonical)

text \<open>
  C12: for an accepted route path, the upstream URL exists, keeps the scheme and host of the target,
  carries no user information, and its path is the target's base path followed by a remainder with
  no dot segments: the request cannot leave the target's base path.
\<close>

theorem upstream_url_confined:
  assumes "canonical_base base" "parseRoutePath u = Some (a, s)"
  shows "\<exists>v rest. buildUpstreamURL base s q = Some v \<and> u_Scheme v = u_Scheme base \<and> u_Host v = u_Host base
    \<and> u_User v = None \<and> u_Opaque v = [] \<and> u_Fragment v = [] \<and> u_RawQuery v = Values_Encode q
    \<and> u_Path v = base_prefix base @ rest \<and> no_dots rest \<and> (rest = [] \<or> prefix ''/'' rest)"
proof -
  let ?B = "EscapedPath base"
  obtain z where z: "unesc s = Some z" "no_dots s" "no_dots z"
    using parseRoutePath_parts [OF assms(2)] safe_suffix by blast
  have hu: "http_url base" and B: "?B = [] \<or> prefix ''/'' ?B"
    using assms(1) by (simp_all add: canonical_base_def)
  have "\<exists>d rest. unesc (joined_path ?B s) = Some d \<and> no_dots rest
     \<and> (prefix ''/'' (joined_path ?B s) \<and> d = base_prefix base @ rest \<and> (rest = [] \<or> prefix ''/'' rest)
        \<or> base_prefix base = [] \<and> d = rest)"
  proof (cases "?B = []")
    case True
    then have "base_prefix base = []"
      by (simp add: base_prefix_def clean_segments_def clean_step_def slashed_def)
    with joined_at_root [OF z] True show ?thesis by auto
  next
    case False
    with B have "prefix ''/'' ?B" by simp
    from joined_below_base [OF this unescape_EscapedPath z] show ?thesis
      by (auto simp: base_prefix_def)
  qed
  then obtain d rest where d: "unesc (joined_path ?B s) = Some d" "no_dots rest"
    "prefix ''/'' (joined_path ?B s) \<and> d = base_prefix base @ rest \<and> (rest = [] \<or> prefix ''/'' rest)
     \<or> base_prefix base = [] \<and> d = rest" by blast
  then obtain v where v: "setPath base (joined_path ?B s) = Some v" "u_Path v = d"
    by (simp add: setPath_def)
  obtain w where w: "url_Parse (url_String v) = Some w" "u_Scheme w = u_Scheme base" "u_Host w = u_Host base"
      "u_User w = None" "u_Opaque w = []" "u_Fragment w = []" "u_Path w = d \<or> u_Path w = CHR ''/'' # d"
      "prefix ''/'' (joined_path ?B s) \<longrightarrow> u_Path w = d" "u_Path w = [] \<or> prefix ''/'' (u_Path w)"
    using parse_joined [OF hu v(1)] v(2) by auto
  have "\<exists>rest'. u_Path w = base_prefix base @ rest' \<and> no_dots rest' \<and> (rest' = [] \<or> prefix ''/'' rest')"
    using d(2,3) w(7-9) no_dots_rooted by auto
  then show ?thesis using buildUpstreamURL_joined [OF assms(1) v(1) w(1), of q] w(2-6) by auto
qed

theorem upstream_url_confined_witness:
  "\<exists>v rest. buildUpstreamURL (empty_url\<lparr>u_Scheme := ''https'', u_Host := ''h''\<rparr>) ''v1/a%20b'' [] = Some v
    \<and> u_Host v = ''h'' \<and> no_dots rest \<and> u_Path v = rest"
proof -
  let ?b = "empty_url\<lparr>u_Scheme := ''https'', u_Host := ''h''\<rparr>"
  have p: "parseRoutePath (empty_url\<lparr>u_Path := ''/r/gh/v1/a%20b''\<rparr>) = Some (''gh'', ''v1/a%20b'')"
    by code_simp
  have "base_prefix ?b = []"
    by (simp add: base_prefix_def empty_url_def EscapedPath_def url_escape_def clean_segments_def
        clean_step_def slashed_def)
  with upstream_url_confined [OF sample_base_canonical p, of "[]"] show ?thesis by auto
qed


section \<open>Redirects\<close>

lemma header_Get_Set [simp]: "header_Get (header_Set h k v) k = v"
  by (simp add: header_Get_def header_Values_def header_Set_def update_conv')

lemma header_Values_Set_other:
  "CanonicalHeaderKey k \<noteq> CanonicalHeaderKey k' \<Longrightarrow> header_Values (header_Set h k v) k' = header_Values h k'"
  by (simp add: header_Values_def header_Set_def update_conv')

definition clean_path :: "go_url \<Rightarrow> string" where
  "clean_path u = path_clean (''/'' @ trim_prefix (u_Path u) ''/'')"

lemma path_clean_not_double: "\<not> prefix ''//'' (path_clean p)"
proof (cases "clean_segments p")
  case (Cons seg segs)
  then have "seg \<noteq> []" "CHR ''/'' \<notin> set seg"
    using clean_segments_ordinary [of seg p] clean_segments_subset [of p] split_on_elem_no_sep [of seg "CHR ''/''" p]
    by auto
  with Cons show ?thesis by (cases seg) (auto simp: path_clean_slashed slashed_def)
qed (simp add: path_clean_slashed)

text \<open>
  C14: a redirect that is passed on stays inside the route: without a \<open>Location\<close> the response headers
  are unchanged; otherwise the location resolves to the target's own origin, to the base path or a
  path below it, and the new location is the route's own prefix followed by what is below the base
  path and the query; all other headers are kept.
\<close>

theorem redirect_confined:
  assumes "rewriteLocation h request_url base a = Some h'"
  shows "header_Get h ''Location'' = [] \<and> h' = h \<or>
    (\<exists>parsed rest. url_Parse (header_Get h ''Location'') = Some parsed
      \<and> (let resolved = ResolveReference request_url parsed in
           equal_fold (u_Scheme resolved) (u_Scheme base) \<and> equal_fold (u_Host resolved) (u_Host base)
         \<and> clean_path resolved = clean_path base @ rest \<and> (rest = [] \<or> prefix ''/'' rest)
         \<and> header_Get h' ''Location'' = routePrefix @ a @ (if rest = ''/'' then [] else rest)
             @ (if u_RawQuery resolved \<noteq> [] then ''?'' @ u_RawQuery resolved else []))
      \<and> (\<forall>k. CanonicalHeaderKey k \<noteq> CanonicalHeaderKey ''Location'' \<longrightarrow> header_Values h' k = header_Values h k))"
proof (cases "header_Get h ''Location'' = []")
  case True
  with assms show ?thesis by (simp add: rewriteLocation_def Let_def)
next
  case False
  then obtain parsed where p: "url_Parse (header_Get h ''Location'') = Some parsed"
    using assms by (auto simp: rewriteLocation_def Let_def split: option.splits)
  define r where "r = ResolveReference request_url parsed"
  have ok: "equal_fold (u_Scheme r) (u_Scheme base)" "equal_fold (u_Host r) (u_Host base)"
      "clean_path r = clean_path base \<or> has_prefix (clean_path r) (clean_path base @ ''/'')"
    and h': "h' = header_Set h ''Location'' (routePrefix @ a
       @ (let rel = trim_prefix (trim_prefix (clean_path r) (clean_path base)) ''/'' in
          if rel \<noteq> [] then ''/'' @ rel else [])
       @ (if u_RawQuery r \<noteq> [] then ''?'' @ u_RawQuery r else []))"
    using assms False p by (auto simp: rewriteLocation_def Let_def r_def [symmetric] clean_path_def split: if_splits)
  obtain rest where rest: "clean_path r = clean_path base @ rest" "rest = [] \<or> prefix ''/'' rest"
    using ok(3) by (auto simp: has_prefix_def prefix_def)
  have "(let rel = trim_prefix (trim_prefix (clean_path r) (clean_path base)) ''/'' in
          if rel \<noteq> [] then ''/'' @ rel else []) = (if rest = ''/'' then [] else rest)"
    using rest by (auto simp: trim_prefix_def has_prefix_def Let_def prefix_def)
  then show ?thesis using p ok(1,2) rest h' unfolding r_def
    by (auto simp: Let_def header_Values_Set_other)
qed

text \<open>
  with a target at the root of its origin, every redirect to a path other than the root is
  rejected, although it stays on the target: the prefix that is compared is two slashes then.
\<close>

theorem redirect_rejected_at_root:
  assumes "clean_path base = ''/''" "header_Get h ''Location'' \<noteq> []"
    "url_Parse (header_Get h ''Location'') = Some parsed"
    "clean_path (ResolveReference request_url parsed) \<noteq> ''/''"
  shows "rewriteLocation h request_url base a = None"
proof -
  have "\<not> has_prefix (clean_path (ResolveReference request_url parsed)) ''//''"
    using path_clean_not_double by (simp add: clean_path_def has_prefix_def)
  then show ?thesis
    using assms by (simp add: rewriteLocation_def Let_def clean_path_def)
qed

theorem redirect_confined_witness:
  "\<exists>h'. rewriteLocation [(''Location'', [''https://h/v1/x?p=1''])]
      (empty_url\<lparr>u_Scheme := ''https'', u_Host := ''h'', u_Path := ''/v1''\<rparr>)
      (empty_url\<lparr>u_Scheme := ''https'', u_Host := ''h'', u_Path := ''/v1''\<rparr>) ''gh'' = Some h'
    \<and> header_Get h' ''Location'' = ''/r/gh/x?p=1'' \<and> (\<exists>parsed. url_Parse ''https://h/v1/x?p=1'' = Some parsed)"
proof -
  let ?h = "[(''Location'', [''https://h/v1/x?p=1''])]"
  let ?u = "empty_url\<lparr>u_Scheme := ''https'', u_Host := ''h'', u_Path := ''/v1''\<rparr>"
  have r: "rewriteLocation ?h ?u ?u ''gh'' = Some [(''Location'', [''/r/gh/x?p=1''])]" by code_simp
  have g: "header_Get ?h ''Location'' = ''https://h/v1/x?p=1''" by code_simp
  have g': "header_Get [(''Location'', [''/r/gh/x?p=1''])] ''Location'' = ''/r/gh/x?p=1''" by code_simp
  from redirect_confined [OF r] r g g' show ?thesis by auto
qed

theorem redirect_rejected_at_root_witness:
  "rewriteLocation [(''Location'', [''/login''])]
      (empty_url\<lparr>u_Scheme := ''https'', u_Host := ''h'', u_Path := ''/''\<rparr>)
      (empty_url\<lparr>u_Scheme := ''https'', u_Host := ''h'', u_Path := ''/''\<rparr>) ''gh'' = None"
proof -
  let ?u = "empty_url\<lparr>u_Scheme := ''https'', u_Host := ''h'', u_Path := ''/''\<rparr>"
  have "clean_path ?u = ''/''" by code_simp
  moreover have g: "header_Get [(''Location'', [''/login''])] ''Location'' = ''/login''" by code_simp
  moreover have "url_Parse ''/login'' = Some (empty_url\<lparr>u_Path := ''/login''\<rparr>)" by code_simp
  moreover have "clean_path (ResolveReference ?u (empty_url\<lparr>u_Path := ''/login''\<rparr>)) \<noteq> ''/''" by code_simp
  ultimately show ?thesis by (intro redirect_rejected_at_root) auto
qed

end
