(* ===== verification/Http_Limits.thy ===== *)
theory Http_Limits
  imports Http_Gateway
begin

text \<open>
  The limits of the HTTP gateway under any interleaving of requests: the bounded number of requests
  in flight, and the per-route concurrency and request-rate limits of LLM routes. A run keeps, beside
  the handler, the requests in flight and, as a ghost, every admission with the window it was
  counted in.
\<close>

section \<open>One limit state\<close>

text \<open>
  A limit state, the number of requests in flight that it counts, and the admissions it counted in
  each window, told apart by the window's start.
\<close>

definition limit_ok :: "llm_limit_state \<Rightarrow> nat \<Rightarrow> (int \<Rightarrow> nat) \<Rightarrow> bool" where
  "limit_ok st n adm \<longleftrightarrow> ll_current st = int n \<and> int n \<le> max 0 (ll_maxConcurrent st)
     \<and> ll_requests st = int (adm (ll_windowStarted st))
     \<and> (\<forall>w. int (adm w) \<le> max 0 (ll_requestsPerMinute st))
     \<and> (\<forall>w. w > ll_windowStarted st \<longrightarrow> adm w = 0)"

lemma limit_ok_fresh:
  "ll_current st = 0 \<Longrightarrow> ll_requests st = 0 \<Longrightarrow> limit_ok st 0 (\<lambda>_. 0)"
  by (simp add: limit_ok_def)

lemma limit_ok_reset:
  "limit_ok st n adm \<Longrightarrow> now - ll_windowStarted st \<ge> minute \<Longrightarrow>
   limit_ok (st\<lparr>ll_windowStarted := now, ll_requests := 0\<rparr>) n adm"
  by (auto simp: limit_ok_def minute_def)

lemma limit_ok_count:
  "limit_ok st n adm \<Longrightarrow> ll_current st < ll_maxConcurrent st \<Longrightarrow> ll_requests st < ll_requestsPerMinute st \<Longrightarrow>
   limit_ok (st\<lparr>ll_requests := ll_requests st + 1, ll_current := ll_current st + 1\<rparr>) (Suc n)
     (adm(ll_windowStarted st := Suc (adm (ll_windowStarted st))))"
  by (auto simp: limit_ok_def)

lemma limit_ok_release:
  "limit_ok st (Suc n) adm \<Longrightarrow> limit_ok (st\<lparr>ll_current := ll_current st - 1\<rparr>) n adm"
  by (auto simp: limit_ok_def)

section \<open>The limiter\<close>

type_synonym admission_log = "(nat \<times> int \<times> int) list"

definition admissions :: "admission_log \<Rightarrow> nat \<Rightarrow> int \<Rightarrow> nat" where
  "admissions log a w = length (filter (\<lambda>(a', w', _). a' = a \<and> w' = w) log)"

definition limiter_inv :: "limiter \<Rightarrow> nat list \<Rightarrow> admission_log \<Rightarrow> bool" where
  "limiter_inv lim held log \<longleftrightarrow>
     (\<forall>k a. map_of (lm_limits lim) k = Some a \<longrightarrow> a < length (lm_heap lim))
     \<and> (\<forall>a \<ge> length (lm_heap lim). count_list held a = 0 \<and> admissions log a = (\<lambda>_. 0))
     \<and> (\<forall>a < length (lm_heap lim). limit_ok (lm_heap lim ! a) (count_list held a) (admissions log a))
     \<and> (\<forall>(a, w, t) \<in> set log. t - w < minute)"

lemma limiter_inv_update:
  assumes "limiter_inv lim held log" "a < length (lm_heap lim)"
    "limit_ok st (count_list held a) (admissions log a)"
  shows "limiter_inv (lim\<lparr>lm_heap := (lm_heap lim)[a := st]\<rparr>) held log"
  using assms by (auto simp: limiter_inv_def nth_list_update)

lemma limit_state_for_inv:
  assumes "limiter_inv lim held log" "limit_state_for lim route now = (addr, lim1)"
  shows "limiter_inv lim1 held log \<and> addr < length (lm_heap lim1)
    \<and> ll_capabilityDigest (lm_heap lim1 ! addr) = hr_CapabilityDigest route
    \<and> ll_requestsPerMinute (lm_heap lim1 ! addr) = hp_RequestsPerMinute (hr_Policy route)
    \<and> ll_maxConcurrent (lm_heap lim1 ! addr) = hp_MaxConcurrent (hr_Policy route)"
proof -
  let ?n = "length (lm_heap lim)"
  let ?matches = "\<lambda>st. ll_capabilityDigest st = hr_CapabilityDigest route
    \<and> ll_requestsPerMinute st = hp_RequestsPerMinute (hr_Policy route)
    \<and> ll_maxConcurrent st = hp_MaxConcurrent (hr_Policy route)"
  define new where "new = \<lparr>ll_capabilityDigest = hr_CapabilityDigest route,
    ll_requestsPerMinute = hp_RequestsPerMinute (hr_Policy route),
    ll_maxConcurrent = hp_MaxConcurrent (hr_Policy route),
    ll_windowStarted = now, ll_requests = 0, ll_current = 0\<rparr>"
  define grown where "grown = lim\<lparr>lm_heap := lm_heap lim @ [new],
    lm_limits := AList.update (hr_Alias route) ?n (lm_limits lim)\<rparr>"
  have new: "?matches new" "ll_current new = 0" "ll_requests new = 0" by (simp_all add: new_def)
  have "limit_state_for lim route now = (case map_of (lm_limits lim) (hr_Alias route) of
      None \<Rightarrow> (?n, grown) | Some b \<Rightarrow> if ?matches (lm_heap lim ! b) then (b, lim) else (?n, grown))"
    unfolding limit_state_for_def Let_def new_def [symmetric] grown_def [symmetric]
    by (auto split: option.splits)
  then have "(addr, lim1) = (?n, grown) \<or> lim1 = lim
      \<and> map_of (lm_limits lim) (hr_Alias route) = Some addr \<and> ?matches (lm_heap lim ! addr)"
    using assms(2) by (auto split: option.splits if_splits)
  then consider (kept) "lim1 = lim" "map_of (lm_limits lim) (hr_Alias route) = Some addr" "?matches (lm_heap lim ! addr)"
    | (fresh) "lim1 = grown" "addr = ?n" by blast
  then show ?thesis
  proof cases
    case kept
    with assms(1) show ?thesis unfolding limiter_inv_def by blast
  next
    case fresh
    have ok: "limit_ok new (count_list held ?n) (admissions log ?n)"
      using assms(1) limit_ok_fresh [OF new(2,3)] by (simp add: limiter_inv_def)
    have "limiter_inv lim1 held log"
      using assms(1) ok unfolding limiter_inv_def fresh(1) grown_def
      by (simp add: nth_append update_conv' less_Suc_eq)
    with fresh new(1) show ?thesis by (simp add: grown_def)
  qed
qed

text \<open>What admitting a request does: a token counted in its state, or the error, with nothing counted.\<close>

lemma acquire_inv:
  assumes "limiter_inv lim held log" "acquireLLMRequest lim route now later = (r, lim')"
  shows "(\<exists>e. r = Inl e \<and> limiter_inv lim' held log) \<or> (r = Inr None \<and> lim' = lim)
    \<or> (\<exists>a. r = Inr (Some a) \<and> a < length (lm_heap lim')
        \<and> ll_capabilityDigest (lm_heap lim' ! a) = hr_CapabilityDigest route
        \<and> ll_requestsPerMinute (lm_heap lim' ! a) = hp_RequestsPerMinute (hr_Policy route)
        \<and> ll_maxConcurrent (lm_heap lim' ! a) = hp_MaxConcurrent (hr_Policy route)
        \<and> limiter_inv lim' (a # held) ((a, ll_windowStarted (lm_heap lim' ! a), now) # log))"
proof (cases "EffectiveKind route = KindLLM")
  case False
  with assms(2) show ?thesis by (simp add: acquireLLMRequest_def)
next
  case True
  obtain a lim1 where l: "limit_state_for lim route now = (a, lim1)" by fastforce
  note s = limit_state_for_inv [OF assms(1) l]
  let ?st = "lm_heap lim1 ! a"
  define st where "st = (if now - ll_windowStarted ?st \<ge> minute
    then ?st\<lparr>ll_windowStarted := now, ll_requests := 0\<rparr> else ?st)"
  have ok: "limit_ok st (count_list held a) (admissions log a)"
    using s limit_ok_reset unfolding st_def limiter_inv_def by auto
  have young: "now - ll_windowStarted st < minute" by (simp add: st_def minute_def)
  have same: "ll_capabilityDigest st = ll_capabilityDigest ?st" "ll_requestsPerMinute st = ll_requestsPerMinute ?st"
      "ll_maxConcurrent st = ll_maxConcurrent ?st" by (simp_all add: st_def)
  define lim2 where "lim2 = lim1\<lparr>lm_heap := (lm_heap lim1)[a := st]\<rparr>"
  have i2: "limiter_inv lim2 held log"
    unfolding lim2_def using s ok by (intro limiter_inv_update) auto
  define st' where "st' = st\<lparr>ll_requests := ll_requests st + 1, ll_current := ll_current st + 1\<rparr>"
  have eq: "\<exists>e1 e2. acquireLLMRequest lim route now later =
     (if ll_current st \<ge> ll_maxConcurrent st then (Inl e1, lim2)
      else if ll_requests st \<ge> ll_requestsPerMinute st then (Inl e2, lim2)
      else (Inr (Some a), lim2\<lparr>lm_heap := (lm_heap lim2)[a := st']\<rparr>))"
    unfolding acquireLLMRequest_def l prod.case Let_def st_def [symmetric] lim2_def [symmetric] st'_def [symmetric]
    using True by (simp only: simp_thms if_False) blast
  show ?thesis
  proof (cases "ll_current st \<ge> ll_maxConcurrent st \<or> ll_requests st \<ge> ll_requestsPerMinute st")
    case full: True
    then have "\<exists>e. r = Inl e \<and> lim' = lim2" using assms(2) eq by (auto split: if_splits)
    with i2 show ?thesis by blast
  next
    case free: False
    have out: "r = Inr (Some a)" "lim' = lim2\<lparr>lm_heap := (lm_heap lim2)[a := st']\<rparr>"
      using assms(2) eq free by auto
    have at: "lm_heap lim' ! a = st'" "length (lm_heap lim') = length (lm_heap lim1)"
      using s by (simp_all add: out lim2_def)
    let ?log = "(a, ll_windowStarted st, now) # log"
    have "admissions ?log a = (admissions log a)(ll_windowStarted st := Suc (admissions log a (ll_windowStarted st)))"
      by (auto simp: admissions_def)
    then have new: "limit_ok st' (count_list (a # held) a) (admissions ?log a)"
      using limit_ok_count [OF ok] free by (simp add: st'_def)
    have other: "b \<noteq> a \<Longrightarrow> admissions ?log b = admissions log b" for b
      by (auto simp: admissions_def)
    have "limiter_inv lim' (a # held) ?log"
      unfolding limiter_inv_def
    proof (intro conjI allI impI)
      fix b assume "b < length (lm_heap lim')"
      then show "limit_ok (lm_heap lim' ! b) (count_list (a # held) b) (admissions ?log b)"
        using i2 new at(1) other [of b] by (cases "b = a") (auto simp: out limiter_inv_def)
    next
      fix b assume "length (lm_heap lim') \<le> b"
      then show "count_list (a # held) b = 0" "admissions ?log b = (\<lambda>_. 0)"
        using i2 s other [of b] by (auto simp: out limiter_inv_def lim2_def)
    qed (use i2 young in \<open>auto simp: out limiter_inv_def\<close>)
    with out at s same show ?thesis by (simp add: st'_def)
  qed
qed

lemma release_inv:
  assumes "limiter_inv lim (a # held) log"
  shows "limiter_inv (release_addr lim a) held log"
proof -
  have a: "a < length (lm_heap lim)" 
  proof (rule ccontr)
    assume "\<not> a < length (lm_heap lim)"
    with assms have "count_list (a # held) a = 0" unfolding limiter_inv_def by (meson not_less)
    then show False by simp
  qed
  let ?st = "lm_heap lim ! a"
  have ok: "limit_ok ?st (Suc (count_list held a)) (admissions log a)"
    using assms a by (auto simp: limiter_inv_def)
  then have "release_addr lim a = lim\<lparr>lm_heap := (lm_heap lim)[a := ?st\<lparr>ll_current := ll_current ?st - 1\<rparr>]\<rparr>"
    by (simp add: release_addr_def limit_ok_def)
  then have heap: "lm_heap (release_addr lim a) = (lm_heap lim)[a := ?st\<lparr>ll_current := ll_current ?st - 1\<rparr>]"
      "lm_limits (release_addr lim a) = lm_limits lim" by simp_all
  show ?thesis
    unfolding limiter_inv_def heap
  proof (intro conjI allI impI)
    fix b assume b: "b < length ((lm_heap lim)[a := ?st\<lparr>ll_current := ll_current ?st - 1\<rparr>])"
    show "limit_ok ((lm_heap lim)[a := ?st\<lparr>ll_current := ll_current ?st - 1\<rparr>] ! b) (count_list held b) (admissions log b)"
    proof (cases "b = a")
      case False
      with assms b show ?thesis by (auto simp: limiter_inv_def)
    qed (use limit_ok_release [OF ok] a in simp)
  qed (use assms in \<open>auto simp: limiter_inv_def split: if_splits\<close>)
qed

lemma limiter_inv_held:
  "limiter_inv lim held log \<Longrightarrow> (\<And>a. count_list held' a = count_list held a) \<Longrightarrow> limiter_inv lim held' log"
  by (simp add: limiter_inv_def)

section \<open>Runs of the gateway\<close>

type_synonym in_flight = "(http_route \<times> nat option) list"

definition tokens :: "in_flight \<Rightarrow> nat list" where
  "tokens fl = List.map_filter snd fl"

text \<open>
  The handler with its requests in flight. Requests arrive (and are refused or admitted) and
  complete in any order; between two steps the control server may replace the routes, and other
  components may append to the shared activity log.
\<close>

inductive gateway_run :: "handler \<Rightarrow> in_flight \<Rightarrow> admission_log \<Rightarrow> bool" where
  start: "gateway_run (NewHandler reg act) [] []"
| refuse: "gateway_run h fl log \<Longrightarrow> admit sv h request = (Finished r outcome, h') \<Longrightarrow>
    gateway_run (record_result sv h' request outcome d) fl log"
| arrive: "gateway_run h fl log \<Longrightarrow> admit sv h request = (Admitted route a s token, h') \<Longrightarrow>
    gateway_run h' ((route, token) # fl)
      (case token of None \<Rightarrow> log
       | Some t \<Rightarrow> (t, ll_windowStarted (lm_heap (hd_limits h') ! t), sv_now sv) # log)"
| complete: "gateway_run h (xs @ (route, token) # ys) log \<Longrightarrow>
    gateway_run (record_result sv (finish_admitted h route token fw) request (Some (route, fw_result fw)) d)
      (xs @ ys) log"
| reconfigure: "gateway_run h fl log \<Longrightarrow> gateway_run (h\<lparr>hd_routes := reg\<rparr>) fl log"
| recorded: "gateway_run h fl log \<Longrightarrow> gateway_run (h\<lparr>hd_activity := act\<rparr>) fl log"

lemma record_result_limits [simp]:
  "hd_requests (record_result sv h request outcome d) = hd_requests h"
  "hd_limits (record_result sv h request outcome d) = hd_limits h"
  by (auto simp: record_result_def split: option.splits)

definition gateway_inv :: "handler \<Rightarrow> in_flight \<Rightarrow> admission_log \<Rightarrow> bool" where
  "gateway_inv h fl log \<longleftrightarrow> hd_requests h = Some (defaultMaxInFlightRequests, length fl)
     \<and> length fl \<le> defaultMaxInFlightRequests \<and> limiter_inv (hd_limits h) (tokens fl) log"

lemma admit_finished:
  assumes "admit sv h request = (Finished r outcome, h')"
  shows "h' = h \<or> (\<exists>taken e lim route. tryAcquireRequest (hd_requests h) = (True, taken)
    \<and> acquireLLMRequest (hd_limits h) route (sv_now sv) (sv_later sv) = (Inl e, lim)
    \<and> h' = h\<lparr>hd_requests := releaseRequest taken, hd_limits := lim\<rparr>)"
  using assms unfolding admit_def
  by (auto split: option.splits prod.splits sum.splits bool.splits)

lemma admit_admitted:
  assumes "admit sv h request = (Admitted route a s token, h')"
  shows "parseRoutePath (iq_URL request) = Some (a, s) \<and> Lookup (hd_routes h) a = Inr route
    \<and> check_request route request s = None
    \<and> (\<exists>taken lim. tryAcquireRequest (hd_requests h) = (True, taken)
       \<and> acquireLLMRequest (hd_limits h) route (sv_now sv) (sv_later sv) = (Inr token, lim)
       \<and> h' = h\<lparr>hd_requests := taken, hd_limits := lim\<rparr>)"
  using assms unfolding admit_def
  by (auto split: option.splits prod.splits sum.splits bool.splits)

lemma gateway_run_inv: "gateway_run h fl log \<Longrightarrow> gateway_inv h fl log"
proof (induction rule: gateway_run.induct)
  case (start reg act)
  show ?case by (simp add: gateway_inv_def NewHandler_def tokens_def map_filter_simps limiter_inv_def admissions_def fun_eq_iff)
next
  case (refuse h fl log sv request r outcome h' d)
  from admit_finished [OF refuse(2)] show ?case
  proof (elim disjE exE conjE)
    fix taken e lim route
    assume t: "tryAcquireRequest (hd_requests h) = (True, taken)"
      and l: "acquireLLMRequest (hd_limits h) route (sv_now sv) (sv_later sv) = (Inl e, lim)"
      and h': "h' = h\<lparr>hd_requests := releaseRequest taken, hd_limits := lim\<rparr>"
    have "limiter_inv lim (tokens fl) log"
      using acquire_inv [OF _ l, of "tokens fl" log] refuse(3) by (auto simp: gateway_inv_def)
    with refuse(3) t h' show ?thesis
      by (auto simp: gateway_inv_def tryAcquireRequest_def releaseRequest_def split: if_splits)
  qed (use refuse(3) in \<open>simp add: gateway_inv_def\<close>)
next
  case (arrive h fl log sv request route a s token h')
  from admit_admitted [OF arrive(2)] obtain taken lim where
    t: "tryAcquireRequest (hd_requests h) = (True, taken)"
    and l: "acquireLLMRequest (hd_limits h) route (sv_now sv) (sv_later sv) = (Inr token, lim)"
    and h': "h' = h\<lparr>hd_requests := taken, hd_limits := lim\<rparr>" by blast
  from acquire_inv [OF _ l, of "tokens fl" log] arrive(3) show ?case
    using t h' by (auto simp: gateway_inv_def tryAcquireRequest_def tokens_def map_filter_simps
        split: if_splits option.splits)
next
  case (complete h xs route token ys log sv fw request d)
  let ?fl = "xs @ (route, token) # ys"
  have "limiter_inv (releaseLLM (hd_limits h) token) (tokens (xs @ ys)) log"
  proof (cases token)
    case None
    with complete(2) show ?thesis
      by (simp add: gateway_inv_def releaseLLM_def tokens_def map_filter_def)
  next
    case (Some a)
    have "count_list (a # tokens (xs @ ys)) b = count_list (tokens ?fl) b" for b
      using Some by (simp add: tokens_def map_filter_def)
    moreover have "limiter_inv (hd_limits h) (tokens ?fl) log" using complete(2) unfolding gateway_inv_def by blast
    ultimately have "limiter_inv (hd_limits h) (a # tokens (xs @ ys)) log" by (rule limiter_inv_held [rotated])
    with Some show ?thesis by (simp add: releaseLLM_def release_inv)
  qed
  with complete(2) show ?case
    by (auto simp: gateway_inv_def finish_admitted_def releaseRequest_def)
next
  case (reconfigure h fl log reg)
  then show ?case by (simp add: gateway_inv_def)
next
  case (recorded h fl log act)
  then show ?case by (simp add: gateway_inv_def)
qed

text \<open>
  C10: under every interleaving of arrivals, completions and route changes, the gateway never has
  more than \<open>defaultMaxInFlightRequests\<close> requests in flight and its slot count is exactly their
  number; a limit state never has more requests in flight than its concurrency limit; in each
  window of a limit state, at most the allowed number of requests is admitted, all of them less than
  a minute after its start; and when nothing is in flight, every slot and every concurrency count is
  released.
\<close>

theorem gateway_limits_hold:
  assumes "gateway_run h fl log"
  shows "length fl \<le> defaultMaxInFlightRequests \<and> slots_used (hd_requests h) = length fl
    \<and> (\<forall>(r, token) \<in> set fl. \<forall>t. token = Some t \<longrightarrow> t < length (lm_heap (hd_limits h)))
    \<and> (\<forall>t < length (lm_heap (hd_limits h)).
        int (length (filter (\<lambda>(r, token). token = Some t) fl)) \<le> max 0 (ll_maxConcurrent (lm_heap (hd_limits h) ! t))
      \<and> (\<forall>w. int (admissions log t w) \<le> max 0 (ll_requestsPerMinute (lm_heap (hd_limits h) ! t)))
      \<and> (fl = [] \<longrightarrow> ll_current (lm_heap (hd_limits h) ! t) = 0))
    \<and> (\<forall>(t, w, now) \<in> set log. now - w < minute)"
proof -
  have i: "gateway_inv h fl log" by (rule gateway_run_inv [OF assms])
  have count: "count_list (tokens fl) t = length (filter (\<lambda>(r, token). token = Some t) fl)" for t
    by (induction fl) (auto simp: tokens_def map_filter_simps split: option.splits)
  have known: "t < length (lm_heap (hd_limits h))" if "(r, Some t) \<in> set fl" for r t
  proof (rule ccontr)
    assume "\<not> t < length (lm_heap (hd_limits h))"
    then have "count_list (tokens fl) t = 0" using i by (auto simp: gateway_inv_def limiter_inv_def)
    with that show False unfolding count by (auto simp: filter_empty_conv)
  qed
  show ?thesis
    using i known unfolding gateway_inv_def limiter_inv_def limit_ok_def count
    by (auto simp: slots_used_def)
qed

text \<open>
  a request admitted on an LLM route is counted against a limit state that carries exactly the
  route's capability and limits.
\<close>

theorem admitted_under_route_limits:
  assumes "gateway_run h fl log" "admit sv h request = (Admitted route a s token, h')"
  shows "(EffectiveKind route = KindLLM) = (token \<noteq> None)
    \<and> (\<forall>t. token = Some t \<longrightarrow>
        ll_capabilityDigest (lm_heap (hd_limits h') ! t) = hr_CapabilityDigest route
      \<and> ll_requestsPerMinute (lm_heap (hd_limits h') ! t) = hp_RequestsPerMinute (hr_Policy route)
      \<and> ll_maxConcurrent (lm_heap (hd_limits h') ! t) = hp_MaxConcurrent (hr_Policy route))"
proof -
  obtain lim where l: "acquireLLMRequest (hd_limits h) route (sv_now sv) (sv_later sv) = (Inr token, lim)"
    "hd_limits h' = lim" using admit_admitted [OF assms(2)] by auto
  have "limiter_inv (hd_limits h) (tokens fl) log"
    using gateway_run_inv [OF assms(1)] by (simp add: gateway_inv_def)
  from acquire_inv [OF this l(1)] l(2) show ?thesis
    using l(1) by (auto simp: acquireLLMRequest_def Let_def split: prod.splits if_splits)
qed

text \<open>
  a request that is refused for its rate is told to retry after at least one second and at most
  sixty-one, and one refused for concurrency after one second.
\<close>

theorem retry_after_bounded:
  assumes "acquireLLMRequest lim route now later = (Inl e, lim')"
    "\<forall>st \<in> set (lm_heap lim'). ll_windowStarted st \<le> later"
    "limiter_inv lim held log"
  shows "\<exists>n. lx_RetryAfter e = itoa n \<and> 1 \<le> n \<and> n \<le> 61
    \<and> (lx_Code e = ''concurrency_limit'' \<and> n = 1 \<or> lx_Code e = ''rate_limit'')"
proof -
  have llm: "EffectiveKind route = KindLLM" using assms(1) by (auto simp: acquireLLMRequest_def split: if_splits)
  obtain a lim1 where l: "limit_state_for lim route now = (a, lim1)" by fastforce
  define st where "st = (if now - ll_windowStarted (lm_heap lim1 ! a) \<ge> minute
    then (lm_heap lim1 ! a)\<lparr>ll_windowStarted := now, ll_requests := 0\<rparr> else lm_heap lim1 ! a)"
  define n where "n = whole_seconds (ll_windowStarted st + minute - later) + 1"
  have a: "a < length (lm_heap lim1)" using limit_state_for_inv [OF assms(3) l] by simp
  have one: "itoa 1 = ''1''" by code_simp
  have out: "lim' = lim1\<lparr>lm_heap := (lm_heap lim1)[a := st]\<rparr>
    \<and> (lx_Code e = ''concurrency_limit'' \<and> lx_RetryAfter e = itoa 1
       \<or> lx_Code e = ''rate_limit'' \<and> lx_RetryAfter e = itoa (if n < 1 then 1 else n))"
    using assms(1) llm
    unfolding acquireLLMRequest_def l prod.case Let_def st_def [symmetric] n_def [symmetric] one
    by (auto split: if_splits)
  then have "st \<in> set (lm_heap lim')" using a by (simp add: set_update_memI)
  then have "ll_windowStarted st \<le> later" using assms(2) by simp
  then have "n \<le> 61" by (auto simp: n_def whole_seconds_def minute_def)
  then show ?thesis using out by (cases "n < 1") auto
qed

section \<open>Who waits is served\<close>

text \<open>The requests in flight, and the recent admissions, that count against a route's current limit state.\<close>

definition in_flight_of :: "limiter \<Rightarrow> http_route \<Rightarrow> in_flight \<Rightarrow> nat" where
  "in_flight_of lim route fl =
     (case map_of (lm_limits lim) (hr_Alias route) of None \<Rightarrow> 0 | Some t \<Rightarrow> count_list (tokens fl) t)"

definition recent_of :: "limiter \<Rightarrow> http_route \<Rightarrow> int \<Rightarrow> admission_log \<Rightarrow> nat" where
  "recent_of lim route now log =
     (case map_of (lm_limits lim) (hr_Alias route) of
        None \<Rightarrow> 0
      | Some t \<Rightarrow> length (filter (\<lambda>(t', w, n). t' = t \<and> n > now - minute) log))"

lemma window_recent:
  assumes "now - w < minute" "\<forall>(t, w, n) \<in> set log. w \<le> n"
  shows "admissions log t w \<le> length (filter (\<lambda>(t', w, n). t' = t \<and> n > now - minute) log)"
  using assms by (induction log) (auto simp: admissions_def)

lemma acquire_waits:
  assumes inv: "limiter_inv lim (tokens fl) log" and clock: "\<forall>(t, w, n) \<in> set log. w \<le> n"
    and room: "EffectiveKind route = KindLLM \<longrightarrow> int (in_flight_of lim route fl) < hp_MaxConcurrent (hr_Policy route)
      \<and> int (recent_of lim route now log) < hp_RequestsPerMinute (hr_Policy route)"
  shows "\<exists>token lim'. acquireLLMRequest lim route now later = (Inr token, lim')"
proof (cases "EffectiveKind route = KindLLM")
  case False
  then show ?thesis by (simp add: acquireLLMRequest_def)
next
  case True
  obtain a lim1 where l: "limit_state_for lim route now = (a, lim1)" by fastforce
  note s = limit_state_for_inv [OF inv l]
  let ?st = "lm_heap lim1 ! a"
  define st where "st = (if now - ll_windowStarted ?st \<ge> minute
    then ?st\<lparr>ll_windowStarted := now, ll_requests := 0\<rparr> else ?st)"
  have origin: "map_of (lm_limits lim) (hr_Alias route) = Some a \<or> ll_current ?st = 0 \<and> ll_requests ?st = 0"
    using l by (auto simp: limit_state_for_def Let_def split: option.splits if_splits)
  have ok: "limit_ok ?st (count_list (tokens fl) a) (admissions log a)" using s by (auto simp: limiter_inv_def)
  have "ll_current ?st < hp_MaxConcurrent (hr_Policy route)"
    using origin ok room True by (auto simp: limit_ok_def in_flight_of_def)
  moreover have "ll_requests st < hp_RequestsPerMinute (hr_Policy route)"
    using origin ok room True window_recent [OF _ clock, of now "ll_windowStarted ?st" a]
    by (auto simp: st_def limit_ok_def recent_of_def not_le)
  ultimately have "\<not> ll_maxConcurrent st \<le> ll_current st" "\<not> ll_requestsPerMinute st \<le> ll_requests st"
    using s by (auto simp: st_def)
  then show ?thesis
    using True unfolding acquireLLMRequest_def l prod.case Let_def st_def [symmetric] by simp
qed


section \<open>A sample run\<close>

definition sample_served_route :: http_route where
  "sample_served_route = sample_llm_route\<lparr>hr_CapabilityDigest := Hash ''k''\<rparr>"

definition sample_served_request :: in_request where
  "sample_served_request = sample_llm_request
     \<lparr>iq_URL := empty_url\<lparr>u_Path := ''/r/llm/v1/messages''\<rparr>, iq_Header := [(''Authorization'', [''Bearer k''])]\<rparr>"

definition sample_handler :: handler where
  "sample_handler = NewHandler [(''llm'', sample_served_route)] None"

definition sample_surroundings :: surroundings where
  "sample_surroundings = \<lparr>sv_network = failing_network, sv_egress = NewManager, sv_secrets = [], sv_contextDone = False,
     sv_backendOk = True, sv_now = 5, sv_later = 6, sv_eventID = ''event-1'', sv_eventTime = 7, sv_durationMS = 1\<rparr>"

lemma sample_served_kind: "EffectiveKind sample_served_route = KindLLM"
  by (simp add: EffectiveKind_def sample_served_route_def sample_llm_route_def)

lemma sample_served_policy: "hr_Policy sample_served_route = hr_Policy sample_llm_route"
    "hp_MaxConcurrent (hr_Policy sample_llm_route) = 4" "hp_RequestsPerMinute (hr_Policy sample_llm_route) = 60"
  by (simp add: sample_served_route_def) (simp_all add: sample_llm_policy)

lemma sample_checked: "check_request sample_served_route sample_served_request ''v1/messages'' = None"
proof -
  have "header_Get (iq_Header sample_served_request) ''Authorization'' = ''Bearer k''"
      "trim_space (header_Get (iq_Header sample_served_request) ''X-Api-Key'') = []"
      "bearerToken ''Bearer k'' = ''k''" "ParseQuery (u_RawQuery (iq_URL sample_served_request)) = []"
      "endpointPath ''v1/messages'' = ''/v1/messages''"
    by code_simp+
  moreover have "Verify ''k'' (hr_CapabilityDigest sample_served_route) = Inr ()"
    by (simp add: Verify_cases sample_served_route_def)
  moreover have "AllowsMethod (hr_Policy sample_served_route) (iq_Method sample_served_request)"
      "AllowsPath (hr_Policy sample_served_route) ''/v1/messages''"
    by (simp_all add: sample_served_route_def sample_served_request_def sample_llm_policy sample_llm_request_def
        AllowsMethod_def AllowsPath_def to_upper_def upper_char_def char_class_defs)
  ultimately show ?thesis by (simp add: check_request_def localCredential_def)
qed

lemma sample_admitted:
  "\<exists>h'. admit sample_surroundings sample_handler sample_served_request
     = (Admitted sample_served_route ''llm'' ''v1/messages'' (Some 0), h')"
proof -
  have "parseRoutePath (iq_URL sample_served_request) = Some (''llm'', ''v1/messages'')" by code_simp
  moreover have "Lookup (hd_routes sample_handler) ''llm'' = Inr sample_served_route"
    by (simp add: Lookup_def sample_handler_def NewHandler_def sample_served_route_def sample_llm_route_def)
  moreover have "tryAcquireRequest (hd_requests sample_handler) = (True, Some (128, 1))"
    by (simp add: tryAcquireRequest_def sample_handler_def NewHandler_def defaultMaxInFlightRequests_def)
  moreover have "\<exists>lim. acquireLLMRequest (hd_limits sample_handler) sample_served_route 5 6 = (Inr (Some 0), lim)"
    using sample_served_kind
    by (simp add: acquireLLMRequest_def sample_handler_def NewHandler_def limit_state_for_def Let_def
        sample_served_policy minute_def)
  ultimately show ?thesis using sample_checked by (auto simp: admit_def sample_surroundings_def)
qed

lemma sample_run: "gateway_run sample_handler [] []"
  unfolding sample_handler_def by (rule gateway_run.start)

theorem gateway_limits_hold_witness:
  "\<exists>h log. gateway_run h [(sample_served_route, Some 0)] log \<and> slots_used (hd_requests h) = 1"
proof -
  obtain h' where a: "admit sample_surroundings sample_handler sample_served_request
     = (Admitted sample_served_route ''llm'' ''v1/messages'' (Some 0), h')" using sample_admitted by blast
  from gateway_limits_hold [OF gateway_run.arrive [OF sample_run a]] gateway_run.arrive [OF sample_run a]
  show ?thesis by (auto simp del: One_nat_def)
qed

theorem admitted_under_route_limits_witness:
  "\<exists>h'. admit sample_surroundings sample_handler sample_served_request
       = (Admitted sample_served_route ''llm'' ''v1/messages'' (Some 0), h')
     \<and> ll_maxConcurrent (lm_heap (hd_limits h') ! 0) = 4"
proof -
  obtain h' where a: "admit sample_surroundings sample_handler sample_served_request
     = (Admitted sample_served_route ''llm'' ''v1/messages'' (Some 0), h')" using sample_admitted by blast
  have "hp_MaxConcurrent (hr_Policy sample_served_route) = 4"
    by (simp add: sample_served_route_def sample_llm_policy)
  with admitted_under_route_limits [OF sample_run a] a show ?thesis by auto
qed

theorem retry_after_bounded_witness:
  "\<exists>e n lim'. acquireLLMRequest \<lparr>lm_heap = [\<lparr>ll_capabilityDigest = Hash ''k'', ll_requestsPerMinute = 60,
        ll_maxConcurrent = 4, ll_windowStarted = 1, ll_requests = 0, ll_current = 4\<rparr>],
      lm_limits = [(''llm'', 0)]\<rparr> sample_served_route 5 6 = (Inl e, lim')
    \<and> lx_RetryAfter e = itoa n \<and> 1 \<le> n \<and> n \<le> 61"
proof -
  let ?lim = "\<lparr>lm_heap = [\<lparr>ll_capabilityDigest = Hash ''k'', ll_requestsPerMinute = 60,
        ll_maxConcurrent = 4, ll_windowStarted = 1, ll_requests = 0, ll_current = 4\<rparr>],
      lm_limits = [(''llm'', 0)]\<rparr>"
  have "EffectiveKind sample_served_route = KindLLM" "hr_Alias sample_served_route = ''llm''"
      "hr_CapabilityDigest sample_served_route = Hash ''k''" "hp_RequestsPerMinute (hr_Policy sample_served_route) = 60"
      "hp_MaxConcurrent (hr_Policy sample_served_route) = 4"
    by (simp_all add: sample_served_kind sample_served_policy)
      (simp_all add: sample_served_route_def sample_llm_route_def)
  then have r: "\<exists>e. acquireLLMRequest ?lim sample_served_route 5 6 = (Inl e, ?lim)"
    by (simp add: acquireLLMRequest_def limit_state_for_def Let_def minute_def)
  have i: "limiter_inv ?lim [0, 0, 0, 0] []"
    by (auto simp: limiter_inv_def limit_ok_def admissions_def fun_eq_iff)
  from r obtain e where e: "acquireLLMRequest ?lim sample_served_route 5 6 = (Inl e, ?lim)" by blast
  from retry_after_bounded [OF e _ i] e show ?thesis by fastforce
qed


end
