(* ===== verification/Http_Serve.thy ===== *)
theory Http_Serve
  imports Http_Paths Http_Limits
begin

text \<open>
  What \<open>ServeHTTP\<close> promises as a whole: when a request reaches the upstream and with what content,
  which headers come back, what is recorded, and that serving a request is a run of the gateway
  that leaves nothing in flight.
\<close>

section \<open>Header keys\<close>

definition keys :: "header \<Rightarrow> string set" where
  "keys h = fst ` set h"

lemma keys_Nil [simp]: "keys [] = {}"
  by (simp add: keys_def)

lemma keys_update [simp]: "keys (AList.update k v h) = insert k (keys h)"
  by (simp add: keys_def dom_update)

lemma keys_Set [simp]: "keys (header_Set h k v) = insert (CanonicalHeaderKey k) (keys h)"
  by (simp add: header_Set_def)

lemma keys_Add [simp]: "keys (header_Add h k v) = insert (CanonicalHeaderKey k) (keys h)"
  by (simp add: header_Add_def add_value_def)

lemma keys_Del: "keys (header_Del h k) \<subseteq> keys h"
  by (auto simp: header_Del_def AList.delete_eq keys_def)

lemma keys_add_all: "keys (add_all h k vs) \<subseteq> insert (CanonicalHeaderKey k) (keys h)"
proof (induction vs arbitrary: h)
  case (Cons v vs)
  from Cons [of "header_Add h k v"] show ?case by (auto simp: add_all_def)
qed (auto simp: add_all_def)

lemma keys_foldl:
  assumes "\<And>h x. keys (f h x) \<subseteq> keys h \<union> g x"
  shows "keys (foldl f h xs) \<subseteq> keys h \<union> (\<Union>x\<in>set xs. g x)"
proof (induction xs arbitrary: h)
  case (Cons x xs)
  from Cons [of "f h x"] assms [of h x] show ?case by auto
qed simp

lemma safeRequestHeaders_canonical: "map CanonicalHeaderKey safeRequestHeaders = safeRequestHeaders"
  by code_simp

lemma keys_copySafeRequest: "keys (copySafeRequestHeaders h source) \<subseteq> keys h \<union> set safeRequestHeaders"
proof -
  have "keys (copySafeRequestHeaders h source) \<subseteq> keys h \<union> (\<Union>k\<in>set safeRequestHeaders. {CanonicalHeaderKey k})"
    unfolding copySafeRequestHeaders_def by (rule keys_foldl) (use keys_add_all in blast)
  also have "(\<Union>k\<in>set safeRequestHeaders. {CanonicalHeaderKey k}) = set (map CanonicalHeaderKey safeRequestHeaders)"
    by auto
  finally show ?thesis by (simp only: safeRequestHeaders_canonical)
qed

lemma keys_set_target: "keys (set_target_headers h target) \<subseteq> keys h \<union> CanonicalHeaderKey ` keys target"
proof -
  have "keys (case x of (k, vs) \<Rightarrow> add_all (header_Del h k) k vs) \<subseteq> keys h \<union> {CanonicalHeaderKey (fst x)}" for h x
    using keys_add_all [of "header_Del h (fst x)" "fst x" "snd x"] keys_Del [of h "fst x"]
    by (cases x) (simp, blast)
  from keys_foldl [of "\<lambda>h x. case x of (k, vs) \<Rightarrow> add_all (header_Del h k) k vs", OF this]
  show ?thesis unfolding set_target_headers_def keys_def [of target] image_image by auto
qed

lemma canonical_twice_listed:
  "canonical \<in> set safeResponseHeaders \<Longrightarrow> CanonicalHeaderKey canonical = canonical"
proof -
  have "list_all (\<lambda>k. CanonicalHeaderKey k = k) safeResponseHeaders" by code_simp
  then show "canonical \<in> set safeResponseHeaders \<Longrightarrow> CanonicalHeaderKey canonical = canonical"
    by (simp add: list_all_iff)
qed

lemma keys_copySafeResponse: "keys (copySafeResponseHeaders h source) \<subseteq> keys h \<union> set safeResponseHeaders"
proof -
  let ?f = "\<lambda>h (k, vs). let canonical = CanonicalHeaderKey k in
    if canonical \<notin> set safeResponseHeaders then h else add_all h canonical vs"
  have "keys (?f h x) \<subseteq> keys h \<union> set safeResponseHeaders" for h x
  proof -
    obtain k vs where x: "x = (k, vs)" by (cases x)
    show ?thesis
    proof (cases "CanonicalHeaderKey k \<in> set safeResponseHeaders")
      case True
      with keys_add_all [of h "CanonicalHeaderKey k" vs] canonical_twice_listed [OF True]
      show ?thesis unfolding x Let_def by auto
    qed (simp add: x)
  qed
  from keys_foldl [of ?f, OF this] show ?thesis unfolding copySafeResponseHeaders_def by blast
qed

section \<open>What reaches the upstream\<close>

lemma upstream_request_content:
  assumes "upstream_request route request target u body = Some out"
  shows "oq_URL out = url_String u \<and> (oq_Method out = iq_Method request \<or> iq_Method request = [] \<and> oq_Method out = ''GET'')
    \<and> oq_Body out = (case body of None \<Rightarrow> None | Some p \<Rightarrow> if p = [] then None else Some p)
    \<and> keys (oq_Header out) \<subseteq> set safeRequestHeaders \<union> (if EffectiveKind route = KindLLM then {''Content-Type''} else {})
        \<union> CanonicalHeaderKey ` keys (ht_Headers target)
    \<and> oq_retryMarked out = (EffectiveKind route = KindLLM)"
proof -
  let ?llm = "EffectiveKind route = KindLLM"
  let ?copied = "copySafeRequestHeaders [] (iq_Header request)"
  let ?h = "if ?llm then header_Set ?copied ''Content-Type'' ''application/json'' else ?copied"
  have ct: "CanonicalHeaderKey ''Content-Type'' = ''Content-Type''" by code_simp
  have "keys ?h \<subseteq> set safeRequestHeaders \<union> (if ?llm then {''Content-Type''} else {})"
    using keys_copySafeRequest [of "[]" "iq_Header request"] ct by auto
  with keys_set_target [of ?h "ht_Headers target"]
  have k: "keys (set_target_headers ?h (ht_Headers target)) \<subseteq> set safeRequestHeaders
      \<union> (if ?llm then {''Content-Type''} else {}) \<union> CanonicalHeaderKey ` keys (ht_Headers target)"
    by blast
  have "out = (let o' = \<lparr>oq_Method = (if iq_Method request = [] then ''GET'' else iq_Method request), oq_URL = url_String u,
      oq_Header = set_target_headers ?h (ht_Headers target),
      oq_Body = (case body of None \<Rightarrow> None | Some p \<Rightarrow> if p = [] then None else Some p),
      oq_GetBody = map_option (\<lambda>_. True) body, oq_retryMarked = False\<rparr>
    in if ?llm then AllowConnectivityRetry o' else o')"
    using assms by (simp add: upstream_request_def Let_def split: if_splits)
  with k show ?thesis by (cases ?llm) (simp_all add: Let_def AllowConnectivityRetry_def)
qed

lemma RoundTrip_same_request:
  "RoundTrip net m policy request = (tried, response, err) \<Longrightarrow> (v, r) \<in> set tried \<Longrightarrow> r = request"
  by (auto simp: RoundTrip_def roundTripAuto_def split: if_splits option.splits prod.splits)

lemma send_upstream_tried:
  "fw_tried (send_upstream sv route a request base out) = fst (RoundTrip (sv_network sv) (sv_egress sv) (hr_Egress route) out)"
  by (auto simp: send_upstream_def failed_forward_def deliver_def Let_def split: prod.splits option.splits)

lemma failed_forward_tried [simp]: "fw_tried (failed_forward tried r result) = tried"
  by (simp add: failed_forward_def)

lemma forward_tried:
  assumes "(v, out) \<in> set (fw_tried (forward sv route a s request))"
  shows "\<exists>target base u body. ResolveHTTPTarget (sv_contextDone sv) (sv_backendOk sv) (sv_secrets sv) (hr_TargetSecretRef route) = Inr target
    \<and> ht_BaseURL target = Some base \<and> validTargetScheme (u_Scheme base)
    \<and> buildUpstreamURL base s (ParseQuery (u_RawQuery (iq_URL request))) = Some u
    \<and> (if EffectiveKind route = KindLLM
       then (\<exists>p. body = Some p \<and> prepareLLMRequest request route (endpointPath s) = Inr p) else body = None)
    \<and> upstream_request route request target u body = Some out"
proof -
  let ?q = "ParseQuery (u_RawQuery (iq_URL request))"
  let ?prepared = "if EffectiveKind route = KindLLM
    then map_sum id Some (prepareLLMRequest request route (endpointPath s)) else Inr None"
  obtain target where t: "ResolveHTTPTarget (sv_contextDone sv) (sv_backendOk sv) (sv_secrets sv) (hr_TargetSecretRef route) = Inr target"
    using assms by (auto simp: forward_def Let_def split: sum.splits)
  obtain base where b: "ht_BaseURL target = Some base" "validTargetScheme (u_Scheme base)"
    using assms t by (auto simp: forward_def Let_def split: option.splits if_splits)
  obtain u where u: "buildUpstreamURL base s ?q = Some u"
    using assms t b by (auto simp: forward_def Let_def split: option.splits)
  obtain body where body: "?prepared = Inr body"
    using assms t b u by (cases ?prepared) (auto simp: forward_def Let_def)
  obtain out' where o': "upstream_request route request target u body = Some out'"
    using assms t b u body by (cases "upstream_request route request target u body") (simp_all add: forward_def Let_def)
  have "(v, out) \<in> set (fst (RoundTrip (sv_network sv) (sv_egress sv) (hr_Egress route) out'))"
    using assms t b u body o' by (simp add: forward_def Let_def send_upstream_tried)
  then have "out = out'" by (cases "RoundTrip (sv_network sv) (sv_egress sv) (hr_Egress route) out'")
      (auto dest: RoundTrip_same_request)
  with t b u body o' show ?thesis
    by (cases "prepareLLMRequest request route (endpointPath s)") (auto split: if_splits)
qed

lemma check_request_passed:
  "check_request route request s = None \<longleftrightarrow>
     localCredential route request \<noteq> [] \<and> Hash (localCredential route request) = hr_CapabilityDigest route
   \<and> AllowsMethod (hr_Policy route) (iq_Method request)
   \<and> (\<forall>(key, _) \<in> set (ParseQuery (u_RawQuery (iq_URL request))). AllowsQueryKey (hr_Policy route) key)
   \<and> (EffectiveKind route = KindLLM \<longrightarrow> AllowsPath (hr_Policy route) (endpointPath s))"
  by (auto simp: check_request_def Verify_cases list_ex_iff)

lemma ServeHTTP_cases:
  assumes "ServeHTTP sv h request = (r, tried, h')"
  obtains (finished) outcome h1 where "admit sv h request = (Finished r outcome, h1)" "tried = []"
      "h' = record_result sv h1 request outcome
        (case outcome of Some (route, _) \<Rightarrow> if hr_Enabled route then sv_durationMS sv else 0 | None \<Rightarrow> 0)"
  | (admitted) route a s token h1 where "admit sv h request = (Admitted route a s token, h1)"
      "r = fw_reply (forward sv route a s request)" "tried = fw_tried (forward sv route a s request)"
      "h' = record_result sv (finish_admitted h1 route token (forward sv route a s request)) request
        (Some (route, fw_result (forward sv route a s request))) (sv_durationMS sv)"
  using assms by (auto simp: ServeHTTP_def Let_def split: prod.splits admission.splits)

text \<open>
  C8: whatever is sent upstream for a request was authorised: the path names an enabled route, the
  credential hashes to the route's digest, method, query keys and (for LLM routes) endpoint are
  allowed by the route's policy; the request goes to the URL built below the route's own target; it
  carries only the safe client headers, the target's headers and the fixed content type; and it
  carries no body, except on LLM routes the body that the policy check produced.
\<close>

theorem upstream_requests_authorised:
  assumes "ServeHTTP sv h request = (r, tried, h')" "(v, out) \<in> set tried"
  shows "\<exists>a s route target base u. parseRoutePath (iq_URL request) = Some (a, s)
    \<and> map_of (hd_routes h) a = Some route \<and> hr_Enabled route
    \<and> localCredential route request \<noteq> [] \<and> Hash (localCredential route request) = hr_CapabilityDigest route
    \<and> AllowsMethod (hr_Policy route) (iq_Method request)
    \<and> (\<forall>(key, _) \<in> set (ParseQuery (u_RawQuery (iq_URL request))). AllowsQueryKey (hr_Policy route) key)
    \<and> (EffectiveKind route = KindLLM \<longrightarrow> AllowsPath (hr_Policy route) (endpointPath s))
    \<and> ResolveHTTPTarget (sv_contextDone sv) (sv_backendOk sv) (sv_secrets sv) (hr_TargetSecretRef route) = Inr target
    \<and> ht_BaseURL target = Some base \<and> validTargetScheme (u_Scheme base)
    \<and> buildUpstreamURL base s (ParseQuery (u_RawQuery (iq_URL request))) = Some u \<and> oq_URL out = url_String u
    \<and> keys (oq_Header out) \<subseteq> set safeRequestHeaders \<union> (if EffectiveKind route = KindLLM then {''Content-Type''} else {})
        \<union> CanonicalHeaderKey ` keys (ht_Headers target)
    \<and> (case oq_Body out of None \<Rightarrow> True
       | Some p \<Rightarrow> EffectiveKind route = KindLLM \<and> prepareLLMRequest request route (endpointPath s) = Inr p)"
  using assms(1)
proof (cases rule: ServeHTTP_cases)
  case (finished outcome h1)
  with assms(2) show ?thesis by simp
next
  case (admitted route a s token h1)
  note adm = admit_admitted [OF admitted(1)]
  have route: "map_of (hd_routes h) a = Some route" "hr_Enabled route"
    using adm by (auto simp: Lookup_def split: option.splits if_splits)
  obtain target base u body where f: "ResolveHTTPTarget (sv_contextDone sv) (sv_backendOk sv) (sv_secrets sv) (hr_TargetSecretRef route) = Inr target"
    "ht_BaseURL target = Some base" "validTargetScheme (u_Scheme base)"
    "buildUpstreamURL base s (ParseQuery (u_RawQuery (iq_URL request))) = Some u"
    "if EffectiveKind route = KindLLM
       then (\<exists>p. body = Some p \<and> prepareLLMRequest request route (endpointPath s) = Inr p) else body = None"
    "upstream_request route request target u body = Some out"
    using forward_tried [of v out sv route a s request] assms(2) admitted(3) by blast
  have c: "oq_URL out = url_String u" "oq_Body out = (case body of None \<Rightarrow> None | Some p \<Rightarrow> if p = [] then None else Some p)"
    "keys (oq_Header out) \<subseteq> set safeRequestHeaders \<union> (if EffectiveKind route = KindLLM then {''Content-Type''} else {})
        \<union> CanonicalHeaderKey ` keys (ht_Headers target)"
    using upstream_request_content [OF f(6)] by blast+
  have "case oq_Body out of None \<Rightarrow> True
      | Some p \<Rightarrow> EffectiveKind route = KindLLM \<and> prepareLLMRequest request route (endpointPath s) = Inr p"
    using f(5) c(2) by (auto split: option.splits if_splits)
  moreover have "check_request route request s = None" using adm by blast
  ultimately show ?thesis using adm route f(1-4) c(1,3) unfolding check_request_passed by blast
qed

section \<open>What comes back\<close>

lemma keys_writeRouteError:
  "keys (rp_Header (writeRouteError h route status code message)) \<subseteq> keys h \<union> {''Content-Type'', ''Cache-Control''}"
proof -
  have "CanonicalHeaderKey ''Content-Type'' = ''Content-Type''" "CanonicalHeaderKey ''Cache-Control'' = ''Cache-Control''"
    by code_simp+
  then show ?thesis by (auto simp: writeRouteError_def writeError_def writeLLMError_def)
qed

lemma keys_writeError: "keys (rp_Header (writeError [] status message)) \<subseteq> {''Content-Type'', ''Cache-Control''}"
proof -
  have "CanonicalHeaderKey ''Content-Type'' = ''Content-Type''" "CanonicalHeaderKey ''Cache-Control'' = ''Cache-Control''"
    by code_simp+
  then show ?thesis by (auto simp: writeError_def)
qed

definition reply_keys :: "string set" where
  "reply_keys = set safeResponseHeaders \<union> {''Www-Authenticate'', ''Allow''}"

lemma reply_keys_fixed:
  "{''Content-Type'', ''Cache-Control''} \<subseteq> reply_keys" "''Retry-After'' \<in> reply_keys" "''Allow'' \<in> reply_keys"
  "''Www-Authenticate'' \<in> reply_keys" "set safeResponseHeaders \<subseteq> reply_keys"
  by (auto simp: reply_keys_def safeResponseHeaders_def)

lemma route_error_reply_keys:
  "keys h \<subseteq> reply_keys \<Longrightarrow> keys (rp_Header (writeRouteError h route status code message)) \<subseteq> reply_keys"
  using keys_writeRouteError [of h] reply_keys_fixed(1) by blast

lemma single_header_keys:
  "k \<in> reply_keys \<Longrightarrow> CanonicalHeaderKey k' = k \<Longrightarrow> keys (header_Set [] k' v) \<subseteq> reply_keys"
  by simp

lemma check_request_reply_keys:
  assumes "check_request route request s = Some r"
  shows "keys (rp_Header r) \<subseteq> reply_keys"
proof -
  have "CanonicalHeaderKey ''WWW-Authenticate'' = ''Www-Authenticate''" "CanonicalHeaderKey ''Allow'' = ''Allow''"
    by code_simp+
  note single = single_header_keys [OF reply_keys_fixed(4) this(1)] single_header_keys [OF reply_keys_fixed(3) this(2)]
  show ?thesis
    using assms route_error_reply_keys [OF single(1)] route_error_reply_keys [OF single(2)]
      route_error_reply_keys [of "[]"]
    by (simp add: check_request_def split: sum.splits if_splits) blast+
qed

lemma admit_reply_keys:
  assumes "admit sv h request = (Finished r outcome, h')"
  shows "keys (rp_Header r) \<subseteq> reply_keys"
proof -
  have ra: "CanonicalHeaderKey ''Retry-After'' = ''Retry-After''" by code_simp
  note retry = route_error_reply_keys [OF single_header_keys [OF reply_keys_fixed(2) ra]]
  have none: "keys (rp_Header (writeError [] status message)) \<subseteq> reply_keys" for status message
    using keys_writeError reply_keys_fixed(1) by blast
  show ?thesis
    using assms unfolding admit_def
    by (simp split: option.splits prod.splits sum.splits bool.splits if_splits)
      (use retry none check_request_reply_keys in blast)+
qed

lemma deliver_reply_keys: "keys (rp_Header (fw_reply (deliver route request tried response h))) \<subseteq> reply_keys"
  using keys_copySafeResponse [of "[]" h] reply_keys_fixed(5) by (simp add: deliver_def Let_def)

lemma failed_reply_keys:
  "keys (rp_Header (fw_reply (failed_forward tried (writeRouteError [] route status code message) result))) \<subseteq> reply_keys"
  using route_error_reply_keys [of "[]"] by (simp add: failed_forward_def)

lemma forward_reply_keys: "keys (rp_Header (fw_reply (forward sv route a s request))) \<subseteq> reply_keys"
proof -
  have send: "keys (rp_Header (fw_reply (send_upstream sv route a request base out))) \<subseteq> reply_keys" for base out
    using failed_reply_keys deliver_reply_keys by (simp add: send_upstream_def split: prod.splits option.splits)
  show ?thesis
    using failed_reply_keys send by (simp add: forward_def Let_def split: sum.splits option.splits)
qed

text \<open>
  C28: every reply carries only headers of the response allow list, or the two that challenge the
  caller; in particular no cookie and no server identity of the target ever reaches the client.
\<close>

theorem reply_headers_filtered:
  assumes "ServeHTTP sv h request = (r, tried, h')"
  shows "keys (rp_Header r) \<subseteq> set safeResponseHeaders \<union> {''Www-Authenticate'', ''Allow''}
    \<and> ''Set-Cookie'' \<notin> keys (rp_Header r)"
proof -
  have "keys (rp_Header r) \<subseteq> reply_keys"
    using assms by (cases rule: ServeHTTP_cases) (use admit_reply_keys forward_reply_keys in auto)
  moreover have "''Set-Cookie'' \<notin> reply_keys" by (simp add: reply_keys_def safeResponseHeaders_def)
  ultimately show ?thesis unfolding reply_keys_def by blast
qed

section \<open>What is recorded\<close>

lemma callerLabel_values: "callerLabel x \<in> {''network'', ''loopback'', ''private-lan''}"
  by (auto simp: callerLabel_def split: option.splits prod.splits)

lemma trim_with_keeps:
  "c \<in> set s \<Longrightarrow> \<forall>p\<in>set ps. c \<notin> set p \<Longrightarrow> c \<in> set (trim_with ps s)"
proof (induction ps s rule: trim_with.induct)
  case (1 ps s)
  show ?case
  proof (cases "find (\<lambda>p. p \<noteq> [] \<and> prefix p s) ps")
    case None
    with 1 show ?thesis by (simp add: trim_with.simps)
  next
    case (Some p)
    then have p: "p \<in> set ps" "prefix p s" by (auto simp: find_Some_iff)
    then have "c \<in> set (drop (length p) s)" using 1(2,3) by (auto simp: prefix_def)
    with 1(1) [OF Some _ 1(3)] Some show ?thesis by (simp add: trim_with.simps [of ps s])
  qed
qed

lemma trim_request_action: "trim_space (m @ '' request'') \<noteq> []"
proof -
  have "\<forall>p\<in>set go_spaces. CHR ''q'' \<notin> set p" by (simp add: go_spaces_def)
  then have "CHR ''q'' \<in> set (trim_space (m @ '' request''))"
    by (simp add: trim_space_def trim_with_keeps)
  then show ?thesis by force
qed

lemma request_event_valid:
  assumes "Validate route = None" "length (iq_Method request) \<le> 152" "0 \<le> d"
    "result \<in> {''allowed'', ''blocked'', ''failed''}"
  shows "validEvent (request_event route request result d)"
proof -
  let ?e = "request_event route request result d"
  have named: "ev_RouteAlias ?e \<noteq> []" "length (ev_RouteAlias ?e) \<le> 63"
    using assms(1) alias_pattern_length [of "hr_Alias route"] by (auto simp: request_event_def Validate_def split: if_splits)
  have caller: "ev_Caller ?e \<noteq> []" "length (ev_Caller ?e) \<le> 80"
    using callerLabel_values [of "iq_RemoteAddr request"] by (auto simp: request_event_def)
  have action: "trim_space (ev_Action ?e) \<noteq> []" "length (ev_Action ?e) \<le> 160"
    using assms(2) trim_request_action [of "''LLM''"] trim_request_action by (auto simp: request_event_def)
  have kind: "ev_Category ?e \<in> {''HTTP'', ''SSH'', ''LLM'', ''System''}"
    using assms(1) by (auto simp: request_event_def Validate_def split: if_splits)
  have egress: "ev_Egress ?e = ''Direct'' \<or> ev_Egress ?e = ''Proxy'' \<or> ev_Egress ?e = ''Auto''"
    using assms(1) by (auto simp: request_event_def Validate_def split: if_splits)
  have rest: "ev_EventType ?e = ''request''" "ev_Result ?e = result" "ev_DurationMS ?e = d"
    by (simp_all add: request_event_def)
  show ?thesis
    unfolding validEvent_def using named caller action kind egress rest assms(3,4) by (simp split: if_split) blast?
qed

lemma recordActivity_appends:
  assumes "Validate route = None" "length (iq_Method request) \<le> 152" "0 \<le> d"
    "result \<in> {''allowed'', ''blocked'', ''failed''}"
  shows "recordActivity (Some events) i now route request result d
    = Some (append_event events (stamped (request_event route request result d) i now))"
  using request_event_valid [OF assms] by (simp add: recordActivity_def Record_def stamped_def Let_def)

lemma RoundTrip_untried: "RoundTrip net m policy request = ([], response, err) \<Longrightarrow> err \<noteq> None"
  by (auto simp: RoundTrip_def roundTripAuto_def split: if_splits option.splits prod.splits)

definition honest :: "forwarded \<Rightarrow> bool" where
  "honest fw \<longleftrightarrow> fw_result fw \<in> {''allowed'', ''blocked'', ''failed''}
     \<and> (fw_tried fw \<noteq> [] \<longrightarrow> fw_result fw \<noteq> ''blocked'') \<and> (fw_tried fw = [] \<longrightarrow> fw_result fw \<noteq> ''allowed'')"

lemma honest_failed: "honest (failed_forward tried r ''failed'')" "honest (failed_forward [] r ''blocked'')"
  by (simp_all add: honest_def failed_forward_def)

lemma honest_send: "honest (send_upstream sv route a request base out)"
proof -
  obtain tried response err where rt: "RoundTrip (sv_network sv) (sv_egress sv) (hr_Egress route) out = (tried, response, err)"
    by (cases "RoundTrip (sv_network sv) (sv_egress sv) (hr_Egress route) out") auto
  have deliver: "honest (deliver route request tried resp hd')" if "err = None" for resp hd'
    using RoundTrip_untried [of "sv_network sv" "sv_egress sv" "hr_Egress route" out response err] rt that
    by (auto simp: honest_def deliver_def Let_def)
  show ?thesis
    using deliver honest_failed(1) by (simp add: send_upstream_def rt split: option.splits)
qed

lemma forward_honest: "honest (forward sv route a s request)"
  using honest_failed honest_send by (simp add: forward_def Let_def split: sum.splits option.splits)

lemma admit_outcome:
  assumes "admit sv h request = (Finished r outcome, h')"
  shows "hd_activity h' = hd_activity h \<and> (case outcome of
      None \<Rightarrow> \<forall>a s. parseRoutePath (iq_URL request) = Some (a, s) \<longrightarrow>
        (case map_of (hd_routes h) a of None \<Rightarrow> True | Some route \<Rightarrow> False)
    | Some (route, result) \<Rightarrow> result = ''blocked'' \<and> (\<exists>a s. parseRoutePath (iq_URL request) = Some (a, s)
        \<and> map_of (hd_routes h) a = Some route))"
  using assms unfolding admit_def
  by (auto simp: Lookup_def Get_def split: option.splits prod.splits sum.splits bool.splits if_splits)

text \<open>
  with a recorder attached, serving a request adds exactly one event when its path names a
  known route, and none otherwise; the event is that of the route and the request, a request that
  reached the upstream is never recorded as blocked, and one that did not is never recorded as allowed.
\<close>

theorem one_event_per_routed_request:
  assumes "ServeHTTP sv h request = (r, tried, h')" "hd_activity h = Some events" "registry_inv (hd_routes h)"
    "length (iq_Method request) \<le> 152" "0 \<le> sv_durationMS sv"
  shows "case parseRoutePath (iq_URL request) of
      None \<Rightarrow> hd_activity h' = Some events \<and> tried = []
    | Some (a, s) \<Rightarrow> (case map_of (hd_routes h) a of
        None \<Rightarrow> hd_activity h' = Some events \<and> tried = []
      | Some route \<Rightarrow> (\<exists>result d. hd_activity h' = Some (append_event events
            (stamped (request_event route request result d) (sv_eventID sv) (sv_eventTime sv)))
          \<and> result \<in> {''allowed'', ''blocked'', ''failed''}
          \<and> (tried \<noteq> [] \<longrightarrow> result \<noteq> ''blocked'') \<and> (tried = [] \<longrightarrow> result \<noteq> ''allowed'')))"
  using assms(1)
proof (cases rule: ServeHTTP_cases)
  case (finished outcome h1)
  note out = admit_outcome [OF finished(1)]
  show ?thesis
  proof (cases outcome)
    case None
    then have "\<And>a s. parseRoutePath (iq_URL request) = Some (a, s) \<Longrightarrow> map_of (hd_routes h) a = None"
        "hd_activity h' = Some events"
      using out finished(3) assms(2) by (auto simp: record_result_def split: option.splits)
    with finished(2) show ?thesis by (auto split: option.splits)
  next
    case (Some o')
    then obtain route where o': "outcome = Some (route, ''blocked'')" using out by (cases o') auto
    obtain a s where p: "parseRoutePath (iq_URL request) = Some (a, s)" "map_of (hd_routes h) a = Some route"
      using out o' by auto
    have v: "Validate route = None" using registry_invD [OF assms(3) p(2)] by simp
    let ?d = "if hr_Enabled route then sv_durationMS sv else 0"
    have "recordActivity (Some events) (sv_eventID sv) (sv_eventTime sv) route request ''blocked'' ?d
      = Some (append_event events (stamped (request_event route request ''blocked'' ?d) (sv_eventID sv) (sv_eventTime sv)))"
      using v assms(4,5) by (intro recordActivity_appends) auto
    then have "hd_activity h' = Some (append_event events (stamped (request_event route request ''blocked'' ?d) (sv_eventID sv) (sv_eventTime sv)))"
      using finished(3) out assms(2) by (simp add: o' record_result_def)
    moreover have "''blocked'' \<noteq> ''allowed''" by simp
    ultimately show ?thesis using p finished(2) by (simp del: list.inject) blast
  qed
next
  case (admitted route a s token h1)
  note adm = admit_admitted [OF admitted(1)]
  have p: "parseRoutePath (iq_URL request) = Some (a, s)" "map_of (hd_routes h) a = Some route"
    using adm by (auto simp: Lookup_def split: option.splits if_splits)
  have v: "Validate route = None" using registry_invD [OF assms(3) p(2)] by simp
  let ?f = "forward sv route a s request"
  have "hd_activity h' = Some (append_event events
      (stamped (request_event route request (fw_result ?f) (sv_durationMS sv)) (sv_eventID sv) (sv_eventTime sv)))"
    using recordActivity_appends [OF v assms(4,5), of "fw_result ?f" events "sv_eventID sv" "sv_eventTime sv"]
      forward_honest [of sv route a s request, unfolded honest_def] admitted(4) adm assms(2)
    by (auto simp: record_result_def finish_admitted_def)
  then show ?thesis using p admitted(3) forward_honest [of sv route a s request, unfolded honest_def] by auto
qed

section \<open>Serving a request is a run of the gateway\<close>

text \<open>
  serving a request from a reachable state of the gateway ends in a reachable state with the
  same requests in flight, whatever the target, the network and the other requests do.
\<close>

theorem serving_leaves_nothing_in_flight:
  assumes "gateway_run h fl log" "ServeHTTP sv h request = (r, tried, h')"
  shows "\<exists>log'. gateway_run h' fl log'"
  using assms(2)
proof (cases rule: ServeHTTP_cases)
  case (finished outcome h1)
  from gateway_run.refuse [OF assms(1) finished(1)] finished(3) show ?thesis by blast
next
  case (admitted route a s token h1)
  note run = gateway_run.arrive [OF assms(1) admitted(1)]
  from gateway_run.complete [of h1 "[]" route token fl, simplified, OF run] admitted(4) show ?thesis by blast
qed

section \<open>A sample request\<close>

definition sample_get_route :: http_route where
  "sample_get_route = \<lparr>hr_Name = ''API'', hr_Alias = ''api'', hr_Kind = KindHTTP, hr_Provider = [],
     hr_TargetSecretRef = ''routes/api'', hr_CapabilityDigest = Hash ''k'',
     hr_Policy = NewHTTPPolicy [''GET''] [], hr_Egress = ''Direct'', hr_Enabled = True, hr_Usage = zero_usage\<rparr>"

definition sample_get_request :: in_request where
  "sample_get_request = \<lparr>iq_Method = ''GET'', iq_URL = empty_url\<lparr>u_Path := ''/r/api/x''\<rparr>,
     iq_Header = [(''Authorization'', [''Bearer k'']), (''Accept'', [''*/*''])], iq_RemoteAddr = ''127.0.0.1:9'',
     iq_ContentLength = 0, iq_Body = NilBody\<rparr>"

definition sample_get_handler :: handler where
  "sample_get_handler = NewHandler [(''api'', sample_get_route)] (Some [])"

definition sample_get_surroundings :: surroundings where
  "sample_get_surroundings = sample_surroundings
     \<lparr>sv_secrets := [(''routes/api'', empty_payload\<lparr>pl_version := 1, pl_base_url := ''https://h/v1''\<rparr>)]\<rparr>"

definition sample_outgoing :: out_request where
  "sample_outgoing = \<lparr>oq_Method = ''GET'', oq_URL = ''https://h/v1/x'', oq_Header = [(''Accept'', [''*/*''])],
     oq_Body = None, oq_GetBody = None, oq_retryMarked = False\<rparr>"

lemma sample_get_admitted:
  "admit sample_get_surroundings sample_get_handler sample_get_request
     = (Admitted sample_get_route ''api'' ''x'' None, sample_get_handler\<lparr>hd_requests := Some (128, 1)\<rparr>)"
proof -
  have "header_Get (iq_Header sample_get_request) ''Authorization'' = ''Bearer k''" "bearerToken ''Bearer k'' = ''k''"
      "ParseQuery (u_RawQuery (iq_URL sample_get_request)) = []"
      "parseRoutePath (iq_URL sample_get_request) = Some (''api'', ''x'')"
    by code_simp+
  moreover have kind: "EffectiveKind sample_get_route = KindHTTP" by (simp add: EffectiveKind_def sample_get_route_def)
  moreover have "AllowsMethod (hr_Policy sample_get_route) (iq_Method sample_get_request)"
    by (simp add: sample_get_route_def sample_get_request_def AllowsMethod_def NewHTTPPolicy_def gset_of_def
        gset_insert_def to_upper_def upper_char_def char_class_defs)
  moreover have "hr_CapabilityDigest sample_get_route = Hash ''k''" by (simp add: sample_get_route_def)
  ultimately have "check_request sample_get_route sample_get_request ''x'' = None"
    by (simp add: check_request_passed localCredential_def)
  moreover have "Lookup (hd_routes sample_get_handler) ''api'' = Inr sample_get_route"
    by (simp add: Lookup_def sample_get_handler_def NewHandler_def sample_get_route_def)
  moreover have "tryAcquireRequest (hd_requests sample_get_handler) = (True, Some (128, 1))"
    by (simp add: tryAcquireRequest_def sample_get_handler_def NewHandler_def defaultMaxInFlightRequests_def)
  moreover have "acquireLLMRequest (hd_limits sample_get_handler) sample_get_route now later
      = (Inr None, hd_limits sample_get_handler)" for now later
    by (simp add: acquireLLMRequest_def kind)
  moreover have "parseRoutePath (iq_URL sample_get_request) = Some (''api'', ''x'')" by code_simp
  ultimately show ?thesis by (simp add: admit_def)
qed

lemma sample_get_tried:
  "fw_tried (forward sample_get_surroundings sample_get_route ''api'' ''x'' sample_get_request) = [(ViaDirect, sample_outgoing)]"
proof -
  let ?base = "empty_url\<lparr>u_Scheme := ''https'', u_Host := ''h'', u_Path := ''/v1''\<rparr>"
  have "ResolveHTTPTarget (sv_contextDone sample_get_surroundings) (sv_backendOk sample_get_surroundings)
      (sv_secrets sample_get_surroundings) ''routes/api'' = Inr \<lparr>ht_BaseURL = Some ?base, ht_Headers = []\<rparr>"
    by code_simp
  moreover have "buildUpstreamURL ?base ''x'' (ParseQuery (u_RawQuery (iq_URL sample_get_request)))
      = Some (?base\<lparr>u_Path := ''/v1/x''\<rparr>)" by code_simp
  moreover have kind: "EffectiveKind sample_get_route = KindHTTP" "hr_TargetSecretRef sample_get_route = ''routes/api''"
      "hr_Egress sample_get_route = Direct"
    by (simp_all add: EffectiveKind_def sample_get_route_def)
  moreover have "validMethod (iq_Method sample_get_request)"
      "url_String (?base\<lparr>u_Path := ''/v1/x''\<rparr>) = ''https://h/v1/x''" "url_Parse ''https://h/v1/x'' \<noteq> None"
      "copySafeRequestHeaders [] (iq_Header sample_get_request) = [(''Accept'', [''*/*''])]"
    by code_simp+
  moreover have "iq_Method sample_get_request = ''GET''" by (simp add: sample_get_request_def)
  ultimately have "upstream_request sample_get_route sample_get_request \<lparr>ht_BaseURL = Some ?base, ht_Headers = []\<rparr>
      (?base\<lparr>u_Path := ''/v1/x''\<rparr>) None = Some sample_outgoing"
    by (simp add: upstream_request_def Let_def sample_outgoing_def set_target_headers_def)
  then show ?thesis
    using \<open>ResolveHTTPTarget _ _ _ _ = _\<close> \<open>buildUpstreamURL _ _ _ = _\<close> kind
    by (simp add: forward_def Let_def send_upstream_tried validTargetScheme_def RoundTrip_def)
qed

lemma sample_get_served:
  "\<exists>r h'. ServeHTTP sample_get_surroundings sample_get_handler sample_get_request = (r, [(ViaDirect, sample_outgoing)], h')"
  using sample_get_tried by (simp add: ServeHTTP_def sample_get_admitted Let_def)

theorem upstream_requests_authorised_witness:
  "\<exists>r h'. ServeHTTP sample_get_surroundings sample_get_handler sample_get_request = (r, [(ViaDirect, sample_outgoing)], h')
     \<and> (\<exists>a s. parseRoutePath (iq_URL sample_get_request) = Some (a, s))"
proof -
  obtain r h' where "ServeHTTP sample_get_surroundings sample_get_handler sample_get_request
      = (r, [(ViaDirect, sample_outgoing)], h')" using sample_get_served by blast
  with upstream_requests_authorised [OF this, of ViaDirect sample_outgoing] show ?thesis by auto
qed

theorem reply_headers_filtered_witness:
  "\<exists>r tried h'. ServeHTTP sample_get_surroundings sample_get_handler sample_get_request = (r, tried, h')
     \<and> ''Set-Cookie'' \<notin> keys (rp_Header r)"
proof -
  obtain r h' where "ServeHTTP sample_get_surroundings sample_get_handler sample_get_request
      = (r, [(ViaDirect, sample_outgoing)], h')" using sample_get_served by blast
  with reply_headers_filtered [OF this] show ?thesis by blast
qed

theorem serving_leaves_nothing_in_flight_witness:
  "\<exists>r tried h' log'. ServeHTTP sample_get_surroundings sample_get_handler sample_get_request = (r, tried, h')
     \<and> gateway_run h' [] log'"
proof -
  obtain r h' where s: "ServeHTTP sample_get_surroundings sample_get_handler sample_get_request
      = (r, [(ViaDirect, sample_outgoing)], h')" using sample_get_served by blast
  have "gateway_run sample_get_handler [] []" unfolding sample_get_handler_def by (rule gateway_run.start)
  from serving_leaves_nothing_in_flight [OF this s] s show ?thesis by blast
qed

theorem one_event_per_routed_request_witness:
  "\<exists>r tried h' e. ServeHTTP sample_get_surroundings sample_get_handler sample_get_request = (r, tried, h')
     \<and> hd_activity h' = Some [e]"
proof -
  obtain r h' where s: "ServeHTTP sample_get_surroundings sample_get_handler sample_get_request
      = (r, [(ViaDirect, sample_outgoing)], h')" using sample_get_served by blast
  have pattern: "alias_pattern ''api''" by code_simp
  have "hp_AllowedMethods (hr_Policy sample_get_route) \<noteq> []" "hr_TargetSecretRef sample_get_route \<noteq> []"
      "hr_Egress sample_get_route = ''Direct''" "EffectiveKind sample_get_route = KindHTTP"
      "hr_Provider sample_get_route = []" "hr_Alias sample_get_route = ''api''"
    by (simp_all add: sample_get_route_def EffectiveKind_def NewHTTPPolicy_def gset_of_def gset_insert_def)
  then have "Validate sample_get_route = None" using pattern unfolding Validate_def by simp
  then have i: "registry_inv (hd_routes sample_get_handler)"
    by (simp add: registry_inv_def sample_get_handler_def NewHandler_def amap_wf_def) (simp add: sample_get_route_def)
  have p: "parseRoutePath (iq_URL sample_get_request) = Some (''api'', ''x'')" by code_simp
  have m: "map_of (hd_routes sample_get_handler) ''api'' = Some sample_get_route"
      "hd_activity sample_get_handler = Some []" "0 \<le> sv_durationMS sample_get_surroundings"
      "length (iq_Method sample_get_request) \<le> 152"
    by (simp_all add: sample_get_handler_def NewHandler_def sample_get_surroundings_def sample_surroundings_def
        sample_get_request_def)
  have "\<exists>e. hd_activity h' = Some (append_event [] e)"
    using one_event_per_routed_request [OF s m(2) i m(4,3)] unfolding p option.case prod.case m(1) by blast
  moreover have "append_event [] e = [e]" for e by (simp add: append_event_def maxEvents_def)
  ultimately show ?thesis using s by auto
qed

end
