(* ===== verification/Ssh_Registry.thy ===== *)
theory Ssh_Registry
  imports Capability Interfaces
begin

text \<open>
  Package \<open>internal/sshgw\<close>, \<open>registry.go\<close>: SSH routes, their command policies, validation and
  the registry, in which the local username of a route is unique. Conventions are those of the
  HTTP registry; names that both packages use carry the prefix \<open>Ssh_\<close> here.
\<close>

datatype ssh_route_error = ErrRouteNotFound | ErrInvalidSshRoute string | ErrLocalUsernameInUse

definition DefaultAuthenticationTimeoutSeconds :: int where
  "DefaultAuthenticationTimeoutSeconds = 20"

definition MinAuthenticationTimeoutSeconds :: int where
  "MinAuthenticationTimeoutSeconds = 3"

definition MaxAuthenticationTimeoutSeconds :: int where
  "MaxAuthenticationTimeoutSeconds = 120"

definition MaxKeywordReplacements :: nat where
  "MaxKeywordReplacements = 64"

definition MaxKeywordFromBytes :: nat where
  "MaxKeywordFromBytes = 256"

definition MaxKeywordToBytes :: nat where
  "MaxKeywordToBytes = 1024"

record keyword_replacement =
  kr_From :: string
  kr_To :: string
  kr_Enabled :: bool

definition malformed_replacement :: "keyword_replacement \<Rightarrow> bool" where
  "malformed_replacement k \<longleftrightarrow>
     kr_From k = [] \<or> length (kr_From k) > MaxKeywordFromBytes \<or> length (kr_To k) > MaxKeywordToBytes
     \<or> contains_any (kr_From k @ kr_To k) [NUL, CR, LF]"

definition ValidateKeywordReplacements :: "keyword_replacement list \<Rightarrow> ssh_route_error option" where
  "ValidateKeywordReplacements ks =
     (if length ks > MaxKeywordReplacements
      then Some (ErrInvalidSshRoute ''too many keyword replacements'')
      else if list_ex malformed_replacement ks
      then Some (ErrInvalidSshRoute ''invalid keyword replacement'')
      else None)"

fun ApplyKeywordReplacements :: "string \<Rightarrow> keyword_replacement list \<Rightarrow> string" where
  "ApplyKeywordReplacements command [] = command"
| "ApplyKeywordReplacements command (k # ks) =
     ApplyKeywordReplacements
       (if kr_Enabled k \<and> kr_From k \<noteq> [] then replace_all command (kr_From k) (kr_To k) else command)
       ks"

definition NormalizeAuthenticationTimeoutSeconds :: "int \<Rightarrow> ssh_route_error + int" where
  "NormalizeAuthenticationTimeoutSeconds seconds =
     (if seconds = 0 then Inr DefaultAuthenticationTimeoutSeconds
      else if seconds < MinAuthenticationTimeoutSeconds \<or> seconds > MaxAuthenticationTimeoutSeconds
      then Inl (ErrInvalidSshRoute (''authentication timeout must be ''
        @ itoa MinAuthenticationTimeoutSeconds @ '' to '' @ itoa MaxAuthenticationTimeoutSeconds
        @ '' seconds''))
      else Inr seconds)"

record ssh_policy =
  sp_AllowedCommands :: gset
  sp_LocalPublicKeyFingerprints :: gset
  sp_AllowStdin :: bool
  sp_AllowAllCommands :: bool
  sp_RecordCommands :: bool
  sp_AllowSFTP :: bool
  sp_AllowInteractiveShell :: bool

definition NewPolicyWithOptions ::
  "string list \<Rightarrow> string list \<Rightarrow> bool \<Rightarrow> bool \<Rightarrow> bool \<Rightarrow> ssh_policy" where
  "NewPolicyWithOptions commands fingerprints allowStdin allowAllCommands recordCommands =
     \<lparr>sp_AllowedCommands = gset_of commands, sp_LocalPublicKeyFingerprints = gset_of fingerprints,
      sp_AllowStdin = allowStdin, sp_AllowAllCommands = allowAllCommands,
      sp_RecordCommands = recordCommands, sp_AllowSFTP = False, sp_AllowInteractiveShell = False\<rparr>"

definition NewPolicy :: "string list \<Rightarrow> string list \<Rightarrow> bool \<Rightarrow> ssh_policy" where
  "NewPolicy commands fingerprints allowStdin =
     NewPolicyWithOptions commands fingerprints allowStdin False False"

definition validCommand :: "string \<Rightarrow> bool" where
  "validCommand command \<longleftrightarrow>
     command \<noteq> [] \<and> length command \<le> 4096 \<and> \<not> contains_any command [NUL, CR, LF]"

definition AllowsCommand :: "ssh_policy \<Rightarrow> string \<Rightarrow> bool" where
  "AllowsCommand p command =
     (if \<not> validCommand command then False
      else if sp_AllowAllCommands p then True
      else command \<in> set (sp_AllowedCommands p))"

record ssh_route =
  sr_Name :: string
  sr_Alias :: string
  sr_LocalUsername :: string
  sr_TargetSecretRef :: string
  sr_CapabilityDigest :: digest
  sr_Policy :: ssh_policy
  sr_Egress :: string
  sr_AuthenticationTimeoutSeconds :: int
  sr_KeywordReplacements :: "keyword_replacement list"
  sr_Enabled :: bool

definition EffectiveAuthenticationTimeoutSeconds :: "ssh_route \<Rightarrow> int" where
  "EffectiveAuthenticationTimeoutSeconds r =
     (case NormalizeAuthenticationTimeoutSeconds (sr_AuthenticationTimeoutSeconds r) of
        Inr seconds \<Rightarrow> seconds
      | Inl _ \<Rightarrow> DefaultAuthenticationTimeoutSeconds)"

definition EffectiveLocalUsername :: "ssh_route \<Rightarrow> string" where
  "EffectiveLocalUsername r = (if sr_LocalUsername r = [] then sr_Alias r else sr_LocalUsername r)"

text \<open>The regular expression \<^verbatim>\<open>^[a-z0-9][a-z0-9._-]{0,63}$\<close>.\<close>

definition username_tail :: "char \<Rightarrow> bool" where
  "username_tail c \<longleftrightarrow> is_lower c \<or> is_digit c \<or> c = CHR ''.'' \<or> c = CHR ''_'' \<or> c = CHR ''-''"

definition localUsernamePattern :: "string \<Rightarrow> bool" where
  "localUsernamePattern s \<longleftrightarrow> slug_pattern username_tail 63 s"

definition validSHA256Fingerprint :: "string \<Rightarrow> bool" where
  "validSHA256Fingerprint fingerprint =
     (case cut_prefix fingerprint ''SHA256:'' of
        None \<Rightarrow> False
      | Some encoded \<Rightarrow>
          (case raw_b64_decode False encoded of
             None \<Rightarrow> False
           | Some d \<Rightarrow> length d = 32 \<and> b64_encode False False d = encoded))"

definition Ssh_Validate :: "ssh_route \<Rightarrow> ssh_route_error option" where
  "Ssh_Validate r =
     (if \<not> alias_pattern (sr_Alias r) then Some (ErrInvalidSshRoute ''invalid alias'')
      else if \<not> localUsernamePattern (EffectiveLocalUsername r)
      then Some (ErrInvalidSshRoute ''invalid local username'')
      else if sr_TargetSecretRef r \<noteq> ''ssh/'' @ sr_Alias r
      then Some (ErrInvalidSshRoute ''invalid secret reference'')
      else if sr_CapabilityDigest r = zero_digest
      then Some (ErrInvalidSshRoute ''capability is required'')
      else case NormalizeAuthenticationTimeoutSeconds (sr_AuthenticationTimeoutSeconds r) of
        Inl e \<Rightarrow> Some e
      | Inr _ \<Rightarrow>
         (case ValidateKeywordReplacements (sr_KeywordReplacements r) of
            Some e \<Rightarrow> Some e
          | None \<Rightarrow>
             (if \<not> sp_AllowAllCommands (sr_Policy r) \<and> length (sp_AllowedCommands (sr_Policy r)) = 0
              then Some (ErrInvalidSshRoute ''at least one exact command is required'')
              else if list_ex (\<lambda>c. \<not> validCommand c) (sp_AllowedCommands (sr_Policy r))
              then Some (ErrInvalidSshRoute ''invalid allowed command'')
              else if list_ex (\<lambda>f. \<not> validSHA256Fingerprint f)
                        (sp_LocalPublicKeyFingerprints (sr_Policy r))
              then Some (ErrInvalidSshRoute ''invalid local public key fingerprint'')
              else if sr_Egress r = [] \<or> sr_Egress r = ''Direct'' \<or> sr_Egress r = ''Proxy''
                        \<or> sr_Egress r = ''Auto'' then None
              else Some (ErrInvalidSshRoute ''invalid egress''))))"

section \<open>The registry\<close>

type_synonym ssh_registry = "(string, ssh_route) amap"

definition username_taken :: "ssh_registry \<Rightarrow> string \<Rightarrow> string \<Rightarrow> bool" where
  "username_taken reg a username \<longleftrightarrow>
     list_ex (\<lambda>(other, existing). other \<noteq> a \<and> EffectiveLocalUsername existing = username) reg"

definition Ssh_Upsert :: "ssh_registry \<Rightarrow> ssh_route \<Rightarrow> ssh_route_error + ssh_registry" where
  "Ssh_Upsert reg route =
     (case Ssh_Validate route of
        Some e \<Rightarrow> Inl e
      | None \<Rightarrow>
          if username_taken reg (sr_Alias route) (EffectiveLocalUsername route)
          then Inl ErrLocalUsernameInUse
          else Inr (AList.update (sr_Alias route) route reg))"

fun ssh_upsert_all :: "ssh_registry \<Rightarrow> ssh_route list \<Rightarrow> ssh_route_error + ssh_registry" where
  "ssh_upsert_all reg [] = Inr reg"
| "ssh_upsert_all reg (route # rest) =
     (case Ssh_Upsert reg route of Inl e \<Rightarrow> Inl e | Inr reg' \<Rightarrow> ssh_upsert_all reg' rest)"

definition Ssh_NewRegistry :: "ssh_route list \<Rightarrow> ssh_route_error + ssh_registry" where
  "Ssh_NewRegistry initial = ssh_upsert_all [] initial"

definition Ssh_Lookup :: "ssh_registry \<Rightarrow> string \<Rightarrow> ssh_route_error + ssh_route" where
  "Ssh_Lookup reg a =
     (case map_of reg a of
        None \<Rightarrow> Inl ErrRouteNotFound
      | Some route \<Rightarrow> if \<not> sr_Enabled route then Inl ErrRouteNotFound else Inr route)"

definition LookupByUsername :: "ssh_registry \<Rightarrow> string \<Rightarrow> ssh_route_error + ssh_route" where
  "LookupByUsername reg username =
     (case find (\<lambda>route. sr_Enabled route \<and> EffectiveLocalUsername route = username) (map snd reg) of
        None \<Rightarrow> Inl ErrRouteNotFound
      | Some route \<Rightarrow> Inr route)"

definition GetByUsername :: "ssh_registry \<Rightarrow> string \<Rightarrow> ssh_route_error + ssh_route" where
  "GetByUsername reg username =
     (case find (\<lambda>route. EffectiveLocalUsername route = username) (map snd reg) of
        None \<Rightarrow> Inl ErrRouteNotFound
      | Some route \<Rightarrow> Inr route)"

definition Ssh_Get :: "ssh_registry \<Rightarrow> string \<Rightarrow> ssh_route_error + ssh_route" where
  "Ssh_Get reg a = (case map_of reg a of None \<Rightarrow> Inl ErrRouteNotFound | Some route \<Rightarrow> Inr route)"

definition Ssh_List :: "ssh_registry \<Rightarrow> ssh_route list" where
  "Ssh_List reg = map snd reg"

definition Ssh_SetEnabled :: "ssh_registry \<Rightarrow> string \<Rightarrow> bool \<Rightarrow> ssh_route_error + ssh_registry" where
  "Ssh_SetEnabled reg a enabled =
     (case map_of reg a of
        None \<Rightarrow> Inl ErrRouteNotFound
      | Some route \<Rightarrow> Inr (AList.update a (route\<lparr>sr_Enabled := enabled\<rparr>) reg))"

definition SetLocalUsernameAndCommandPolicy ::
  "ssh_registry \<Rightarrow> string \<Rightarrow> string \<Rightarrow> ssh_policy \<Rightarrow> ssh_route_error + ssh_registry" where
  "SetLocalUsernameAndCommandPolicy reg a localUsername policy =
     (case map_of reg a of
        None \<Rightarrow> Inl ErrRouteNotFound
      | Some route \<Rightarrow>
          let username = (if localUsername = [] then EffectiveLocalUsername route else localUsername) in
          if username_taken reg a username then Inl ErrLocalUsernameInUse
          else
            let policy' = policy\<lparr>sp_LocalPublicKeyFingerprints :=
                    sp_LocalPublicKeyFingerprints (sr_Policy route), sp_AllowStdin := False\<rparr>;
                route' = route\<lparr>sr_LocalUsername := username, sr_Policy := policy'\<rparr>
            in (case Ssh_Validate route' of
                  Some e \<Rightarrow> Inl e
                | None \<Rightarrow> Inr (AList.update a route' reg)))"

definition SetCommandPolicy ::
  "ssh_registry \<Rightarrow> string \<Rightarrow> ssh_policy \<Rightarrow> ssh_route_error + ssh_registry" where
  "SetCommandPolicy reg a policy = SetLocalUsernameAndCommandPolicy reg a [] policy"

definition Ssh_Delete :: "ssh_registry \<Rightarrow> string \<Rightarrow> ssh_route_error + ssh_route \<times> ssh_registry" where
  "Ssh_Delete reg a =
     (case map_of reg a of
        None \<Rightarrow> Inl ErrRouteNotFound
      | Some route \<Rightarrow> Inr (route, AList.delete a reg))"

definition Ssh_DisableAll :: "ssh_registry \<Rightarrow> ssh_registry" where
  "Ssh_DisableAll reg = map (\<lambda>(a, route). (a, route\<lparr>sr_Enabled := False\<rparr>)) reg"

definition usernames :: "ssh_registry \<Rightarrow> string list" where
  "usernames reg = map (\<lambda>(a, r). EffectiveLocalUsername r) reg"

definition ssh_registry_inv :: "ssh_registry \<Rightarrow> bool" where
  "ssh_registry_inv reg \<longleftrightarrow>
     amap_wf reg \<and> list_all (\<lambda>(a, r). sr_Alias r = a \<and> Ssh_Validate r = None) reg
     \<and> distinct (usernames reg)"

section \<open>The registry implements the route-registry contract\<close>

lemma Ssh_Validate_enabled [simp]: "Ssh_Validate (r\<lparr>sr_Enabled := b\<rparr>) = Ssh_Validate r"
  unfolding Ssh_Validate_def EffectiveLocalUsername_def
  by (simp cong: sum.case_cong option.case_cong if_cong)

lemma EffectiveLocalUsername_enabled [simp]:
  "EffectiveLocalUsername (r\<lparr>sr_Enabled := b\<rparr>) = EffectiveLocalUsername r"
  by (simp add: EffectiveLocalUsername_def)

definition unique_usernames :: "(string \<Rightarrow> ssh_route option) \<Rightarrow> bool" where
  "unique_usernames m \<longleftrightarrow> (\<forall>a b r q. m a = Some r \<longrightarrow> m b = Some q \<longrightarrow>
     EffectiveLocalUsername r = EffectiveLocalUsername q \<longrightarrow> a = b)"

definition username_free :: "(string \<Rightarrow> ssh_route option) \<Rightarrow> string \<Rightarrow> bool" where
  "username_free m u \<longleftrightarrow> (\<forall>a r. m a = Some r \<longrightarrow> EffectiveLocalUsername r \<noteq> u)"

lemma distinct_usernames_iff:
  assumes "amap_wf reg"
  shows "distinct (usernames reg) \<longleftrightarrow> unique_usernames (map_of reg)"
proof -
  have mem: "(a, r) \<in> set reg \<longleftrightarrow> map_of reg a = Some r" for a r
    using assms by (auto simp: amap_memI dest: amap_memD)
  have "distinct reg" using assms by (simp add: amap_wf_def distinct_map)
  then have "distinct (usernames reg) \<longleftrightarrow> inj_on (\<lambda>(a, r). EffectiveLocalUsername r) (set reg)"
    by (simp add: usernames_def distinct_map)
  also have "\<dots> \<longleftrightarrow> (\<forall>a r b q. map_of reg a = Some r \<longrightarrow> map_of reg b = Some q \<longrightarrow>
      EffectiveLocalUsername r = EffectiveLocalUsername q \<longrightarrow> a = b \<and> r = q)"
    unfolding inj_on_def Ball_def split_paired_All mem by simp
  also have "\<dots> \<longleftrightarrow> unique_usernames (map_of reg)"
    unfolding unique_usernames_def by (metis option.inject)
  finally show ?thesis .
qed

lemma ssh_registry_inv_iff:
  "ssh_registry_inv reg \<longleftrightarrow> amap_wf reg \<and> unique_usernames (map_of reg)
     \<and> (\<forall>a r. map_of reg a = Some r \<longrightarrow> sr_Alias r = a \<and> Ssh_Validate r = None)"
proof (cases "amap_wf reg")
  case True
  then have "(\<forall>a r. map_of reg a = Some r \<longrightarrow> P a r) \<longleftrightarrow> list_all (\<lambda>(a, r). P a r) reg" for P
    by (auto simp: list_all_iff amap_memI dest: amap_memD)
  with True distinct_usernames_iff [OF True] show ?thesis by (auto simp: ssh_registry_inv_def)
qed (simp add: ssh_registry_inv_def)

lemma ssh_registry_invD:
  "ssh_registry_inv reg \<Longrightarrow> map_of reg a = Some r \<Longrightarrow> sr_Alias r = a \<and> Ssh_Validate r = None"
  by (simp add: ssh_registry_inv_iff)

lemma ssh_registry_inv_wf: "ssh_registry_inv reg \<Longrightarrow> amap_wf reg"
  by (simp add: ssh_registry_inv_iff)

lemma username_taken_iff:
  assumes "amap_wf reg"
  shows "username_taken reg a u \<longleftrightarrow> \<not> username_free ((map_of reg)(a := None)) u"
  using assms by (auto simp: username_taken_def username_free_def list_ex_iff
      amap_memI dest: amap_memD)

lemma unique_usernames_update:
  assumes "unique_usernames m" "username_free (m(a := None)) (EffectiveLocalUsername r)"
  shows "unique_usernames (m(a \<mapsto> r))"
  using assms unfolding unique_usernames_def username_free_def
  by (auto split: if_splits) (metis+)?

lemma ssh_registry_inv_update:
  assumes "ssh_registry_inv reg" "Ssh_Validate r = None" "sr_Alias r = a"
    "username_free ((map_of reg)(a := None)) (EffectiveLocalUsername r)"
  shows "ssh_registry_inv (AList.update a r reg)"
  using assms unique_usernames_update [of "map_of reg" a r] by (simp add: ssh_registry_inv_iff)

lemma own_username_free:
  assumes "ssh_registry_inv reg" "map_of reg a = Some r"
  shows "username_free ((map_of reg)(a := None)) (EffectiveLocalUsername r)"
  using assms unfolding ssh_registry_inv_iff unique_usernames_def username_free_def by auto

lemma ssh_registry_inv_delete: "ssh_registry_inv reg \<Longrightarrow> ssh_registry_inv (AList.delete a reg)"
  by (auto simp: ssh_registry_inv_iff unique_usernames_def)

lemma Ssh_DisableAll_view:
  "map_of (Ssh_DisableAll reg) a = map_option (\<lambda>r. r\<lparr>sr_Enabled := False\<rparr>) (map_of reg a)"
  unfolding Ssh_DisableAll_def by (rule map_of_map_values)

lemma ssh_registry_inv_DisableAll:
  assumes "ssh_registry_inv reg"
  shows "ssh_registry_inv (Ssh_DisableAll reg)"
proof -
  have "amap_wf (Ssh_DisableAll reg)"
    using assms by (simp add: Ssh_DisableAll_def ssh_registry_inv_iff
        amap_wf_map_values [where f = "\<lambda>_ r. r\<lparr>sr_Enabled := False\<rparr>"])
  with assms show ?thesis
    by (auto simp: ssh_registry_inv_iff Ssh_DisableAll_view unique_usernames_def)
qed

definition ssh_admits :: "(string \<Rightarrow> ssh_route option) \<Rightarrow> ssh_route \<Rightarrow> bool" where
  "ssh_admits m r \<longleftrightarrow> Ssh_Validate r = None \<and> username_free m (EffectiveLocalUsername r)"

lemma Ssh_Upsert_ok:
  "amap_wf reg \<Longrightarrow> Ssh_Upsert reg r = Inr reg' \<longleftrightarrow>
   ssh_admits ((map_of reg)(sr_Alias r := None)) r \<and> reg' = AList.update (sr_Alias r) r reg"
  by (auto simp: Ssh_Upsert_def ssh_admits_def username_taken_iff split: option.splits)

lemma Ssh_List_mem:
  assumes "ssh_registry_inv reg"
  shows "x \<in> set (Ssh_List reg) \<longleftrightarrow> map_of reg (sr_Alias x) = Some x"
  using amap_values [OF ssh_registry_inv_wf [OF assms], of x] ssh_registry_invD [OF assms]
  by (auto simp: Ssh_List_def)

lemma Ssh_List_aliases: "ssh_registry_inv reg \<Longrightarrow> map sr_Alias (Ssh_List reg) = map fst reg"
  by (auto simp: ssh_registry_inv_def Ssh_List_def list_all_iff)

interpretation ssh_reg: route_registry
  map_of ssh_registry_inv Ssh_Upsert Ssh_Delete Ssh_SetEnabled Ssh_DisableAll Ssh_List Ssh_Lookup
  sr_Alias sr_Enabled "\<lambda>b r. r\<lparr>sr_Enabled := b\<rparr>" ssh_admits ErrRouteNotFound
proof (unfold_locales, goal_cases)
  case (1 r x)
  then show ?case by (auto simp: is_ok_iff Ssh_Upsert_ok ssh_registry_inv_wf)
next
  case (2 r x r')
  then show ?case
    by (auto simp: Ssh_Upsert_ok ssh_registry_inv_wf ssh_admits_def ssh_registry_inv_update)
next
  case (3 r a x)
  then show ?case by (simp add: ssh_registry_invD)
next
  case (4 r a x)
  then show ?case by (simp add: ssh_registry_invD own_username_free ssh_admits_def)
next
  case (5 r a)
  then show ?case by (simp add: Ssh_Delete_def)
next
  case (6 r a x)
  then show ?case by (simp add: Ssh_Delete_def ssh_registry_inv_delete)
next
  case (7 r a b)
  then show ?case by (simp add: Ssh_SetEnabled_def)
next
  case (8 r a x b)
  then show ?case using ssh_registry_invD [OF 8] own_username_free [OF 8]
    by (simp add: Ssh_SetEnabled_def ssh_registry_inv_update)
next
  case (9 r)
  then show ?case by (simp add: ssh_registry_inv_DisableAll Ssh_DisableAll_view fun_eq_iff)
next
  case (10 r x)
  then show ?case by (rule Ssh_List_mem)
next
  case (11 r)
  then show ?case by (simp add: Ssh_List_aliases ssh_registry_inv_wf [unfolded amap_wf_def])
next
  case (12 r a)
  then show ?case by (simp add: Ssh_Lookup_def split: option.splits)
qed simp_all

section \<open>Lookup by username and the policy update\<close>

lemma find_username:
  assumes "ssh_registry_inv reg" "map_of reg a = Some r" "P r"
  shows "find (\<lambda>q. P q \<and> EffectiveLocalUsername q = EffectiveLocalUsername r) (map snd reg) = Some r"
proof -
  let ?Q = "\<lambda>q. P q \<and> EffectiveLocalUsername q = EffectiveLocalUsername r"
  have mem: "r \<in> set (map snd reg)" using amap_memD [OF assms(2)] by force
  obtain q where q: "find ?Q (map snd reg) = Some q"
    using mem assms(3) by (cases "find ?Q (map snd reg)") (auto simp: find_None_iff)
  then have "q \<in> set (map snd reg)" "?Q q" by (auto simp: find_Some_iff)
  then obtain b where b: "map_of reg b = Some q"
    using amap_values [OF ssh_registry_inv_wf [OF assms(1)], of q] by auto
  with assms \<open>?Q q\<close> have "b = a" unfolding ssh_registry_inv_iff unique_usernames_def by metis
  with b assms(2) q show ?thesis by simp
qed

lemma SetLocalUsernameAndCommandPolicy_inv:
  assumes "ssh_registry_inv reg" "SetLocalUsernameAndCommandPolicy reg a u p = Inr reg'"
  shows "ssh_registry_inv reg'"
proof -
  obtain r where r: "map_of reg a = Some r"
    using assms(2) by (auto simp: SetLocalUsernameAndCommandPolicy_def split: option.splits)
  define un where "un = (if u = [] then EffectiveLocalUsername r else u)"
  define r' where "r' = r\<lparr>sr_LocalUsername := un, sr_Policy := p\<lparr>sp_LocalPublicKeyFingerprints :=
    sp_LocalPublicKeyFingerprints (sr_Policy r), sp_AllowStdin := False\<rparr>\<rparr>"
  have al: "sr_Alias r = a" "alias_pattern (sr_Alias r)"
    using ssh_registry_invD [OF assms(1) r] by (auto simp: Ssh_Validate_def split: if_splits)
  then have "un \<noteq> []" using alias_pattern_length by (auto simp: un_def EffectiveLocalUsername_def)
  then have eff: "EffectiveLocalUsername r' = un" by (simp add: r'_def EffectiveLocalUsername_def)
  have "\<not> username_taken reg a un" "Ssh_Validate r' = None" "reg' = AList.update a r' reg"
    using assms(2) r unfolding SetLocalUsernameAndCommandPolicy_def un_def r'_def Let_def
    by (auto split: if_splits option.splits)
  moreover from this(1) have "username_free ((map_of reg)(a := None)) un"
    using username_taken_iff [OF ssh_registry_inv_wf [OF assms(1)]] by blast
  moreover have "sr_Alias r' = a" using al by (simp add: r'_def)
  ultimately show ?thesis using ssh_registry_inv_update [OF assms(1), of r' a] eff by simp
qed

lemma ssh_upsert_all_inv:
  "ssh_registry_inv reg \<Longrightarrow> ssh_upsert_all reg rs = Inr reg' \<Longrightarrow> ssh_registry_inv reg'"
proof (induction rs arbitrary: reg)
  case (Cons r rs)
  from Cons.prems(2) obtain reg1 where "Ssh_Upsert reg r = Inr reg1" "ssh_upsert_all reg1 rs = Inr reg'"
    by (auto split: sum.splits)
  then show ?case using ssh_reg.upsert_view [OF Cons.prems(1)] Cons.IH by blast
qed simp

section \<open>Reachable registries\<close>

inductive ssh_reachable :: "ssh_registry \<Rightarrow> bool" where
  ssh_new: "Ssh_NewRegistry initial = Inr reg \<Longrightarrow> ssh_reachable reg"
| ssh_upsert: "ssh_reachable reg \<Longrightarrow> Ssh_Upsert reg r = Inr reg' \<Longrightarrow> ssh_reachable reg'"
| ssh_set_enabled: "ssh_reachable reg \<Longrightarrow> Ssh_SetEnabled reg a b = Inr reg' \<Longrightarrow> ssh_reachable reg'"
| ssh_set_policy: "ssh_reachable reg \<Longrightarrow> SetLocalUsernameAndCommandPolicy reg a u p = Inr reg' \<Longrightarrow>
    ssh_reachable reg'"
| ssh_delete: "ssh_reachable reg \<Longrightarrow> Ssh_Delete reg a = Inr (r, reg') \<Longrightarrow> ssh_reachable reg'"
| ssh_disable_all: "ssh_reachable reg \<Longrightarrow> ssh_reachable (Ssh_DisableAll reg)"

lemma Ssh_SetEnabled_inv:
  "ssh_registry_inv reg \<Longrightarrow> Ssh_SetEnabled reg a b = Inr reg' \<Longrightarrow> ssh_registry_inv reg'"
  using ssh_reg.set_enabled_some [of reg a _ b] ssh_reg.set_enabled_none [of reg a b]
  by (cases "map_of reg a") auto

lemma Ssh_Delete_inv:
  "ssh_registry_inv reg \<Longrightarrow> Ssh_Delete reg a = Inr (r, reg') \<Longrightarrow> ssh_registry_inv reg'"
  by (auto simp: Ssh_Delete_def ssh_registry_inv_delete split: option.splits)

lemma ssh_reachable_inv: "ssh_reachable reg \<Longrightarrow> ssh_registry_inv reg"
proof (induction rule: ssh_reachable.induct)
  case (ssh_new initial reg)
  have "ssh_registry_inv []" by (simp add: ssh_registry_inv_def usernames_def)
  with ssh_new show ?case unfolding Ssh_NewRegistry_def by (rule ssh_upsert_all_inv [rotated])
next
  case (ssh_upsert reg r reg')
  then show ?case using ssh_reg.upsert_view by blast
qed (auto intro: Ssh_SetEnabled_inv Ssh_Delete_inv SetLocalUsernameAndCommandPolicy_inv
      ssh_registry_inv_DisableAll)

lemma LookupByUsername_iff:
  assumes "ssh_registry_inv reg"
  shows "LookupByUsername reg u = Inr r \<longleftrightarrow>
    map_of reg (sr_Alias r) = Some r \<and> sr_Enabled r \<and> EffectiveLocalUsername r = u"
proof
  assume "LookupByUsername reg u = Inr r"
  then have "r \<in> set (Ssh_List reg) \<and> sr_Enabled r \<and> EffectiveLocalUsername r = u"
    by (auto simp: LookupByUsername_def Ssh_List_def find_Some_iff split: option.splits)
  then show "map_of reg (sr_Alias r) = Some r \<and> sr_Enabled r \<and> EffectiveLocalUsername r = u"
    using Ssh_List_mem [OF assms] by blast
next
  assume "map_of reg (sr_Alias r) = Some r \<and> sr_Enabled r \<and> EffectiveLocalUsername r = u"
  then show "LookupByUsername reg u = Inr r"
    using find_username [OF assms, of "sr_Alias r" r sr_Enabled] by (auto simp: LookupByUsername_def)
qed

lemma apply_replacements_clean:
  assumes "ValidateKeywordReplacements ks = None" "\<not> contains_any command [NUL, CR, LF]"
  shows "\<not> contains_any (ApplyKeywordReplacements command ks) [NUL, CR, LF]"
proof -
  have "list_all (\<lambda>k. \<not> contains_any (kr_To k) [NUL, CR, LF]) ks"
    using assms(1) by (auto simp: ValidateKeywordReplacements_def malformed_replacement_def
        list_ex_iff list_all_iff split: if_splits)
  then show ?thesis using assms(2)
  proof (induction ks arbitrary: command)
    case (Cons k ks)
    have "\<not> contains_any (replace_all command (kr_From k) (kr_To k)) [NUL, CR, LF]"
      using set_replace_all [of command "kr_From k" "kr_To k"] Cons.prems
      unfolding contains_any_def by (simp only: list.pred_inject) blast
    with Cons show ?case by simp
  qed simp
qed

text \<open>A concrete route for the witnesses.\<close>

definition sample_ssh_policy :: ssh_policy where
  "sample_ssh_policy = NewPolicy [''uptime''] [] False"

definition sample_ssh_route :: ssh_route where
  "sample_ssh_route = \<lparr>sr_Name = ''Box'', sr_Alias = ''box'', sr_LocalUsername = [],
     sr_TargetSecretRef = ''ssh/box'', sr_CapabilityDigest = replicate 32 (CHR ''a''),
     sr_Policy = sample_ssh_policy, sr_Egress = ''Direct'',
     sr_AuthenticationTimeoutSeconds = 20, sr_KeywordReplacements = [], sr_Enabled = True\<rparr>"

lemma sample_ssh_names: "alias_pattern ''box''" "localUsernamePattern ''box''" "validCommand ''uptime''"
  by (simp_all add: alias_pattern_def localUsernamePattern_def slug_pattern_def alias_tail_def
      username_tail_def is_lower_def is_digit_def char_between_def less_eq_char_def
      validCommand_def contains_any_def)

lemma sample_ssh_timeout: "NormalizeAuthenticationTimeoutSeconds 20 = Inr 20"
  by (simp add: NormalizeAuthenticationTimeoutSeconds_def MinAuthenticationTimeoutSeconds_def
      MaxAuthenticationTimeoutSeconds_def)

lemma sample_ssh_valid: "Ssh_Validate (sample_ssh_route\<lparr>sr_LocalUsername := u\<rparr>) = None"
  if "u = [] \<or> u = ''box''"
proof -
  have "replicate 32 (CHR ''a'') \<noteq> zero_digest" by (simp add: zero_digest_def)
  moreover have "ValidateKeywordReplacements [] = None"
    by (simp add: ValidateKeywordReplacements_def)
  moreover have "sp_AllowedCommands sample_ssh_policy = [''uptime'']"
      "sp_LocalPublicKeyFingerprints sample_ssh_policy = []"
    by (simp_all add: sample_ssh_policy_def NewPolicy_def NewPolicyWithOptions_def gset_of_def
        gset_insert_def)
  ultimately show ?thesis
    using that sample_ssh_names sample_ssh_timeout
    by (auto simp: Ssh_Validate_def sample_ssh_route_def EffectiveLocalUsername_def
        cong: option.case_cong)
qed

lemma sample_ssh_route_valid: "Ssh_Validate sample_ssh_route = None"
  using sample_ssh_valid [of "[]"] by (simp add: sample_ssh_route_def)

lemma sample_ssh_reachable: "ssh_reachable [(''box'', sample_ssh_route)]"
proof (rule ssh_new [of "[sample_ssh_route]"])
  show "Ssh_NewRegistry [sample_ssh_route] = Inr [(''box'', sample_ssh_route)]"
    using sample_ssh_route_valid
    by (simp add: Ssh_NewRegistry_def Ssh_Upsert_def username_taken_def)
      (simp add: sample_ssh_route_def)
qed

section \<open>Properties\<close>

text \<open>
  C26: In every registry that any sequence of operations can produce, each stored route is valid
  and stored under its own alias, no two routes share an effective local username, and
  \<open>LookupByUsername\<close> therefore returns a route exactly when it is the one stored, enabled route
  with that username, independently of the map's iteration order.
\<close>

theorem ssh_username_routing:
  assumes "ssh_reachable reg"
  shows "(\<forall>a r. map_of reg a = Some r \<longrightarrow> sr_Alias r = a \<and> Ssh_Validate r = None)
    \<and> (\<forall>a b r q. map_of reg a = Some r \<and> map_of reg b = Some q
         \<and> EffectiveLocalUsername r = EffectiveLocalUsername q \<longrightarrow> a = b)
    \<and> (\<forall>u r. LookupByUsername reg u = Inr r \<longleftrightarrow>
         map_of reg (sr_Alias r) = Some r \<and> sr_Enabled r \<and> EffectiveLocalUsername r = u)"
proof -
  note inv = ssh_reachable_inv [OF assms]
  have "unique_usernames (map_of reg)" using inv by (simp add: ssh_registry_inv_iff)
  then show ?thesis
    unfolding LookupByUsername_iff [OF inv]
    using ssh_registry_invD [OF inv] by (auto simp: unique_usernames_def)
qed

theorem ssh_username_routing_witness:
  "LookupByUsername [(''box'', sample_ssh_route)] ''box'' = Inr sample_ssh_route"
proof -
  have "sr_Alias sample_ssh_route = ''box''" "sr_Enabled sample_ssh_route"
      "EffectiveLocalUsername sample_ssh_route = ''box''"
    by (simp_all add: sample_ssh_route_def EffectiveLocalUsername_def)
  moreover note ssh_username_routing [OF sample_ssh_reachable, THEN conjunct2, THEN conjunct2,
      rule_format, of "''box''" sample_ssh_route]
  ultimately show ?thesis by simp
qed

text \<open>
  Changing a route's username and command policy either fails and names why, or changes
  exactly that route: its accepted public keys, capability, secret reference, egress and switch
  stay what they were, standard input is denied afterwards, the new route is valid, and every
  other route is untouched.
\<close>

theorem ssh_policy_update_confined:
  assumes "ssh_reachable reg"
    and "SetLocalUsernameAndCommandPolicy reg a username policy = Inr reg'"
  shows "\<exists>old new. map_of reg a = Some old \<and> map_of reg' = (map_of reg)(a \<mapsto> new)
    \<and> new = old\<lparr>sr_LocalUsername := EffectiveLocalUsername new, sr_Policy := sr_Policy new\<rparr>
    \<and> sp_LocalPublicKeyFingerprints (sr_Policy new) = sp_LocalPublicKeyFingerprints (sr_Policy old)
    \<and> \<not> sp_AllowStdin (sr_Policy new)
    \<and> (username \<noteq> [] \<longrightarrow> EffectiveLocalUsername new = username)
    \<and> Ssh_Validate new = None \<and> ssh_registry_inv reg'"
proof -
  note inv = ssh_reachable_inv [OF assms(1)]
  obtain old where old: "map_of reg a = Some old"
    using assms(2) by (auto simp: SetLocalUsernameAndCommandPolicy_def split: option.splits)
  define un where "un = (if username = [] then EffectiveLocalUsername old else username)"
  define new where "new = old\<lparr>sr_LocalUsername := un, sr_Policy := policy
    \<lparr>sp_LocalPublicKeyFingerprints := sp_LocalPublicKeyFingerprints (sr_Policy old),
     sp_AllowStdin := False\<rparr>\<rparr>"
  have "Ssh_Validate new = None" "reg' = AList.update a new reg"
    using assms(2) old unfolding SetLocalUsernameAndCommandPolicy_def un_def new_def Let_def
    by (auto split: if_splits option.splits)
  moreover have "EffectiveLocalUsername new = un"
    using ssh_registry_invD [OF inv old]
    by (auto simp: new_def un_def EffectiveLocalUsername_def)
  moreover have "new = old\<lparr>sr_LocalUsername := un, sr_Policy := sr_Policy new\<rparr>"
    by (simp add: new_def)
  ultimately show ?thesis
    using old SetLocalUsernameAndCommandPolicy_inv [OF inv assms(2)]
    by - (rule exI [of _ old], rule exI [of _ new], auto simp: new_def un_def)
qed

theorem ssh_policy_update_confined_witness:
  "\<exists>new. SetLocalUsernameAndCommandPolicy [(''box'', sample_ssh_route)] ''box'' []
      (sample_ssh_policy\<lparr>sp_AllowStdin := True\<rparr>) = Inr [(''box'', new)]
    \<and> \<not> sp_AllowStdin (sr_Policy new)"
proof -
  define new where "new = sample_ssh_route\<lparr>sr_LocalUsername := ''box''\<rparr>"
  have "Ssh_Validate new = None" unfolding new_def by (rule sample_ssh_valid) simp
  then have ok: "SetLocalUsernameAndCommandPolicy [(''box'', sample_ssh_route)] ''box'' []
      (sample_ssh_policy\<lparr>sp_AllowStdin := True\<rparr>) = Inr [(''box'', new)]"
    by (simp add: SetLocalUsernameAndCommandPolicy_def username_taken_def new_def
        EffectiveLocalUsername_def sample_ssh_route_def sample_ssh_policy_def NewPolicy_def
        NewPolicyWithOptions_def)
  show ?thesis
    using ssh_policy_update_confined [OF sample_ssh_reachable ok] ok
    by (auto simp: fun_eq_iff split: if_splits)
qed

end
