(* ===== verification/Ssh_Upstream.thy ===== *)
theory Ssh_Upstream
  imports Egress Secrets Ssh_Registry
begin

text \<open>
  Package \<open>internal/sshgw\<close>, files \<open>upstream.go\<close>, \<open>probe.go\<close> and \<open>identity.go\<close>: the connection to a
  protected host with its pinned host key, the probe that reads a host key, and the gateway's own
  host identity.

  The SSH library is an argument: its key parsers, what its client handshake reports for a
  connection and a configuration, and the host key a server presents on a connection. What the
  code relies on is the library's documented contract \<open>checks_host_key\<close>: a handshake that succeeds
  has called the host key callback with the presented key, and the callback accepted it.
\<close>

datatype upstream_error = ErrHostKeyMismatch | ErrUpstreamAuth | ErrUpstreamUnavailable

datatype auth_method =
    PasswordAuth bytes
  | KeyboardInteractive bytes
  | PublicKeys bytes bytes

record client_config =
  cc_User :: string
  cc_Auth :: "auth_method list"
  cc_HostKeyCallback :: "bytes \<Rightarrow> upstream_error option"

text \<open>A handshake error as \<open>errors.Is\<close> sees it, with its text.\<close>

record handshake_error =
  he_UpstreamAuth :: bool
  he_HostKeyMismatch :: bool
  he_Error :: string

record ssh_library = key_parsers +
  sl_ParsePrivateKeyWithPassphrase :: "bytes \<Rightarrow> bytes \<Rightarrow> bool"
  sl_NewClientConn :: "conn \<Rightarrow> string \<Rightarrow> client_config \<Rightarrow> handshake_error option"
  sl_presentedKey :: "conn \<Rightarrow> bytes option"

abbreviation parsers :: "ssh_library \<Rightarrow> key_parsers" where
  "parsers lib \<equiv> key_parsers.truncate lib"

definition checks_host_key :: "ssh_library \<Rightarrow> bool" where
  "checks_host_key lib \<longleftrightarrow>
     (\<forall>c address config. sl_NewClientConn lib c address config = None \<longrightarrow>
        (\<exists>key. sl_presentedKey lib c = Some key \<and> cc_HostKeyCallback config key = None))"

section \<open>Connecting to the upstream\<close>

definition pinnedHostKeyCallback ::
  "ssh_library \<Rightarrow> bytes \<Rightarrow> upstream_error + (bytes \<Rightarrow> upstream_error option)" where
  "pinnedHostKeyCallback lib expected =
     (if \<not> kp_ParsePublicKey lib expected then Inl ErrHostKeyMismatch
      else Inr (\<lambda>actual. if ConstantTimeCompare actual expected \<noteq> 1 then Some ErrHostKeyMismatch else None))"

text \<open>The keyboard-interactive callback: one question that is not echoed is answered with the password.\<close>

definition keyboard_answer :: "bytes \<Rightarrow> string list \<Rightarrow> bool list \<Rightarrow> upstream_error + bytes list" where
  "keyboard_answer password questions echos =
     (if length questions \<noteq> 1 \<or> length echos \<noteq> 1 \<or> hd echos then Inl ErrUpstreamAuth else Inr [password])"

definition upstreamAuthMethods :: "ssh_library \<Rightarrow> ssh_target \<Rightarrow> upstream_error + auth_method list" where
  "upstreamAuthMethods lib target =
     (let hasPassword = (length (st_Password target) > 0);
          hasPrivateKey = (length (st_PrivateKey target) > 0)
      in if hasPassword = hasPrivateKey then Inl ErrUpstreamAuth
         else if hasPassword
         then Inr [PasswordAuth (st_Password target), KeyboardInteractive (st_Password target)]
         else if \<not> (if length (st_PrivateKeyPassword target) > 0
                    then sl_ParsePrivateKeyWithPassphrase lib (st_PrivateKey target) (st_PrivateKeyPassword target)
                    else kp_ParsePrivateKey lib (st_PrivateKey target))
         then Inl ErrUpstreamAuth
         else Inr [PublicKeys (st_PrivateKey target) (st_PrivateKeyPassword target)])"

definition classifyUpstreamHandshakeError :: "handshake_error \<Rightarrow> upstream_error" where
  "classifyUpstreamHandshakeError err =
     (if he_UpstreamAuth err then ErrUpstreamAuth
      else if he_HostKeyMismatch err then ErrHostKeyMismatch
      else if contains_str (he_Error err) ''unable to authenticate''
           \<or> contains_str (he_Error err) ''unexpected message type 51 (expected 60)''
      then ErrUpstreamAuth
      else ErrUpstreamUnavailable)"

text \<open>The result carries the network addresses that were dialed.\<close>

definition dialUpstream ::
  "ssh_library \<Rightarrow> network \<Rightarrow> manager \<Rightarrow> ssh_route \<Rightarrow> ssh_target
   \<Rightarrow> (string \<times> string) list \<times> (upstream_error + conn)" where
  "dialUpstream lib net m route target =
     (case pinnedHostKeyCallback lib (st_ExpectedHostKey target) of
        Inl e \<Rightarrow> ([], Inl e)
      | Inr callback \<Rightarrow>
          (case upstreamAuthMethods lib target of
             Inl e \<Rightarrow> ([], Inl e)
           | Inr auth \<Rightarrow>
               (case DialContext net m (sr_Egress route) ''tcp'' (st_Address target) of
                  (tried, Inl _) \<Rightarrow> (tried, Inl ErrUpstreamUnavailable)
                | (tried, Inr raw) \<Rightarrow>
                    (case sl_NewClientConn lib raw (st_Address target)
                            \<lparr>cc_User = st_Username target, cc_Auth = auth, cc_HostKeyCallback = callback\<rparr> of
                       Some err \<Rightarrow> (tried, Inl (classifyUpstreamHandshakeError err))
                     | None \<Rightarrow> (tried, Inr raw)))))"

definition VerifyUpstreamAuthentication ::
  "ssh_library \<Rightarrow> network \<Rightarrow> manager \<Rightarrow> ssh_route \<Rightarrow> ssh_target option \<Rightarrow> upstream_error option" where
  "VerifyUpstreamAuthentication lib net m route target =
     (case target of
        None \<Rightarrow> Some ErrUpstreamUnavailable
      | Some t \<Rightarrow> (case snd (dialUpstream lib net m route t) of Inl e \<Rightarrow> Some e | Inr _ \<Rightarrow> None))"

text \<open>
  The probe: its callback captures the presented key and refuses it, so no authentication is tried;
  the outcome of the handshake itself is ignored.
\<close>

definition ProbeHostKey ::
  "ssh_library \<Rightarrow> network \<Rightarrow> manager \<Rightarrow> string \<Rightarrow> string \<Rightarrow> upstream_error + bytes" where
  "ProbeHostKey lib net m policy address =
     (case snd (DialContext net m policy ''tcp'' address) of
        Inl _ \<Rightarrow> Inl ErrUpstreamUnavailable
      | Inr raw \<Rightarrow>
          (case sl_presentedKey lib raw of None \<Rightarrow> Inl ErrUpstreamUnavailable | Some captured \<Rightarrow> Inr captured))"

section \<open>The gateway's host identity\<close>

definition HostIdentitySecretReference :: string where
  "HostIdentitySecretReference = ''ssh/host-identity''"

text \<open>Making a new key: whether one was generated, and its encoding if it could be marshalled.\<close>

record identity_calls =
  ic_generated :: bool
  ic_encoded :: "bytes option"

definition LoadOrCreateHostSigner ::
  "key_parsers \<Rightarrow> bool \<Rightarrow> bool \<Rightarrow> call_outcome \<Rightarrow> identity_calls \<Rightarrow> backend \<Rightarrow> (string + bytes) \<times> backend" where
  "LoadOrCreateHostSigner kp ctx_done ok out calls b =
     (case ResolveSSHHostIdentity kp ctx_done ok b HostIdentitySecretReference of
        Inr identity \<Rightarrow>
          (if \<not> kp_ParsePrivateKey kp identity then Inl ''load protected SSH host identity'' else Inr identity, b)
      | Inl err \<Rightarrow>
          if err \<noteq> ErrSecretNotFound then (Inl ''load protected SSH host identity'', b)
          else if \<not> ic_generated calls then (Inl ''generate SSH host identity'', b)
          else case ic_encoded calls of
            None \<Rightarrow> (Inl ''encode SSH host identity'', b)
          | Some encoded \<Rightarrow>
              if length encoded = 0 then (Inl ''encode SSH host identity'', b)
              else (case PutSSHHostIdentity kp ctx_done out b HostIdentitySecretReference encoded of
                 (Some _, b') \<Rightarrow> (Inl ''store protected SSH host identity'', b')
               | (None, b') \<Rightarrow>
                   (if \<not> kp_ParsePrivateKey kp encoded then Inl ''initialize SSH host identity'' else Inr encoded, b')))"

section \<open>The host key is pinned\<close>

lemma pinned_accepts:
  "pinnedHostKeyCallback lib expected = Inr callback \<Longrightarrow> callback key = None \<longleftrightarrow> key = expected"
  by (auto simp: pinnedHostKeyCallback_def ConstantTimeCompare_iff split: if_splits)

text \<open>
  C29: a connection to a protected host is only ever handed on when the server presented exactly the
  pinned host key; what is dialed is what the egress manager dials for the route's policy and the
  target's address; and nothing is dialed for a target without exactly one kind of credential.
\<close>

theorem upstream_host_key_pinned:
  assumes "checks_host_key lib" "dialUpstream lib net m route target = (tried, r)"
  shows "(\<forall>c. r = Inr c \<longrightarrow> sl_presentedKey lib c = Some (st_ExpectedHostKey target)
        \<and> snd (DialContext net m (sr_Egress route) ''tcp'' (st_Address target)) = Inr c)
    \<and> (tried = [] \<or> tried = fst (DialContext net m (sr_Egress route) ''tcp'' (st_Address target)))
    \<and> ((st_Password target = []) = (st_PrivateKey target = []) \<longrightarrow>
         tried = [] \<and> (r = Inl ErrUpstreamAuth \<or> r = Inl ErrHostKeyMismatch))"
proof -
  obtain tr d where d: "DialContext net m (sr_Egress route) ''tcp'' (st_Address target) = (tr, d)" by fastforce
  have key: "sl_presentedKey lib c = Some (st_ExpectedHostKey target)"
    if pin: "pinnedHostKeyCallback lib (st_ExpectedHostKey target) = Inr callback"
      and conn: "sl_NewClientConn lib c (st_Address target) \<lparr>cc_User = u, cc_Auth = auth, cc_HostKeyCallback = callback\<rparr> = None"
    for c callback u auth
  proof -
    obtain k where "sl_presentedKey lib c = Some k" "callback k = None"
      using assms(1) conn unfolding checks_host_key_def by (metis client_config.select_convs(3))
    with pinned_accepts [OF pin] show ?thesis by simp
  qed
  show ?thesis
  proof (cases "pinnedHostKeyCallback lib (st_ExpectedHostKey target)")
    case (Inl e)
    moreover from this have "e = ErrHostKeyMismatch" by (auto simp: pinnedHostKeyCallback_def split: if_splits)
    ultimately show ?thesis using assms(2) by (auto simp: dialUpstream_def)
  next
    case cb: (Inr callback)
    show ?thesis
    proof (cases "upstreamAuthMethods lib target")
      case (Inl e)
      moreover from this have "e = ErrUpstreamAuth" by (auto simp: upstreamAuthMethods_def Let_def split: if_splits)
      ultimately show ?thesis using assms(2) cb by (auto simp: dialUpstream_def)
    next
      case (Inr auth)
      then have "(st_Password target = []) \<noteq> (st_PrivateKey target = [])"
        by (auto simp: upstreamAuthMethods_def Let_def split: if_splits)
      with Inr show ?thesis
        using assms(2) cb d key [OF cb] by (auto simp: dialUpstream_def split: sum.splits option.splits)
    qed
  qed
qed

definition sample_library :: ssh_library where
  "sample_library = \<lparr>kp_ParsePrivateKey = (\<lambda>k. k = ''K''), kp_ParsePublicKey = (\<lambda>k. k \<noteq> []),
     sl_ParsePrivateKeyWithPassphrase = (\<lambda>_ _. False),
     sl_NewClientConn = (\<lambda>c a config. case cc_HostKeyCallback config ''H'' of
        None \<Rightarrow> None | Some e \<Rightarrow> Some \<lparr>he_UpstreamAuth = False, he_HostKeyMismatch = True, he_Error = []\<rparr>),
     sl_presentedKey = (\<lambda>c. Some ''H'')\<rparr>"

lemma sample_library_checks: "checks_host_key sample_library"
  by (auto simp: checks_host_key_def sample_library_def split: option.splits)

definition sample_upstream :: ssh_target where
  "sample_upstream = \<lparr>st_Address = ''h:22'', st_Username = ''u'', st_Password = ''p'', st_PrivateKey = [],
     st_PrivateKeyPassword = [], st_ExpectedHostKey = ''H''\<rparr>"

lemma sample_dial:
  "dialUpstream sample_library failing_network NewManager sample_ssh_route sample_upstream
     = ([(''tcp'', ''h:22'')], Inr (PlainConn ''tcp'' ''h:22''))"
proof -
  have "ConstantTimeCompare ''H'' ''H'' = 1" by (simp add: ConstantTimeCompare_iff)
  then show ?thesis
    by (simp add: dialUpstream_def pinnedHostKeyCallback_def upstreamAuthMethods_def sample_library_def sample_upstream_def
        sample_ssh_route_def DialContext_def dial_def failing_network_def has_prefix_def)
qed

theorem upstream_host_key_pinned_witness:
  "dialUpstream sample_library failing_network NewManager sample_ssh_route sample_upstream
     = ([(''tcp'', ''h:22'')], Inr (PlainConn ''tcp'' ''h:22''))
   \<and> sl_presentedKey sample_library (PlainConn ''tcp'' ''h:22'') = Some (st_ExpectedHostKey sample_upstream)"
  using upstream_host_key_pinned [OF sample_library_checks sample_dial] sample_dial by simp

section \<open>The host identity is stable\<close>

lemma sample_identity:
  "LoadOrCreateHostSigner (parsers sample_library) False True went_through
     \<lparr>ic_generated = True, ic_encoded = Some ''K''\<rparr> []
   = (Inr ''K'', [(HostIdentitySecretReference, empty_payload\<lparr>pl_private_key := ''K''\<rparr>)])"
proof -
  have "validateReference HostIdentitySecretReference = None" by code_simp
  then show ?thesis
    by (simp add: LoadOrCreateHostSigner_def ResolveSSHHostIdentity_def PutSSHHostIdentity_def backend_Get_def
        backend_Put_def went_through_def validateSSHHostIdentity_def sample_library_def key_parsers.defs)
qed

text \<open>
  once the gateway has a host identity, loading it again returns the same key and leaves the
  store as it is; the first load creates it, when the store accepts it.
\<close>

theorem host_identity_stable:
  assumes "LoadOrCreateHostSigner kp False True went_through calls b = (Inr key, b1)"
  shows "LoadOrCreateHostSigner kp False True out calls' b1 = (Inr key, b1)
    \<and> ResolveSSHHostIdentity kp False True b1 HostIdentitySecretReference = Inr key
    \<and> (ResolveSSHHostIdentity kp False True b HostIdentitySecretReference = Inr key \<and> b1 = b
       \<or> ResolveSSHHostIdentity kp False True b HostIdentitySecretReference = Inl ErrSecretNotFound
         \<and> ic_encoded calls = Some key)"
proof -
  have "ResolveSSHHostIdentity kp False True b1 HostIdentitySecretReference = Inr key
      \<and> kp_ParsePrivateKey kp key
      \<and> (ResolveSSHHostIdentity kp False True b HostIdentitySecretReference = Inr key \<and> b1 = b
         \<or> ResolveSSHHostIdentity kp False True b HostIdentitySecretReference = Inl ErrSecretNotFound
         \<and> ic_encoded calls = Some key)"
  proof (cases "ResolveSSHHostIdentity kp False True b HostIdentitySecretReference")
    case (Inr identity)
    with assms show ?thesis by (auto simp: LoadOrCreateHostSigner_def split: if_splits)
  next
    case (Inl e)
    with assms obtain encoded b' where put: "PutSSHHostIdentity kp False went_through b HostIdentitySecretReference encoded = (None, b')"
        "ic_encoded calls = Some encoded" "encoded = key" "b' = b1" "kp_ParsePrivateKey kp key" "e = ErrSecretNotFound"
      by (auto simp: LoadOrCreateHostSigner_def split: if_splits option.splits prod.splits)
    then have "as_sum (PutSSHHostIdentity kp False went_through b HostIdentitySecretReference key) = Inr b1"
      by (simp add: as_sum_Inr)
    from kept_identity.put_same [OF this] put Inl show ?thesis by simp
  qed
  then show ?thesis by (auto simp: LoadOrCreateHostSigner_def)
qed

theorem host_identity_stable_witness:
  "\<exists>b1. LoadOrCreateHostSigner (parsers sample_library) False True went_through
      \<lparr>ic_generated = True, ic_encoded = Some ''K''\<rparr> [] = (Inr ''K'', b1)
    \<and> ResolveSSHHostIdentity (parsers sample_library) False True b1 HostIdentitySecretReference = Inr ''K''"
  using host_identity_stable [OF sample_identity] sample_identity by auto

end
