(* ===== verification/Ssh_Audit.thy ===== *)
theory Ssh_Audit
  imports Ssh_Registry Private_File Activity
begin

text \<open>
  Package \<open>internal/sshgw\<close>, \<open>audit.go\<close>: the command audit, a bounded log whose every append is
  written to its file before it becomes visible in memory. Times are integers (0 is the zero
  time); the random bytes of a generated identifier (\<open>None\<close> when \<open>rand.Read\<close> fails), the clock
  and its formatted reading are arguments.
\<close>

definition commandAuditVersion :: int where
  "commandAuditVersion = 1"

definition maxCommandAuditBytes :: int where
  "maxCommandAuditBytes = 1048576"

definition maxCommandAuditEvents :: nat where
  "maxCommandAuditEvents = 100"

record command_event =
  ce_ID :: string
  ce_Time :: int
  ce_RouteAlias :: string
  ce_Command :: string
  ce_Result :: string
  ce_DurationMS :: int
  ce_Egress :: string

record audit_document =
  ad_Version :: int
  ad_Events :: "command_event list"

type_synonym audit_file = "audit_document file_text option"

text \<open>A \<open>FileCommandAudit\<close>: its events in memory and the file behind its path.\<close>

record command_audit =
  ca_events :: "command_event list"
  ca_file :: audit_file

definition json_event :: "command_event \<Rightarrow> command_event" where
  "json_event e = e
     \<lparr>ce_ID := utf8_coerce (ce_ID e), ce_RouteAlias := utf8_coerce (ce_RouteAlias e),
      ce_Command := utf8_coerce (ce_Command e), ce_Result := utf8_coerce (ce_Result e),
      ce_Egress := utf8_coerce (ce_Egress e)\<rparr>"

definition validCommandEvent :: "command_event \<Rightarrow> bool" where
  "validCommandEvent e =
     (if ce_ID e = [] \<or> length (ce_ID e) > 64 \<or> \<not> validCommand (ce_Command e) \<or> ce_Time e = 0
         \<or> ce_RouteAlias e = [] \<or> length (ce_RouteAlias e) > 63 \<or> ce_DurationMS e < 0 then False
      else if ce_Result e \<noteq> ''allowed'' \<and> ce_Result e \<noteq> ''blocked'' \<and> ce_Result e \<noteq> ''failed''
      then False
      else ce_Egress e = [] \<or> ce_Egress e = ''Direct'' \<or> ce_Egress e = ''Proxy''
        \<or> ce_Egress e = ''Auto'')"

definition newCommandEventID :: "bytes option \<Rightarrow> string \<Rightarrow> string" where
  "newCommandEventID rand formatted_now =
     (case rand of
        Some random \<Rightarrow> ''ssh-'' @ hex_encode random
      | None \<Rightarrow> ''ssh-'' @ formatted_now)"

definition OpenFileCommandAudit :: "read_calls \<Rightarrow> audit_file \<Rightarrow> string + command_audit" where
  "OpenFileCommandAudit os file =
     (case open_private ''create or protect SSH route metadata directory''
             ''invalid SSH command audit file'' ''open SSH command audit file''
             ''SSH command audit file changed while opening'' maxCommandAuditBytes os of
        Inl e \<Rightarrow> Inl e
      | Inr False \<Rightarrow> Inr \<lparr>ca_events = [], ca_file = file\<rparr>
      | Inr True \<Rightarrow>
          (case file of
             Some (JSONDoc document trailing) \<Rightarrow>
               if ad_Version document \<noteq> commandAuditVersion
                  \<or> length (ad_Events document) > maxCommandAuditEvents
               then Inl ''decode SSH command audit file''
               else if trailing then Inl ''SSH command audit file has trailing data''
               else if list_ex (\<lambda>e. \<not> validCommandEvent e) (ad_Events document)
               then Inl ''invalid SSH command audit event''
               else Inr \<lparr>ca_events = ad_Events document, ca_file = file\<rparr>
           | _ \<Rightarrow> Inl ''decode SSH command audit file''))"

definition save_audit ::
  "write_calls \<Rightarrow> command_event list \<Rightarrow> audit_file \<Rightarrow> string option \<times> audit_file" where
  "save_audit os events old =
     install_private ''SSH command audit file'' ''SSH command audit directory'' os
       (JSONDoc \<lparr>ad_Version = commandAuditVersion, ad_Events = map json_event events\<rparr> False) old"

definition trimmed :: "command_event list \<Rightarrow> command_event list" where
  "trimmed updated =
     (if length updated > maxCommandAuditEvents
      then drop (length updated - maxCommandAuditEvents) updated else updated)"

definition stamp_command ::
  "bytes option \<Rightarrow> string \<Rightarrow> int \<Rightarrow> command_event \<Rightarrow> command_event" where
  "stamp_command rand formatted_now now e =
     (let e1 = (if ce_ID e = [] then e\<lparr>ce_ID := newCommandEventID rand formatted_now\<rparr> else e)
      in if ce_Time e1 = 0 then e1\<lparr>ce_Time := now\<rparr> else e1)"

definition Record_command ::
  "write_calls \<Rightarrow> bytes option \<Rightarrow> string \<Rightarrow> int \<Rightarrow> command_audit \<Rightarrow> command_event
   \<Rightarrow> string option \<times> command_audit" where
  "Record_command os rand formatted_now now s event =
     (if \<not> validCommand (ce_Command event) \<or> ce_RouteAlias event = []
         \<or> length (ce_RouteAlias event) > 63
      then (Some ''invalid SSH command audit event'', s)
      else
        let e = stamp_command rand formatted_now now event in
        if \<not> validCommandEvent e then (Some ''invalid SSH command audit event'', s)
        else
          let updated = trimmed (ca_events s @ [e]) in
          case save_audit os updated (ca_file s) of
            (Some err, file) \<Rightarrow> (Some err, s\<lparr>ca_file := file\<rparr>)
          | (None, file) \<Rightarrow> (None, s\<lparr>ca_events := updated, ca_file := file\<rparr>))"

definition List_commands :: "command_audit \<Rightarrow> int \<Rightarrow> command_event list" where
  "List_commands s limit =
     list_down (ca_events s) (length (ca_events s)) (list_limit (ca_events s) limit)"

section \<open>The audit is a bounded log\<close>

definition push_command :: "command_audit \<Rightarrow> command_event \<Rightarrow> command_audit" where
  "push_command s e =
     (let updated = trimmed (ca_events s @ [e]) in
      s\<lparr>ca_events := updated,
        ca_file := Some (JSONDoc \<lparr>ad_Version = commandAuditVersion,
          ad_Events = map json_event updated\<rparr> False)\<rparr>)"

lemma trimmed_drop: "trimmed (es @ [e]) = drop (Suc (length es) - maxCommandAuditEvents) (es @ [e])"
  by (auto simp: trimmed_def)

interpretation audit_log: bounded_log ca_events push_command List_commands maxCommandAuditEvents
  by unfold_locales
    (simp_all add: maxCommandAuditEvents_def [symmetric] push_command_def Let_def trimmed_drop
      List_commands_def list_down_take list_limit_def, simp add: maxCommandAuditEvents_def)

definition audit_inv :: "command_audit \<Rightarrow> bool" where
  "audit_inv s \<longleftrightarrow>
     length (ca_events s) \<le> maxCommandAuditEvents \<and> list_all validCommandEvent (ca_events s)"

lemma Record_command_cases:
  "Record_command os rand fnow now s e = (err, s') \<Longrightarrow>
   (err \<noteq> None \<and> ca_events s' = ca_events s) \<or>
   (err = None \<and> s' = push_command s (stamp_command rand fnow now e)
     \<and> validCommandEvent (stamp_command rand fnow now e))"
  by (auto simp: Record_command_def save_audit_def install_private_def push_command_def Let_def
      split: if_splits)

lemma push_command_inv: "audit_inv s \<Longrightarrow> validCommandEvent e \<Longrightarrow> audit_inv (push_command s e)"
  using audit_log.push_bounded [of s e] audit_log.entries_push [of s e]
  by (auto simp: audit_inv_def list_all_iff dest: in_set_dropD)

lemma OpenFileCommandAudit_inv: "OpenFileCommandAudit os f = Inr s \<Longrightarrow> audit_inv s"
  by (auto simp: OpenFileCommandAudit_def audit_inv_def list_all_iff list_ex_iff
      split: sum.splits bool.splits option.splits file_text.splits if_splits)

inductive audit_reachable :: "command_audit \<Rightarrow> bool" where
  audit_open: "OpenFileCommandAudit os f = Inr s \<Longrightarrow> audit_reachable s"
| audit_record: "audit_reachable s \<Longrightarrow> Record_command os rand fnow now s e = (err, s') \<Longrightarrow>
    audit_reachable s'"

lemma audit_reachable_inv: "audit_reachable s \<Longrightarrow> audit_inv s"
proof (induction rule: audit_reachable.induct)
  case (audit_record s os rand fnow now e err s')
  with Record_command_cases [OF audit_record(2)] show ?case
    by (auto simp: push_command_inv) (simp add: audit_inv_def)
qed (rule OpenFileCommandAudit_inv)

definition sample_command :: command_event where
  "sample_command = \<lparr>ce_ID = [], ce_Time = 0, ce_RouteAlias = ''box'', ce_Command = ''uptime'',
     ce_Result = ''allowed'', ce_DurationMS = 12, ce_Egress = ''Direct''\<rparr>"

section \<open>Properties\<close>



end
