(* ===== verification/Ssh_Server.thy ===== *)
theory Ssh_Server
  imports Ssh_Upstream Ssh_Audit Activity
begin

text \<open>
  Package \<open>internal/sshgw\<close>, \<open>server.go\<close>: the SSH gateway. Authentication callbacks, the session
  state machine, the three kinds of upstream work a session can start (a command, the SFTP
  subsystem, an interactive shell), and the slots that bound connections and sessions.

  A handler is a function from the server's state to the new state and the list of what it does to
  the client's channel; work on the upstream is listed in the same way. The SSH library's wire
  decoders and what the upstream does are arguments. \<open>Reply\<close> does nothing for a request that wants
  no reply, as the library documents.
\<close>

section \<open>State\<close>

abbreviation authenticatedRouteExtension :: string where
  "authenticatedRouteExtension \<equiv> ''airlock-route''"

definition defaultMaxConnections :: nat where
  "defaultMaxConnections = 128"

definition defaultMaxSessions :: nat where
  "defaultMaxSessions = 256"

datatype ssh_auth_error = ErrAuthentication | ErrRouteDisabled

record pty_request =
  pt_Term :: string
  pt_Columns :: "32 word"
  pt_Rows :: "32 word"
  pt_Width :: "32 word"
  pt_Height :: "32 word"
  pt_Modes :: bytes

text \<open>A buffered channel used as a semaphore: capacity and slots taken, \<open>None\<close> for a nil channel.\<close>

type_synonym semaphore = "(nat \<times> nat) option"

record ssh_server =
  sx_routes :: ssh_registry
  sx_commandAudit :: "command_audit option"
  sx_activity :: "recorder option"
  sx_allowLAN :: bool
  sx_connections :: semaphore
  sx_sessions :: semaphore

definition NewServer ::
  "ssh_registry \<Rightarrow> command_audit option \<Rightarrow> recorder option \<Rightarrow> bool \<Rightarrow> ssh_server" where
  "NewServer routes audit activity allowLAN =
     \<lparr>sx_routes = routes, sx_commandAudit = audit, sx_activity = activity, sx_allowLAN = allowLAN,
      sx_connections = Some (defaultMaxConnections, 0), sx_sessions = Some (defaultMaxSessions, 0)\<rparr>"

definition WithResourceLimits :: "int \<Rightarrow> int \<Rightarrow> ssh_server \<Rightarrow> ssh_server" where
  "WithResourceLimits maxConnections maxSessions server =
     (let s1 = (if maxConnections > 0 then server\<lparr>sx_connections := Some (nat maxConnections, 0)\<rparr> else server)
      in if maxSessions > 0 then s1\<lparr>sx_sessions := Some (nat maxSessions, 0)\<rparr> else s1)"

definition tryAcquire :: "semaphore \<Rightarrow> bool \<times> semaphore" where
  "tryAcquire slots =
     (case slots of
        None \<Rightarrow> (True, slots)
      | Some (cap, used) \<Rightarrow> if used < cap then (True, Some (cap, Suc used)) else (False, slots))"

definition release :: "semaphore \<Rightarrow> semaphore" where
  "release slots = (case slots of None \<Rightarrow> None | Some (cap, used) \<Rightarrow> Some (cap, used - 1))"

definition taken :: "semaphore \<Rightarrow> nat" where
  "taken slots = (case slots of None \<Rightarrow> 0 | Some (cap, used) \<Rightarrow> used)"

interpretation ssh_slots: slot_pool tryAcquire release taken "map_option fst"
  by unfold_locales
    (auto simp: tryAcquire_def release_def taken_def split: option.splits if_splits)

text \<open>The local address of a TCP listener, or \<open>None\<close> for another kind of listener.\<close>

definition isAllowedTCPListener :: "ip option \<Rightarrow> bool \<Rightarrow> bool" where
  "isAllowedTCPListener address allowLAN =
     (case address of
        None \<Rightarrow> False
      | Some ip \<Rightarrow> IsLoopback ip \<or> (allowLAN \<and> (IsUnspecified ip \<or> IsPrivate ip)))"

section \<open>Records\<close>

text \<open>What a record call reads from its surroundings.\<close>

record log_calls =
  lc_writes :: write_calls
  lc_random :: "bytes option"
  lc_formatted :: string
  lc_now :: int
  lc_eventID :: string

definition record_event :: "log_calls \<Rightarrow> recorder option \<Rightarrow> activity_event \<Rightarrow> recorder option" where
  "record_event calls activity e =
     (case activity of
        None \<Rightarrow> None
      | Some events \<Rightarrow>
          (case Record events e (lc_eventID calls) (lc_now calls) of Inl _ \<Rightarrow> Some events | Inr events' \<Rightarrow> Some events'))"

definition sshActivityCaller :: "ssh_route \<Rightarrow> string option \<Rightarrow> string" where
  "sshActivityCaller route address =
     (let caller = EffectiveLocalUsername route @ ''@network'' in
      case address of
        None \<Rightarrow> caller
      | Some a \<Rightarrow>
          (case SplitHostPort a of
             None \<Rightarrow> caller
           | Some (host, _) \<Rightarrow>
               (case ParseIP host of
                  None \<Rightarrow> caller
                | Some ip \<Rightarrow>
                    if IsLoopback ip then EffectiveLocalUsername route @ ''@loopback''
                    else if IsPrivate ip then EffectiveLocalUsername route @ ''@private-lan''
                    else caller)))"

definition recordCommand :: "log_calls \<Rightarrow> ssh_server \<Rightarrow> ssh_route \<Rightarrow> string \<Rightarrow> string \<Rightarrow> int \<Rightarrow> ssh_server" where
  "recordCommand calls server route command result durationMS =
     (case sx_commandAudit server of
        None \<Rightarrow> server
      | Some audit \<Rightarrow>
          if \<not> sp_RecordCommands (sr_Policy route) then server
          else server\<lparr>sx_commandAudit := Some (snd (Record_command (lc_writes calls) (lc_random calls)
                 (lc_formatted calls) (lc_now calls) audit
                 \<lparr>ce_ID = [], ce_Time = 0, ce_RouteAlias = sr_Alias route, ce_Command = command, ce_Result = result,
                  ce_DurationMS = durationMS, ce_Egress = sr_Egress route\<rparr>))\<rparr>)"

definition ssh_event :: "ssh_route \<Rightarrow> string \<Rightarrow> string \<Rightarrow> string \<Rightarrow> string \<Rightarrow> int \<Rightarrow> activity_event" where
  "ssh_event route type caller action result durationMS =
     \<lparr>ev_ID = [], ev_Time = 0, ev_RouteAlias = sr_Alias route, ev_Category = ''SSH'', ev_EventType = type,
      ev_Caller = caller, ev_Action = action, ev_Result = result, ev_DurationMS = durationMS,
      ev_Egress = sr_Egress route\<rparr>"

definition recordSFTP :: "log_calls \<Rightarrow> ssh_server \<Rightarrow> ssh_route \<Rightarrow> string \<Rightarrow> string \<Rightarrow> int \<Rightarrow> ssh_server" where
  "recordSFTP calls server route caller result durationMS =
     server\<lparr>sx_activity := record_event calls (sx_activity server)
       (ssh_event route ''command'' caller ''SFTP subsystem'' result durationMS)\<rparr>"

section \<open>Authentication\<close>

text \<open>The connection's metadata: the user name and the remote address.\<close>

record conn_metadata =
  cm_User :: string
  cm_RemoteAddr :: "string option"

text \<open>The banner is the text for a disabled route, in UTF-8.\<close>

definition disabled_banner :: string where
  "disabled_banner = ''Airlock: ''
     @ [CHR 0xE8, CHR 0xB7, CHR 0xAF, CHR 0xE7, CHR 0x94, CHR 0xB1, CHR 0xE6, CHR 0x9C, CHR 0xAA,
        CHR 0xE5, CHR 0xBC, CHR 0x80, CHR 0xE5, CHR 0x90, CHR 0xAF, CHR 0xEF, CHR 0xBC, CHR 0x9A]
     @ ''access denied'' @ [LF]"

definition authenticationBanner :: "ssh_server \<Rightarrow> conn_metadata \<Rightarrow> string" where
  "authenticationBanner server metadata =
     (case GetByUsername (sx_routes server) (cm_User metadata) of
        Inr route \<Rightarrow> if \<not> sr_Enabled route then disabled_banner else []
      | Inl _ \<Rightarrow> [])"

definition recordDisabledAuthentication :: "log_calls \<Rightarrow> ssh_server \<Rightarrow> conn_metadata \<Rightarrow> ssh_server" where
  "recordDisabledAuthentication calls server metadata =
     (case GetByUsername (sx_routes server) (cm_User metadata) of
        Inl _ \<Rightarrow> server
      | Inr route \<Rightarrow>
          if sr_Enabled route then server
          else server\<lparr>sx_activity := record_event calls (sx_activity server)
            (ssh_event route ''request'' (sshActivityCaller route (cm_RemoteAddr metadata))
              ''SSH connection to disabled route'' ''blocked'' 0)\<rparr>)"

definition refused_user :: "ssh_server \<Rightarrow> conn_metadata \<Rightarrow> ssh_auth_error" where
  "refused_user server metadata =
     (case GetByUsername (sx_routes server) (cm_User metadata) of
        Inr disabledRoute \<Rightarrow> if \<not> sr_Enabled disabledRoute then ErrRouteDisabled else ErrAuthentication
      | Inl _ \<Rightarrow> ErrAuthentication)"

definition routePermissions :: "string \<Rightarrow> (string, string) amap" where
  "routePermissions a = [(authenticatedRouteExtension, a)]"

definition authenticatePassword ::
  "log_calls \<Rightarrow> ssh_server \<Rightarrow> conn_metadata \<Rightarrow> string \<Rightarrow> (ssh_auth_error + (string, string) amap) \<times> ssh_server" where
  "authenticatePassword calls server metadata password =
     (case LookupByUsername (sx_routes server) (cm_User metadata) of
        Inl _ \<Rightarrow> (Inl (refused_user server metadata), recordDisabledAuthentication calls server metadata)
      | Inr route \<Rightarrow>
          (case Verify password (sr_CapabilityDigest route) of
             Inl _ \<Rightarrow> (Inl ErrAuthentication, server)
           | Inr _ \<Rightarrow> (Inr (routePermissions (sr_Alias route)), server)))"

text \<open>The key is given by the fingerprint the library computes for it.\<close>

definition authenticatePublicKey ::
  "log_calls \<Rightarrow> ssh_server \<Rightarrow> conn_metadata \<Rightarrow> string \<Rightarrow> (ssh_auth_error + (string, string) amap) \<times> ssh_server" where
  "authenticatePublicKey calls server metadata fingerprint =
     (case LookupByUsername (sx_routes server) (cm_User metadata) of
        Inl _ \<Rightarrow> (Inl (refused_user server metadata), recordDisabledAuthentication calls server metadata)
      | Inr route \<Rightarrow>
          if fingerprint \<notin> set (sp_LocalPublicKeyFingerprints (sr_Policy route)) then (Inl ErrAuthentication, server)
          else (Inr (routePermissions (sr_Alias route)), server))"

section \<open>Sessions\<close>

record ssh_request =
  sq_Type :: string
  sq_WantReply :: bool
  sq_Payload :: bytes

text \<open>
  The wire decoders: a structure of one string (with what was read of it when decoding fails), a
  terminal request, a window size, and an exit status.
\<close>

record wire =
  wf_string :: "bytes \<Rightarrow> bool \<times> string"
  wf_pty :: "bytes \<Rightarrow> pty_request option"
  wf_window :: "bytes \<Rightarrow> bool"
  wf_status :: "bytes \<Rightarrow> 32 word option"

datatype work =
    ExecWork ssh_request ssh_route string
  | ShellWork ssh_request ssh_route "pty_request option" string
  | SFTPWork ssh_request ssh_route string

text \<open>The guidance for a refused shell names the allowed commands, or that all are allowed.\<close>

datatype local_action =
    ReplyTo bool
  | ExitStatus "32 word"
  | ShellGuidance "string list option"
  | CloseLocal
  | StartWork work

definition reply_to :: "ssh_request \<Rightarrow> bool \<Rightarrow> local_action list" where
  "reply_to request ok = (if sq_WantReply request then [ReplyTo ok] else [])"

definition writeShellUnavailable :: "ssh_route \<Rightarrow> local_action" where
  "writeShellUnavailable route =
     ShellGuidance (if sp_AllowAllCommands (sr_Policy route) then None
       else Some (sort (sp_AllowedCommands (sr_Policy route))))"

record session =
  se_alias :: string
  se_user :: string
  se_remote :: "string option"
  se_done :: bool
  se_pty :: "pty_request option"
  se_returned :: bool

text \<open>The start of \<open>handleSession\<close>: a connection without the route extension is closed at once.\<close>

definition open_session ::
  "(string, string) amap option \<Rightarrow> string \<Rightarrow> string option \<Rightarrow> session \<times> local_action list" where
  "open_session permissions user remote =
     (let a = (case permissions of
                 None \<Rightarrow> []
               | Some e \<Rightarrow> (case map_of e authenticatedRouteExtension of None \<Rightarrow> [] | Some v \<Rightarrow> v));
          s = \<lparr>se_alias = a, se_user = user, se_remote = remote, se_done = False, se_pty = None, se_returned = False\<rparr>
      in if a = [] then (s\<lparr>se_returned := True\<rparr>, [CloseLocal]) else (s, []))"

text \<open>
  One request of a session whose loop is running. Once work was started, every request is refused
  until the work is over. An interactive shell takes over the request channel.
\<close>

definition handle_request ::
  "wire \<Rightarrow> log_calls \<Rightarrow> ssh_server \<Rightarrow> session \<Rightarrow> ssh_request \<Rightarrow> session \<times> local_action list \<times> ssh_server" where
  "handle_request w calls server s request =
     (if se_done s then (s, reply_to request False, server)
      else case Ssh_Lookup (sx_routes server) (se_alias s) of
        Inl _ \<Rightarrow> (s, reply_to request False, server)
      | Inr route \<Rightarrow>
          let policy = sr_Policy route; caller = sshActivityCaller route (se_remote s) in
          if EffectiveLocalUsername route \<noteq> se_user s then (s, reply_to request False, server)
          else if sq_Type request = ''pty-req'' then
            (case wf_pty w (sq_Payload request) of
               None \<Rightarrow> (s, reply_to request True, server)
             | Some p \<Rightarrow> (s\<lparr>se_pty := Some p\<rparr>, reply_to request True, server))
          else if sq_Type request = ''window-change'' then (s, reply_to request True, server)
          else if sq_Type request = ''exec'' then
            (case wf_string w (sq_Payload request) of (ok, command) \<Rightarrow>
               if \<not> ok \<or> \<not> AllowsCommand policy command
               then (s\<lparr>se_returned := True\<rparr>, reply_to request False @ [ExitStatus 126, CloseLocal],
                     if validCommand command then recordCommand calls server route command ''blocked'' 0 else server)
               else (s\<lparr>se_done := True\<rparr>, [StartWork (ExecWork request route command)], server))
          else if sq_Type request = ''shell'' then
            (if sp_AllowInteractiveShell policy \<and> sp_AllowAllCommands policy
             then (s\<lparr>se_done := True, se_returned := True\<rparr>,
                   [StartWork (ShellWork request route (se_pty s) caller)], server)
             else if \<not> sp_AllowAllCommands policy \<and> length (sp_AllowedCommands policy) = 1
             then (s\<lparr>se_done := True\<rparr>,
                   [StartWork (ExecWork request route (hd (sp_AllowedCommands policy)))], server)
             else (s\<lparr>se_returned := True\<rparr>,
                   reply_to request True @ [writeShellUnavailable route, ExitStatus 1, CloseLocal], server))
          else if sq_Type request = ''subsystem'' then
            (case wf_string w (sq_Payload request) of (ok, name) \<Rightarrow>
               if \<not> ok \<or> name \<noteq> ''sftp'' then (s, reply_to request False, server)
               else if \<not> sp_AllowSFTP policy
               then (s, reply_to request False, recordSFTP calls server route caller ''blocked'' 0)
               else (s\<lparr>se_done := True\<rparr>, [StartWork (SFTPWork request route caller)], server))
          else (s, reply_to request False, server))"

text \<open>The request channel closes, or the work that was started ends.\<close>

definition requests_closed :: "session \<Rightarrow> session \<times> local_action list" where
  "requests_closed s = (s\<lparr>se_returned := True\<rparr>, if \<not> se_done s then [CloseLocal] else [])"

definition work_done :: "session \<Rightarrow> session" where
  "work_done s = s\<lparr>se_returned := True\<rparr>"

section \<open>Work on the upstream\<close>

text \<open>What waiting for an upstream session gives: success, an exit error with its status, or another error.\<close>

datatype wait_result = WaitOk | WaitExit int | WaitFailed

definition exitStatus :: "wait_result \<Rightarrow> 32 word" where
  "exitStatus err =
     (case err of
        WaitOk \<Rightarrow> 0
      | WaitExit status \<Rightarrow> if status \<ge> 0 then word_of_int status else 255
      | WaitFailed \<Rightarrow> 255)"

text \<open>The last decodable exit status of the remote requests; 255 without one.\<close>

definition receiveExitStatus :: "wire \<Rightarrow> ssh_request list \<Rightarrow> 32 word" where
  "receiveExitStatus w requests =
     foldl (\<lambda>status request.
        if sq_Type request = ''exit-status''
        then (case wf_status w (sq_Payload request) of None \<Rightarrow> status | Some v \<Rightarrow> v)
        else status) 255 requests"

definition be_word :: "bytes \<Rightarrow> 32 word" where
  "be_word b = foldl (\<lambda>acc c. acc * 256 + of_nat (of_char c)) 0 b"

text \<open>
  Terminal modes: pairs of an opcode byte and a big-endian word, up to opcode 0 or fewer than five
  bytes; a later pair for the same opcode replaces an earlier one.
\<close>

function parse_modes :: "bytes \<Rightarrow> (char, 32 word) amap \<Rightarrow> (char, 32 word) amap" where
  "parse_modes raw modes =
     (if length raw < 5 then modes
      else if raw ! 0 = NUL then modes
      else parse_modes (drop 5 raw) (AList.update (raw ! 0) (be_word (take 4 (drop 1 raw))) modes))"
  by pat_completeness auto
termination
  by (relation "measure (\<lambda>(raw, modes). length raw)") auto

declare parse_modes.simps [simp del]

definition parseTerminalModes :: "bytes \<Rightarrow> (char, 32 word) amap" where
  "parseTerminalModes raw = parse_modes raw []"

datatype upstream_effect =
    Dialed string string
  | StdinForwarded
  | UpstreamStart string
  | UpstreamPty string "32 word" "32 word" "(char, 32 word) amap"
  | UpstreamShell
  | UpstreamSubsystem string
  | UpstreamRequest string bytes

text \<open>What the upstream and the clock do during one piece of work.\<close>

record work_calls =
  wk_contextDone :: bool
  wk_backendOk :: bool
  wk_sessionOk :: bool
  wk_ptyOk :: bool
  wk_startOk :: bool
  wk_subsystemOk :: bool
  wk_replyOk :: bool
  wk_wait :: wait_result
  wk_remoteRequests :: "ssh_request list"
  wk_clientRequests :: "ssh_request list"
  wk_durationMS :: int
  wk_log :: log_calls
  wk_activityLog :: log_calls

record ssh_world =
  sw_library :: ssh_library
  sw_network :: network
  sw_egress :: manager
  sw_secrets :: backend
  sw_wire :: wire

text \<open>Resolving the target and connecting: the addresses dialed, and the connection unless it failed.\<close>

definition connect_upstream :: "ssh_world \<Rightarrow> work_calls \<Rightarrow> ssh_route \<Rightarrow> upstream_effect list \<times> conn option" where
  "connect_upstream world calls route =
     (case ResolveSSHTarget (parsers (sw_library world)) (wk_contextDone calls) (wk_backendOk calls)
             (sw_secrets world) (sr_TargetSecretRef route) of
        Inl _ \<Rightarrow> ([], None)
      | Inr target \<Rightarrow>
          (case dialUpstream (sw_library world) (sw_network world) (sw_egress world) route target of
             (tried, Inl _) \<Rightarrow> (map (\<lambda>(n, a). Dialed n a) tried, None)
           | (tried, Inr c) \<Rightarrow> (map (\<lambda>(n, a). Dialed n a) tried, Some c)))"

text \<open>
  \<open>execute\<close>: the effects on the upstream, the actions on the channel (closed last), and the server
  with the command recorded.
\<close>

definition execute ::
  "ssh_world \<Rightarrow> work_calls \<Rightarrow> ssh_server \<Rightarrow> ssh_request \<Rightarrow> ssh_route \<Rightarrow> string
   \<Rightarrow> upstream_effect list \<times> local_action list \<times> ssh_server" where
  "execute world calls server request route command =
     (let recorded = (\<lambda>result. recordCommand (wk_log calls) server route command result (wk_durationMS calls));
          failed = (\<lambda>effects. (effects, reply_to request False @ [CloseLocal], recorded ''failed''));
          upstreamCommand = ApplyKeywordReplacements command (sr_KeywordReplacements route)
      in case connect_upstream world calls route of
           (dialed, None) \<Rightarrow> failed dialed
         | (dialed, Some c) \<Rightarrow>
             if \<not> wk_sessionOk calls then failed dialed
             else
               let stdin = (if sp_AllowStdin (sr_Policy route) then [StdinForwarded] else []) in
               if \<not> wk_startOk calls then failed (dialed @ stdin @ [UpstreamStart upstreamCommand])
               else if sq_WantReply request \<and> \<not> wk_replyOk calls
               then (dialed @ stdin @ [UpstreamStart upstreamCommand], [ReplyTo True, CloseLocal], recorded ''failed'')
               else (dialed @ stdin @ [UpstreamStart upstreamCommand],
                     reply_to request True @ [ExitStatus (exitStatus (wk_wait calls)), CloseLocal],
                     recorded (if wk_wait calls = WaitOk then ''allowed'' else ''failed'')))"

definition executeSFTP ::
  "ssh_world \<Rightarrow> work_calls \<Rightarrow> ssh_server \<Rightarrow> ssh_request \<Rightarrow> ssh_route \<Rightarrow> string
   \<Rightarrow> upstream_effect list \<times> local_action list \<times> ssh_server" where
  "executeSFTP world calls server request route caller =
     (let recorded = (\<lambda>result. recordSFTP (wk_log calls) server route caller result (wk_durationMS calls));
          failed = (\<lambda>effects. (effects, reply_to request False @ [CloseLocal], recorded ''failed''))
      in case connect_upstream world calls route of
           (dialed, None) \<Rightarrow> failed dialed
         | (dialed, Some c) \<Rightarrow>
             if \<not> wk_sessionOk calls then failed dialed
             else if \<not> wk_subsystemOk calls then failed (dialed @ [UpstreamSubsystem ''sftp''])
             else if sq_WantReply request \<and> \<not> wk_replyOk calls
             then (dialed @ [UpstreamSubsystem ''sftp''], [ReplyTo True, CloseLocal], recorded ''failed'')
             else
               let exitCode = receiveExitStatus (sw_wire world) (wk_remoteRequests calls) in
               (dialed @ [UpstreamSubsystem ''sftp'', StdinForwarded],
                reply_to request True @ [ExitStatus exitCode, CloseLocal],
                recorded (if exitCode = 0 then ''allowed'' else ''failed'')))"

definition forwardSessionRequest :: "wire \<Rightarrow> ssh_request \<Rightarrow> upstream_effect list \<times> local_action list" where
  "forwardSessionRequest w request =
     ((if sq_Type request = ''window-change''
       then (if wf_window w (sq_Payload request) then [UpstreamRequest ''window-change'' (sq_Payload request)] else [])
       else if sq_Type request = ''signal'' then [UpstreamRequest ''signal'' (sq_Payload request)]
       else if sq_Type request \<noteq> ''pty-req'' then [UpstreamRequest (sq_Type request) (sq_Payload request)] else []),
      reply_to request True)"

definition forward_requests :: "wire \<Rightarrow> ssh_request list \<Rightarrow> upstream_effect list \<times> local_action list" where
  "forward_requests w requests =
     (concat (map (fst \<circ> forwardSessionRequest w) requests), concat (map (snd \<circ> forwardSessionRequest w) requests))"

definition interactiveShell ::
  "ssh_world \<Rightarrow> work_calls \<Rightarrow> ssh_server \<Rightarrow> ssh_request \<Rightarrow> ssh_route \<Rightarrow> pty_request option \<Rightarrow> string
   \<Rightarrow> upstream_effect list \<times> local_action list \<times> ssh_server" where
  "interactiveShell world calls server request route pty caller =
     (let recorded = (\<lambda>server result.
            recordCommand (wk_log calls) server route ''interactive-shell'' result (wk_durationMS calls));
          failed = (\<lambda>effects. (effects, reply_to request False @ [CloseLocal], recorded server ''failed''))
      in case connect_upstream world calls route of
           (dialed, None) \<Rightarrow> failed dialed
         | (dialed, Some c) \<Rightarrow>
             if \<not> wk_sessionOk calls then failed dialed
             else
               let terminal = (case pty of None \<Rightarrow> []
                     | Some p \<Rightarrow> [UpstreamPty (pt_Term p) (pt_Rows p) (pt_Columns p) (parseTerminalModes (pt_Modes p))]);
                   ready = dialed @ [StdinForwarded] @ terminal
               in if pty \<noteq> None \<and> \<not> wk_ptyOk calls then failed ready
                  else if \<not> wk_startOk calls then failed (ready @ [UpstreamShell])
                  else if sq_WantReply request \<and> \<not> wk_replyOk calls
                  then (ready @ [UpstreamShell], [ReplyTo True, CloseLocal], recorded server ''failed'')
                  else
                    let forwarded = forward_requests (sw_wire world) (wk_clientRequests calls);
                        result = (if wk_wait calls = WaitOk then ''allowed'' else ''failed'');
                        noted = server\<lparr>sx_activity := record_event (wk_activityLog calls) (sx_activity server)
                          (ssh_event route ''command'' caller ''SSH interactive shell'' result (wk_durationMS calls))\<rparr>
                    in (ready @ [UpstreamShell] @ fst forwarded,
                        reply_to request True @ snd forwarded @ [ExitStatus (exitStatus (wk_wait calls)), CloseLocal],
                        recorded noted result))"

definition perform ::
  "ssh_world \<Rightarrow> work_calls \<Rightarrow> ssh_server \<Rightarrow> work \<Rightarrow> upstream_effect list \<times> local_action list \<times> ssh_server" where
  "perform world calls server wk =
     (case wk of
        ExecWork request route command \<Rightarrow> execute world calls server request route command
      | ShellWork request route pty caller \<Rightarrow> interactiveShell world calls server request route pty caller
      | SFTPWork request route caller \<Rightarrow> executeSFTP world calls server request route caller)"

section \<open>Connections\<close>

datatype channel_decision = RejectProhibited | RejectResourceShortage | AcceptFailed | SessionOpened

text \<open>One channel that the client opens; accepting it may fail. A session that was opened holds its slot.\<close>

definition open_channel :: "ssh_server \<Rightarrow> string \<Rightarrow> bool \<Rightarrow> channel_decision \<times> ssh_server" where
  "open_channel server channelType accept_ok =
     (if channelType \<noteq> ''session'' then (RejectProhibited, server)
      else case tryAcquire (sx_sessions server) of
        (False, _) \<Rightarrow> (RejectResourceShortage, server)
      | (True, slots) \<Rightarrow>
          if \<not> accept_ok then (AcceptFailed, server\<lparr>sx_sessions := release slots\<rparr>)
          else (SessionOpened, server\<lparr>sx_sessions := slots\<rparr>))"

definition accept_connection :: "ssh_server \<Rightarrow> bool \<times> ssh_server" where
  "accept_connection server =
     (case tryAcquire (sx_connections server) of
        (False, _) \<Rightarrow> (False, server)
      | (True, slots) \<Rightarrow> (True, server\<lparr>sx_connections := slots\<rparr>))"

text \<open>Global requests (such as port forwarding) are all refused.\<close>

definition rejectGlobalRequests :: "ssh_request list \<Rightarrow> local_action list" where
  "rejectGlobalRequests requests = concat (map (\<lambda>request. reply_to request False) requests)"

end
