(* ===== verification/Ssh_Session.thy ===== *)
theory Ssh_Session
  imports Ssh_Server
begin

text \<open>
  What the SSH gateway promises: who is authenticated, what a session may start and under which
  policy, that at most one piece of work is started, what reaches the upstream, how terminal modes
  are decoded, and that connections and sessions stay within their bounds.
\<close>

section \<open>Authentication\<close>

text \<open>
  C30: a password is accepted exactly when it hashes to the digest of the one enabled route with the
  user's name, and a public key exactly when its fingerprint is listed by that route; the
  connection is then bound to that route's alias and nothing else changes. A name whose route is
  disabled is refused as disabled.
\<close>

theorem ssh_authentication_correct:
  assumes "ssh_registry_inv (sx_routes server)"
  shows "(fst (authenticatePassword calls server md password) = Inr perms \<longleftrightarrow>
      (\<exists>route. map_of (sx_routes server) (sr_Alias route) = Some route \<and> sr_Enabled route
         \<and> EffectiveLocalUsername route = cm_User md \<and> password \<noteq> [] \<and> Hash password = sr_CapabilityDigest route
         \<and> perms = routePermissions (sr_Alias route)))
    \<and> (fst (authenticatePublicKey calls server md fingerprint) = Inr perms \<longleftrightarrow>
      (\<exists>route. map_of (sx_routes server) (sr_Alias route) = Some route \<and> sr_Enabled route
         \<and> EffectiveLocalUsername route = cm_User md
         \<and> fingerprint \<in> set (sp_LocalPublicKeyFingerprints (sr_Policy route))
         \<and> perms = routePermissions (sr_Alias route)))
    \<and> (fst (authenticatePassword calls server md password) = Inl ErrRouteDisabled \<longleftrightarrow>
        authenticationBanner server md \<noteq> [] \<and> \<not> is_ok (LookupByUsername (sx_routes server) (cm_User md)))
    \<and> (is_ok (fst (authenticatePassword calls server md password)) \<longrightarrow>
        snd (authenticatePassword calls server md password) = server)"
proof -
  have iff: "LookupByUsername (sx_routes server) (cm_User md) = Inr r \<longleftrightarrow>
      map_of (sx_routes server) (sr_Alias r) = Some r \<and> sr_Enabled r \<and> EffectiveLocalUsername r = cm_User md" for r
    by (rule LookupByUsername_iff [OF assms])
  have banner: "disabled_banner \<noteq> []" by (simp add: disabled_banner_def)
  show ?thesis
  proof (cases "LookupByUsername (sx_routes server) (cm_User md)")
    case (Inl e)
    then have none: "\<not> (map_of (sx_routes server) (sr_Alias r) = Some r \<and> sr_Enabled r
        \<and> EffectiveLocalUsername r = cm_User md)" for r
      using iff [of r] by simp
    have "refused_user server md = ErrRouteDisabled \<longleftrightarrow> authenticationBanner server md \<noteq> []"
      using banner by (auto simp: refused_user_def authenticationBanner_def split: sum.splits)
    with Inl none show ?thesis by (auto simp: authenticatePassword_def authenticatePublicKey_def is_ok_def)
  next
    case (Inr route)
    have only: "(map_of (sx_routes server) (sr_Alias r) = Some r \<and> sr_Enabled r \<and> EffectiveLocalUsername r = cm_User md)
        = (r = route)" for r
      using iff [of r] Inr by auto
    have ex: "(\<exists>r. map_of (sx_routes server) (sr_Alias r) = Some r \<and> sr_Enabled r
        \<and> EffectiveLocalUsername r = cm_User md \<and> Q r) = Q route" for Q
      using only by metis
    show ?thesis
      unfolding authenticatePassword_def authenticatePublicKey_def Inr ex
      by (auto simp: Verify_cases is_ok_def)
  qed
qed

section \<open>Sessions\<close>

definition started :: "local_action list \<Rightarrow> work list" where
  "started actions = concat (map (\<lambda>a. case a of StartWork wk \<Rightarrow> [wk] | _ \<Rightarrow> []) actions)"

lemma started_simps [simp]:
  "started [] = []" "started (a @ b) = started a @ started b"
  "started (ReplyTo x # r) = started r" "started (ExitStatus n # r) = started r"
  "started (ShellGuidance g # r) = started r" "started (CloseLocal # r) = started r"
  "started (StartWork wk # r) = wk # started r"
  by (simp_all add: started_def)

lemma started_reply [simp]: "started (reply_to request b) = []"
  by (simp add: reply_to_def)

lemma started_guidance [simp]: "started (writeShellUnavailable route # r) = started r"
  by (simp add: writeShellUnavailable_def)

text \<open>What the policy of a route says about a piece of work.\<close>

definition policy_allows :: "work \<Rightarrow> bool" where
  "policy_allows wk =
     (case wk of
        ExecWork request route command \<Rightarrow> AllowsCommand (sr_Policy route) command
      | ShellWork request route pty caller \<Rightarrow>
          sp_AllowInteractiveShell (sr_Policy route) \<and> sp_AllowAllCommands (sr_Policy route)
      | SFTPWork request route caller \<Rightarrow> sp_AllowSFTP (sr_Policy route))"

definition work_route :: "work \<Rightarrow> ssh_route" where
  "work_route wk = (case wk of ExecWork _ r _ \<Rightarrow> r | ShellWork _ r _ _ \<Rightarrow> r | SFTPWork _ r _ \<Rightarrow> r)"

text \<open>Work that a session of a user on an alias may start while the routes are as given.\<close>

definition authorised :: "ssh_registry \<Rightarrow> string \<Rightarrow> string \<Rightarrow> work \<Rightarrow> bool" where
  "authorised reg a user wk \<longleftrightarrow> map_of reg a = Some (work_route wk) \<and> sr_Enabled (work_route wk)
     \<and> EffectiveLocalUsername (work_route wk) = user \<and> policy_allows wk"

lemma single_command_allowed:
  assumes "Ssh_Validate route = None" "\<not> sp_AllowAllCommands (sr_Policy route)"
    "length (sp_AllowedCommands (sr_Policy route)) = 1"
  shows "AllowsCommand (sr_Policy route) (hd (sp_AllowedCommands (sr_Policy route)))"
proof -
  obtain c where c: "sp_AllowedCommands (sr_Policy route) = [c]"
    using assms(3) by (auto simp: length_Suc_conv)
  have "\<not> list_ex (\<lambda>c. \<not> validCommand c) (sp_AllowedCommands (sr_Policy route))"
    using assms(1) unfolding Ssh_Validate_def by (auto split: if_splits sum.splits option.splits)
  then show ?thesis using c by (simp add: AllowsCommand_def)
qed

lemma handle_request_started:
  assumes "handle_request w calls server s request = (s', actions, server')" "ssh_registry_inv (sx_routes server)"
  shows "se_alias s' = se_alias s \<and> se_user s' = se_user s \<and> sx_routes server' = sx_routes server
    \<and> (started actions = [] \<and> se_done s' = se_done s
       \<or> \<not> se_done s \<and> se_done s' \<and> (\<exists>wk. started actions = [wk] \<and> authorised (sx_routes server) (se_alias s) (se_user s) wk))"
proof (cases "se_done s")
  case True
  with assms(1) show ?thesis by (auto simp: handle_request_def)
next
  case False
  show ?thesis
  proof (cases "Ssh_Lookup (sx_routes server) (se_alias s)")
    case (Inl e)
    with False assms(1) show ?thesis by (auto simp: handle_request_def)
  next
    case (Inr route)
    have r: "map_of (sx_routes server) (se_alias s) = Some route" "sr_Enabled route"
      using ssh_reg.lookup_enabled [OF Inr] by auto
    have v: "Ssh_Validate route = None" using ssh_registry_invD [OF assms(2) r(1)] by simp
    have keep: "sx_routes (recordCommand calls server route c res d) = sx_routes server"
        "sx_routes (recordSFTP calls server route c res d) = sx_routes server" for c res d
      by (auto simp: recordCommand_def recordSFTP_def split: option.splits)
    show ?thesis
      using assms(1) False Inr r single_command_allowed [OF v] keep
      unfolding handle_request_def Let_def authorised_def
      by (auto simp: policy_allows_def work_route_def split: if_splits option.splits prod.splits)
  qed
qed

text \<open>
  A session and the work it started, with the routes at that moment; between requests the routes
  may be replaced by any well-formed registry.
\<close>

inductive session_run :: "string \<Rightarrow> string \<Rightarrow> session \<Rightarrow> (ssh_registry \<times> work) list \<Rightarrow> bool" for a user where
  opened: "open_session permissions user remote = (s, acts) \<Longrightarrow> se_alias s = a \<Longrightarrow> \<not> se_returned s \<Longrightarrow>
    session_run a user s []"
| requested: "session_run a user s hist \<Longrightarrow> \<not> se_returned s \<Longrightarrow> ssh_registry_inv (sx_routes server) \<Longrightarrow>
    handle_request w calls server s request = (s', acts, server') \<Longrightarrow>
    session_run a user s' (hist @ map (Pair (sx_routes server)) (started acts))"
| closed: "session_run a user s hist \<Longrightarrow> session_run a user (fst (requests_closed s)) hist"
| ended: "session_run a user s hist \<Longrightarrow> se_done s \<Longrightarrow> session_run a user (work_done s) hist"

inductive_cases session_runE: "session_run a user s hist"

lemma session_run_inv:
  "session_run a user s hist \<Longrightarrow> se_alias s = a \<and> se_user s = user \<and> (hist = [] \<longleftrightarrow> \<not> se_done s) \<and> length hist \<le> 1
   \<and> (\<forall>(reg, wk) \<in> set hist. authorised reg a user wk)"
proof (induction rule: session_run.induct)
  case (opened permissions remote s acts)
  then show ?case by (auto simp: open_session_def Let_def split: if_splits)
next
  case (requested s hist server w calls request s' acts server')
  from handle_request_started [OF requested(4,3)] requested(5) show ?case by auto
qed (auto simp: requests_closed_def work_done_def)

text \<open>
  C9: whatever a client sends on a session, and however the routes change meanwhile, at most one
  piece of work is started; it was started under the authenticated alias, for a route that was
  enabled and bound to the connected user at that moment, and that route's policy allows it: the
  command is allowed, SFTP is switched on, or the interactive shell and all commands are.
\<close>

theorem session_work_authorised:
  assumes "session_run a user s hist"
  shows "length hist \<le> 1 \<and> (\<forall>(reg, wk) \<in> set hist. map_of reg a = Some (work_route wk) \<and> sr_Enabled (work_route wk)
    \<and> EffectiveLocalUsername (work_route wk) = user
    \<and> (case wk of
         ExecWork request route command \<Rightarrow> validCommand command
           \<and> (sp_AllowAllCommands (sr_Policy route) \<or> command \<in> set (sp_AllowedCommands (sr_Policy route)))
       | ShellWork request route pty caller \<Rightarrow>
           sp_AllowInteractiveShell (sr_Policy route) \<and> sp_AllowAllCommands (sr_Policy route)
       | SFTPWork request route caller \<Rightarrow> sp_AllowSFTP (sr_Policy route)))"
proof -
  have "AllowsCommand p c \<Longrightarrow> validCommand c \<and> (sp_AllowAllCommands p \<or> c \<in> set (sp_AllowedCommands p))" for p c
    by (auto simp: AllowsCommand_def split: if_splits)
  then show ?thesis
    using session_run_inv [OF assms] unfolding authorised_def policy_allows_def
    by (fastforce split: work.splits)
qed

section \<open>What reaches the upstream\<close>

lemma connect_upstream_pinned:
  assumes "checks_host_key (sw_library world)" "connect_upstream world calls route = (dialed, Some c)"
  shows "\<exists>target. ResolveSSHTarget (parsers (sw_library world)) (wk_contextDone calls) (wk_backendOk calls)
      (sw_secrets world) (sr_TargetSecretRef route) = Inr target
    \<and> sl_presentedKey (sw_library world) c = Some (st_ExpectedHostKey target)"
proof -
  obtain target tried where t: "ResolveSSHTarget (parsers (sw_library world)) (wk_contextDone calls) (wk_backendOk calls)
      (sw_secrets world) (sr_TargetSecretRef route) = Inr target"
      "dialUpstream (sw_library world) (sw_network world) (sw_egress world) route target = (tried, Inr c)"
    using assms(2) by (auto simp: connect_upstream_def split: sum.splits prod.splits)
  obtain callback auth where "pinnedHostKeyCallback (sw_library world) (st_ExpectedHostKey target) = Inr callback"
      "sl_NewClientConn (sw_library world) c (st_Address target)
        \<lparr>cc_User = st_Username target, cc_Auth = auth, cc_HostKeyCallback = callback\<rparr> = None"
    using t(2) by (auto simp: dialUpstream_def split: sum.splits prod.splits option.splits)
  with assms(1) obtain k where "sl_presentedKey (sw_library world) c = Some k" "callback k = None"
    unfolding checks_host_key_def by (metis client_config.select_convs(3))
  with pinned_accepts [of "sw_library world" "st_ExpectedHostKey target" callback] t(1)
    \<open>pinnedHostKeyCallback _ _ = _\<close> show ?thesis by auto
qed

lemma connect_upstream_dials: "connect_upstream world calls route = (dialed, r) \<Longrightarrow> e \<in> set dialed \<Longrightarrow> \<exists>n a. e = Dialed n a"
  by (auto simp: connect_upstream_def split: sum.splits prod.splits)

lemma perform_unconnected:
  assumes "connect_upstream world calls (work_route wk) = (dialed, None)" "perform world calls server wk = (effects, acts, server')"
  shows "effects = dialed"
  using assms by (auto simp: perform_def work_route_def execute_def executeSFTP_def interactiveShell_def Let_def split: work.splits)

lemma forwarded_effects:
  assumes "e \<in> set (fst (forward_requests w rs))"
  shows "\<exists>t p. e = UpstreamRequest t p \<and> t \<noteq> ''pty-req''"
proof -
  have 1: "e \<in> set (fst (forwardSessionRequest w r)) \<Longrightarrow> \<exists>t p. e = UpstreamRequest t p \<and> t \<noteq> ''pty-req''" for r
    unfolding forwardSessionRequest_def fst_conv by (simp split: if_split_asm)
  obtain r where "e \<in> set (fst (forwardSessionRequest w r))"
    using assms by (auto simp: forward_requests_def)
  then show ?thesis by (rule 1)
qed

text \<open>What a piece of work may do on the upstream once it is connected.\<close>

definition fitting_effect :: "work \<Rightarrow> upstream_effect \<Rightarrow> bool" where
  "fitting_effect wk e =
     (case e of
        Dialed n a \<Rightarrow> True
      | StdinForwarded \<Rightarrow> (case wk of ExecWork _ route _ \<Rightarrow> sp_AllowStdin (sr_Policy route) | _ \<Rightarrow> True)
      | UpstreamStart c \<Rightarrow> (case wk of
          ExecWork _ route command \<Rightarrow> c = ApplyKeywordReplacements command (sr_KeywordReplacements route) | _ \<Rightarrow> False)
      | UpstreamSubsystem name \<Rightarrow> (case wk of SFTPWork _ _ _ \<Rightarrow> name = ''sftp'' | _ \<Rightarrow> False)
      | _ \<Rightarrow> (case wk of ShellWork _ _ _ _ \<Rightarrow> True | _ \<Rightarrow> False))"

lemma fitting_dialed: "connect_upstream world calls route = (dialed, r) \<Longrightarrow> \<forall>e\<in>set dialed. fitting_effect wk e"
  by (auto simp: fitting_effect_def dest!: connect_upstream_dials)

lemma fitting_forwarded: "\<forall>e\<in>set (fst (forward_requests w rs)). fitting_effect (ShellWork q route pty caller) e"
  by (auto simp: fitting_effect_def dest!: forwarded_effects)

lemma execute_fitting:
  assumes "execute world calls server request route command = (effects, acts, server')"
  shows "\<forall>e\<in>set effects. fitting_effect (ExecWork request route command) e"
proof -
  obtain dialed r where c: "connect_upstream world calls route = (dialed, r)" by fastforce
  have "set effects \<subseteq> set dialed \<union> (if sp_AllowStdin (sr_Policy route) then {StdinForwarded} else {})
      \<union> {UpstreamStart (ApplyKeywordReplacements command (sr_KeywordReplacements route))}"
    using assms c by (auto simp: execute_def Let_def split: option.splits if_splits)
  with fitting_dialed [OF c, of "ExecWork request route command"] show ?thesis
    by (auto simp: fitting_effect_def split: if_splits dest!: subsetD)
qed

lemma executeSFTP_fitting:
  assumes "executeSFTP world calls server request route caller = (effects, acts, server')"
  shows "\<forall>e\<in>set effects. fitting_effect (SFTPWork request route caller) e"
proof -
  obtain dialed r where c: "connect_upstream world calls route = (dialed, r)" by fastforce
  have "set effects \<subseteq> set dialed \<union> {UpstreamSubsystem ''sftp'', StdinForwarded}"
    using assms c by (auto simp: executeSFTP_def Let_def split: option.splits if_splits)
  moreover have "fitting_effect (SFTPWork request route caller) (UpstreamSubsystem ''sftp'')"
      "fitting_effect (SFTPWork request route caller) StdinForwarded"
    by (simp_all add: fitting_effect_def)
  ultimately show ?thesis using fitting_dialed [OF c, of "SFTPWork request route caller"] by blast
qed

lemma interactiveShell_fitting:
  assumes "interactiveShell world calls server request route pty caller = (effects, acts, server')"
  shows "\<forall>e\<in>set effects. fitting_effect (ShellWork request route pty caller) e"
proof -
  let ?wk = "ShellWork request route pty caller"
  obtain dialed r where c: "connect_upstream world calls route = (dialed, r)" by fastforce
  let ?fwd = "fst (forward_requests (sw_wire world) (wk_clientRequests calls))"
  have "set effects \<subseteq> set dialed \<union> {StdinForwarded, UpstreamShell} \<union> set ?fwd \<union> {UpstreamPty t a b m | t a b m. True}"
    using assms c unfolding interactiveShell_def Let_def
    by (cases pty; cases r) (auto split: if_splits)
  moreover have "fitting_effect ?wk StdinForwarded" "fitting_effect ?wk UpstreamShell" "fitting_effect ?wk (UpstreamPty t a b m)" for t a b m
    by (simp_all add: fitting_effect_def)
  ultimately show ?thesis using fitting_dialed [OF c, of ?wk] fitting_forwarded by blast
qed


text \<open>
  while an interactive shell is open, a client request of any type other than a terminal
  request or a window change is passed on to the upstream, whatever the rest of the route's policy
  says: subsystem requests on a route without SFTP, agent and X11 forwarding requests included.
\<close>

theorem shell_forwards_unchecked:
  assumes "connect_upstream world calls route = (dialed, Some c)" "wk_sessionOk calls" "wk_ptyOk calls" "wk_startOk calls"
    "wk_replyOk calls" "q \<in> set (wk_clientRequests calls)" "sq_Type q \<noteq> ''pty-req''" "sq_Type q \<noteq> ''window-change''"
  shows "UpstreamRequest (sq_Type q) (sq_Payload q)
    \<in> set (fst (perform world calls server (ShellWork request route pty caller)))"
proof -
  have "UpstreamRequest (sq_Type q) (sq_Payload q) \<in> set (fst (forwardSessionRequest (sw_wire world) q))"
    using assms(7,8) by (simp add: forwardSessionRequest_def)
  then have "UpstreamRequest (sq_Type q) (sq_Payload q) \<in> set (fst (forward_requests (sw_wire world) (wk_clientRequests calls)))"
    using assms(6) by (auto simp: forward_requests_def)
  with assms(1-5) show ?thesis by (simp add: perform_def interactiveShell_def Let_def)
qed

section \<open>Terminal modes\<close>

definition encode_mode :: "char \<times> 32 word \<Rightarrow> bytes" where
  "encode_mode m = fst m # be_bytes 4 (unat (snd m))"

lemma be_word_bytes: "be_word (be_bytes 4 (unat v)) = (v :: 32 word)"
proof -
  let ?n = "unat v"
  have bound: "?n < 2 ^ 32" using unsigned_less [of v] by simp
  have div2: "?n div 65536 = ?n div 256 div 256" "?n div 16777216 = ?n div 256 div 256 div 256"
    by (simp_all flip: div_mult2_eq)
  have "?n div 256 div 256 div 256 < 256" using bound by (simp flip: div_mult2_eq add: less_mult_imp_div_less)
  then have top: "?n div 16777216 mod 256 = ?n div 256 div 256 div 256" by (simp add: div2)
  have digits: "?n = ((?n div 16777216) mod 256 * 16777216 + (?n div 65536) mod 256 * 65536
      + (?n div 256) mod 256 * 256 + ?n mod 256)"
    unfolding top unfolding div2(1)
    using div_mult_mod_eq [of ?n 256] div_mult_mod_eq [of "?n div 256" 256] div_mult_mod_eq [of "?n div 256 div 256" 256]
    by linarith
  have "be_bytes 4 ?n = [char_of (?n div 16777216), char_of (?n div 65536), char_of (?n div 256), char_of ?n]"
    by (simp add: be_bytes_def upt_rec)
  then have "be_word (be_bytes 4 ?n) = (of_nat (?n div 16777216 mod 256) * 256 + of_nat (?n div 65536 mod 256)) * 65536
      + of_nat (?n div 256 mod 256) * 256 + of_nat (?n mod 256)"
    by (simp add: be_word_def of_char_of algebra_simps)
  also have "\<dots> = of_nat ((?n div 16777216) mod 256 * 16777216 + (?n div 65536) mod 256 * 65536
      + (?n div 256) mod 256 * 256 + ?n mod 256)"
    by (simp add: algebra_simps)
  also have "\<dots> = of_nat ?n" by (rule arg_cong [where f = of_nat], rule digits [symmetric])
  also have "\<dots> = v" by simp
  finally show ?thesis .
qed

lemma parse_modes_encoded:
  "\<forall>m\<in>set ms. fst m \<noteq> NUL \<Longrightarrow>
   parse_modes (concat (map encode_mode ms) @ tail) acc = parse_modes tail (foldl (\<lambda>acc m. AList.update (fst m) (snd m) acc) acc ms)"
proof (induction ms arbitrary: acc)
  case (Cons m ms)
  have "parse_modes (encode_mode m @ x) acc = parse_modes x (AList.update (fst m) (snd m) acc)" for x
    using Cons.prems by (subst parse_modes.simps) (simp add: encode_mode_def be_word_bytes)
  with Cons show ?case by simp
qed simp

lemma update_fresh: "k \<notin> fst ` set m \<Longrightarrow> AList.update k v m = m @ [(k, v)]"
  by (induction m) auto

lemma foldl_update_fresh:
  "distinct (map fst (acc @ ms)) \<Longrightarrow> foldl (\<lambda>acc m. AList.update (fst m) (snd m) acc) acc ms = acc @ ms"
proof (induction ms arbitrary: acc)
  case (Cons m ms)
  then have "AList.update (fst m) (snd m) acc = acc @ [m]" by (simp add: update_fresh)
  with Cons show ?case by simp
qed simp

lemma parse_modes_bounds:
  "NUL \<notin> fst ` set acc \<Longrightarrow> NUL \<notin> fst ` set (parse_modes raw acc)
   \<and> 5 * length (parse_modes raw acc) \<le> 5 * length acc + length raw"
proof (induction raw acc rule: parse_modes.induct)
  case (1 raw modes)
  show ?case
  proof (cases "length raw < 5 \<or> raw ! 0 = NUL")
    case True
    with 1(2) show ?thesis by (subst (1 2) parse_modes.simps) auto
  next
    case False
    let ?acc = "AList.update (raw ! 0) (be_word (take 4 (drop 1 raw))) modes"
    have "length ?acc \<le> Suc (length modes)" by (induction modes) auto
    moreover have "NUL \<notin> fst ` set ?acc" using False 1(2) by (auto simp: dom_update)
    ultimately show ?thesis using 1(1) False by (subst (1 2) parse_modes.simps) force
  qed
qed

text \<open>
  C31: decoding the terminal modes reads back any encoded list of modes with distinct opcodes, up to
  the end marker and whatever follows it; and on any input it yields no more than one mode for every
  five bytes, none of them with the opcode of the end marker.
\<close>

theorem terminal_modes_roundtrip:
  assumes "distinct (map fst ms)" "NUL \<notin> fst ` set ms"
  shows "parseTerminalModes (concat (map encode_mode ms) @ NUL # rest) = ms
    \<and> 5 * length (parseTerminalModes raw) \<le> length raw \<and> NUL \<notin> fst ` set (parseTerminalModes raw)"
proof -
  have stop: "parse_modes (NUL # rest) acc = acc" for acc by (subst parse_modes.simps) simp
  have "\<forall>m\<in>set ms. fst m \<noteq> NUL" using assms(2) by force
  with parse_modes_encoded [of ms "NUL # rest" "[]"] foldl_update_fresh [of "[]" ms] assms(1) stop
  show ?thesis using parse_modes_bounds [of "[]" raw] by (simp add: parseTerminalModes_def)
qed

theorem terminal_modes_roundtrip_witness:
  "parseTerminalModes (concat (map encode_mode [(CHR 0x01, 3), (CHR 0x35, 1)]) @ NUL # ''x'') = [(CHR 0x01, 3), (CHR 0x35, 1)]"
  using terminal_modes_roundtrip [of "[(CHR 0x01, 3), (CHR 0x35, 1)]" "''x''"] by simp

section \<open>Resource limits\<close>

text \<open>The server with the number of open connections and of open sessions, in any interleaving.\<close>

inductive ssh_load :: "ssh_server \<Rightarrow> nat \<Rightarrow> nat \<Rightarrow> bool" where
  idle: "ssh_load (NewServer routes audit activity allowLAN) 0 0"
| connected: "ssh_load server n k \<Longrightarrow> accept_connection server = (True, server') \<Longrightarrow> ssh_load server' (Suc n) k"
| turned_away: "ssh_load server n k \<Longrightarrow> accept_connection server = (False, server') \<Longrightarrow> ssh_load server' n k"
| disconnected: "ssh_load server (Suc n) k \<Longrightarrow> ssh_load (server\<lparr>sx_connections := release (sx_connections server)\<rparr>) n k"
| channel: "ssh_load server n k \<Longrightarrow> open_channel server channelType ok = (decision, server') \<Longrightarrow>
    ssh_load server' n (if decision = SessionOpened then Suc k else k)"
| session_over: "ssh_load server n (Suc k) \<Longrightarrow> ssh_load (server\<lparr>sx_sessions := release (sx_sessions server)\<rparr>) n k"
| other: "ssh_load server n k \<Longrightarrow> ssh_load (server\<lparr>sx_routes := r, sx_commandAudit := c, sx_activity := ev\<rparr>) n k"

lemma ssh_load_inv:
  "ssh_load server n k \<Longrightarrow> sx_connections server = Some (defaultMaxConnections, n) \<and> n \<le> defaultMaxConnections
   \<and> sx_sessions server = Some (defaultMaxSessions, k) \<and> k \<le> defaultMaxSessions"
proof (induction rule: ssh_load.induct)
  case (idle routes audit activity allowLAN)
  then show ?case by (simp add: NewServer_def)
next
  case (channel server n k channelType ok decision server')
  then show ?case by (auto simp: open_channel_def tryAcquire_def release_def split: if_splits)
qed (auto simp: accept_connection_def tryAcquire_def release_def split: if_splits)

text \<open>
  C32: in every interleaving the server has at most \<open>defaultMaxConnections\<close> connections and
  \<open>defaultMaxSessions\<close> sessions, its slots count exactly the open ones, a further one is
  turned away only at the bound, and only session channels are ever opened.
\<close>

theorem ssh_load_bounded:
  assumes "ssh_load server n k"
  shows "n \<le> defaultMaxConnections \<and> k \<le> defaultMaxSessions
    \<and> taken (sx_connections server) = n \<and> taken (sx_sessions server) = k
    \<and> (fst (accept_connection server) \<longleftrightarrow> n < defaultMaxConnections)
    \<and> (fst (open_channel server channelType ok) = SessionOpened \<longleftrightarrow>
         channelType = ''session'' \<and> k < defaultMaxSessions \<and> ok)"
  using ssh_load_inv [OF assms]
  by (auto simp: taken_def accept_connection_def open_channel_def tryAcquire_def)

theorem ssh_load_bounded_witness:
  "\<exists>server. ssh_load server 1 0 \<and> taken (sx_connections server) = 1"
proof -
  obtain server where s: "accept_connection (NewServer [] None None False) = (True, server)"
    by (simp add: accept_connection_def NewServer_def tryAcquire_def defaultMaxConnections_def)
  from ssh_load.connected [OF ssh_load.idle s] have l: "ssh_load server 1 0" by simp
  from ssh_load_bounded [OF l] l show ?thesis by blast
qed

section \<open>A sample session\<close>

definition sample_wire :: wire where
  "sample_wire = \<lparr>wf_string = Pair True, wf_pty = (\<lambda>_. None), wf_window = (\<lambda>_. True), wf_status = (\<lambda>_. Some 0)\<rparr>"

definition sample_log :: log_calls where
  "sample_log = \<lparr>lc_writes = sample_writes, lc_random = None, lc_formatted = [], lc_now = 1, lc_eventID = ''event-1''\<rparr>"

definition sample_server :: ssh_server where
  "sample_server = NewServer [(''box'', sample_ssh_route)] None None False"

definition sample_exec :: ssh_request where
  "sample_exec = \<lparr>sq_Type = ''exec'', sq_WantReply = True, sq_Payload = ''uptime''\<rparr>"

definition sample_session :: session where
  "sample_session = \<lparr>se_alias = ''box'', se_user = ''box'', se_remote = None, se_done = False, se_pty = None, se_returned = False\<rparr>"

definition sample_world :: ssh_world where
  "sample_world = \<lparr>sw_library = sample_library, sw_network = failing_network, sw_egress = NewManager,
     sw_secrets = [(''ssh/box'', ssh_payload sample_upstream)], sw_wire = sample_wire\<rparr>"

definition sample_work :: work_calls where
  "sample_work = \<lparr>wk_contextDone = False, wk_backendOk = True, wk_sessionOk = True, wk_ptyOk = True, wk_startOk = True,
     wk_subsystemOk = True, wk_replyOk = True, wk_wait = WaitExit 3, wk_remoteRequests = [],
     wk_clientRequests = [\<lparr>sq_Type = ''auth-agent-req@openssh.com'', sq_WantReply = True, sq_Payload = []\<rparr>],
     wk_durationMS = 5, wk_log = sample_log, wk_activityLog = sample_log\<rparr>"

lemma sample_server_inv: "ssh_registry_inv (sx_routes sample_server)"
  using ssh_reachable_inv [OF sample_ssh_reachable] by (simp add: sample_server_def NewServer_def)

lemma sample_route_facts:
  "sr_Alias sample_ssh_route = ''box''" "EffectiveLocalUsername sample_ssh_route = ''box''" "sr_Enabled sample_ssh_route"
  "sr_CapabilityDigest sample_ssh_route = replicate 32 (CHR ''a'')" "sr_TargetSecretRef sample_ssh_route = ''ssh/box''"
  "AllowsCommand (sr_Policy sample_ssh_route) ''uptime''"
  "sx_routes sample_server = [(''box'', sample_ssh_route)]"
proof -
  show "AllowsCommand (sr_Policy sample_ssh_route) ''uptime''"
    using sample_ssh_names(3)
    by (simp add: AllowsCommand_def sample_ssh_route_def sample_ssh_policy_def NewPolicy_def NewPolicyWithOptions_def
        gset_of_def gset_insert_def)
  show "sx_routes sample_server = [(''box'', sample_ssh_route)]" by (simp add: sample_server_def NewServer_def)
qed (simp_all add: sample_ssh_route_def EffectiveLocalUsername_def)

theorem ssh_authentication_correct_witness:
  "(fst (authenticatePassword sample_log sample_server \<lparr>cm_User = ''box'', cm_RemoteAddr = None\<rparr> ''k'') = Inr (routePermissions ''box''))
     = (Hash ''k'' = replicate 32 (CHR ''a''))"
proof -
  have only: "(map_of (sx_routes sample_server) (sr_Alias r) = Some r) = (r = sample_ssh_route)" for r
    by (auto simp: sample_route_facts)
  note t = ssh_authentication_correct [OF sample_server_inv, THEN conjunct1, of sample_log
      "\<lparr>cm_User = ''box'', cm_RemoteAddr = None\<rparr>" "''k''" "routePermissions ''box''"]
  show ?thesis unfolding t only by (auto simp: sample_route_facts)
qed

theorem session_work_authorised_witness:
  "\<exists>s. session_run ''box'' ''box'' s [(sx_routes sample_server, ExecWork sample_exec sample_ssh_route ''uptime'')]
     \<and> sr_Enabled (work_route (ExecWork sample_exec sample_ssh_route ''uptime''))"
proof -
  have "open_session (Some (routePermissions ''box'')) ''box'' None = (sample_session, [])"
    by (simp add: open_session_def routePermissions_def sample_session_def Let_def)
  then have o: "session_run ''box'' ''box'' sample_session []"
    by (rule session_run.opened) (simp_all add: sample_session_def)
  have "Ssh_Lookup (sx_routes sample_server) ''box'' = Inr sample_ssh_route"
    by (simp add: Ssh_Lookup_def sample_route_facts)
  then have h: "handle_request sample_wire sample_log sample_server sample_session sample_exec
      = (sample_session\<lparr>se_done := True\<rparr>, [StartWork (ExecWork sample_exec sample_ssh_route ''uptime'')], sample_server)"
    by (simp add: handle_request_def Let_def sample_session_def sample_exec_def sample_wire_def sample_route_facts)
  have r: "session_run ''box'' ''box'' (sample_session\<lparr>se_done := True\<rparr>)
      [(sx_routes sample_server, ExecWork sample_exec sample_ssh_route ''uptime'')]"
    using session_run.requested [OF o _ sample_server_inv h] by (simp add: sample_session_def)
  from session_work_authorised [OF r] r show ?thesis by auto
qed

lemma sample_connected:
  "connect_upstream sample_world sample_work sample_ssh_route
     = ([Dialed ''tcp'' ''h:22''], Some (PlainConn ''tcp'' ''h:22''))"
proof -
  have "ResolveSSHTarget (parsers sample_library) False True [(''ssh/box'', ssh_payload sample_upstream)] ''ssh/box''
      = Inr sample_upstream" by code_simp
  with sample_dial show ?thesis
    by (simp add: connect_upstream_def sample_world_def sample_work_def sample_route_facts)
qed


theorem shell_forwards_unchecked_witness:
  "UpstreamRequest ''auth-agent-req@openssh.com'' [] \<in> set (fst (perform sample_world sample_work sample_server
     (ShellWork sample_exec sample_ssh_route None ''box@network'')))"
  using shell_forwards_unchecked [OF sample_connected, of "hd (wk_clientRequests sample_work)"]
  by (simp add: sample_work_def)

end
