(* ===== verification/Routes_File.thy ===== *)
theory Routes_File
  imports Routes Private_File
begin

text \<open>
  Package \<open>internal/routes\<close>, \<open>file_store.go\<close>: persistence of HTTP and LLM route metadata.
\<close>

definition metadataVersion :: int where
  "metadataVersion = 2"

definition maxMetadataBytes :: int where
  "maxMetadataBytes = 1048576"

record persisted_route =
  pr_Name :: string
  pr_Alias :: string
  pr_Kind :: string
  pr_Provider :: string
  pr_TargetSecretRef :: string
  pr_CapabilityDigest :: string
  pr_AllowedMethods :: "string list"
  pr_AllowedQueryKeys :: "string list"
  pr_AllowedPaths :: "string list"
  pr_AllowedModels :: "string list"
  pr_MaxRequestBytes :: int
  pr_MaxOutputTokens :: int
  pr_RequestsPerMinute :: int
  pr_MaxConcurrent :: int
  pr_TrackUsage :: bool
  pr_Egress :: string
  pr_Enabled :: bool

record metadata_document =
  md_Version :: int
  md_Routes :: "persisted_route list"

text \<open>What \<open>encoding/json\<close> decodes after encoding a stored route.\<close>

definition json_route :: "persisted_route \<Rightarrow> persisted_route" where
  "json_route p = p
     \<lparr>pr_Name := utf8_coerce (pr_Name p), pr_Alias := utf8_coerce (pr_Alias p),
      pr_Kind := utf8_coerce (pr_Kind p), pr_Provider := utf8_coerce (pr_Provider p),
      pr_TargetSecretRef := utf8_coerce (pr_TargetSecretRef p),
      pr_CapabilityDigest := utf8_coerce (pr_CapabilityDigest p),
      pr_AllowedMethods := map utf8_coerce (pr_AllowedMethods p),
      pr_AllowedQueryKeys := map utf8_coerce (pr_AllowedQueryKeys p),
      pr_AllowedPaths := map utf8_coerce (pr_AllowedPaths p),
      pr_AllowedModels := map utf8_coerce (pr_AllowedModels p),
      pr_Egress := utf8_coerce (pr_Egress p)\<rparr>"

definition json_document :: "metadata_document \<Rightarrow> metadata_document" where
  "json_document d = d\<lparr>md_Routes := map json_route (md_Routes d)\<rparr>"

section \<open>Load\<close>

definition restore_policy :: "persisted_route \<Rightarrow> http_policy" where
  "restore_policy stored =
     (NewHTTPPolicy (pr_AllowedMethods stored) (pr_AllowedQueryKeys stored))
       \<lparr>hp_AllowedPaths := gset_of (pr_AllowedPaths stored),
        hp_AllowedModels := gset_of (pr_AllowedModels stored),
        hp_MaxRequestBytes := pr_MaxRequestBytes stored,
        hp_MaxOutputTokens := pr_MaxOutputTokens stored,
        hp_RequestsPerMinute := pr_RequestsPerMinute stored,
        hp_MaxConcurrent := pr_MaxConcurrent stored, hp_TrackUsage := pr_TrackUsage stored\<rparr>"

definition restore_route :: "int \<Rightarrow> persisted_route \<Rightarrow> digest \<Rightarrow> http_route" where
  "restore_route version stored d =
     \<lparr>hr_Name = pr_Name stored, hr_Alias = pr_Alias stored,
      hr_Kind = (if version = 1 then KindHTTP else pr_Kind stored),
      hr_Provider = pr_Provider stored, hr_TargetSecretRef = pr_TargetSecretRef stored,
      hr_CapabilityDigest = d, hr_Policy = restore_policy stored, hr_Egress = pr_Egress stored,
      hr_Enabled = pr_Enabled stored, hr_Usage = zero_usage\<rparr>"

fun load_entries :: "int \<Rightarrow> string list \<Rightarrow> persisted_route list \<Rightarrow> string + http_route list" where
  "load_entries version seen [] = Inr []"
| "load_entries version seen (stored # rest) =
     (if pr_Alias stored \<in> set seen \<or> pr_TargetSecretRef stored \<noteq> ''routes/'' @ pr_Alias stored
      then Inl ''invalid route metadata entry''
      else case hex_decode (pr_CapabilityDigest stored) of
        None \<Rightarrow> Inl ''invalid capability digest''
      | Some d \<Rightarrow>
          if length d \<noteq> 32 then Inl ''invalid capability digest''
          else
            let route = restore_route version stored d in
            if Validate route \<noteq> None then Inl ''invalid persisted route''
            else case load_entries version (pr_Alias stored # seen) rest of
              Inl e \<Rightarrow> Inl e
            | Inr routes \<Rightarrow> Inr (route # routes))"

definition Load :: "read_calls \<Rightarrow> metadata_document file_text \<Rightarrow> string + http_route list" where
  "Load os text =
     (case open_private ''create or protect route metadata directory''
             ''invalid route metadata file'' ''open route metadata''
             ''route metadata changed while opening'' maxMetadataBytes os of
        Inl e \<Rightarrow> Inl e
      | Inr False \<Rightarrow> Inr []
      | Inr True \<Rightarrow>
          (case text of
             NotJSON \<Rightarrow> Inl ''decode route metadata''
           | JSONDoc document trailing \<Rightarrow>
               if md_Version document \<noteq> 1 \<and> md_Version document \<noteq> metadataVersion
               then Inl ''decode route metadata''
               else if trailing then Inl ''route metadata has trailing data''
               else load_entries (md_Version document) [] (md_Routes document)))"

section \<open>Save\<close>

definition persist_route :: "http_route \<Rightarrow> persisted_route" where
  "persist_route route =
     \<lparr>pr_Name = hr_Name route, pr_Alias = hr_Alias route, pr_Kind = EffectiveKind route,
      pr_Provider = hr_Provider route, pr_TargetSecretRef = hr_TargetSecretRef route,
      pr_CapabilityDigest = hex_encode (hr_CapabilityDigest route),
      pr_AllowedMethods = sort (hp_AllowedMethods (hr_Policy route)),
      pr_AllowedQueryKeys = sort (hp_AllowedQueryKeys (hr_Policy route)),
      pr_AllowedPaths = sort (hp_AllowedPaths (hr_Policy route)),
      pr_AllowedModels = sort (hp_AllowedModels (hr_Policy route)),
      pr_MaxRequestBytes = hp_MaxRequestBytes (hr_Policy route),
      pr_MaxOutputTokens = hp_MaxOutputTokens (hr_Policy route),
      pr_RequestsPerMinute = hp_RequestsPerMinute (hr_Policy route),
      pr_MaxConcurrent = hp_MaxConcurrent (hr_Policy route),
      pr_TrackUsage = hp_TrackUsage (hr_Policy route), pr_Egress = hr_Egress route,
      pr_Enabled = hr_Enabled route\<rparr>"

fun persist_all :: "http_route list \<Rightarrow> string + persisted_route list" where
  "persist_all [] = Inr []"
| "persist_all (route # rest) =
     (if Validate route \<noteq> None \<or> hr_TargetSecretRef route \<noteq> ''routes/'' @ hr_Alias route
      then Inl ''refuse to persist invalid route''
      else case persist_all rest of Inl e \<Rightarrow> Inl e | Inr ps \<Rightarrow> Inr (persist_route route # ps))"

definition route_document :: "http_route list \<Rightarrow> string + metadata_document" where
  "route_document routes =
     (case persist_all routes of
        Inl e \<Rightarrow> Inl e
      | Inr ps \<Rightarrow> Inr \<lparr>md_Version = metadataVersion, md_Routes = sort_key pr_Alias ps\<rparr>)"

type_synonym route_file = "metadata_document file_text option"

definition Save :: "write_calls \<Rightarrow> http_route list \<Rightarrow> route_file \<Rightarrow> string option \<times> route_file" where
  "Save os routes old =
     (if EnsurePrivateDirectory (wc_dir os) \<noteq> None
      then (Some ''create or protect route metadata directory'', old)
      else case route_document routes of
        Inl e \<Rightarrow> (Some e, old)
      | Inr document \<Rightarrow>
          install_private ''route metadata'' ''route metadata directory'' os
            (JSONDoc (json_document document) False) old)"

section \<open>What a stored route comes back as\<close>

text \<open>
  Saving drops the in-memory usage counters, writes the effective kind, sorts the sets and
  (through \<open>NewHTTPPolicy\<close> on load) upper-cases the methods.
\<close>

definition normal_policy :: "http_policy \<Rightarrow> http_policy" where
  "normal_policy p = p
     \<lparr>hp_AllowedMethods := gset_of (map to_upper (sort (hp_AllowedMethods p))),
      hp_AllowedQueryKeys := sort (hp_AllowedQueryKeys p),
      hp_AllowedPaths := sort (hp_AllowedPaths p), hp_AllowedModels := sort (hp_AllowedModels p)\<rparr>"

definition normal_route :: "http_route \<Rightarrow> http_route" where
  "normal_route r = r\<lparr>hr_Kind := EffectiveKind r, hr_Policy := normal_policy (hr_Policy r),
     hr_Usage := zero_usage\<rparr>"

definition policy_sets :: "http_policy \<Rightarrow> gset list" where
  "policy_sets p = [hp_AllowedMethods p, hp_AllowedQueryKeys p, hp_AllowedPaths p, hp_AllowedModels p]"

definition route_utf8 :: "http_route \<Rightarrow> bool" where
  "route_utf8 r \<longleftrightarrow>
     list_all utf8_valid [hr_Name r, hr_Alias r, EffectiveKind r, hr_Provider r,
       hr_TargetSecretRef r, hr_Egress r]
     \<and> list_all (list_all utf8_valid) (policy_sets (hr_Policy r))"

definition storable :: "http_route \<Rightarrow> bool" where
  "storable r \<longleftrightarrow> Validate r = None \<and> hr_TargetSecretRef r = ''routes/'' @ hr_Alias r
     \<and> length (hr_CapabilityDigest r) = 32 \<and> list_all distinct (policy_sets (hr_Policy r))
     \<and> route_utf8 r"

lemma json_persist: "route_utf8 r \<Longrightarrow> json_route (persist_route r) = persist_route r"
  by (simp add: json_route_def persist_route_def route_utf8_def policy_sets_def
      utf8_coerce_valid coerce_sorted)

lemma restore_persist:
  assumes "storable r"
  shows "restore_route metadataVersion (persist_route r) (hr_CapabilityDigest r) = normal_route r"
  using assms
  by (simp add: restore_route_def persist_route_def restore_policy_def normal_route_def
      normal_policy_def NewHTTPPolicy_def metadataVersion_def storable_def policy_sets_def
      gset_of_distinct)

lemma llm_bounds_normal [simp]: "llm_bounds_violated (normal_policy p) = llm_bounds_violated p"
  by (simp add: llm_bounds_violated_def normal_policy_def)

lemma to_upper_POST [simp]: "to_upper ''POST'' = ''POST''"
  by (simp add: to_upper_def upper_char_def is_lower_def char_between_def less_eq_char_def)

lemma llm_method_normal:
  assumes "length ms = 1" "to_upper ''POST'' \<in> set ms"
  shows "gset_of (map to_upper (sort ms)) = [''POST'']"
proof -
  from assms have "ms = [''POST'']" by (cases ms) auto
  then show ?thesis by (simp add: gset_of_def gset_insert_def)
qed

lemma Validate_normal: "Validate r = None \<Longrightarrow> Validate (normal_route r) = None"
proof -
  have kind: "EffectiveKind (normal_route r) = EffectiveKind r"
    by (simp add: EffectiveKind_def normal_route_def)
  have pol: "hr_Policy (normal_route r) = normal_policy (hr_Policy r)"
      "hr_Alias (normal_route r) = hr_Alias r" "hr_Egress (normal_route r) = hr_Egress r"
      "hr_Provider (normal_route r) = hr_Provider r"
      "hr_TargetSecretRef (normal_route r) = hr_TargetSecretRef r"
    by (simp_all add: normal_route_def)
  have sets: "hp_AllowedMethods (normal_policy p) = gset_of (map to_upper (sort (hp_AllowedMethods p)))"
      "hp_AllowedQueryKeys (normal_policy p) = sort (hp_AllowedQueryKeys p)"
      "hp_AllowedPaths (normal_policy p) = sort (hp_AllowedPaths p)"
      "hp_AllowedModels (normal_policy p) = sort (hp_AllowedModels p)" for p
    by (simp_all add: normal_policy_def)
  assume valid: "Validate r = None"
  then consider "EffectiveKind r = KindHTTP" | "EffectiveKind r = KindLLM"
    by (auto simp: Validate_def split: if_splits)
  then show ?thesis
  proof cases
    case 1
    with valid show ?thesis
      unfolding Validate_def kind pol sets by (simp split: if_splits)
  next
    case 2
    from valid 2 have "length (hp_AllowedMethods (hr_Policy r)) = 1"
        "to_upper ''POST'' \<in> set (hp_AllowedMethods (hr_Policy r))"
      by (simp_all add: Validate_def AllowsMethod_def split: if_splits)
    from llm_method_normal [OF this] valid 2 show ?thesis
      unfolding Validate_def kind pol AllowsMethod_def sets llm_bounds_normal list_ex_sort length_sort
      by (simp split: if_splits)
  qed
qed

lemma storable_normal: "storable r \<Longrightarrow> Validate (normal_route r) = None"
  by (simp add: storable_def Validate_normal)

lemma persist_all_ok:
  "\<forall>r\<in>set rs. storable r \<Longrightarrow> persist_all rs = Inr (map persist_route rs)"
  by (induction rs) (auto simp: storable_def)

lemma persist_alias [simp]: "pr_Alias (persist_route r) = hr_Alias r"
  by (simp add: persist_route_def)

lemma load_entries_persisted:
  assumes "\<forall>r\<in>set rs. storable r" "distinct (map hr_Alias rs)"
    "set seen \<inter> hr_Alias ` set rs = {}"
  shows "load_entries metadataVersion seen (map persist_route rs) = Inr (map normal_route rs)"
  using assms
proof (induction rs arbitrary: seen)
  case (Cons r rs)
  have "storable r" using Cons.prems(1) by simp
  then have step: "pr_TargetSecretRef (persist_route r) = ''routes/'' @ hr_Alias r"
      "hex_decode (pr_CapabilityDigest (persist_route r)) = Some (hr_CapabilityDigest r)"
      "length (hr_CapabilityDigest r) = 32"
    by (simp_all add: storable_def persist_route_def hex_roundtrip)
  have "load_entries metadataVersion (hr_Alias r # seen) (map persist_route rs)
      = Inr (map normal_route rs)"
    using Cons.prems by (intro Cons.IH) auto
  with step Cons.prems \<open>storable r\<close> show ?case
    by (simp add: Let_def restore_persist storable_normal)
qed simp

lemma route_document_storable:
  assumes "\<forall>r\<in>set rs. storable r"
  shows "route_document rs =
    Inr \<lparr>md_Version = metadataVersion, md_Routes = map persist_route (sort_key hr_Alias rs)\<rparr>"
  using assms by (simp add: route_document_def persist_all_ok sort_key_map)

lemma json_document_storable:
  assumes "\<forall>r\<in>set rs. storable r"
  shows "json_document \<lparr>md_Version = v, md_Routes = map persist_route rs\<rparr> =
    \<lparr>md_Version = v, md_Routes = map persist_route rs\<rparr>"
  using assms by (auto simp: json_document_def storable_def json_persist)

section \<open>Whatever is loaded builds a registry\<close>

lemma load_entries_valid:
  "load_entries v seen ps = Inr rs \<Longrightarrow>
   (\<forall>r\<in>set rs. Validate r = None \<and> hr_TargetSecretRef r = ''routes/'' @ hr_Alias r
      \<and> length (hr_CapabilityDigest r) = 32 \<and> hr_Usage r = zero_usage \<and> hr_Alias r \<notin> set seen)
   \<and> distinct (map hr_Alias rs)"
proof (induction v seen ps arbitrary: rs rule: load_entries.induct)
  case (2 v seen stored rest)
  from "2.prems" obtain d rs' where d: "hex_decode (pr_CapabilityDigest stored) = Some d"
      "length d = 32" "pr_Alias stored \<notin> set seen"
      "pr_TargetSecretRef stored = ''routes/'' @ pr_Alias stored"
      "Validate (restore_route v stored d) = None"
      "load_entries v (pr_Alias stored # seen) rest = Inr rs'" "rs = restore_route v stored d # rs'"
    by (auto simp: Let_def split: if_splits option.splits sum.splits)
  then have "(\<forall>r\<in>set rs'. Validate r = None \<and> hr_TargetSecretRef r = ''routes/'' @ hr_Alias r
      \<and> length (hr_CapabilityDigest r) = 32 \<and> hr_Usage r = zero_usage
      \<and> hr_Alias r \<notin> set (pr_Alias stored # seen)) \<and> distinct (map hr_Alias rs')"
    by (intro "2.IH" [of d]) auto
  with d show ?case by (auto simp: restore_route_def)
qed simp

lemma Load_cases:
  "Load os text = Inr rs \<Longrightarrow>
   rs = [] \<or> (\<exists>doc. text = JSONDoc doc False \<and> (md_Version doc = 1 \<or> md_Version doc = metadataVersion)
     \<and> load_entries (md_Version doc) [] (md_Routes doc) = Inr rs)"
  by (auto simp: Load_def split: sum.splits bool.splits file_text.splits if_splits)

lemma Load_opened:
  assumes "open_private ''create or protect route metadata directory''
      ''invalid route metadata file'' ''open route metadata''
      ''route metadata changed while opening'' maxMetadataBytes os = Inr True"
    "md_Version doc = metadataVersion"
  shows "Load os (JSONDoc doc False) = load_entries metadataVersion [] (md_Routes doc)"
  using assms by (simp add: Load_def)

lemma storable_validates: "storable r \<Longrightarrow> Validate r = None"
  by (simp add: storable_def)

lemma Save_storable:
  assumes "\<forall>r\<in>set rs. storable r" "EnsurePrivateDirectory (wc_dir os) = None"
  shows "Save os rs old = install_private ''route metadata'' ''route metadata directory'' os
    (JSONDoc \<lparr>md_Version = metadataVersion, md_Routes = map persist_route (sort_key hr_Alias rs)\<rparr> False)
    old"
  using assms by (simp add: Save_def route_document_storable json_document_storable)

text \<open>A concrete route for the witnesses: an HTTP route with one method and one query key.\<close>

definition sample_route :: http_route where
  "sample_route = \<lparr>hr_Name = ''API'', hr_Alias = ''api'', hr_Kind = [], hr_Provider = [],
     hr_TargetSecretRef = ''routes/api'', hr_CapabilityDigest = replicate 32 CHR ''a'',
     hr_Policy = NewHTTPPolicy [''get''] [''q''], hr_Egress = ''Auto'', hr_Enabled = True,
     hr_Usage = zero_usage\<rparr>"

lemma sample_route_valid: "Validate sample_route = None"
  by (simp add: Validate_def sample_route_def EffectiveKind_def NewHTTPPolicy_def alias_pattern_def
      slug_pattern_def alias_tail_def is_lower_def is_digit_def char_between_def less_eq_char_def)

lemma sample_route_storable: "storable sample_route"
proof -
  have "list_all (list_all utf8_valid) (policy_sets (NewHTTPPolicy [''get''] [''q'']))"
    by (simp add: policy_sets_def NewHTTPPolicy_def gset_of_def gset_insert_def to_upper_def
        upper_char_def is_lower_def char_between_def less_eq_char_def char_of_def utf8_valid_ascii
        less_char_def)
  moreover have "list_all distinct (policy_sets (NewHTTPPolicy [''get''] [''q'']))"
    by (simp add: policy_sets_def NewHTTPPolicy_def)
  ultimately show ?thesis
    using sample_route_valid
    by (simp add: storable_def route_utf8_def sample_route_def EffectiveKind_def utf8_valid_ascii
        less_char_def)
qed

text \<open>
  C24: Saving a list of routes and loading the file again gives back exactly these routes, sorted
  by alias and in stored form: only the usage counters are reset, the sets are sorted, the
  methods are upper case and the kind is the effective one.
\<close>

theorem route_metadata_roundtrip:
  assumes "\<forall>r\<in>set rs. storable r" "distinct (map hr_Alias rs)" "all_writes_ok wos"
    and "open_private ''create or protect route metadata directory''
      ''invalid route metadata file'' ''open route metadata''
      ''route metadata changed while opening'' maxMetadataBytes ros = Inr True"
  shows "\<exists>content. Save wos rs old = (None, Some content)
    \<and> Load ros content = Inr (map normal_route (sort_key hr_Alias rs))"
proof -
  let ?rs = "sort_key hr_Alias rs"
  let ?doc = "\<lparr>md_Version = metadataVersion, md_Routes = map persist_route ?rs\<rparr>"
  have "Save wos rs old = (None, Some (JSONDoc ?doc False))"
    using assms(1,3) by (simp add: Save_storable install_private_all_ok all_writes_ok_def [of wos])
  moreover have "load_entries metadataVersion [] (map persist_route ?rs) = Inr (map normal_route ?rs)"
    using assms(1,2) by (intro load_entries_persisted) (simp_all add: distinct_map)
  ultimately show ?thesis using Load_opened [OF assms(4), of ?doc] by simp
qed

theorem route_metadata_roundtrip_witness:
  "\<exists>content. Save sample_writes [sample_route] None = (None, Some content)
    \<and> Load sample_reads content = Inr [normal_route sample_route]"
  using route_metadata_roundtrip [of "[sample_route]" sample_writes sample_reads None]
    sample_route_storable sample_writes_ok sample_reads_ok [of maxMetadataBytes]
  by (simp add: maxMetadataBytes_def)

text \<open>
  Whatever the file holds, a successful load gives routes that all pass validation, carry the
  secret reference derived from their alias and zero usage, have pairwise distinct aliases, and
  therefore build a registry in which every alias maps to exactly the loaded route.
\<close>

theorem loaded_routes_build_registry:
  assumes "Load os text = Inr rs"
  shows "\<exists>reg. NewRegistry rs = Inr reg \<and> registry_inv reg
    \<and> (\<forall>a r. map_of reg a = Some r \<longleftrightarrow> r \<in> set rs \<and> hr_Alias r = a)
    \<and> (\<forall>r\<in>set rs. hr_TargetSecretRef r = ''routes/'' @ hr_Alias r \<and> hr_Usage r = zero_usage)"
proof -
  have valid: "(\<forall>r\<in>set rs. Validate r = None \<and> hr_TargetSecretRef r = ''routes/'' @ hr_Alias r
      \<and> hr_Usage r = zero_usage) \<and> distinct (map hr_Alias rs)"
    using Load_cases [OF assms] load_entries_valid [of _ "[]" _ rs] by auto
  then obtain reg where reg: "upsert_all [] rs = Inr reg"
    using upsert_all_ok_iff [of "[]" rs] by (auto simp: is_ok_iff)
  have view: "map_of reg = map_of (rev (map (\<lambda>r. (hr_Alias r, r)) rs))"
    using upsert_all_view [OF reg] by simp
  have "distinct (map fst (rev (map (\<lambda>r. (hr_Alias r, r)) rs)))"
    using valid by (simp add: rev_map [symmetric] comp_def)
  then have "map_of reg a = Some r \<longleftrightarrow> r \<in> set rs \<and> hr_Alias r = a" for a r
    using view by (auto simp: map_of_eq_Some_iff)
  then show ?thesis
    using valid reg upsert_all_inv [OF _ reg] by (auto simp: NewRegistry_def)
qed

theorem loaded_routes_build_registry_witness:
  "\<exists>reg. NewRegistry [normal_route sample_route] = Inr reg \<and> registry_inv reg
    \<and> map_of reg ''api'' = Some (normal_route sample_route)"
proof -
  have "load_entries metadataVersion [] (map persist_route [sample_route])
      = Inr (map normal_route [sample_route])"
    by (rule load_entries_persisted) (simp_all add: sample_route_storable)
  then have "Load sample_reads (JSONDoc \<lparr>md_Version = metadataVersion,
      md_Routes = map persist_route [sample_route]\<rparr> False) = Inr [normal_route sample_route]"
    using sample_reads_ok [of maxMetadataBytes]
    by (subst Load_opened) (simp_all add: maxMetadataBytes_def)
  from loaded_routes_build_registry [OF this] show ?thesis
    by (auto simp: normal_route_def sample_route_def)
qed

end
