(* ===== verification/Ssh_File.thy ===== *)
theory Ssh_File
  imports Ssh_Registry Private_File
begin

text \<open>
  Package \<open>internal/sshgw\<close>, \<open>file_store.go\<close>: persistence of SSH route metadata. The file access
  is that of \<open>Private_File\<close>; the document and what survives a save and a load are stated here.
\<close>

definition sshMetadataVersion :: int where
  "sshMetadataVersion = 1"

definition maxSSHMetadataBytes :: int where
  "maxSSHMetadataBytes = 1048576"

record ssh_persisted_route =
  ps_Name :: string
  ps_Alias :: string
  ps_LocalUsername :: string
  ps_TargetSecretRef :: string
  ps_CapabilityDigest :: string
  ps_AllowedCommands :: "string list"
  ps_LocalPublicKeyFingerprints :: "string list"
  ps_AllowStdin :: bool
  ps_AllowAllCommands :: bool
  ps_RecordCommands :: bool
  ps_AllowSFTP :: bool
  ps_AllowInteractiveShell :: bool
  ps_Egress :: string
  ps_AuthenticationTimeoutSeconds :: int
  ps_KeywordReplacements :: "keyword_replacement list"
  ps_Enabled :: bool

record ssh_metadata_document =
  sd_Version :: int
  sd_Routes :: "ssh_persisted_route list"

definition json_keyword :: "keyword_replacement \<Rightarrow> keyword_replacement" where
  "json_keyword k = k\<lparr>kr_From := utf8_coerce (kr_From k), kr_To := utf8_coerce (kr_To k)\<rparr>"

definition ssh_json_route :: "ssh_persisted_route \<Rightarrow> ssh_persisted_route" where
  "ssh_json_route p = p
     \<lparr>ps_Name := utf8_coerce (ps_Name p), ps_Alias := utf8_coerce (ps_Alias p),
      ps_LocalUsername := utf8_coerce (ps_LocalUsername p),
      ps_TargetSecretRef := utf8_coerce (ps_TargetSecretRef p),
      ps_CapabilityDigest := utf8_coerce (ps_CapabilityDigest p),
      ps_AllowedCommands := map utf8_coerce (ps_AllowedCommands p),
      ps_LocalPublicKeyFingerprints := map utf8_coerce (ps_LocalPublicKeyFingerprints p),
      ps_Egress := utf8_coerce (ps_Egress p),
      ps_KeywordReplacements := map json_keyword (ps_KeywordReplacements p)\<rparr>"

definition ssh_json_document :: "ssh_metadata_document \<Rightarrow> ssh_metadata_document" where
  "ssh_json_document d = d\<lparr>sd_Routes := map ssh_json_route (sd_Routes d)\<rparr>"

section \<open>Load\<close>

definition ssh_restore_route :: "ssh_persisted_route \<Rightarrow> digest \<Rightarrow> ssh_route" where
  "ssh_restore_route stored d =
     (let policy = (NewPolicyWithOptions (ps_AllowedCommands stored)
              (ps_LocalPublicKeyFingerprints stored) (ps_AllowStdin stored)
              (ps_AllowAllCommands stored) (ps_RecordCommands stored))
            \<lparr>sp_AllowSFTP := ps_AllowSFTP stored,
             sp_AllowInteractiveShell := ps_AllowInteractiveShell stored\<rparr>
      in \<lparr>sr_Name = ps_Name stored, sr_Alias = ps_Alias stored,
          sr_LocalUsername = ps_LocalUsername stored,
          sr_TargetSecretRef = ps_TargetSecretRef stored, sr_CapabilityDigest = d,
          sr_Policy = policy, sr_Egress = ps_Egress stored,
          sr_AuthenticationTimeoutSeconds =
            (if ps_AuthenticationTimeoutSeconds stored = 0 then DefaultAuthenticationTimeoutSeconds
             else ps_AuthenticationTimeoutSeconds stored),
          sr_KeywordReplacements = ps_KeywordReplacements stored, sr_Enabled = ps_Enabled stored\<rparr>)"

fun ssh_load_entries ::
  "string list \<Rightarrow> string list \<Rightarrow> ssh_persisted_route list \<Rightarrow> string + ssh_route list" where
  "ssh_load_entries seen seenUsernames [] = Inr []"
| "ssh_load_entries seen seenUsernames (stored # rest) =
     (if ps_Alias stored \<in> set seen \<or> ps_TargetSecretRef stored \<noteq> ''ssh/'' @ ps_Alias stored
      then Inl ''invalid SSH route metadata entry''
      else case hex_decode (ps_CapabilityDigest stored) of
        None \<Rightarrow> Inl ''invalid SSH capability digest''
      | Some d \<Rightarrow>
          if length d \<noteq> 32 then Inl ''invalid SSH capability digest''
          else
            let route = ssh_restore_route stored d in
            if Ssh_Validate route \<noteq> None then Inl ''invalid persisted SSH route''
            else if EffectiveLocalUsername route \<in> set seenUsernames
            then Inl ''duplicate SSH local username''
            else case ssh_load_entries (sr_Alias route # seen)
                        (EffectiveLocalUsername route # seenUsernames) rest of
              Inl e \<Rightarrow> Inl e
            | Inr routes \<Rightarrow> Inr (route # routes))"

definition Ssh_Load :: "read_calls \<Rightarrow> ssh_metadata_document file_text \<Rightarrow> string + ssh_route list" where
  "Ssh_Load os text =
     (case open_private ''create or protect SSH route metadata directory''
             ''invalid SSH route metadata file'' ''open SSH route metadata''
             ''SSH route metadata changed while opening'' maxSSHMetadataBytes os of
        Inl e \<Rightarrow> Inl e
      | Inr False \<Rightarrow> Inr []
      | Inr True \<Rightarrow>
          (case text of
             NotJSON \<Rightarrow> Inl ''decode SSH route metadata''
           | JSONDoc document trailing \<Rightarrow>
               if sd_Version document \<noteq> sshMetadataVersion then Inl ''decode SSH route metadata''
               else if trailing then Inl ''SSH route metadata has trailing data''
               else ssh_load_entries [] [] (sd_Routes document)))"

section \<open>Save\<close>

definition ssh_persist_route :: "ssh_route \<Rightarrow> ssh_persisted_route" where
  "ssh_persist_route route =
     \<lparr>ps_Name = sr_Name route, ps_Alias = sr_Alias route,
      ps_LocalUsername = EffectiveLocalUsername route,
      ps_TargetSecretRef = sr_TargetSecretRef route,
      ps_CapabilityDigest = hex_encode (sr_CapabilityDigest route),
      ps_AllowedCommands = sort (sp_AllowedCommands (sr_Policy route)),
      ps_LocalPublicKeyFingerprints = sort (sp_LocalPublicKeyFingerprints (sr_Policy route)),
      ps_AllowStdin = sp_AllowStdin (sr_Policy route),
      ps_AllowAllCommands = sp_AllowAllCommands (sr_Policy route),
      ps_RecordCommands = sp_RecordCommands (sr_Policy route),
      ps_AllowSFTP = sp_AllowSFTP (sr_Policy route),
      ps_AllowInteractiveShell = sp_AllowInteractiveShell (sr_Policy route),
      ps_Egress = sr_Egress route,
      ps_AuthenticationTimeoutSeconds = EffectiveAuthenticationTimeoutSeconds route,
      ps_KeywordReplacements = sr_KeywordReplacements route, ps_Enabled = sr_Enabled route\<rparr>"

fun ssh_persist_all :: "string list \<Rightarrow> ssh_route list \<Rightarrow> string + ssh_persisted_route list" where
  "ssh_persist_all seenUsernames [] = Inr []"
| "ssh_persist_all seenUsernames (route # rest) =
     (if Ssh_Validate route \<noteq> None \<or> sr_TargetSecretRef route \<noteq> ''ssh/'' @ sr_Alias route
      then Inl ''refuse to persist invalid SSH route''
      else if EffectiveLocalUsername route \<in> set seenUsernames
      then Inl ''refuse to persist duplicate SSH local username''
      else case ssh_persist_all (EffectiveLocalUsername route # seenUsernames) rest of
        Inl e \<Rightarrow> Inl e
      | Inr ps \<Rightarrow> Inr (ssh_persist_route route # ps))"

definition ssh_route_document :: "ssh_route list \<Rightarrow> string + ssh_metadata_document" where
  "ssh_route_document routes =
     (case ssh_persist_all [] routes of
        Inl e \<Rightarrow> Inl e
      | Inr ps \<Rightarrow> Inr \<lparr>sd_Version = sshMetadataVersion, sd_Routes = sort_key ps_Alias ps\<rparr>)"

type_synonym ssh_route_file = "ssh_metadata_document file_text option"

definition Ssh_Save ::
  "write_calls \<Rightarrow> ssh_route list \<Rightarrow> ssh_route_file \<Rightarrow> string option \<times> ssh_route_file" where
  "Ssh_Save os routes old =
     (if EnsurePrivateDirectory (wc_dir os) \<noteq> None
      then (Some ''create or protect SSH route metadata directory'', old)
      else case ssh_route_document routes of
        Inl e \<Rightarrow> (Some e, old)
      | Inr document \<Rightarrow>
          install_private ''SSH route metadata'' ''SSH route metadata directory'' os
            (JSONDoc (ssh_json_document document) False) old)"

section \<open>What a stored route comes back as\<close>

definition ssh_normal_policy :: "ssh_policy \<Rightarrow> ssh_policy" where
  "ssh_normal_policy p = p
     \<lparr>sp_AllowedCommands := sort (sp_AllowedCommands p),
      sp_LocalPublicKeyFingerprints := sort (sp_LocalPublicKeyFingerprints p)\<rparr>"

definition ssh_normal_route :: "ssh_route \<Rightarrow> ssh_route" where
  "ssh_normal_route r = r\<lparr>sr_LocalUsername := EffectiveLocalUsername r,
     sr_Policy := ssh_normal_policy (sr_Policy r),
     sr_AuthenticationTimeoutSeconds := EffectiveAuthenticationTimeoutSeconds r\<rparr>"

definition ssh_route_utf8 :: "ssh_route \<Rightarrow> bool" where
  "ssh_route_utf8 r \<longleftrightarrow>
     list_all utf8_valid [sr_Name r, sr_Alias r, EffectiveLocalUsername r, sr_TargetSecretRef r,
       sr_Egress r]
     \<and> list_all utf8_valid (sp_AllowedCommands (sr_Policy r))
     \<and> list_all utf8_valid (sp_LocalPublicKeyFingerprints (sr_Policy r))
     \<and> list_all (\<lambda>k. utf8_valid (kr_From k) \<and> utf8_valid (kr_To k)) (sr_KeywordReplacements r)"

definition ssh_storable :: "ssh_route \<Rightarrow> bool" where
  "ssh_storable r \<longleftrightarrow> Ssh_Validate r = None \<and> length (sr_CapabilityDigest r) = 32
     \<and> distinct (sp_AllowedCommands (sr_Policy r))
     \<and> distinct (sp_LocalPublicKeyFingerprints (sr_Policy r)) \<and> ssh_route_utf8 r"

lemma Ssh_Validate_ref: "Ssh_Validate r = None \<Longrightarrow> sr_TargetSecretRef r = ''ssh/'' @ sr_Alias r"
  by (auto simp: Ssh_Validate_def split: if_splits)

lemma Ssh_Validate_timeout:
  "Ssh_Validate r = None \<Longrightarrow>
   NormalizeAuthenticationTimeoutSeconds (sr_AuthenticationTimeoutSeconds r)
     = Inr (EffectiveAuthenticationTimeoutSeconds r)"
  by (auto simp: Ssh_Validate_def EffectiveAuthenticationTimeoutSeconds_def
      split: if_splits sum.splits)

lemma timeout_bounds:
  "3 \<le> EffectiveAuthenticationTimeoutSeconds r \<and> EffectiveAuthenticationTimeoutSeconds r \<le> 120"
  by (simp add: EffectiveAuthenticationTimeoutSeconds_def NormalizeAuthenticationTimeoutSeconds_def
      DefaultAuthenticationTimeoutSeconds_def MinAuthenticationTimeoutSeconds_def
      MaxAuthenticationTimeoutSeconds_def)

lemma timeout_normalized:
  "NormalizeAuthenticationTimeoutSeconds (EffectiveAuthenticationTimeoutSeconds r)
    = Inr (EffectiveAuthenticationTimeoutSeconds r)"
  using timeout_bounds [of r]
  by (simp add: NormalizeAuthenticationTimeoutSeconds_def DefaultAuthenticationTimeoutSeconds_def
      MinAuthenticationTimeoutSeconds_def MaxAuthenticationTimeoutSeconds_def)

lemma EffectiveLocalUsername_nonempty: "Ssh_Validate r = None \<Longrightarrow> EffectiveLocalUsername r \<noteq> []"
  by (auto simp: Ssh_Validate_def localUsernamePattern_def slug_pattern_def split: if_splits)

lemma EffectiveLocalUsername_normal [simp]:
  "EffectiveLocalUsername (ssh_normal_route r) = EffectiveLocalUsername r"
  by (simp add: ssh_normal_route_def EffectiveLocalUsername_def)

lemma Ssh_Validate_normal:
  assumes "Ssh_Validate r = None"
  shows "Ssh_Validate (ssh_normal_route r) = None"
proof -
  have sel: "sr_Alias (ssh_normal_route r) = sr_Alias r"
      "sr_TargetSecretRef (ssh_normal_route r) = sr_TargetSecretRef r"
      "sr_CapabilityDigest (ssh_normal_route r) = sr_CapabilityDigest r"
      "sr_AuthenticationTimeoutSeconds (ssh_normal_route r) = EffectiveAuthenticationTimeoutSeconds r"
      "sr_KeywordReplacements (ssh_normal_route r) = sr_KeywordReplacements r"
      "sr_Egress (ssh_normal_route r) = sr_Egress r"
      "sp_AllowAllCommands (sr_Policy (ssh_normal_route r)) = sp_AllowAllCommands (sr_Policy r)"
      "sp_AllowedCommands (sr_Policy (ssh_normal_route r)) = sort (sp_AllowedCommands (sr_Policy r))"
      "sp_LocalPublicKeyFingerprints (sr_Policy (ssh_normal_route r))
        = sort (sp_LocalPublicKeyFingerprints (sr_Policy r))"
    by (simp_all add: ssh_normal_route_def ssh_normal_policy_def)
  show ?thesis
    using assms
    unfolding Ssh_Validate_def EffectiveLocalUsername_normal sel timeout_normalized list_ex_sort
      length_sort Ssh_Validate_timeout [OF assms]
    by simp
qed

lemma ssh_json_persist: "ssh_route_utf8 r \<Longrightarrow> ssh_json_route (ssh_persist_route r) = ssh_persist_route r"
proof -
  assume u: "ssh_route_utf8 r"
  then have "map json_keyword (sr_KeywordReplacements r) = sr_KeywordReplacements r"
    by (intro map_idI) (auto simp: ssh_route_utf8_def list_all_iff json_keyword_def utf8_coerce_valid)
  with u show ?thesis
    by (simp add: ssh_json_route_def ssh_persist_route_def ssh_route_utf8_def utf8_coerce_valid
        coerce_sorted)
qed

lemma ssh_restore_persist:
  assumes "ssh_storable r"
  shows "ssh_restore_route (ssh_persist_route r) (sr_CapabilityDigest r) = ssh_normal_route r"
  using assms timeout_bounds [of r]
  by (simp add: ssh_restore_route_def ssh_persist_route_def ssh_normal_route_def
      ssh_normal_policy_def NewPolicyWithOptions_def ssh_storable_def gset_of_distinct Let_def)

lemma ssh_persist_all_ok:
  assumes "\<forall>r\<in>set rs. ssh_storable r" "distinct (map EffectiveLocalUsername rs)"
    "set seen \<inter> EffectiveLocalUsername ` set rs = {}"
  shows "ssh_persist_all seen rs = Inr (map ssh_persist_route rs)"
  using assms
proof (induction rs arbitrary: seen)
  case (Cons r rs)
  have "ssh_persist_all (EffectiveLocalUsername r # seen) rs = Inr (map ssh_persist_route rs)"
    using Cons.prems by (intro Cons.IH) auto
  with Cons.prems show ?case by (auto simp: ssh_storable_def Ssh_Validate_ref)
qed simp

lemma ssh_persist_alias [simp]: "ps_Alias (ssh_persist_route r) = sr_Alias r"
  by (simp add: ssh_persist_route_def)

lemma ssh_load_entries_persisted:
  assumes "\<forall>r\<in>set rs. ssh_storable r" "distinct (map sr_Alias rs)"
    "distinct (map EffectiveLocalUsername rs)"
    "set seen \<inter> sr_Alias ` set rs = {}" "set seenU \<inter> EffectiveLocalUsername ` set rs = {}"
  shows "ssh_load_entries seen seenU (map ssh_persist_route rs) = Inr (map ssh_normal_route rs)"
  using assms
proof (induction rs arbitrary: seen seenU)
  case (Cons r rs)
  have "ssh_storable r" using Cons.prems(1) by simp
  then have step: "ps_TargetSecretRef (ssh_persist_route r) = ''ssh/'' @ sr_Alias r"
      "hex_decode (ps_CapabilityDigest (ssh_persist_route r)) = Some (sr_CapabilityDigest r)"
      "length (sr_CapabilityDigest r) = 32" "Ssh_Validate (ssh_normal_route r) = None"
    by (simp_all add: ssh_storable_def ssh_persist_route_def hex_roundtrip Ssh_Validate_ref
        Ssh_Validate_normal)
  have al: "sr_Alias (ssh_normal_route r) = sr_Alias r" by (simp add: ssh_normal_route_def)
  have "ssh_load_entries (sr_Alias r # seen) (EffectiveLocalUsername r # seenU)
      (map ssh_persist_route rs) = Inr (map ssh_normal_route rs)"
    using Cons.prems by (intro Cons.IH) auto
  with step al Cons.prems \<open>ssh_storable r\<close> show ?case
    by (simp add: Let_def ssh_restore_persist)
qed simp

lemma Ssh_Load_opened:
  assumes "open_private ''create or protect SSH route metadata directory''
      ''invalid SSH route metadata file'' ''open SSH route metadata''
      ''SSH route metadata changed while opening'' maxSSHMetadataBytes os = Inr True"
    "sd_Version doc = sshMetadataVersion"
  shows "Ssh_Load os (JSONDoc doc False) = ssh_load_entries [] [] (sd_Routes doc)"
  using assms by (simp add: Ssh_Load_def)

lemma Ssh_Save_storable:
  assumes "\<forall>r\<in>set rs. ssh_storable r" "distinct (map EffectiveLocalUsername rs)"
    "EnsurePrivateDirectory (wc_dir os) = None"
  shows "Ssh_Save os rs old = install_private ''SSH route metadata'' ''SSH route metadata directory'' os
    (JSONDoc \<lparr>sd_Version = sshMetadataVersion,
      sd_Routes = map ssh_persist_route (sort_key sr_Alias rs)\<rparr> False) old"
proof -
  have "ssh_route_document rs = Inr \<lparr>sd_Version = sshMetadataVersion,
      sd_Routes = map ssh_persist_route (sort_key sr_Alias rs)\<rparr>"
    using assms(1,2) by (simp add: ssh_route_document_def ssh_persist_all_ok sort_key_map)
  moreover have "ssh_json_document \<lparr>sd_Version = sshMetadataVersion,
      sd_Routes = map ssh_persist_route (sort_key sr_Alias rs)\<rparr> = \<lparr>sd_Version = sshMetadataVersion,
      sd_Routes = map ssh_persist_route (sort_key sr_Alias rs)\<rparr>"
    using assms(1) by (auto simp: ssh_json_document_def ssh_storable_def ssh_json_persist)
  ultimately show ?thesis using assms(3) by (simp add: Ssh_Save_def)
qed

lemma ssh_load_entries_valid:
  "ssh_load_entries seen seenU ps = Inr rs \<Longrightarrow>
   (\<forall>r\<in>set rs. Ssh_Validate r = None \<and> sr_Alias r \<notin> set seen \<and> EffectiveLocalUsername r \<notin> set seenU)
   \<and> distinct (map sr_Alias rs) \<and> distinct (map EffectiveLocalUsername rs)"
proof (induction seen seenU ps arbitrary: rs rule: ssh_load_entries.induct)
  case (2 seen seenU stored rest)
  from "2.prems" obtain d rs' where d: "hex_decode (ps_CapabilityDigest stored) = Some d"
      "length d = 32" "ps_Alias stored \<notin> set seen"
      "ps_TargetSecretRef stored = ''ssh/'' @ ps_Alias stored"
      "Ssh_Validate (ssh_restore_route stored d) = None"
      "EffectiveLocalUsername (ssh_restore_route stored d) \<notin> set seenU"
      "ssh_load_entries (sr_Alias (ssh_restore_route stored d) # seen)
        (EffectiveLocalUsername (ssh_restore_route stored d) # seenU) rest = Inr rs'"
      "rs = ssh_restore_route stored d # rs'"
    by (auto simp: Let_def split: if_splits option.splits sum.splits)
  have "(\<forall>r\<in>set rs'. Ssh_Validate r = None \<and> sr_Alias r \<notin> set (sr_Alias (ssh_restore_route stored d) # seen)
      \<and> EffectiveLocalUsername r \<notin> set (EffectiveLocalUsername (ssh_restore_route stored d) # seenU))
      \<and> distinct (map sr_Alias rs') \<and> distinct (map EffectiveLocalUsername rs')"
    using d by (intro "2.IH") auto
  moreover have "sr_Alias (ssh_restore_route stored d) = ps_Alias stored"
    by (simp add: ssh_restore_route_def Let_def)
  ultimately show ?case using d by auto
qed simp

lemma Ssh_Load_cases:
  "Ssh_Load os text = Inr rs \<Longrightarrow>
   rs = [] \<or> (\<exists>doc. text = JSONDoc doc False \<and> sd_Version doc = sshMetadataVersion
     \<and> ssh_load_entries [] [] (sd_Routes doc) = Inr rs)"
  by (auto simp: Ssh_Load_def split: sum.splits bool.splits file_text.splits if_splits)

lemma ssh_upsert_all_fresh:
  assumes "ssh_registry_inv reg" "\<forall>r\<in>set rs. Ssh_Validate r = None"
    "distinct (map EffectiveLocalUsername rs)" "distinct (map sr_Alias rs)"
    "\<forall>r\<in>set rs. username_free (map_of reg) (EffectiveLocalUsername r)"
  shows "is_ok (ssh_upsert_all reg rs)"
  using assms
proof (induction rs arbitrary: reg)
  case (Cons r rs)
  have free: "username_free (map_of reg) (EffectiveLocalUsername r)" using Cons.prems(5) by simp
  then have "ssh_admits ((map_of reg)(sr_Alias r := None)) r"
    using Cons.prems(2) by (auto simp: ssh_admits_def username_free_def)
  then obtain reg1 where reg1: "Ssh_Upsert reg r = Inr reg1"
    using ssh_reg.upsert_ok_iff [OF Cons.prems(1), of r] by (auto simp: is_ok_iff)
  from ssh_reg.upsert_view [OF Cons.prems(1) this]
  have inv1: "ssh_registry_inv reg1" "map_of reg1 = (map_of reg)(sr_Alias r \<mapsto> r)" by auto
  have "is_ok (ssh_upsert_all reg1 rs)"
    using Cons.prems inv1 by (intro Cons.IH) (auto simp: username_free_def)
  with reg1 show ?case by simp
qed simp

lemma sample_ssh_storable: "ssh_storable sample_ssh_route"
  using sample_ssh_route_valid
  by (simp add: ssh_storable_def ssh_route_utf8_def sample_ssh_route_def sample_ssh_policy_def
      NewPolicy_def NewPolicyWithOptions_def gset_of_def gset_insert_def EffectiveLocalUsername_def
      utf8_valid_ascii less_char_def)

section \<open>Properties\<close>

text \<open>
  C25: Saving SSH routes and loading the file again gives back exactly these routes, sorted by
  alias and in stored form: the effective username and authentication timeout are written out
  and the sets are sorted; nothing else changes.
\<close>

theorem ssh_metadata_roundtrip:
  assumes "\<forall>r\<in>set rs. ssh_storable r" "distinct (map sr_Alias rs)"
    "distinct (map EffectiveLocalUsername rs)" "all_writes_ok wos"
    and "open_private ''create or protect SSH route metadata directory''
      ''invalid SSH route metadata file'' ''open SSH route metadata''
      ''SSH route metadata changed while opening'' maxSSHMetadataBytes ros = Inr True"
  shows "\<exists>content. Ssh_Save wos rs old = (None, Some content)
    \<and> Ssh_Load ros content = Inr (map ssh_normal_route (sort_key sr_Alias rs))"
proof -
  let ?rs = "sort_key sr_Alias rs"
  let ?doc = "\<lparr>sd_Version = sshMetadataVersion, sd_Routes = map ssh_persist_route ?rs\<rparr>"
  have "Ssh_Save wos rs old = (None, Some (JSONDoc ?doc False))"
    using assms(1,3,4)
    by (simp add: Ssh_Save_storable install_private_all_ok all_writes_ok_def [of wos])
  moreover have "ssh_load_entries [] [] (map ssh_persist_route ?rs) = Inr (map ssh_normal_route ?rs)"
    using assms(1-3) by (intro ssh_load_entries_persisted) (simp_all add: distinct_map)
  ultimately show ?thesis using Ssh_Load_opened [OF assms(5), of ?doc] by simp
qed

theorem ssh_metadata_roundtrip_witness:
  "\<exists>content. Ssh_Save sample_writes [sample_ssh_route] None = (None, Some content)
    \<and> Ssh_Load sample_reads content = Inr [ssh_normal_route sample_ssh_route]"
  using ssh_metadata_roundtrip [of "[sample_ssh_route]" sample_writes sample_reads None]
    sample_ssh_storable sample_writes_ok sample_reads_ok [of maxSSHMetadataBytes]
  by (simp add: maxSSHMetadataBytes_def)

text \<open>
  Whatever the SSH metadata file holds, a successful load gives routes from which the
  daemon's \<open>NewRegistry\<close> succeeds: the loader has already rejected duplicate aliases, duplicate
  local usernames and invalid routes, and the registry built satisfies the registry invariant.
\<close>

theorem loaded_ssh_routes_build_registry:
  assumes "Ssh_Load os text = Inr rs"
  shows "\<exists>reg. Ssh_NewRegistry rs = Inr reg \<and> ssh_reachable reg \<and> ssh_registry_inv reg"
proof -
  have "(\<forall>r\<in>set rs. Ssh_Validate r = None) \<and> distinct (map sr_Alias rs)
      \<and> distinct (map EffectiveLocalUsername rs)"
    using Ssh_Load_cases [OF assms] ssh_load_entries_valid [of "[]" "[]" _ rs] by auto
  moreover have "ssh_registry_inv []" by (simp add: ssh_registry_inv_def usernames_def)
  ultimately have "is_ok (ssh_upsert_all [] rs)"
    by (intro ssh_upsert_all_fresh) (auto simp: username_free_def)
  then obtain reg where "Ssh_NewRegistry rs = Inr reg" by (auto simp: is_ok_iff Ssh_NewRegistry_def)
  then show ?thesis using ssh_new ssh_reachable_inv by blast
qed

theorem loaded_ssh_routes_build_registry_witness:
  "\<exists>reg. Ssh_NewRegistry [ssh_normal_route sample_ssh_route] = Inr reg \<and> ssh_registry_inv reg"
proof -
  have "ssh_load_entries [] [] (map ssh_persist_route [sample_ssh_route])
      = Inr (map ssh_normal_route [sample_ssh_route])"
    by (rule ssh_load_entries_persisted) (simp_all add: sample_ssh_storable)
  then have "Ssh_Load sample_reads (JSONDoc \<lparr>sd_Version = sshMetadataVersion,
      sd_Routes = map ssh_persist_route [sample_ssh_route]\<rparr> False)
      = Inr [ssh_normal_route sample_ssh_route]"
    using sample_reads_ok [of maxSSHMetadataBytes]
    by (subst Ssh_Load_opened) (simp_all add: maxSSHMetadataBytes_def)
  from loaded_ssh_routes_build_registry [OF this] show ?thesis by blast
qed

end
