(* ===== verification/Control_View.thy ===== *)
theory Control_View
  imports Routes_File Ssh_File Ssh_Audit Secrets Egress
begin

text \<open>
  Package \<open>internal/control\<close>, \<open>server.go\<close>, first part: the server's state, the protocol's requests
  and responses, and the views of the state a response carries (route summaries and recent
  activity).

  Messages are English in the code or Chinese: a \<open>Localized\<close> message holds the English rendering of
  a Chinese one. The few non-ASCII bytes of the summaries are written out in UTF-8. The layout of a
  point in time (\<open>Format\<close>) is an argument. \<open>sort.Slice\<close> is not stable: among summaries of equal names
  the model keeps the order before sorting, one of those the code may produce.
\<close>

datatype message = English string | Localized string

section \<open>State\<close>

text \<open>
  The stores and the egress manager are never nil in a server the daemon builds. The persistence
  of a registry is the file it is written to; the backend is what the secret store keeps its entries
  in, and \<open>cs_other\<close> the one that the store factory opens for the other storage mode.
\<close>

record ssh_configuration =
  sc_Registry :: ssh_registry
  sc_File :: ssh_route_file
  sc_ListenAddress :: string
  sc_DialAddress :: string
  sc_HTTPAddress :: string
  sc_HostKey :: bytes
  sc_CommandAudit :: "command_audit option"

record route_health =
  rh_Status :: string
  rh_CheckedAt :: int

record control =
  cs_registry :: http_registry
  cs_secrets :: backend
  cs_file :: route_file
  cs_egress :: manager
  cs_ssh :: "ssh_configuration option"
  cs_httpAddress :: string
  cs_token :: string
  cs_secretMode :: string
  cs_storeFactory :: bool
  cs_other :: backend
  cs_activity :: "recorder option"
  cs_health :: "(string, route_health) amap"

section \<open>Requests\<close>

record create_http_route =
  ch_Name :: string
  ch_Alias :: string
  ch_BaseURL :: string
  ch_Authorization :: string
  ch_Egress :: string
  ch_Provider :: string
  ch_Models :: "string list"
  ch_MaxOutputTokens :: int
  ch_RequestsPerMinute :: int
  ch_MaxConcurrent :: int
  ch_TrackUsage :: bool
  ch_LocalAPIKey :: string

record create_ssh_route =
  cr_Name :: string
  cr_Alias :: string
  cr_LocalUsername :: string
  cr_Address :: string
  cr_Username :: string
  cr_Password :: string
  cr_LocalPassword :: string
  cr_ExpectedHostKey :: string
  cr_AllowedCommand :: string
  cr_AllowAllCommands :: bool
  cr_RecordCommands :: bool
  cr_AllowSFTP :: bool
  cr_AllowInteractiveShell :: bool
  cr_AuthenticationTimeoutSeconds :: int
  cr_Egress :: string
  cr_KeywordReplacements :: "keyword_replacement list"

record ssh_policy_update =
  pu_Name :: string
  pu_LocalUsername :: string
  pu_AllowedCommand :: string
  pu_AllowAllCommands :: bool
  pu_RecordCommands :: bool
  pu_AllowSFTP :: bool
  pu_AllowInteractiveShell :: bool
  pu_AuthenticationTimeoutSeconds :: int
  pu_Egress :: string

record probe_ssh_host_key =
  pk_Address :: string
  pk_Egress :: string

record control_request =
  rq_Version :: int
  rq_Token :: string
  rq_Action :: string
  rq_Create :: "create_http_route option"
  rq_CreateSSH :: "create_ssh_route option"
  rq_ProbeSSH :: "probe_ssh_host_key option"
  rq_SSHPolicy :: "ssh_policy_update option"
  rq_Alias :: string
  rq_Enabled :: bool
  rq_ProxyURL :: string
  rq_Capability :: string
  rq_Command :: string
  rq_SecretMode :: string
  rq_KeywordReplacements :: "keyword_replacement list"

section \<open>Responses\<close>

record route_summary =
  rm_ID :: string
  rm_Name :: string
  rm_Alias :: string
  rm_LocalUsername :: string
  rm_Kind :: string
  rm_Status :: string
  rm_LocalEndpoint :: string
  rm_PermissionSummary :: string
  rm_Egress :: string
  rm_Health :: string
  rm_LastUsed :: string
  rm_CurrentConnections :: int
  rm_AllowAllCommands :: bool
  rm_RecordCommands :: bool
  rm_AllowSFTP :: bool
  rm_AllowInteractiveShell :: bool
  rm_AllowedCommand :: string
  rm_Provider :: string
  rm_AllowedModels :: "string list"
  rm_MaxOutputTokens :: int
  rm_RequestsPerMinute :: int
  rm_MaxConcurrent :: int
  rm_TrackUsage :: bool
  rm_TotalRequests :: "64 word"
  rm_InputTokens :: "64 word"
  rm_OutputTokens :: "64 word"
  rm_AuthenticationTimeoutSeconds :: int
  rm_KeywordReplacementCount :: nat

record activity_summary =
  as_ID :: string
  as_Time :: string
  as_RouteName :: string
  as_Caller :: string
  as_Action :: string
  as_Detail :: string
  as_Result :: string
  as_Latency :: string
  as_Egress :: string
  as_Category :: string
  as_EventType :: string
  as_when :: int

record created_route =
  cd_Route :: route_summary
  cd_Capability :: string

record ssh_host_key_probe =
  hk_HostKey :: string
  hk_Fingerprint :: string

record health_check_summary =
  hc_Alias :: string
  hc_Status :: string
  hc_Message :: message
  hc_Latency :: string
  hc_CheckedAt :: string

record control_response =
  re_OK :: bool
  re_Error :: "message option"
  re_Warning :: "message option"
  re_Running :: bool
  re_Routes :: "route_summary list"
  re_Created :: "created_route option"
  re_ProxyConfigured :: bool
  re_SSHReady :: bool
  re_SSHHostKeyProbe :: "ssh_host_key_probe option"
  re_HealthCheck :: "health_check_summary option"
  re_Activity :: "activity_summary list"
  re_KeywordReplacements :: "keyword_replacement list"

definition error_response :: "message \<Rightarrow> control_response" where
  "error_response e =
     \<lparr>re_OK = False, re_Error = Some e, re_Warning = None, re_Running = False, re_Routes = [],
      re_Created = None, re_ProxyConfigured = False, re_SSHReady = False,
      re_SSHHostKeyProbe = None, re_HealthCheck = None, re_Activity = [],
      re_KeywordReplacements = []\<rparr>"

section \<open>Health\<close>

definition setRouteHealth :: "control \<Rightarrow> string \<Rightarrow> route_health \<Rightarrow> control" where
  "setRouteHealth s a state = s\<lparr>cs_health := AList.update a state (cs_health s)\<rparr>"

definition clearRouteHealth :: "control \<Rightarrow> string \<Rightarrow> control" where
  "clearRouteHealth s a = s\<lparr>cs_health := AList.delete a (cs_health s)\<rparr>"

definition routeHealth :: "control \<Rightarrow> string \<Rightarrow> string" where
  "routeHealth s a =
     (case map_of (cs_health s) a of
        None \<Rightarrow> ''unknown''
      | Some state \<Rightarrow>
          if rh_Status state \<noteq> ''healthy'' \<and> rh_Status state \<noteq> ''degraded'' then ''unknown''
          else rh_Status state)"

section \<open>Route summaries\<close>

text \<open>The UTF-8 bytes of the middle dot between spaces, of the sign for at most, and of the Chinese for never.\<close>

definition middot :: string where
  "middot = '' '' @ [CHR 0xC2, CHR 0xB7] @ '' ''"

definition at_most_sign :: string where
  "at_most_sign = [CHR 0xE2, CHR 0x89, CHR 0xA4]"

definition never_used :: string where
  "never_used = [CHR 0xE4, CHR 0xBB, CHR 0x8E, CHR 0xE6, CHR 0x9C, CHR 0xAA]"

definition effectiveEgress :: "string \<Rightarrow> string" where
  "effectiveEgress policy = (if policy = [] then Direct else policy)"

definition display_name :: "string \<Rightarrow> string \<Rightarrow> string" where
  "display_name name a = (if trim_space name = [] then a else trim_space name)"

definition llm_permission_summary :: "http_route \<Rightarrow> string" where
  "llm_permission_summary route =
     (if hr_Provider route = ProviderAnthropic then ''Anthropic'' else ''OpenAI'')
     @ middot @ itoa (int (length (hp_AllowedModels (hr_Policy route)))) @ '' models''
     @ middot @ ''output '' @ at_most_sign @ '' '' @ itoa (hp_MaxOutputTokens (hr_Policy route))
     @ middot @ itoa (hp_RequestsPerMinute (hr_Policy route)) @ ''/min''
     @ middot @ itoa (hp_MaxConcurrent (hr_Policy route)) @ '' concurrent''"

definition summarize :: "http_route \<Rightarrow> string \<Rightarrow> route_summary" where
  "summarize route listenAddress0 =
     (let listenAddress = (if listenAddress0 = [] then ''127.0.0.1:4768'' else listenAddress0);
          kind = EffectiveKind route;
          localEndpoint = listenAddress @ ''/r/'' @ hr_Alias route
      in \<lparr>rm_ID = hr_Alias route, rm_Name = display_name (hr_Name route) (hr_Alias route),
          rm_Alias = hr_Alias route, rm_LocalUsername = [], rm_Kind = kind,
          rm_Status = (if hr_Enabled route then ''enabled'' else ''disabled''),
          rm_LocalEndpoint = (if kind = KindLLM then ''http://'' @ localEndpoint else localEndpoint),
          rm_PermissionSummary =
            (if kind = KindLLM then llm_permission_summary route else ''GET, HEAD'' @ middot @ ''Range''),
          rm_Egress = (if hr_Egress route = [] then ''Direct'' else hr_Egress route),
          rm_Health = ''unknown'', rm_LastUsed = never_used, rm_CurrentConnections = 0,
          rm_AllowAllCommands = False, rm_RecordCommands = False, rm_AllowSFTP = False,
          rm_AllowInteractiveShell = False, rm_AllowedCommand = [],
          rm_Provider = hr_Provider route,
          rm_AllowedModels = (if kind = KindLLM then sort (hp_AllowedModels (hr_Policy route)) else []),
          rm_MaxOutputTokens = hp_MaxOutputTokens (hr_Policy route),
          rm_RequestsPerMinute = hp_RequestsPerMinute (hr_Policy route),
          rm_MaxConcurrent = hp_MaxConcurrent (hr_Policy route),
          rm_TrackUsage = hp_TrackUsage (hr_Policy route),
          rm_TotalRequests = us_Requests (hr_Usage route),
          rm_InputTokens = us_InputTokens (hr_Usage route),
          rm_OutputTokens = us_OutputTokens (hr_Usage route),
          rm_AuthenticationTimeoutSeconds = 0, rm_KeywordReplacementCount = 0\<rparr>)"

definition summaries :: "http_route list \<Rightarrow> string \<Rightarrow> route_summary list" where
  "summaries all_routes listenAddress =
     sort_key rm_Name (map (\<lambda>route. summarize route listenAddress) all_routes)"

definition ssh_permission_summary :: "ssh_route \<Rightarrow> string" where
  "ssh_permission_summary route =
     (if sp_AllowAllCommands (sr_Policy route) then ''all exec commands'' @ middot @ ''high risk''
      else ''1 exact command'' @ middot @ ''stdin denied'')
     @ (if sp_RecordCommands (sr_Policy route) then middot @ ''recorded'' else [])
     @ (if sp_AllowSFTP (sr_Policy route) then middot @ ''SFTP high risk'' else [])
     @ (if sp_AllowInteractiveShell (sr_Policy route) then middot @ ''interactive shell'' else [])
     @ (if length (sr_KeywordReplacements route) > 0
        then middot @ itoa (int (length (sr_KeywordReplacements route))) @ '' rewrite rules'' else [])"

definition summarizeSSH :: "ssh_route \<Rightarrow> string \<Rightarrow> route_summary" where
  "summarizeSSH route listenAddress0 =
     (let listenAddress = (if listenAddress0 = [] then ''127.0.0.1:4770'' else listenAddress0)
      in \<lparr>rm_ID = sr_Alias route, rm_Name = display_name (sr_Name route) (sr_Alias route),
          rm_Alias = sr_Alias route, rm_LocalUsername = EffectiveLocalUsername route,
          rm_Kind = ''SSH'', rm_Status = (if sr_Enabled route then ''enabled'' else ''disabled''),
          rm_LocalEndpoint = EffectiveLocalUsername route @ ''@'' @ listenAddress,
          rm_PermissionSummary = ssh_permission_summary route,
          rm_Egress = effectiveEgress (sr_Egress route),
          rm_Health = ''unknown'', rm_LastUsed = never_used, rm_CurrentConnections = 0,
          rm_AllowAllCommands = sp_AllowAllCommands (sr_Policy route),
          rm_RecordCommands = sp_RecordCommands (sr_Policy route),
          rm_AllowSFTP = sp_AllowSFTP (sr_Policy route),
          rm_AllowInteractiveShell = sp_AllowInteractiveShell (sr_Policy route),
          rm_AllowedCommand =
            (case sort (sp_AllowedCommands (sr_Policy route)) of [] \<Rightarrow> [] | c # _ \<Rightarrow> c),
          rm_Provider = [], rm_AllowedModels = [], rm_MaxOutputTokens = 0,
          rm_RequestsPerMinute = 0, rm_MaxConcurrent = 0, rm_TrackUsage = False,
          rm_TotalRequests = 0, rm_InputTokens = 0, rm_OutputTokens = 0,
          rm_AuthenticationTimeoutSeconds = EffectiveAuthenticationTimeoutSeconds route,
          rm_KeywordReplacementCount = length (sr_KeywordReplacements route)\<rparr>)"

definition routeSummaries :: "control \<Rightarrow> route_summary list" where
  "routeSummaries s =
     (let http = summaries (List_routes (cs_registry s)) (cs_httpAddress s);
          ssh = (case cs_ssh s of
                   None \<Rightarrow> []
                 | Some cfg \<Rightarrow>
                     map (\<lambda>route. summarizeSSH route (sc_ListenAddress cfg)) (Ssh_List (sc_Registry cfg)))
      in sort_key rm_Name
           (map (\<lambda>summary. summary\<lparr>rm_Health := routeHealth s (rm_Alias summary)\<rparr>) (http @ ssh)))"

section \<open>Recent activity\<close>

definition routeDisplayName :: "control \<Rightarrow> string \<Rightarrow> string" where
  "routeDisplayName s a =
     (let http = (case Get (cs_registry s) a of
                    Inr route \<Rightarrow> if trim_space (hr_Name route) \<noteq> [] then Some (hr_Name route) else None
                  | Inl _ \<Rightarrow> None);
          ssh = (case cs_ssh s of
                   None \<Rightarrow> None
                 | Some cfg \<Rightarrow>
                     (case Ssh_Get (sc_Registry cfg) a of
                        Inr route \<Rightarrow> if trim_space (sr_Name route) \<noteq> [] then Some (sr_Name route) else None
                      | Inl _ \<Rightarrow> None))
      in case http of Some name \<Rightarrow> name | None \<Rightarrow> (case ssh of Some name \<Rightarrow> name | None \<Rightarrow> a))"

text \<open>The loop that shortens a command until what is left is valid UTF-8.\<close>

fun preview_end :: "string \<Rightarrow> nat \<Rightarrow> nat" where
  "preview_end command 0 = 0"
| "preview_end command (Suc n) =
     (if utf8_valid (take (Suc n) command) then Suc n else preview_end command n)"

definition commandPreview :: "string \<Rightarrow> string" where
  "commandPreview command =
     (if length command \<le> 512 then command
      else take (preview_end command 512) command @ ''... (truncated)'')"

definition activity_entry :: "(int \<Rightarrow> string) \<Rightarrow> control \<Rightarrow> activity_event \<Rightarrow> activity_summary" where
  "activity_entry format s e =
     \<lparr>as_ID = ev_ID e, as_Time = format (ev_Time e), as_RouteName = routeDisplayName s (ev_RouteAlias e),
      as_Caller = ev_Caller e, as_Action = ev_Action e, as_Detail = ev_Action e,
      as_Result = ev_Result e, as_Latency = itoa (ev_DurationMS e) @ '' ms'',
      as_Egress = effectiveEgress (ev_Egress e), as_Category = ev_Category e,
      as_EventType = ev_EventType e, as_when = ev_Time e\<rparr>"

definition command_entry :: "(int \<Rightarrow> string) \<Rightarrow> control \<Rightarrow> command_event \<Rightarrow> activity_summary" where
  "command_entry format s e =
     \<lparr>as_ID = ce_ID e, as_Time = format (ce_Time e), as_RouteName = routeDisplayName s (ce_RouteAlias e),
      as_Caller = ce_RouteAlias e @ ''@loopback'', as_Action = commandPreview (ce_Command e),
      as_Detail = ce_Command e, as_Result = ce_Result e,
      as_Latency = itoa (ce_DurationMS e) @ '' ms'', as_Egress = effectiveEgress (ce_Egress e),
      as_Category = ''SSH'', as_EventType = ''command'', as_when = ce_Time e\<rparr>"

definition recentActivities :: "(int \<Rightarrow> string) \<Rightarrow> control \<Rightarrow> activity_summary list" where
  "recentActivities format s =
     (let events = (case cs_activity s of
                      None \<Rightarrow> []
                    | Some recorder \<Rightarrow> map (activity_entry format s) (List_events recorder 50));
          commands = (case cs_ssh s of
                        None \<Rightarrow> []
                      | Some cfg \<Rightarrow>
                          (case sc_CommandAudit cfg of
                             None \<Rightarrow> []
                           | Some audit \<Rightarrow> map (command_entry format s) (List_commands audit 50)))
      in take 50 (sort_key (\<lambda>e. - as_when e) (events @ commands)))"

definition proxyConfigured :: "control \<Rightarrow> bool" where
  "proxyConfigured s \<longleftrightarrow> Configured (cs_egress s)"

definition successResponse :: "(int \<Rightarrow> string) \<Rightarrow> control \<Rightarrow> control_response" where
  "successResponse format s =
     \<lparr>re_OK = True, re_Error = None, re_Warning = None, re_Running = True,
      re_Routes = routeSummaries s, re_Created = None, re_ProxyConfigured = proxyConfigured s,
      re_SSHReady = (cs_ssh s \<noteq> None), re_SSHHostKeyProbe = None, re_HealthCheck = None,
      re_Activity = recentActivities format s, re_KeywordReplacements = []\<rparr>"

end
