(* ===== verification/Control.thy ===== *)
theory Control
  imports Control_View Ssh_Upstream
begin

text \<open>
  Package \<open>internal/control\<close>, \<open>server.go\<close>, second part: every action of the control protocol as a
  function from the server's state and the outcomes of the calls it makes to a response and the next
  state, and the dispatch over them. Mutations hold \<open>mutationMu\<close> from the first read of a
  registry to the last write, so each is one step. Clearing passwords and keys from memory, connection
  deadlines and closing connections have no result and are left out. Contexts are tested right after
  they are made, before they can expire.
\<close>

definition protocolVersion :: int where
  "protocolVersion = 1"

text \<open>
  What the calls of one action answer: the random source, the writes of the two metadata files
  (and the one that restores the HTTP file in \<open>stopAll\<close>), the calls on the two secret stores by
  reference, the SSH library, the network, the addresses of the local interfaces (\<open>None\<close> when they
  cannot be listed; those whose text does not parse are left out), the TLS handshake on a connection,
  the two steps of the self test after the handshake, and the clock.
\<close>

record control_calls =
  kc_rand :: "bytes option"
  kc_save :: write_calls
  kc_save_ssh :: write_calls
  kc_save_back :: write_calls
  kc_put :: "string \<Rightarrow> call_outcome"
  kc_delete :: "string \<Rightarrow> call_outcome"
  kc_get_ok :: "string \<Rightarrow> bool"
  kc_factory_ok :: bool
  kc_other_put :: "string \<Rightarrow> call_outcome"
  kc_other_delete :: "string \<Rightarrow> call_outcome"
  kc_other_get_ok :: "string \<Rightarrow> bool"
  kc_library :: ssh_library
  kc_network :: network
  kc_localIPs :: "ip list option"
  kc_tls_ok :: "conn \<Rightarrow> string \<Rightarrow> bool"
  kc_session_ok :: bool
  kc_run_ok :: "string \<Rightarrow> bool"
  kc_format :: "int \<Rightarrow> string"
  kc_eventID :: string
  kc_started :: int
  kc_recorded :: int
  kc_durationMS :: int

type_synonym outcome = "control_response \<times> control"

section \<open>Checks of the input\<close>

definition validToken :: "string \<Rightarrow> string \<Rightarrow> bool" where
  "validToken actual expected \<longleftrightarrow> length actual = length expected \<and> ConstantTimeCompare actual expected = 1"

definition validEgressPolicy :: "string \<Rightarrow> bool" where
  "validEgressPolicy policy \<longleftrightarrow> policy = [] \<or> policy = Direct \<or> policy = Proxy \<or> policy = Auto"

definition validSecretStoreMode :: "string \<Rightarrow> bool" where
  "validSecretStoreMode mode \<longleftrightarrow> mode = StoreModeKeychain \<or> mode = StoreModeLocalFile"

fun llm_models :: "string list \<Rightarrow> string list \<Rightarrow> string list option" where
  "llm_models seen [] = Some []"
| "llm_models seen (m # rest) =
     (let model = trim_space m in
      if model = [] \<or> length model > 200 \<or> contains_any model [NUL, CR, LF, TAB] then None
      else if model \<in> set seen then llm_models seen rest
      else map_option (Cons model) (llm_models (model # seen) rest))"

definition normalizeLLMModels :: "string list \<Rightarrow> string list option" where
  "normalizeLLMModels input =
     (if length input = 0 \<or> length input > 32 then None
      else case llm_models [] input of
        None \<Rightarrow> None
      | Some models \<Rightarrow> if length models > 0 then Some models else None)"

definition validLLMLimits :: "int \<Rightarrow> int \<Rightarrow> int \<Rightarrow> bool \<Rightarrow> bool" where
  "validLLMLimits maxOutputTokens requestsPerMinute maxConcurrent allowDefaults =
     (if maxOutputTokens < 1 \<or> maxOutputTokens > 1000000 then False
      else if allowDefaults \<and> requestsPerMinute = 0 \<and> maxConcurrent = 0 then True
      else requestsPerMinute \<ge> 1 \<and> requestsPerMinute \<le> 60000 \<and> maxConcurrent \<ge> 1 \<and> maxConcurrent \<le> 1024)"

definition validLocalAPIKey :: "string \<Rightarrow> bool" where
  "validLocalAPIKey value \<longleftrightarrow>
     length value \<ge> 16 \<and> length value \<le> 1024 \<and> NUL \<notin> set value \<and> \<not> contains_space value"

definition validLocalPassword :: "string \<Rightarrow> bool" where
  "validLocalPassword password \<longleftrightarrow>
     length password \<ge> 12 \<and> length password \<le> 1024 \<and> trim_space password \<noteq> []
     \<and> \<not> contains_any password [NUL, CR, LF]"

definition normalizeSSHAddress :: "string \<Rightarrow> string option" where
  "normalizeSSHAddress raw =
     (let v = trim_space raw in
      if v = [] \<or> contains_any v [NUL, CR, LF, TAB, CHR '' ''] then None
      else case SplitHostPort v of
        Some (host, port) \<Rightarrow> if host = [] \<or> port = [] then None else Some v
      | None \<Rightarrow>
          if ParseIP v \<noteq> None then Some (JoinHostPort v ''22'')
          else if CHR '':'' \<notin> set v then Some (JoinHostPort v ''22'')
          else None)"

definition ip_Equal :: "ip \<Rightarrow> ip \<Rightarrow> bool" where
  "ip_Equal x y =
     (if length x = length y then x = y
      else if length x = 4 \<and> length y = 16 then take 12 y = v4_prefix \<and> x = drop 12 y
      else if length x = 16 \<and> length y = 4 then take 12 x = v4_prefix \<and> drop 12 x = y
      else False)"

definition hostIsLocal :: "ip list option \<Rightarrow> string \<Rightarrow> bool" where
  "hostIsLocal localIPs host =
     (if equal_fold host ''localhost'' then True
      else case ParseIP host of
        None \<Rightarrow> False
      | Some ip \<Rightarrow>
          if IsLoopback ip \<or> IsUnspecified ip then True
          else case localIPs of
            None \<Rightarrow> False
          | Some ips \<Rightarrow> list_ex (\<lambda>localIP. ip_Equal localIP ip) ips)"

definition sshTargetIsLocalListener :: "ip list option \<Rightarrow> control \<Rightarrow> string \<Rightarrow> bool" where
  "sshTargetIsLocalListener localIPs s address =
     (case cs_ssh s of
        None \<Rightarrow> False
      | Some cfg \<Rightarrow>
          (case SplitHostPort address of
             None \<Rightarrow> False
           | Some (targetHost, targetPort) \<Rightarrow>
               if \<not> hostIsLocal localIPs targetHost then False
               else list_ex (\<lambda>listener.
                      case SplitHostPort listener of
                        Some (_, listenerPort) \<Rightarrow> listenerPort = targetPort
                      | None \<Rightarrow> False)
                    [sc_ListenAddress cfg, sc_DialAddress cfg]))"

section \<open>Steps the actions share\<close>

definition fail :: "message \<Rightarrow> control \<Rightarrow> outcome" where
  "fail e s = (error_response e, s)"

definition succeed :: "control_calls \<Rightarrow> control \<Rightarrow> outcome" where
  "succeed c s = (successResponse (kc_format c) s, s)"

definition succeed_created :: "control_calls \<Rightarrow> control \<Rightarrow> route_summary \<Rightarrow> string \<Rightarrow> outcome" where
  "succeed_created c s summary token =
     ((successResponse (kc_format c) s)\<lparr>re_Created := Some \<lparr>cd_Route = summary, cd_Capability = token\<rparr>\<rparr>, s)"

definition save_routes :: "write_calls \<Rightarrow> control \<Rightarrow> string option \<times> control" where
  "save_routes os s =
     (case Save os (List_routes (cs_registry s)) (cs_file s) of (err, f) \<Rightarrow> (err, s\<lparr>cs_file := f\<rparr>))"

definition save_ssh :: "write_calls \<Rightarrow> ssh_configuration \<Rightarrow> string option \<times> ssh_configuration" where
  "save_ssh os cfg =
     (case Ssh_Save os (Ssh_List (sc_Registry cfg)) (sc_File cfg) of (err, f) \<Rightarrow> (err, cfg\<lparr>sc_File := f\<rparr>))"

definition put_http :: "control_calls \<Rightarrow> control \<Rightarrow> string \<Rightarrow> http_target \<Rightarrow> secrets_error option \<times> control" where
  "put_http c s reference target =
     (case PutHTTPTarget False (kc_put c reference) (cs_secrets s) reference target of
        (err, b) \<Rightarrow> (err, s\<lparr>cs_secrets := b\<rparr>))"

definition put_ssh :: "control_calls \<Rightarrow> control \<Rightarrow> string \<Rightarrow> ssh_target \<Rightarrow> secrets_error option \<times> control" where
  "put_ssh c s reference target =
     (case PutSSHTarget (parsers (kc_library c)) False (kc_put c reference) (cs_secrets s) reference target of
        (err, b) \<Rightarrow> (err, s\<lparr>cs_secrets := b\<rparr>))"

definition delete_target :: "control_calls \<Rightarrow> control \<Rightarrow> string \<Rightarrow> secrets_error option \<times> control" where
  "delete_target c s reference =
     (case DeleteTarget False (kc_delete c reference) (cs_secrets s) reference of
        (err, b) \<Rightarrow> (err, s\<lparr>cs_secrets := b\<rparr>))"

text \<open>The test at the start of both HTTP creations that the alias is used by no route.\<close>

definition alias_conflict :: "control \<Rightarrow> string \<Rightarrow> message option" where
  "alias_conflict s a =
     (case Get (cs_registry s) a of
        Inr _ \<Rightarrow> Some (English ''route alias already exists'')
      | Inl e \<Rightarrow>
          if e \<noteq> ErrNotFound then Some (English ''could not inspect route registry'')
          else case cs_ssh s of
            None \<Rightarrow> None
          | Some cfg \<Rightarrow>
              (case Ssh_Get (sc_Registry cfg) a of
                 Inr _ \<Rightarrow> Some (English ''route alias already exists'')
               | Inl e' \<Rightarrow>
                   if e' \<noteq> ErrRouteNotFound then Some (English ''could not inspect route registry'')
                   else None))"

text \<open>The end of both HTTP creations: insert, persist, and undo on failure.\<close>

definition insert_route :: "control_calls \<Rightarrow> control \<Rightarrow> http_route \<Rightarrow> string \<Rightarrow> message \<Rightarrow> message \<Rightarrow> outcome" where
  "insert_route c s route token invalid_msg persist_msg =
     (case Upsert (cs_registry s) route of
        Inl _ \<Rightarrow> fail invalid_msg (snd (delete_target c s (hr_TargetSecretRef route)))
      | Inr reg \<Rightarrow>
          (case save_routes (kc_save c) (s\<lparr>cs_registry := reg\<rparr>) of
             (Some _, s1) \<Rightarrow>
               let s2 = (case Delete (cs_registry s1) (hr_Alias route) of
                           Inl _ \<Rightarrow> s1
                         | Inr (_, reg') \<Rightarrow> s1\<lparr>cs_registry := reg'\<rparr>)
               in fail persist_msg (snd (delete_target c s2 (hr_TargetSecretRef route)))
           | (None, s1) \<Rightarrow> succeed_created c s1 (summarize route (cs_httpAddress s1)) token))"

text \<open>The end of the actions that replace an HTTP route by a changed copy.\<close>

definition replace_route ::
  "control_calls \<Rightarrow> control \<Rightarrow> http_route \<Rightarrow> http_route \<Rightarrow> message \<Rightarrow> message \<Rightarrow> (control \<Rightarrow> outcome) \<Rightarrow> outcome" where
  "replace_route c s previous updated invalid_msg persist_msg done_with =
     (case Upsert (cs_registry s) updated of
        Inl _ \<Rightarrow> fail invalid_msg s
      | Inr reg \<Rightarrow>
          (case save_routes (kc_save c) (s\<lparr>cs_registry := reg\<rparr>) of
             (Some _, s1) \<Rightarrow>
               fail persist_msg
                 (case Upsert (cs_registry s1) previous of
                    Inl _ \<Rightarrow> s1 | Inr reg' \<Rightarrow> s1\<lparr>cs_registry := reg'\<rparr>)
           | (None, s1) \<Rightarrow> done_with s1))"

text \<open>The same two endings for SSH routes.\<close>

definition insert_ssh_route ::
  "control_calls \<Rightarrow> control \<Rightarrow> ssh_configuration \<Rightarrow> ssh_route \<Rightarrow> string \<Rightarrow> outcome" where
  "insert_ssh_route c s cfg route token =
     (case Ssh_Upsert (sc_Registry cfg) route of
        Inl _ \<Rightarrow> fail (English ''invalid SSH alias, local username, or command policy'')
                  (snd (delete_target c s (sr_TargetSecretRef route)))
      | Inr reg \<Rightarrow>
          (case save_ssh (kc_save_ssh c) (cfg\<lparr>sc_Registry := reg\<rparr>) of
             (Some _, cfg1) \<Rightarrow>
               let cfg2 = (case Ssh_Delete (sc_Registry cfg1) (sr_Alias route) of
                             Inl _ \<Rightarrow> cfg1
                           | Inr (_, reg') \<Rightarrow> cfg1\<lparr>sc_Registry := reg'\<rparr>)
               in fail (English ''could not persist SSH route metadata'')
                    (snd (delete_target c (s\<lparr>cs_ssh := Some cfg2\<rparr>) (sr_TargetSecretRef route)))
           | (None, cfg1) \<Rightarrow>
               succeed_created c (s\<lparr>cs_ssh := Some cfg1\<rparr>)
                 (summarizeSSH route (sc_ListenAddress cfg1)) token))"

definition replace_ssh_route ::
  "control_calls \<Rightarrow> control \<Rightarrow> ssh_configuration \<Rightarrow> ssh_route \<Rightarrow> ssh_route \<Rightarrow> (ssh_route_error \<Rightarrow> message)
   \<Rightarrow> message \<Rightarrow> (control \<Rightarrow> outcome) \<Rightarrow> outcome" where
  "replace_ssh_route c s cfg previous updated invalid_msg persist_msg done_with =
     (case Ssh_Upsert (sc_Registry cfg) updated of
        Inl e \<Rightarrow> fail (invalid_msg e) s
      | Inr reg \<Rightarrow>
          (case save_ssh (kc_save_ssh c) (cfg\<lparr>sc_Registry := reg\<rparr>) of
             (Some _, cfg1) \<Rightarrow>
               let cfg2 = (case Ssh_Upsert (sc_Registry cfg1) previous of
                             Inl _ \<Rightarrow> cfg1 | Inr reg' \<Rightarrow> cfg1\<lparr>sc_Registry := reg'\<rparr>)
               in fail persist_msg (s\<lparr>cs_ssh := Some cfg2\<rparr>)
           | (None, cfg1) \<Rightarrow> done_with (s\<lparr>cs_ssh := Some cfg1\<rparr>)))"

section \<open>HTTP and LLM routes\<close>

definition createHTTPRoute :: "control_calls \<Rightarrow> control \<Rightarrow> create_http_route option \<Rightarrow> outcome" where
  "createHTTPRoute c s input_opt =
     (case input_opt of
        None \<Rightarrow> fail (English ''invalid route details'') s
      | Some input \<Rightarrow>
          if trim_space (ch_Name input) = [] \<or> length (ch_Name input) > 80
             \<or> length (ch_Authorization input) > 8 * 1024
             \<or> contains_any (ch_Authorization input) [CR, LF]
          then fail (English ''invalid route details'') s
          else case url_Parse (ch_BaseURL input) of
            None \<Rightarrow> fail (English ''target must be an HTTP or HTTPS URL'') s
          | Some baseURL \<Rightarrow>
              if u_Host baseURL = [] \<or> (u_Scheme baseURL \<noteq> ''http'' \<and> u_Scheme baseURL \<noteq> ''https'')
              then fail (English ''target must be an HTTP or HTTPS URL'') s
              else case alias_conflict s (ch_Alias input) of
                Some e \<Rightarrow> fail e s
              | None \<Rightarrow>
                  (case Generate (kc_rand c) of
                     Inl _ \<Rightarrow> fail (English ''could not create route capability'') s
                   | Inr (token, digest) \<Rightarrow>
                       let reference = ''routes/'' @ ch_Alias input;
                           headers = (if ch_Authorization input \<noteq> []
                                      then header_Set [] ''Authorization'' (ch_Authorization input) else [])
                       in case put_http c s reference \<lparr>ht_BaseURL = Some baseURL, ht_Headers = headers\<rparr> of
                            (Some _, s1) \<Rightarrow> fail (English ''could not store protected target'') s1
                          | (None, s1) \<Rightarrow>
                              insert_route c s1
                                \<lparr>hr_Name = ch_Name input, hr_Alias = ch_Alias input, hr_Kind = [],
                                 hr_Provider = [], hr_TargetSecretRef = reference,
                                 hr_CapabilityDigest = digest,
                                 hr_Policy = NewHTTPPolicy [''GET'', ''HEAD''] [],
                                 hr_Egress = (if ch_Egress input = [] then Direct else ch_Egress input),
                                 hr_Enabled = False, hr_Usage = zero_usage\<rparr>
                                token (English ''invalid route alias or policy'')
                                (English ''could not persist route metadata'')))"

definition trim_right_slashes :: "string \<Rightarrow> string" where
  "trim_right_slashes p = rev (dropWhile (\<lambda>c. c = CHR ''/'') (rev p))"

text \<open>The local key of a route: the one given, of which only the hash is kept and nothing is returned, or a new one.\<close>

definition local_key :: "bytes option \<Rightarrow> string \<Rightarrow> (string \<times> digest) option" where
  "local_key rand given =
     (if given = [] then (case Generate rand of Inl _ \<Rightarrow> None | Inr (token, digest) \<Rightarrow> Some (token, digest))
      else Some ([], Hash given))"

definition invalid_llm_input :: "create_http_route \<Rightarrow> bool" where
  "invalid_llm_input input \<longleftrightarrow>
     trim_space (ch_Name input) = [] \<or> length (ch_Name input) > 80
     \<or> \<not> validEgressPolicy (ch_Egress input) \<or> length (ch_Authorization input) = 0
     \<or> length (ch_Authorization input) > 16 * 1024
     \<or> contains_any (ch_Authorization input) [NUL, CR, LF]
     \<or> (ch_LocalAPIKey input \<noteq> [] \<and> \<not> validLocalAPIKey (ch_LocalAPIKey input))"

definition llm_base_url :: "string \<Rightarrow> go_url option" where
  "llm_base_url raw =
     (case url_Parse (trim_space raw) of
        None \<Rightarrow> None
      | Some u \<Rightarrow>
          if u_Host u = [] \<or> (u_Scheme u \<noteq> ''http'' \<and> u_Scheme u \<noteq> ''https'') \<or> u_User u \<noteq> None
             \<or> u_RawQuery u \<noteq> [] \<or> u_Fragment u \<noteq> []
          then None
          else Some (u\<lparr>u_Path := trim_suffix (trim_right_slashes (u_Path u)) ''/v1'', u_RawPath := []\<rparr>))"

definition llm_headers :: "create_http_route \<Rightarrow> header" where
  "llm_headers input =
     (if ch_Provider input = ProviderAnthropic
      then header_Set (header_Set [] ''X-Api-Key'' (ch_Authorization input)) ''Anthropic-Version'' ''2023-06-01''
      else header_Set [] ''Authorization'' (''Bearer '' @ ch_Authorization input))"

definition llm_policy_for :: "create_http_route \<Rightarrow> string list \<Rightarrow> http_policy" where
  "llm_policy_for input models =
     (let p = NewLLMPolicy (ch_Provider input) models (ch_MaxOutputTokens input);
          p1 = (if ch_RequestsPerMinute input > 0
                then p\<lparr>hp_RequestsPerMinute := ch_RequestsPerMinute input\<rparr> else p);
          p2 = (if ch_MaxConcurrent input > 0 then p1\<lparr>hp_MaxConcurrent := ch_MaxConcurrent input\<rparr> else p1)
      in p2\<lparr>hp_TrackUsage := ch_TrackUsage input\<rparr>)"

definition createLLMRoute :: "control_calls \<Rightarrow> control \<Rightarrow> create_http_route option \<Rightarrow> outcome" where
  "createLLMRoute c s input_opt =
     (case input_opt of
        None \<Rightarrow> fail (English ''invalid LLM route details'') s
      | Some input \<Rightarrow>
          if invalid_llm_input input then fail (English ''invalid LLM route details'') s
          else if ch_Provider input \<noteq> ProviderOpenAI \<and> ch_Provider input \<noteq> ProviderAnthropic
          then fail (English ''unsupported LLM provider preset'') s
          else case normalizeLLMModels (ch_Models input) of
            None \<Rightarrow> fail (English ''invalid LLM policy'') s
          | Some models \<Rightarrow>
              if \<not> validLLMLimits (ch_MaxOutputTokens input) (ch_RequestsPerMinute input)
                      (ch_MaxConcurrent input) True
              then fail (English ''invalid LLM policy'') s
              else case llm_base_url (ch_BaseURL input) of
                None \<Rightarrow> fail (English ''target must be an HTTP or HTTPS base URL without credentials or query parameters'') s
              | Some baseURL \<Rightarrow>
                  (case alias_conflict s (ch_Alias input) of
                     Some e \<Rightarrow> fail e s
                   | None \<Rightarrow>
                       (case local_key (kc_rand c) (ch_LocalAPIKey input) of
                          None \<Rightarrow> fail (English ''could not create local LLM API key'') s
                        | Some (token, digest) \<Rightarrow>
                            let reference = ''routes/'' @ ch_Alias input
                            in case put_http c s reference
                                      \<lparr>ht_BaseURL = Some baseURL, ht_Headers = llm_headers input\<rparr> of
                                 (Some _, s1) \<Rightarrow> fail (English ''could not store protected LLM target'') s1
                               | (None, s1) \<Rightarrow>
                                   insert_route c s1
                                     \<lparr>hr_Name = ch_Name input, hr_Alias = ch_Alias input, hr_Kind = KindLLM,
                                      hr_Provider = ch_Provider input, hr_TargetSecretRef = reference,
                                      hr_CapabilityDigest = digest,
                                      hr_Policy = llm_policy_for input models,
                                      hr_Egress = (if ch_Egress input = [] then Direct else ch_Egress input),
                                      hr_Enabled = False, hr_Usage = zero_usage\<rparr>
                                     token (English ''invalid LLM alias or policy'')
                                     (English ''could not persist LLM route metadata''))))"

definition setLLMPolicy :: "control_calls \<Rightarrow> control \<Rightarrow> string \<Rightarrow> create_http_route option \<Rightarrow> outcome" where
  "setLLMPolicy c s a input_opt =
     (case input_opt of
        None \<Rightarrow> fail (English ''invalid LLM policy'') s
      | Some input \<Rightarrow>
          if \<not> validLLMLimits (ch_MaxOutputTokens input) (ch_RequestsPerMinute input)
                  (ch_MaxConcurrent input) False
          then fail (English ''invalid LLM policy'') s
          else case normalizeLLMModels (ch_Models input) of
            None \<Rightarrow> fail (English ''invalid LLM model allowlist'') s
          | Some models \<Rightarrow>
              (case Get (cs_registry s) a of
                 Inl _ \<Rightarrow> fail (English ''LLM route was not found'') s
               | Inr previous \<Rightarrow>
                   if EffectiveKind previous \<noteq> KindLLM then fail (English ''LLM route was not found'') s
                   else
                     let policy = (NewLLMPolicy (hr_Provider previous) models (ch_MaxOutputTokens input))
                           \<lparr>hp_RequestsPerMinute := ch_RequestsPerMinute input,
                            hp_MaxConcurrent := ch_MaxConcurrent input,
                            hp_TrackUsage := ch_TrackUsage input\<rparr>
                     in replace_route c s previous (previous\<lparr>hr_Policy := policy\<rparr>)
                          (English ''invalid LLM policy'') (English ''could not persist LLM policy'')
                          (succeed c)))"

definition rotateLLMAPIKey :: "control_calls \<Rightarrow> control \<Rightarrow> string \<Rightarrow> create_http_route option \<Rightarrow> outcome" where
  "rotateLLMAPIKey c s a input_opt =
     (case input_opt of
        None \<Rightarrow> fail (English ''invalid local LLM API key'') s
      | Some input \<Rightarrow>
          if ch_LocalAPIKey input \<noteq> [] \<and> \<not> validLocalAPIKey (ch_LocalAPIKey input)
          then fail (English ''invalid local LLM API key'') s
          else case local_key (kc_rand c) (ch_LocalAPIKey input) of
            None \<Rightarrow> fail (English ''could not rotate local LLM API key'') s
          | Some (token, digest) \<Rightarrow>
              (case Get (cs_registry s) a of
                 Inl _ \<Rightarrow> fail (English ''LLM route was not found'') s
               | Inr previous \<Rightarrow>
                   if EffectiveKind previous \<noteq> KindLLM then fail (English ''LLM route was not found'') s
                   else
                     let updated = previous\<lparr>hr_CapabilityDigest := digest\<rparr>
                     in replace_route c s previous updated
                          (English ''could not rotate local LLM API key'')
                          (English ''could not persist rotated LLM API key'')
                          (\<lambda>s1. succeed_created c s1 (summarize updated (cs_httpAddress s1)) token)))"

definition resetLLMUsage :: "control_calls \<Rightarrow> control \<Rightarrow> string \<Rightarrow> outcome" where
  "resetLLMUsage c s a =
     (case ResetLLMUsage (cs_registry s) a of
        Inl _ \<Rightarrow> fail (English ''LLM route was not found'') s
      | Inr reg \<Rightarrow> succeed c (s\<lparr>cs_registry := reg\<rparr>))"

end
