(* ===== verification/Control_Actions.thy ===== *)
theory Control_Actions
  imports Control
begin

text \<open>
  Package \<open>internal/control\<close>, \<open>server.go\<close>, third part: the actions on SSH routes, the health checks,
  switching and deleting routes, the proxy, the secret store migration, and the dispatch.
\<close>

section \<open>SSH routes\<close>

definition FingerprintSHA256 :: "bytes \<Rightarrow> string" where
  "FingerprintSHA256 key = ''SHA256:'' @ RawStdEncoding_EncodeToString (sha256_Sum256 key)"

definition probeSSHHostKey :: "control_calls \<Rightarrow> control \<Rightarrow> probe_ssh_host_key option \<Rightarrow> outcome" where
  "probeSSHHostKey c s input_opt =
     (case (cs_ssh s, input_opt) of
        (Some cfg, Some input) \<Rightarrow>
          if length (pk_Address input) > 512 \<or> \<not> validEgressPolicy (pk_Egress input)
          then fail (English ''invalid SSH probe details'') s
          else case normalizeSSHAddress (pk_Address input) of
            None \<Rightarrow> fail (English ''invalid SSH address'') s
          | Some address \<Rightarrow>
              if sshTargetIsLocalListener (kc_localIPs c) s address
              then fail (Localized ''the upstream SSH address points at an Airlock listener'') s
              else
                (case ProbeHostKey (kc_library c) (kc_network c) (cs_egress s)
                        (if pk_Egress input = [] then Direct else pk_Egress input) address of
                   Inl _ \<Rightarrow> fail (Localized ''the upstream SSH service returned no host key'') s
                 | Inr key \<Rightarrow>
                     ((successResponse (kc_format c) s)\<lparr>re_SSHHostKeyProbe :=
                        Some \<lparr>hk_HostKey = StdEncoding_EncodeToString key,
                              hk_Fingerprint = FingerprintSHA256 key\<rparr>\<rparr>, s))
      | _ \<Rightarrow> fail (English ''invalid SSH probe details'') s)"

definition invalid_ssh_input :: "create_ssh_route \<Rightarrow> bool" where
  "invalid_ssh_input input \<longleftrightarrow>
     trim_space (cr_Name input) = [] \<or> length (cr_Name input) > 80 \<or> length (cr_Address input) > 512
     \<or> cr_Username input = [] \<or> length (cr_Username input) > 255 \<or> length (cr_Password input) = 0
     \<or> length (cr_Password input) > 8 * 1024
     \<or> (cr_LocalPassword input \<noteq> [] \<and> \<not> validLocalPassword (cr_LocalPassword input))
     \<or> length (cr_ExpectedHostKey input) > 16 * 1024 \<or> \<not> validEgressPolicy (cr_Egress input)
     \<or> (cr_AllowInteractiveShell input \<and> \<not> cr_AllowAllCommands input)"

text \<open>The decoded host key, refused when it is empty.\<close>

definition decode_host_key :: "string \<Rightarrow> bytes option" where
  "decode_host_key encoded =
     (case std_b64_decode encoded of
        None \<Rightarrow> None
      | Some hostKey \<Rightarrow> if length hostKey = 0 then None else Some hostKey)"

definition ssh_alias_conflict :: "control \<Rightarrow> ssh_configuration \<Rightarrow> string \<Rightarrow> string \<Rightarrow> message option" where
  "ssh_alias_conflict s cfg a localUsername =
     (case Get (cs_registry s) a of
        Inr _ \<Rightarrow> Some (Localized ''the local route alias already exists'')
      | Inl e \<Rightarrow>
          if e \<noteq> ErrNotFound then Some (English ''could not inspect route registry'')
          else case Ssh_Get (sc_Registry cfg) a of
            Inr _ \<Rightarrow> Some (Localized ''the local route alias already exists'')
          | Inl e1 \<Rightarrow>
              if e1 \<noteq> ErrRouteNotFound then Some (English ''could not inspect route registry'')
              else case GetByUsername (sc_Registry cfg) localUsername of
                Inr _ \<Rightarrow> Some (Localized ''the local SSH username already exists'')
              | Inl e2 \<Rightarrow>
                  if e2 \<noteq> ErrRouteNotFound
                  then Some (English ''could not inspect SSH username mappings'') else None)"

definition ssh_policy_for :: "string \<Rightarrow> string list \<Rightarrow> bool \<Rightarrow> bool \<Rightarrow> bool \<Rightarrow> bool \<Rightarrow> ssh_policy" where
  "ssh_policy_for allowedCommand fingerprints allowAll recordCommands allowSFTP allowShell =
     (NewPolicyWithOptions (if allowAll then [] else [allowedCommand]) fingerprints False allowAll recordCommands)
       \<lparr>sp_AllowSFTP := allowSFTP, sp_AllowInteractiveShell := allowShell\<rparr>"

definition new_ssh_route :: "create_ssh_route \<Rightarrow> string \<Rightarrow> int \<Rightarrow> digest \<Rightarrow> ssh_route" where
  "new_ssh_route input localUsername timeout digest =
     \<lparr>sr_Name = cr_Name input, sr_Alias = cr_Alias input, sr_LocalUsername = localUsername,
      sr_TargetSecretRef = ''ssh/'' @ cr_Alias input, sr_CapabilityDigest = digest,
      sr_Policy = ssh_policy_for (cr_AllowedCommand input) [] (cr_AllowAllCommands input)
        (cr_RecordCommands input) (cr_AllowSFTP input) (cr_AllowInteractiveShell input),
      sr_Egress = (if cr_Egress input = [] then Direct else cr_Egress input),
      sr_AuthenticationTimeoutSeconds = timeout,
      sr_KeywordReplacements = cr_KeywordReplacements input, sr_Enabled = False\<rparr>"

definition password_target :: "string \<Rightarrow> create_ssh_route \<Rightarrow> bytes \<Rightarrow> ssh_target" where
  "password_target address input hostKey =
     \<lparr>st_Address = address, st_Username = cr_Username input, st_Password = cr_Password input,
      st_PrivateKey = [], st_PrivateKeyPassword = [], st_ExpectedHostKey = hostKey\<rparr>"

definition createSSHRoute :: "control_calls \<Rightarrow> control \<Rightarrow> create_ssh_route option \<Rightarrow> outcome" where
  "createSSHRoute c s input_opt =
     (case (cs_ssh s, input_opt) of
        (Some cfg, Some input) \<Rightarrow>
          if invalid_ssh_input input then fail (English ''invalid SSH route details'') s
          else (case normalizeSSHAddress (cr_Address input) of
            None \<Rightarrow> fail (English ''invalid SSH address'') s
          | Some address \<Rightarrow>
              (case NormalizeAuthenticationTimeoutSeconds (cr_AuthenticationTimeoutSeconds input) of
                 Inl _ \<Rightarrow> fail (Localized ''the SSH authentication budget must be 3 to 120 seconds'') s
               | Inr timeout \<Rightarrow>
                   (case decode_host_key (cr_ExpectedHostKey input) of
                      None \<Rightarrow> fail (English ''invalid SSH host key'') s
                    | Some hostKey \<Rightarrow>
                        let localUsername = (if cr_LocalUsername input = [] then cr_Alias input
                                             else cr_LocalUsername input)
                        in (case ssh_alias_conflict s cfg (cr_Alias input) localUsername of
                             Some e \<Rightarrow> fail e s
                           | None \<Rightarrow>
                               (case local_key (kc_rand c) (cr_LocalPassword input) of
                                  None \<Rightarrow> fail (English ''could not create route capability'') s
                                | Some (token, digest) \<Rightarrow>
                                    (case put_ssh c s (''ssh/'' @ cr_Alias input)
                                            (password_target address input hostKey) of
                                       (Some _, s1) \<Rightarrow> fail (English ''could not store protected SSH target'') s1
                                     | (None, s1) \<Rightarrow>
                                         insert_ssh_route c s1 cfg
                                           (new_ssh_route input localUsername timeout digest) token))))))
      | _ \<Rightarrow> fail (English ''invalid SSH route details'') s)"

definition update_timeout :: "ssh_route \<Rightarrow> int \<Rightarrow> int option" where
  "update_timeout previous seconds =
     (if seconds \<noteq> 0 then
        (case NormalizeAuthenticationTimeoutSeconds seconds of Inl _ \<Rightarrow> None | Inr timeout \<Rightarrow> Some timeout)
      else Some (EffectiveAuthenticationTimeoutSeconds previous))"

definition update_ssh_policy :: "ssh_policy_update \<Rightarrow> int \<Rightarrow> ssh_route \<Rightarrow> ssh_route" where
  "update_ssh_policy input timeout previous = previous
     \<lparr>sr_AuthenticationTimeoutSeconds := timeout,
      sr_LocalUsername := (if pu_LocalUsername input = [] then EffectiveLocalUsername previous
                           else pu_LocalUsername input),
      sr_Policy := ssh_policy_for (pu_AllowedCommand input)
        (sp_LocalPublicKeyFingerprints (sr_Policy previous)) (pu_AllowAllCommands input)
        (pu_RecordCommands input) (pu_AllowSFTP input) (pu_AllowInteractiveShell input),
      sr_Name := (if pu_Name input \<noteq> [] then trim_space (pu_Name input) else sr_Name previous),
      sr_Egress := (if pu_Egress input \<noteq> [] then pu_Egress input else sr_Egress previous)\<rparr>"

definition setSSHPolicy :: "control_calls \<Rightarrow> control \<Rightarrow> string \<Rightarrow> ssh_policy_update option \<Rightarrow> outcome" where
  "setSSHPolicy c s a input_opt =
     (case (cs_ssh s, input_opt) of
        (Some cfg, Some input) \<Rightarrow>
          if (pu_Name input \<noteq> [] \<and> (trim_space (pu_Name input) = [] \<or> length (pu_Name input) > 80))
             \<or> \<not> validEgressPolicy (pu_Egress input)
          then fail (Localized ''the SSH route policy is unavailable'') s
          else if pu_AllowInteractiveShell input \<and> \<not> pu_AllowAllCommands input
          then fail (Localized ''an interactive shell needs all commands'') s
          else (case Ssh_Get (sc_Registry cfg) a of
            Inl _ \<Rightarrow> fail (Localized ''the SSH route was not found'') s
          | Inr previous \<Rightarrow>
              (case update_timeout previous (pu_AuthenticationTimeoutSeconds input) of
                 None \<Rightarrow> fail (Localized ''the SSH authentication budget must be 3 to 120 seconds'') s
               | Some timeout \<Rightarrow>
                   replace_ssh_route c s cfg previous (update_ssh_policy input timeout previous)
                     (\<lambda>e. if e = ErrLocalUsernameInUse then Localized ''the local SSH username already exists''
                          else Localized ''the SSH command policy is invalid'')
                     (Localized ''could not save the SSH mapping policy'') (succeed c)))
      | _ \<Rightarrow> fail (Localized ''the SSH route policy is unavailable'') s)"

definition getSSHKeywordReplacements :: "control_calls \<Rightarrow> control \<Rightarrow> string \<Rightarrow> outcome" where
  "getSSHKeywordReplacements c s a =
     (case cs_ssh s of
        None \<Rightarrow> fail (Localized ''SSH egress replacements are unavailable'') s
      | Some cfg \<Rightarrow>
          if trim_space a = [] \<or> length a > 63
          then fail (Localized ''SSH egress replacements are unavailable'') s
          else (case Ssh_Get (sc_Registry cfg) a of
            Inl _ \<Rightarrow> fail (Localized ''the SSH route was not found'') s
          | Inr route \<Rightarrow>
              ((successResponse (kc_format c) s)\<lparr>re_KeywordReplacements := sr_KeywordReplacements route\<rparr>, s)))"

definition setSSHKeywordReplacements ::
  "control_calls \<Rightarrow> control \<Rightarrow> string \<Rightarrow> keyword_replacement list \<Rightarrow> outcome" where
  "setSSHKeywordReplacements c s a replacements =
     (case cs_ssh s of
        None \<Rightarrow> fail (Localized ''the SSH egress replacement rules are invalid'') s
      | Some cfg \<Rightarrow>
          if trim_space a = [] \<or> length a > 63 \<or> ValidateKeywordReplacements replacements \<noteq> None
          then fail (Localized ''the SSH egress replacement rules are invalid'') s
          else (case Ssh_Get (sc_Registry cfg) a of
            Inl _ \<Rightarrow> fail (Localized ''the SSH route was not found'') s
          | Inr previous \<Rightarrow>
              replace_ssh_route c s cfg previous (previous\<lparr>sr_KeywordReplacements := replacements\<rparr>)
                (\<lambda>_. Localized ''the SSH egress replacement rules are invalid'')
                (Localized ''could not save the SSH egress replacement rules'') (succeed c)))"

definition updateSSHTarget :: "control_calls \<Rightarrow> control \<Rightarrow> string \<Rightarrow> create_ssh_route option \<Rightarrow> outcome" where
  "updateSSHTarget c s a input_opt =
     (case (cs_ssh s, input_opt) of
        (Some cfg, Some input) \<Rightarrow>
          if cr_Username input = [] \<or> length (cr_Username input) > 255 \<or> length (cr_Password input) = 0
             \<or> length (cr_Password input) > 8 * 1024 \<or> length (cr_ExpectedHostKey input) > 16 * 1024
             \<or> \<not> validEgressPolicy (cr_Egress input)
          then fail (Localized ''the SSH host update is invalid'') s
          else (case normalizeSSHAddress (cr_Address input) of
            None \<Rightarrow> fail (Localized ''the SSH host address is invalid or points at Airlock itself'') s
          | Some address \<Rightarrow>
              if sshTargetIsLocalListener (kc_localIPs c) s address
              then fail (Localized ''the SSH host address is invalid or points at Airlock itself'') s
              else (case decode_host_key (cr_ExpectedHostKey input) of
                 None \<Rightarrow> fail (Localized ''the SSH host key is invalid'') s
               | Some hostKey \<Rightarrow>
                   (case Ssh_Get (sc_Registry cfg) a of
                      Inl _ \<Rightarrow> fail (Localized ''the SSH route was not found'') s
                    | Inr route \<Rightarrow>
                        (case put_ssh c s (sr_TargetSecretRef route)
                                (password_target address input hostKey) of
                           (Some _, s1) \<Rightarrow> fail (Localized ''could not replace the protected SSH host'') s1
                         | (None, s1) \<Rightarrow> succeed c (clearRouteHealth s1 a)))))
      | _ \<Rightarrow> fail (Localized ''the SSH host update is invalid'') s)"

definition rotateSSHCredential :: "control_calls \<Rightarrow> control \<Rightarrow> string \<Rightarrow> create_ssh_route option \<Rightarrow> outcome" where
  "rotateSSHCredential c s a input_opt =
     (case (cs_ssh s, input_opt) of
        (Some cfg, Some input) \<Rightarrow>
          if cr_LocalPassword input \<noteq> [] \<and> \<not> validLocalPassword (cr_LocalPassword input)
          then fail (Localized ''the local SSH credential is invalid'') s
          else (case local_key (kc_rand c) (cr_LocalPassword input) of
            None \<Rightarrow> fail (Localized ''could not generate a local SSH credential'') s
          | Some (token, digest) \<Rightarrow>
              (case Ssh_Get (sc_Registry cfg) a of
                 Inl _ \<Rightarrow> fail (Localized ''the SSH route was not found'') s
               | Inr previous \<Rightarrow>
                   let updated = previous\<lparr>sr_CapabilityDigest := digest\<rparr>
                   in replace_ssh_route c s cfg previous updated
                        (\<lambda>_. Localized ''could not rotate the local SSH credential'')
                        (Localized ''could not save the local SSH credential'')
                        (\<lambda>s1. succeed_created c s1 (summarizeSSH updated (sc_ListenAddress cfg)) token)))
      | _ \<Rightarrow> fail (Localized ''the local SSH credential is invalid'') s)"

section \<open>Self tests and health checks\<close>

text \<open>\<open>ssh.FixedHostKey\<close>: the error the library returns for another key is no error of this package.\<close>

definition FixedHostKey :: "bytes \<Rightarrow> bytes \<Rightarrow> upstream_error option" where
  "FixedHostKey key presented = (if presented = key then None else Some ErrHostKeyMismatch)"

definition testSSHRoute :: "control_calls \<Rightarrow> control \<Rightarrow> string \<Rightarrow> string \<Rightarrow> string \<Rightarrow> outcome" where
  "testSSHRoute c s a token command =
     (case cs_ssh s of
        None \<Rightarrow> fail (English ''SSH route test is unavailable'') s
      | Some cfg \<Rightarrow>
          if token = [] then fail (English ''SSH route test is unavailable'') s
          else (case Ssh_Lookup (sc_Registry cfg) a of
            Inl _ \<Rightarrow> fail (English ''SSH route test was rejected'') s
          | Inr route \<Rightarrow>
              if \<not> AllowsCommand (sr_Policy route) command
              then fail (English ''SSH route test was rejected'') s
              else
                let dialAddress = (if sc_DialAddress cfg = [] then sc_ListenAddress cfg else sc_DialAddress cfg)
                in (case dial (kc_network c) ''tcp'' dialAddress of
                     (_, Inl _) \<Rightarrow> fail (English ''local SSH route is unavailable'') s
                   | (_, Inr raw) \<Rightarrow>
                       if sl_NewClientConn (kc_library c) raw dialAddress
                            \<lparr>cc_User = EffectiveLocalUsername route, cc_Auth = [PasswordAuth token],
                             cc_HostKeyCallback = FixedHostKey (sc_HostKey cfg)\<rparr> \<noteq> None
                       then fail (English ''local SSH authentication test failed'') s
                       else if \<not> kc_session_ok c then fail (English ''upstream SSH session test failed'') s
                       else if \<not> kc_run_ok c command then fail (English ''upstream SSH command test failed'') s
                       else succeed c s)))"

definition resolve_http :: "control_calls \<Rightarrow> control \<Rightarrow> string \<Rightarrow> secrets_error + http_target" where
  "resolve_http c s reference =
     ResolveHTTPTarget False (kc_get_ok c reference) (cs_secrets s) reference"

definition resolve_ssh :: "control_calls \<Rightarrow> control \<Rightarrow> string \<Rightarrow> secrets_error + ssh_target" where
  "resolve_ssh c s reference =
     ResolveSSHTarget (parsers (kc_library c)) False (kc_get_ok c reference) (cs_secrets s) reference"

definition testSSHRouteAuthentication :: "control_calls \<Rightarrow> control \<Rightarrow> string \<Rightarrow> outcome" where
  "testSSHRouteAuthentication c s a =
     (case cs_ssh s of
        None \<Rightarrow> fail (Localized ''the SSH authentication test is unavailable'') s
      | Some cfg \<Rightarrow>
          if trim_space a = [] \<or> length a > 63
          then fail (Localized ''the SSH authentication test is unavailable'') s
          else (case Ssh_Get (sc_Registry cfg) a of
            Inl _ \<Rightarrow> fail (Localized ''the SSH route was not found'') s
          | Inr route \<Rightarrow>
              (case resolve_ssh c s (sr_TargetSecretRef route) of
                 Inl _ \<Rightarrow> fail (Localized ''the upstream SSH authentication test failed'') s
               | Inr target \<Rightarrow>
                   (case VerifyUpstreamAuthentication (kc_library c) (kc_network c) (cs_egress s) route
                           (Some target) of
                      Some ErrUpstreamAuth \<Rightarrow> fail (Localized ''the upstream SSH account or password was refused'') s
                    | Some ErrHostKeyMismatch \<Rightarrow> fail (Localized ''the upstream SSH host key check failed'') s
                    | Some ErrUpstreamUnavailable \<Rightarrow> fail (Localized ''the upstream SSH service is unreachable'') s
                    | None \<Rightarrow> succeed c s))))"

definition checkHTTPRoute :: "control_calls \<Rightarrow> control \<Rightarrow> http_route \<Rightarrow> message \<times> bool" where
  "checkHTTPRoute c s route =
     (case resolve_http c s (hr_TargetSecretRef route) of
        Inl _ \<Rightarrow> (Localized ''the protected target could not be read'', False)
      | Inr target \<Rightarrow>
          (case ht_BaseURL target of
             None \<Rightarrow> (Localized ''the protected target could not be read'', False)
           | Some baseURL \<Rightarrow>
               let scheme = to_lower (u_Scheme baseURL) in
               if scheme \<noteq> ''http'' \<and> scheme \<noteq> ''https''
               then (Localized ''the target protocol is not supported'', False)
               else
                 let host = url_Hostname baseURL;
                     port = (if url_Port baseURL = [] then (if scheme = ''http'' then ''80'' else ''443'')
                             else url_Port baseURL)
                 in case DialContext (kc_network c) (cs_egress s) (effectiveEgress (hr_Egress route))
                           ''tcp'' (JoinHostPort host port) of
                      (_, Inl _) \<Rightarrow> (Localized ''the TCP connectivity check failed'', False)
                    | (_, Inr connection) \<Rightarrow>
                        if scheme = ''https'' then
                          (if \<not> kc_tls_ok c connection host
                           then (Localized ''TCP reachable, but TLS failed'', False)
                           else (Localized ''TCP and TLS checks passed'', True))
                        else (Localized ''the target TCP port is reachable'', True)))"

definition checkSSHRoute :: "control_calls \<Rightarrow> control \<Rightarrow> ssh_route \<Rightarrow> message \<times> bool" where
  "checkSSHRoute c s route =
     (case resolve_ssh c s (sr_TargetSecretRef route) of
        Inl _ \<Rightarrow> (Localized ''the protected SSH target could not be read'', False)
      | Inr target \<Rightarrow>
          (case VerifyUpstreamAuthentication (kc_library c) (kc_network c) (cs_egress s) route (Some target) of
             Some ErrUpstreamAuth \<Rightarrow>
               (Localized ''host key pinned, but the upstream account or password was refused'', False)
           | Some ErrHostKeyMismatch \<Rightarrow> (Localized ''the SSH host key differs from the pinned one'', False)
           | Some ErrUpstreamUnavailable \<Rightarrow>
               (Localized ''the upstream SSH service is unreachable or timed out'', False)
           | None \<Rightarrow> (Localized ''the SSH host key and the upstream authentication passed'', True)))"

definition health_event :: "control_calls \<Rightarrow> string \<Rightarrow> string \<Rightarrow> string \<Rightarrow> bool \<Rightarrow> string \<Rightarrow> activity_event" where
  "health_event c a category action healthy policy =
     \<lparr>ev_ID = [], ev_Time = 0, ev_RouteAlias = a, ev_Category = category, ev_EventType = ''health'',
      ev_Caller = ''Airlock Desktop'', ev_Action = action,
      ev_Result = (if healthy then ''allowed'' else ''failed''), ev_DurationMS = kc_durationMS c,
      ev_Egress = policy\<rparr>"

definition record_health :: "control_calls \<Rightarrow> control \<Rightarrow> activity_event \<Rightarrow> control" where
  "record_health c s e =
     (case cs_activity s of
        None \<Rightarrow> s
      | Some recorder \<Rightarrow>
          (case Record recorder e (kc_eventID c) (kc_recorded c) of
             Inl _ \<Rightarrow> s
           | Inr recorder' \<Rightarrow> s\<lparr>cs_activity := Some recorder'\<rparr>))"

definition health_status :: "bool \<Rightarrow> string" where
  "health_status healthy = (if healthy then ''healthy'' else ''degraded'')"

definition health_response :: "control_calls \<Rightarrow> control \<Rightarrow> string \<Rightarrow> message \<Rightarrow> bool \<Rightarrow> outcome" where
  "health_response c s a msg healthy =
     ((successResponse (kc_format c) s)\<lparr>re_HealthCheck :=
        Some \<lparr>hc_Alias = a, hc_Status = health_status healthy, hc_Message = msg,
              hc_Latency = itoa (kc_durationMS c) @ '' ms'', hc_CheckedAt = kc_format c (kc_started c)\<rparr>\<rparr>, s)"

definition finish_health ::
  "control_calls \<Rightarrow> control \<Rightarrow> string \<Rightarrow> string \<Rightarrow> string \<Rightarrow> message \<times> bool \<Rightarrow> outcome" where
  "finish_health c s a category policy check =
     (case check of (msg, healthy) \<Rightarrow>
        let s1 = setRouteHealth s a \<lparr>rh_Status = health_status healthy, rh_CheckedAt = kc_started c\<rparr>;
            s2 = record_health c s1 (health_event c a category ''Manual health check'' healthy policy)
        in health_response c s2 a msg healthy)"

definition testRouteHealth :: "control_calls \<Rightarrow> control \<Rightarrow> string \<Rightarrow> outcome" where
  "testRouteHealth c s a =
     (if trim_space a = [] \<or> length a > 63 then fail (English ''route health check is unavailable'') s
      else case Get (cs_registry s) a of
        Inr route \<Rightarrow>
          finish_health c s a (EffectiveKind route) (effectiveEgress (hr_Egress route)) (checkHTTPRoute c s route)
      | Inl e \<Rightarrow>
          if e \<noteq> ErrNotFound then fail (English ''route was not found'') s
          else (case cs_ssh s of
            None \<Rightarrow> fail (English ''route was not found'') s
          | Some cfg \<Rightarrow>
              (case Ssh_Get (sc_Registry cfg) a of
                 Inl _ \<Rightarrow> fail (English ''route was not found'') s
               | Inr route \<Rightarrow>
                   finish_health c s a ''SSH'' (effectiveEgress (sr_Egress route)) (checkSSHRoute c s route))))"

definition proxy_check :: "control_calls \<Rightarrow> control \<Rightarrow> message \<times> bool" where
  "proxy_check c s =
     (case ResolveProxyConfig False (kc_get_ok c DefaultSecretReference) (cs_secrets s) DefaultSecretReference of
        Inr (Some u) \<Rightarrow>
          let scheme = to_lower (u_Scheme u);
              port = (if url_Port u \<noteq> [] then url_Port u
                      else if scheme = ''http'' then ''80''
                      else if scheme = ''https'' then ''443''
                      else if scheme = ''socks5'' \<or> scheme = ''socks5h'' then ''1080''
                      else [])
          in if nw_dial (kc_network c) ''tcp'' (JoinHostPort (url_Hostname u) port) = None
             then (Localized ''the local proxy TCP port is reachable'', True)
             else (Localized ''could not connect to the local proxy TCP port'', False)
      | _ \<Rightarrow> (Localized ''the proxy is not configured or its protected configuration is unavailable'', False))"

definition testProxyHealth :: "control_calls \<Rightarrow> control \<Rightarrow> outcome" where
  "testProxyHealth c s =
     (case proxy_check c s of (msg, healthy) \<Rightarrow>
        let s1 = record_health c s
              (health_event c ''proxy'' ''System'' ''Manual proxy health check'' healthy Direct)
        in health_response c s1 ''proxy'' msg healthy)"

section \<open>Switching and deleting routes\<close>

definition setRouteEnabled :: "control_calls \<Rightarrow> control \<Rightarrow> string \<Rightarrow> bool \<Rightarrow> outcome" where
  "setRouteEnabled c s a enabled =
     (case Get (cs_registry s) a of
        Inr previous \<Rightarrow>
          (case SetEnabled (cs_registry s) a enabled of
             Inl _ \<Rightarrow> fail (English ''route was not found'') s
           | Inr reg \<Rightarrow>
               (case save_routes (kc_save c) (s\<lparr>cs_registry := reg\<rparr>) of
                  (Some _, s1) \<Rightarrow>
                    fail (English ''could not persist route status'')
                      (case SetEnabled (cs_registry s1) a (hr_Enabled previous) of
                         Inl _ \<Rightarrow> s1 | Inr reg' \<Rightarrow> s1\<lparr>cs_registry := reg'\<rparr>)
                | (None, s1) \<Rightarrow> succeed c s1))
      | Inl e \<Rightarrow>
          if e \<noteq> ErrNotFound then fail (English ''route was not found'') s
          else (case cs_ssh s of
            None \<Rightarrow> fail (English ''route was not found'') s
          | Some cfg \<Rightarrow>
              (case Ssh_Get (sc_Registry cfg) a of
                 Inl _ \<Rightarrow> fail (English ''route was not found'') s
               | Inr previous \<Rightarrow>
                   (case Ssh_SetEnabled (sc_Registry cfg) a enabled of
                      Inl _ \<Rightarrow> fail (English ''route was not found'') s
                    | Inr reg \<Rightarrow>
                        (case save_ssh (kc_save_ssh c) (cfg\<lparr>sc_Registry := reg\<rparr>) of
                           (Some _, cfg1) \<Rightarrow>
                             fail (English ''could not persist SSH route status'')
                               (s\<lparr>cs_ssh := Some (case Ssh_SetEnabled (sc_Registry cfg1) a (sr_Enabled previous) of
                                    Inl _ \<Rightarrow> cfg1 | Inr reg' \<Rightarrow> cfg1\<lparr>sc_Registry := reg'\<rparr>)\<rparr>)
                         | (None, cfg1) \<Rightarrow> succeed c (s\<lparr>cs_ssh := Some cfg1\<rparr>))))))"

text \<open>The loops that put the flags of the routes listed before back, ignoring errors.\<close>

definition restore_http :: "http_registry \<Rightarrow> http_route list \<Rightarrow> http_registry" where
  "restore_http reg previous = foldl (\<lambda>r route.
     case SetEnabled r (hr_Alias route) (hr_Enabled route) of Inl _ \<Rightarrow> r | Inr r' \<Rightarrow> r') reg previous"

definition restore_ssh :: "ssh_registry \<Rightarrow> ssh_route list \<Rightarrow> ssh_registry" where
  "restore_ssh reg previous = foldl (\<lambda>r route.
     case Ssh_SetEnabled r (sr_Alias route) (sr_Enabled route) of Inl _ \<Rightarrow> r | Inr r' \<Rightarrow> r') reg previous"

definition stopAll :: "control_calls \<Rightarrow> control \<Rightarrow> outcome" where
  "stopAll c s =
     (let previous = List_routes (cs_registry s);
          s1 = s\<lparr>cs_registry := DisableAll (cs_registry s),
                 cs_ssh := map_option (\<lambda>cfg. cfg\<lparr>sc_Registry := Ssh_DisableAll (sc_Registry cfg)\<rparr>) (cs_ssh s)\<rparr>
      in case save_routes (kc_save c) s1 of
           (Some _, s2) \<Rightarrow>
             fail (English ''could not persist stopped routes'')
               (s2\<lparr>cs_registry := restore_http (cs_registry s2) previous\<rparr>)
         | (None, s2) \<Rightarrow>
             (case (cs_ssh s, cs_ssh s2) of
                (Some cfg, Some cfg2) \<Rightarrow>
                  (case save_ssh (kc_save_ssh c) cfg2 of
                     (None, cfg3) \<Rightarrow> succeed c (s2\<lparr>cs_ssh := Some cfg3\<rparr>)
                   | (Some _, cfg3) \<Rightarrow>
                       let s3 = s2\<lparr>cs_registry := restore_http (cs_registry s2) previous,
                                   cs_ssh := Some (cfg3\<lparr>sc_Registry :=
                                     restore_ssh (sc_Registry cfg3) (Ssh_List (sc_Registry cfg))\<rparr>)\<rparr>
                       in fail (English ''could not persist stopped SSH routes'')
                            (s3\<lparr>cs_file := snd (Save (kc_save_back c) previous (cs_file s3))\<rparr>))
              | _ \<Rightarrow> succeed c s2))"

definition deleted_response :: "control_calls \<Rightarrow> control \<Rightarrow> string \<Rightarrow> string \<Rightarrow> outcome" where
  "deleted_response c s a reference =
     (let s1 = clearRouteHealth s a;
          response = successResponse (kc_format c) s1
      in case delete_target c s1 reference of (err, s2) \<Rightarrow>
           (if err \<noteq> None \<and> err \<noteq> Some ErrSecretNotFound
            then response\<lparr>re_Warning := Some (English ''route deleted, but protected target cleanup needs attention'')\<rparr>
            else response, s2))"

definition deleteRoute :: "control_calls \<Rightarrow> control \<Rightarrow> string \<Rightarrow> outcome" where
  "deleteRoute c s a =
     (case Delete (cs_registry s) a of
        Inr (deleted, reg) \<Rightarrow>
          (case save_routes (kc_save c) (s\<lparr>cs_registry := reg\<rparr>) of
             (Some _, s1) \<Rightarrow>
               fail (English ''could not persist route deletion'')
                 (case Upsert (cs_registry s1) deleted of
                    Inl _ \<Rightarrow> s1 | Inr reg' \<Rightarrow> s1\<lparr>cs_registry := reg'\<rparr>)
           | (None, s1) \<Rightarrow> deleted_response c s1 a (hr_TargetSecretRef deleted))
      | Inl e \<Rightarrow>
          if e \<noteq> ErrNotFound then fail (English ''route was not found'') s
          else (case cs_ssh s of
            None \<Rightarrow> fail (English ''route was not found'') s
          | Some cfg \<Rightarrow>
              (case Ssh_Delete (sc_Registry cfg) a of
                 Inl _ \<Rightarrow> fail (English ''route was not found'') s
               | Inr (deleted, reg) \<Rightarrow>
                   (case save_ssh (kc_save_ssh c) (cfg\<lparr>sc_Registry := reg\<rparr>) of
                      (Some _, cfg1) \<Rightarrow>
                        fail (English ''could not persist SSH route deletion'')
                          (s\<lparr>cs_ssh := Some (case Ssh_Upsert (sc_Registry cfg1) deleted of
                               Inl _ \<Rightarrow> cfg1 | Inr reg' \<Rightarrow> cfg1\<lparr>sc_Registry := reg'\<rparr>)\<rparr>)
                    | (None, cfg1) \<Rightarrow>
                        deleted_response c (s\<lparr>cs_ssh := Some cfg1\<rparr>) a (sr_TargetSecretRef deleted)))))"

section \<open>The proxy\<close>

definition configureProxy :: "control_calls \<Rightarrow> control \<Rightarrow> string \<Rightarrow> outcome" where
  "configureProxy c s rawURL =
     (case url_Parse (trim_space rawURL) of
        None \<Rightarrow> fail (English ''proxy must use HTTP, HTTPS, SOCKS5, or SOCKS5H'') s
      | Some parsed \<Rightarrow>
          if ValidateProxyURL (Some parsed) \<noteq> None
          then fail (English ''proxy must use HTTP, HTTPS, SOCKS5, or SOCKS5H'') s
          else
            let proxyURL = parsed\<lparr>u_Scheme := to_lower (u_Scheme parsed)\<rparr>
            in (case PutProxyConfig False (kc_put c DefaultSecretReference) (cs_secrets s)
                      DefaultSecretReference (Some proxyURL) of
                 (Some _, b) \<Rightarrow> fail (English ''could not store protected proxy'') (s\<lparr>cs_secrets := b\<rparr>)
               | (None, b) \<Rightarrow>
                   let s1 = s\<lparr>cs_secrets := b\<rparr>
                   in (case Configure (cs_egress s1) (Some proxyURL) of
                        Inl _ \<Rightarrow> fail (English ''could not configure proxy egress'')
                                  (snd (delete_target c s1 DefaultSecretReference))
                      | Inr m \<Rightarrow> succeed c (s1\<lparr>cs_egress := m\<rparr>))))"

definition clearProxy :: "control_calls \<Rightarrow> control \<Rightarrow> outcome" where
  "clearProxy c s =
     (case delete_target c s DefaultSecretReference of (err, s1) \<Rightarrow>
        if err \<noteq> None \<and> err \<noteq> Some ErrSecretNotFound
        then fail (English ''could not remove protected proxy'') s1
        else succeed c (s1\<lparr>cs_egress := Clear (cs_egress s1)\<rparr>))"

section \<open>Secret store migration\<close>

fun migrate_http :: "control_calls \<Rightarrow> backend \<Rightarrow> http_route list \<Rightarrow> backend \<Rightarrow> message option \<times> backend" where
  "migrate_http c src [] dst = (None, dst)"
| "migrate_http c src (route # rest) dst =
     (let reference = hr_TargetSecretRef route in
      case ResolveHTTPTarget False (kc_get_ok c reference) src reference of
        Inl _ \<Rightarrow> (Some (English ''could not migrate protected HTTP target''), dst)
      | Inr target \<Rightarrow>
          (case PutHTTPTarget False (kc_other_put c reference) dst reference target of
             (Some _, dst1) \<Rightarrow> (Some (English ''could not migrate protected HTTP target''), dst1)
           | (None, dst1) \<Rightarrow>
               (case ResolveHTTPTarget False (kc_other_get_ok c reference) dst1 reference of
                  Inl _ \<Rightarrow> (Some (English ''could not verify protected HTTP target''), dst1)
                | Inr _ \<Rightarrow> migrate_http c src rest dst1)))"

fun migrate_ssh :: "control_calls \<Rightarrow> backend \<Rightarrow> ssh_route list \<Rightarrow> backend \<Rightarrow> message option \<times> backend" where
  "migrate_ssh c src [] dst = (None, dst)"
| "migrate_ssh c src (route # rest) dst =
     (let reference = sr_TargetSecretRef route; kp = parsers (kc_library c) in
      case ResolveSSHTarget kp False (kc_get_ok c reference) src reference of
        Inl _ \<Rightarrow> (Some (English ''could not migrate protected SSH target''), dst)
      | Inr target \<Rightarrow>
          (case PutSSHTarget kp False (kc_other_put c reference) dst reference target of
             (Some _, dst1) \<Rightarrow> (Some (English ''could not migrate protected SSH target''), dst1)
           | (None, dst1) \<Rightarrow>
               (case ResolveSSHTarget kp False (kc_other_get_ok c reference) dst1 reference of
                  Inl _ \<Rightarrow> (Some (English ''could not verify protected SSH target''), dst1)
                | Inr _ \<Rightarrow> migrate_ssh c src rest dst1)))"

definition migrate_proxy :: "control_calls \<Rightarrow> backend \<Rightarrow> backend \<Rightarrow> message option \<times> backend" where
  "migrate_proxy c src dst =
     (let reference = DefaultSecretReference in
      case ResolveProxyConfig False (kc_get_ok c reference) src reference of
        Inr proxy \<Rightarrow>
          (case PutProxyConfig False (kc_other_put c reference) dst reference proxy of
             (Some _, dst1) \<Rightarrow> (Some (English ''could not migrate protected proxy''), dst1)
           | (None, dst1) \<Rightarrow>
               (case ResolveProxyConfig False (kc_other_get_ok c reference) dst1 reference of
                  Inl _ \<Rightarrow> (Some (English ''could not verify protected proxy''), dst1)
                | Inr _ \<Rightarrow> (None, dst1)))
      | Inl e \<Rightarrow>
          (if e \<noteq> ErrSecretNotFound then Some (English ''could not read protected proxy'') else None, dst))"

definition migrate_identity :: "control_calls \<Rightarrow> backend \<Rightarrow> backend \<Rightarrow> message option \<times> backend" where
  "migrate_identity c src dst =
     (let reference = HostIdentitySecretReference; kp = parsers (kc_library c) in
      case ResolveSSHHostIdentity kp False (kc_get_ok c reference) src reference of
        Inr identity \<Rightarrow>
          (case PutSSHHostIdentity kp False (kc_other_put c reference) dst reference identity of
             (Some _, dst1) \<Rightarrow> (Some (English ''could not migrate SSH host identity''), dst1)
           | (None, dst1) \<Rightarrow>
               (case ResolveSSHHostIdentity kp False (kc_other_get_ok c reference) dst1 reference of
                  Inl _ \<Rightarrow> (Some (English ''could not verify SSH host identity''), dst1)
                | Inr _ \<Rightarrow> (None, dst1)))
      | Inl e \<Rightarrow>
          (if e \<noteq> ErrSecretNotFound then Some (English ''could not read SSH host identity'') else None, dst))"

definition ssh_routes :: "control \<Rightarrow> ssh_route list" where
  "ssh_routes s = (case cs_ssh s of None \<Rightarrow> [] | Some cfg \<Rightarrow> Ssh_List (sc_Registry cfg))"

text \<open>Steps that may fail, one after the other on the destination.\<close>

definition and_then ::
  "message option \<times> backend \<Rightarrow> (backend \<Rightarrow> message option \<times> backend) \<Rightarrow> message option \<times> backend" where
  "and_then r f = (case r of (Some e, dst) \<Rightarrow> (Some e, dst) | (None, dst) \<Rightarrow> f dst)"

definition migrate_all :: "control_calls \<Rightarrow> control \<Rightarrow> message option \<times> backend" where
  "migrate_all c s =
     and_then (and_then (and_then
       (migrate_http c (cs_secrets s) (List_routes (cs_registry s)) (cs_other s))
       (migrate_ssh c (cs_secrets s) (ssh_routes s)))
       (migrate_proxy c (cs_secrets s)))
       (migrate_identity c (cs_secrets s))"

definition migrateSecretStore :: "control_calls \<Rightarrow> control \<Rightarrow> string \<Rightarrow> outcome" where
  "migrateSecretStore c s targetMode =
     (if \<not> cs_storeFactory s \<or> targetMode = cs_secretMode s \<or> \<not> validSecretStoreMode targetMode
      then fail (English ''invalid secret store migration'') s
      else if \<not> kc_factory_ok c then fail (English ''could not open target secret store'') s
      else (case migrate_all c s of
              (Some e, dst) \<Rightarrow> fail e (s\<lparr>cs_other := dst\<rparr>)
            | (None, dst) \<Rightarrow> succeed c (s\<lparr>cs_other := dst\<rparr>)))"

text \<open>The deletions of the cleanup: whether one failed, and what is left.\<close>

fun delete_references :: "control_calls \<Rightarrow> string list \<Rightarrow> backend \<Rightarrow> bool \<times> backend" where
  "delete_references c [] b = (False, b)"
| "delete_references c (reference # rest) b =
     (case DeleteTarget False (kc_other_delete c reference) b reference of (err, b1) \<Rightarrow>
        (case delete_references c rest b1 of (failed, b2) \<Rightarrow>
           ((err \<noteq> None \<and> err \<noteq> Some ErrSecretNotFound) \<or> failed, b2)))"

definition cleanupSecretStore :: "control_calls \<Rightarrow> control \<Rightarrow> string \<Rightarrow> outcome" where
  "cleanupSecretStore c s mode =
     (if \<not> cs_storeFactory s \<or> mode = cs_secretMode s \<or> \<not> validSecretStoreMode mode
      then fail (English ''invalid secret store cleanup'') s
      else if \<not> kc_factory_ok c then fail (English ''could not open previous secret store'') s
      else
        let references = [DefaultSecretReference, HostIdentitySecretReference]
              @ map hr_TargetSecretRef (List_routes (cs_registry s))
              @ map sr_TargetSecretRef (ssh_routes s)
        in (case delete_references c references (cs_other s) of (failed, b) \<Rightarrow>
             let s1 = s\<lparr>cs_other := b\<rparr>; response = successResponse (kc_format c) s1
             in (if failed
                 then response\<lparr>re_Warning := Some
                   (English ''new secret store is active, but some previous copies could not be removed'')\<rparr>
                 else response, s1)))"

definition ConfigureSecretStoreMigration :: "control \<Rightarrow> string \<Rightarrow> bool \<Rightarrow> string + control" where
  "ConfigureSecretStoreMigration s currentMode factory =
     (if \<not> validSecretStoreMode currentMode \<or> \<not> factory
      then Inl ''invalid secret store migration configuration''
      else Inr (s\<lparr>cs_secretMode := currentMode, cs_storeFactory := factory\<rparr>))"

section \<open>Dispatch\<close>

definition dispatch :: "control_calls \<Rightarrow> control \<Rightarrow> control_request \<Rightarrow> outcome" where
  "dispatch c s r =
     (if rq_Version r \<noteq> protocolVersion \<or> \<not> validToken (rq_Token r) (cs_token s)
      then fail (English ''control authentication failed'') s
      else if rq_Action r = ''status'' \<or> rq_Action r = ''list_routes'' then succeed c s
      else if rq_Action r = ''create_http_route'' then createHTTPRoute c s (rq_Create r)
      else if rq_Action r = ''create_llm_route'' then createLLMRoute c s (rq_Create r)
      else if rq_Action r = ''set_llm_policy'' then setLLMPolicy c s (rq_Alias r) (rq_Create r)
      else if rq_Action r = ''rotate_llm_api_key'' then rotateLLMAPIKey c s (rq_Alias r) (rq_Create r)
      else if rq_Action r = ''reset_llm_usage'' then resetLLMUsage c s (rq_Alias r)
      else if rq_Action r = ''probe_ssh_host_key'' then probeSSHHostKey c s (rq_ProbeSSH r)
      else if rq_Action r = ''create_ssh_route'' then createSSHRoute c s (rq_CreateSSH r)
      else if rq_Action r = ''set_ssh_policy'' then setSSHPolicy c s (rq_Alias r) (rq_SSHPolicy r)
      else if rq_Action r = ''get_ssh_replacements'' then getSSHKeywordReplacements c s (rq_Alias r)
      else if rq_Action r = ''set_ssh_replacements''
        then setSSHKeywordReplacements c s (rq_Alias r) (rq_KeywordReplacements r)
      else if rq_Action r = ''update_ssh_target'' then updateSSHTarget c s (rq_Alias r) (rq_CreateSSH r)
      else if rq_Action r = ''rotate_ssh_credential'' then rotateSSHCredential c s (rq_Alias r) (rq_CreateSSH r)
      else if rq_Action r = ''test_ssh_route'' then testSSHRoute c s (rq_Alias r) (rq_Capability r) (rq_Command r)
      else if rq_Action r = ''test_ssh_route_authentication'' then testSSHRouteAuthentication c s (rq_Alias r)
      else if rq_Action r = ''test_route_health'' then testRouteHealth c s (rq_Alias r)
      else if rq_Action r = ''test_proxy_health'' then testProxyHealth c s
      else if rq_Action r = ''set_route_enabled'' then setRouteEnabled c s (rq_Alias r) (rq_Enabled r)
      else if rq_Action r = ''stop_all'' then stopAll c s
      else if rq_Action r = ''delete_route'' then deleteRoute c s (rq_Alias r)
      else if rq_Action r = ''configure_proxy'' then configureProxy c s (rq_ProxyURL r)
      else if rq_Action r = ''clear_proxy'' then clearProxy c s
      else if rq_Action r = ''migrate_secret_store'' then migrateSecretStore c s (rq_SecretMode r)
      else if rq_Action r = ''cleanup_secret_store'' then cleanupSecretStore c s (rq_SecretMode r)
      else fail (English ''unsupported control action'') s)"

text \<open>One connection: what the strict JSON decoder makes of the bytes (\<open>None\<close> when it fails) is dispatched.\<close>

definition handle :: "control_calls \<Rightarrow> control \<Rightarrow> control_request option \<Rightarrow> outcome" where
  "handle c s received =
     (case received of
        None \<Rightarrow> fail (English ''invalid control request'') s
      | Some request \<Rightarrow> dispatch c s request)"

end
