(* ===== verification/Registry_Store.thy ===== *)
theory Registry_Store
  imports Routes_File Ssh_File
begin

text \<open>
  A registry together with the file its routes are persisted in, as the control server uses the
  pair: change the registry, save, and undo the change when saving failed. The locale
  \<open>stored_registry\<close> extends the registry contract by what saving promises and proves once that each
  change is either in memory and in the file or in neither; it is interpreted on the HTTP and the SSH
  registries with their metadata files.
\<close>

locale stored_registry =
  route_registry view inv upsert remove set_enabled disable_all listing lookup alias_of enabled
    with_enabled admits not_found
  for view :: "'reg \<Rightarrow> string \<Rightarrow> 'route option"
    and inv :: "'reg \<Rightarrow> bool"
    and upsert :: "'reg \<Rightarrow> 'route \<Rightarrow> 'err + 'reg"
    and remove :: "'reg \<Rightarrow> string \<Rightarrow> 'err + 'route \<times> 'reg"
    and set_enabled :: "'reg \<Rightarrow> string \<Rightarrow> bool \<Rightarrow> 'err + 'reg"
    and disable_all :: "'reg \<Rightarrow> 'reg"
    and listing :: "'reg \<Rightarrow> 'route list"
    and lookup :: "'reg \<Rightarrow> string \<Rightarrow> 'err + 'route"
    and alias_of :: "'route \<Rightarrow> string"
    and enabled :: "'route \<Rightarrow> bool"
    and with_enabled :: "bool \<Rightarrow> 'route \<Rightarrow> 'route"
    and admits :: "(string \<Rightarrow> 'route option) \<Rightarrow> 'route \<Rightarrow> bool"
    and not_found :: 'err +
  fixes save :: "'os \<Rightarrow> 'route list \<Rightarrow> 'f \<Rightarrow> string option \<times> 'f"
    and holds :: "(string \<Rightarrow> 'route option) \<Rightarrow> 'f \<Rightarrow> bool"
    and late :: "'os \<Rightarrow> bool"
  assumes save_ok: "inv r \<Longrightarrow> save os (listing r) f = (None, f') \<Longrightarrow> holds (view r) f'"
    and save_failed: "save os routes f = (Some e, f') \<Longrightarrow> \<not> late os \<Longrightarrow> f' = f"
begin

text \<open>A registry that shows the same routes as before, beside a file that is the same unless the failure was late.\<close>

definition restored :: "'os \<Rightarrow> 'reg \<Rightarrow> 'f \<Rightarrow> 'reg \<Rightarrow> 'f \<Rightarrow> bool" where
  "restored os r f r' f' \<longleftrightarrow> inv r' \<and> view r' = view r \<and> (\<not> late os \<longrightarrow> f' = f)"

lemma upsert_saved:
  assumes "inv r" "upsert r x = Inr r1" "save os (listing r1) f = (None, f')"
  shows "inv r1 \<and> view r1 = (view r)(alias_of x \<mapsto> x) \<and> holds (view r1) f'"
  using upsert_view [OF assms(1,2)] save_ok [OF _ assms(3)] by blast

lemma insert_undone:
  assumes "inv r" "view r (alias_of x) = None" "upsert r x = Inr r1"
    "save os (listing r1) f = (Some e, f')"
  shows "\<exists>r2. remove r1 (alias_of x) = Inr (x, r2) \<and> restored os r f r2 f'"
  using rollback_insert [OF assms(1-3)] save_failed [OF assms(4)] unfolding restored_def by blast

lemma replace_undone:
  assumes "inv r" "view r a = Some old" "upsert r new = Inr r1" "alias_of new = a"
    "save os (listing r1) f = (Some e, f')"
  shows "\<exists>r2. upsert r1 old = Inr r2 \<and> restored os r f r2 f'"
  using rollback_replace [OF assms(1-4)] save_failed [OF assms(5)] unfolding restored_def by blast

lemma remove_cases:
  assumes "inv r" "remove r a = Inr (x, r1)"
  shows "view r a = Some x \<and> inv r1 \<and> view r1 = (view r)(a := None)"
proof -
  obtain y where y: "view r a = Some y" using assms(2) remove_none [of r a] by (cases "view r a") auto
  from remove_some [OF assms(1) y] assms(2) y show ?thesis by auto
qed

lemma remove_saved:
  assumes "inv r" "remove r a = Inr (x, r1)" "save os (listing r1) f = (None, f')"
  shows "view r a = Some x \<and> inv r1 \<and> view r1 = (view r)(a := None) \<and> holds (view r1) f'"
  using remove_cases [OF assms(1,2)] save_ok [OF _ assms(3)] by blast

lemma remove_undone:
  assumes "inv r" "remove r a = Inr (x, r1)" "save os (listing r1) f = (Some e, f')"
  shows "\<exists>r2. upsert r1 x = Inr r2 \<and> restored os r f r2 f'"
  using rollback_remove [OF assms(1,2)] save_failed [OF assms(3)] unfolding restored_def by blast

lemma enabled_saved:
  assumes "inv r" "view r a = Some x" "set_enabled r a b = Inr r1"
    "save os (listing r1) f = (None, f')"
  shows "inv r1 \<and> view r1 = (view r)(a \<mapsto> with_enabled b x) \<and> holds (view r1) f'"
proof -
  from set_enabled_some [OF assms(1,2), of b] assms(3)
  have "inv r1 \<and> view r1 = (view r)(a \<mapsto> with_enabled b x)" by auto
  with save_ok [OF _ assms(4)] show ?thesis by blast
qed

lemma enabled_undone:
  assumes "inv r" "view r a = Some x" "set_enabled r a b = Inr r1"
    "save os (listing r1) f = (Some e, f')"
  shows "\<exists>r2. set_enabled r1 a (enabled x) = Inr r2 \<and> restored os r f r2 f'"
  using rollback_enabled [OF assms(1-3)] save_failed [OF assms(4)] unfolding restored_def by blast

lemma disable_all_saved:
  assumes "inv r" "save os (listing (disable_all r)) f = (None, f')"
  shows "inv (disable_all r) \<and> holds (view (disable_all r)) f'"
  using disable_all_view [OF assms(1)] save_ok [OF _ assms(2)] by blast

lemma restored_holds:
  "restored os r f r' f' \<Longrightarrow> \<not> late os \<Longrightarrow> holds (view r) f \<Longrightarrow> holds (view r') f'"
  by (simp add: restored_def)

end

section \<open>What the files hold\<close>

text \<open>
  The persisted routes of a metadata file by alias: none when there is no file. A file that was saved is in
  the current version of the format.
\<close>

definition stored_view :: "route_file \<Rightarrow> string \<Rightarrow> persisted_route option" where
  "stored_view f =
     (case f of Some (JSONDoc d _) \<Rightarrow> map_of (map (\<lambda>p. (pr_Alias p, p)) (md_Routes d)) | _ \<Rightarrow> Map.empty)"

definition current_version :: "route_file \<Rightarrow> bool" where
  "current_version f \<longleftrightarrow> (case f of Some (JSONDoc d _) \<Rightarrow> md_Version d = metadataVersion | _ \<Rightarrow> True)"

definition file_holds :: "(string \<Rightarrow> http_route option) \<Rightarrow> route_file \<Rightarrow> bool" where
  "file_holds m f \<longleftrightarrow>
     current_version f \<and> stored_view f = (\<lambda>a. map_option (\<lambda>r. json_route (persist_route r)) (m a))"

definition ssh_stored_view :: "ssh_route_file \<Rightarrow> string \<Rightarrow> ssh_persisted_route option" where
  "ssh_stored_view f =
     (case f of Some (JSONDoc d _) \<Rightarrow> map_of (map (\<lambda>p. (ps_Alias p, p)) (sd_Routes d)) | _ \<Rightarrow> Map.empty)"

definition ssh_file_holds :: "(string \<Rightarrow> ssh_route option) \<Rightarrow> ssh_route_file \<Rightarrow> bool" where
  "ssh_file_holds m f \<longleftrightarrow>
     ssh_stored_view f = (\<lambda>a. map_option (\<lambda>r. ssh_json_route (ssh_persist_route r)) (m a))"

definition late_failure :: "write_calls \<Rightarrow> bool" where
  "late_failure os \<longleftrightarrow> \<not> wc_syncdir_ok os"

lemma alias_tail_ascii: "alias_tail c \<Longrightarrow> c < CHR 0x80"
  by (auto simp: alias_tail_def char_class_defs less_eq_char_def less_char_def)

lemma alias_coerce: "alias_pattern a \<Longrightarrow> utf8_coerce a = a"
proof -
  assume "alias_pattern a"
  then have "list_all (\<lambda>c. c < CHR 0x80) a"
    by (auto simp: alias_pattern_def slug_pattern_def list_all_iff alias_tail_def
        intro!: alias_tail_ascii split: list.splits)
  then show ?thesis by (simp add: utf8_valid_ascii utf8_coerce_valid)
qed

lemma map_of_keyed:
  assumes "distinct (map key xs)"
  shows "map_of (map (\<lambda>x. (key x, x)) xs) a = Some x \<longleftrightarrow> x \<in> set xs \<and> key x = a"
proof -
  have "distinct (map fst (map (\<lambda>x. (key x, x)) xs))" using assms by (simp add: comp_def)
  then show ?thesis by (auto simp: map_of_eq_Some_iff)
qed

lemma map_of_list_all2:
  assumes all: "list_all2 P ps rs" and keys: "\<And>p r. P p r \<Longrightarrow> rkey r = pkey p"
    and dist: "distinct (map pkey ps)" and m: "\<And>r. m a = Some r \<longleftrightarrow> r \<in> set rs \<and> rkey r = a"
  shows "rel_option P (map_of (map (\<lambda>p. (pkey p, p)) ps) a) (m a)"
proof (cases "map_of (map (\<lambda>p. (pkey p, p)) ps) a")
  case (Some p)
  then have "p \<in> set ps" "pkey p = a" using map_of_keyed [OF dist] by auto
  then obtain r where "r \<in> set rs" "P p r" using all by (metis in_set_conv_nth list_all2_conv_all_nth)
  moreover from this have "m a = Some r" using m keys \<open>pkey p = a\<close> by metis
  ultimately show ?thesis by (simp add: Some)
next
  case None
  have "m a \<noteq> Some r" for r
  proof
    assume "m a = Some r"
    with m have "r \<in> set rs" "rkey r = a" by auto
    then obtain p where "p \<in> set ps" "P p r" using all by (metis in_set_conv_nth list_all2_conv_all_nth)
    then have "map_of (map (\<lambda>p. (pkey p, p)) ps) a = Some p"
      using keys map_of_keyed [OF dist] \<open>rkey r = a\<close> by metis
    with None show False by simp
  qed
  then show ?thesis using None by (cases "m a") auto
qed

lemma keys_list_all2: "list_all2 P ps rs \<Longrightarrow> (\<And>p r. P p r \<Longrightarrow> rkey r = pkey p) \<Longrightarrow> map pkey ps = map rkey rs"
  by (induction rule: list_all2_induct) auto

lemma map_of_sorted_images:
  assumes mem: "\<And>a x. m a = Some x \<longleftrightarrow> x \<in> set xs \<and> key x = a"
    and ik: "\<And>x. x \<in> set xs \<Longrightarrow> ikey (img x) = key x"
    and gk: "\<And>x. x \<in> set xs \<Longrightarrow> ikey (g (img x)) = key x"
    and dist: "distinct (map key xs)"
  shows "map_of (map (\<lambda>p. (ikey p, p)) (map g (sort_key ikey (map img xs))))
    = (\<lambda>a. map_option (\<lambda>x. g (img x)) (m a))"
proof
  fix a
  let ?ps = "map g (sort_key ikey (map img xs))"
  have set_ps: "set ?ps = (\<lambda>x. g (img x)) ` set xs" by auto
  have keys: "map ikey ?ps = map ikey (sort_key ikey (map img xs))"
    using gk ik by auto
  have "distinct (map ikey (map img xs))"
    using ik dist by (simp add: comp_def cong: map_cong)
  then have "distinct (map ikey (sort_key ikey (map img xs)))"
    by (auto simp: distinct_map inj_on_def)
  then have d: "distinct (map ikey ?ps)" by (simp only: keys)
  have key: "map_of (map (\<lambda>p. (ikey p, p)) ?ps) a = Some p \<longleftrightarrow> p \<in> set ?ps \<and> ikey p = a" for p
    by (rule map_of_keyed [OF d])
  show "map_of (map (\<lambda>p. (ikey p, p)) ?ps) a = map_option (\<lambda>x. g (img x)) (m a)"
  proof (cases "m a")
    case (Some x)
    then have "x \<in> set xs" "key x = a" using mem by auto
    then have "g (img x) \<in> set ?ps \<and> ikey (g (img x)) = a" using gk set_ps by auto
    then show ?thesis using key [of "g (img x)"] Some by simp
  next
    case None
    have "map_of (map (\<lambda>p. (ikey p, p)) ?ps) a \<noteq> Some p" for p
    proof
      assume "map_of (map (\<lambda>p. (ikey p, p)) ?ps) a = Some p"
      then have "p \<in> set ?ps \<and> ikey p = a" by (simp only: key)
      then obtain x where "x \<in> set xs" "p = g (img x)" "ikey p = a" using set_ps by auto
      then have "m a = Some x" using gk mem by auto
      with None show False by simp
    qed
    with None show ?thesis by (cases "map_of (map (\<lambda>p. (ikey p, p)) ?ps) a") auto
  qed
qed

lemma persist_all_inv: "persist_all rs = Inr ps \<Longrightarrow> ps = map persist_route rs"
  by (induction rs arbitrary: ps) (auto split: if_splits sum.splits)

lemma ssh_persist_all_inv: "ssh_persist_all seen rs = Inr ps \<Longrightarrow> ps = map ssh_persist_route rs"
  by (induction rs arbitrary: ps seen) (auto split: if_splits sum.splits)

lemma Save_cases:
  "Save os routes f = (err, f') \<Longrightarrow>
   (err = None \<longrightarrow> (\<exists>d. route_document routes = Inr d \<and> f' = Some (JSONDoc (json_document d) False)))
   \<and> (err \<noteq> None \<longrightarrow> wc_syncdir_ok os \<longrightarrow> f' = f)"
  by (auto simp: Save_def install_private_def split: if_splits sum.splits)

lemma Ssh_Save_cases:
  "Ssh_Save os routes f = (err, f') \<Longrightarrow>
   (err = None \<longrightarrow> (\<exists>d. ssh_route_document routes = Inr d \<and> f' = Some (JSONDoc (ssh_json_document d) False)))
   \<and> (err \<noteq> None \<longrightarrow> wc_syncdir_ok os \<longrightarrow> f' = f)"
  by (auto simp: Ssh_Save_def install_private_def split: if_splits sum.splits)

lemma Save_holds:
  assumes "registry_inv reg" "Save os (List_routes reg) f = (None, f')"
  shows "file_holds (map_of reg) f'"
proof -
  from Save_cases [OF assms(2)] obtain d where
    d: "route_document (List_routes reg) = Inr d" "f' = Some (JSONDoc (json_document d) False)" by auto
  then obtain ps where ps: "persist_all (List_routes reg) = Inr ps"
      "d = \<lparr>md_Version = metadataVersion, md_Routes = sort_key pr_Alias ps\<rparr>"
    by (auto simp: route_document_def split: sum.splits)
  have f: "f' = Some (JSONDoc \<lparr>md_Version = metadataVersion,
      md_Routes = map json_route (sort_key pr_Alias (map persist_route (List_routes reg)))\<rparr> False)"
    using d(2) ps persist_all_inv [OF ps(1)] by (simp add: json_document_def)
  have valid: "r \<in> set (List_routes reg) \<Longrightarrow> utf8_coerce (hr_Alias r) = hr_Alias r" for r
    using http_reg.listing_view [OF assms(1)] registry_invD [OF assms(1)] Validate_alias alias_coerce
    by blast
  have "stored_view f' = map_of (map (\<lambda>p. (pr_Alias p, p))
      (map json_route (sort_key pr_Alias (map persist_route (List_routes reg)))))"
    by (simp only: f stored_view_def option.case file_text.case metadata_document.select_convs)
  also have "\<dots> = (\<lambda>a. map_option (\<lambda>r. json_route (persist_route r)) (map_of reg a))"
  proof (rule map_of_sorted_images [where key = hr_Alias])
    show "map_of reg a = Some x \<longleftrightarrow> x \<in> set (List_routes reg) \<and> hr_Alias x = a" for a x
      using http_reg.listing_view [OF assms(1), of x] registry_invD [OF assms(1), of a x] by auto
    show "distinct (map hr_Alias (List_routes reg))" by (rule http_reg.listing_distinct [OF assms(1)])
    show "x \<in> set (List_routes reg) \<Longrightarrow> pr_Alias (json_route (persist_route x)) = hr_Alias x" for x
      using valid by (simp add: json_route_def persist_route_def)
  qed simp
  finally show ?thesis by (simp add: file_holds_def current_version_def f)
qed

lemma Ssh_Save_holds:
  assumes "ssh_registry_inv reg" "Ssh_Save os (Ssh_List reg) f = (None, f')"
  shows "ssh_file_holds (map_of reg) f'"
proof -
  from Ssh_Save_cases [OF assms(2)] obtain d where
    d: "ssh_route_document (Ssh_List reg) = Inr d" "f' = Some (JSONDoc (ssh_json_document d) False)" by auto
  then obtain ps where ps: "ssh_persist_all [] (Ssh_List reg) = Inr ps"
      "d = \<lparr>sd_Version = sshMetadataVersion, sd_Routes = sort_key ps_Alias ps\<rparr>"
    by (auto simp: ssh_route_document_def split: sum.splits)
  have f: "f' = Some (JSONDoc \<lparr>sd_Version = sshMetadataVersion,
      sd_Routes = map ssh_json_route (sort_key ps_Alias (map ssh_persist_route (Ssh_List reg)))\<rparr> False)"
    using d(2) ps ssh_persist_all_inv [OF ps(1)] by (simp add: ssh_json_document_def)
  have valid: "r \<in> set (Ssh_List reg) \<Longrightarrow> utf8_coerce (sr_Alias r) = sr_Alias r" for r
  proof -
    assume "r \<in> set (Ssh_List reg)"
    then have "Ssh_Validate r = None"
      using ssh_reg.listing_view [OF assms(1)] ssh_registry_invD [OF assms(1)] by blast
    then have "alias_pattern (sr_Alias r)" by (auto simp: Ssh_Validate_def split: if_splits)
    then show ?thesis by (rule alias_coerce)
  qed
  have "ssh_stored_view f' = map_of (map (\<lambda>p. (ps_Alias p, p))
      (map ssh_json_route (sort_key ps_Alias (map ssh_persist_route (Ssh_List reg)))))"
    by (simp only: f ssh_stored_view_def option.case file_text.case ssh_metadata_document.select_convs)
  also have "\<dots> = (\<lambda>a. map_option (\<lambda>r. ssh_json_route (ssh_persist_route r)) (map_of reg a))"
  proof (rule map_of_sorted_images [where key = sr_Alias])
    show "map_of reg a = Some x \<longleftrightarrow> x \<in> set (Ssh_List reg) \<and> sr_Alias x = a" for a x
      using ssh_reg.listing_view [OF assms(1), of x] ssh_registry_invD [OF assms(1), of a x] by auto
    show "distinct (map sr_Alias (Ssh_List reg))" by (rule ssh_reg.listing_distinct [OF assms(1)])
    show "x \<in> set (Ssh_List reg) \<Longrightarrow> ps_Alias (ssh_json_route (ssh_persist_route x)) = sr_Alias x" for x
      using valid by (simp add: ssh_json_route_def ssh_persist_route_def)
  qed simp
  finally show ?thesis by (simp add: ssh_file_holds_def)
qed

interpretation http_store: stored_registry
  map_of registry_inv Upsert Delete SetEnabled DisableAll List_routes Lookup
  hr_Alias hr_Enabled "\<lambda>b r. r\<lparr>hr_Enabled := b\<rparr>" "\<lambda>m r. Validate r = None" ErrNotFound
  Save file_holds late_failure
  by unfold_locales (use Save_cases in \<open>auto simp: Save_holds late_failure_def\<close>)

interpretation ssh_store: stored_registry
  map_of ssh_registry_inv Ssh_Upsert Ssh_Delete Ssh_SetEnabled Ssh_DisableAll Ssh_List Ssh_Lookup
  sr_Alias sr_Enabled "\<lambda>b r. r\<lparr>sr_Enabled := b\<rparr>" ssh_admits ErrRouteNotFound
  Ssh_Save ssh_file_holds late_failure
  by unfold_locales (use Ssh_Save_cases in \<open>auto simp: Ssh_Save_holds late_failure_def\<close>)

end
