(* ===== verification/Control_Laws.thy ===== *)
theory Control_Laws
  imports Control_Actions Registry_Store
begin

text \<open>
  The control server's invariant, what a failed action leaves as it was, and the agreement of the
  registries with their files: the predicate \<open>good_step\<close> says all three of an action, and is proved
  here of every action but \<open>stopAll\<close>.
\<close>

definition ssh_view :: "control \<Rightarrow> string \<Rightarrow> ssh_route option" where
  "ssh_view s = (case cs_ssh s of None \<Rightarrow> Map.empty | Some cfg \<Rightarrow> map_of (sc_Registry cfg))"

definition refs_ok :: "(string \<Rightarrow> http_route option) \<Rightarrow> bool" where
  "refs_ok m \<longleftrightarrow> (\<forall>a r. m a = Some r \<longrightarrow> hr_TargetSecretRef r = ''routes/'' @ a)"

definition apart :: "(string \<Rightarrow> http_route option) \<Rightarrow> (string \<Rightarrow> ssh_route option) \<Rightarrow> bool" where
  "apart m n \<longleftrightarrow> (\<forall>a. m a = None \<or> n a = None)"

definition ssh_ok :: "ssh_configuration option \<Rightarrow> bool" where
  "ssh_ok opt \<longleftrightarrow> (case opt of None \<Rightarrow> True | Some cfg \<Rightarrow> ssh_registry_inv (sc_Registry cfg))"

definition control_inv :: "control \<Rightarrow> bool" where
  "control_inv s \<longleftrightarrow>
     registry_inv (cs_registry s) \<and> refs_ok (map_of (cs_registry s)) \<and> ssh_ok (cs_ssh s)
     \<and> apart (map_of (cs_registry s)) (ssh_view s)"

definition unchanged :: "control \<Rightarrow> control \<Rightarrow> bool" where
  "unchanged s s' \<longleftrightarrow>
     map_of (cs_registry s') = map_of (cs_registry s) \<and> ssh_view s' = ssh_view s
     \<and> cs_egress s' = cs_egress s \<and> cs_health s' = cs_health s \<and> cs_activity s' = cs_activity s"

definition ssh_disk :: "ssh_configuration option \<Rightarrow> bool" where
  "ssh_disk opt \<longleftrightarrow>
     (case opt of None \<Rightarrow> True | Some cfg \<Rightarrow> ssh_file_holds (map_of (sc_Registry cfg)) (sc_File cfg))"

definition disk_current :: "control \<Rightarrow> bool" where
  "disk_current s \<longleftrightarrow> file_holds (map_of (cs_registry s)) (cs_file s) \<and> ssh_disk (cs_ssh s)"

text \<open>No write of the action fails after it has replaced the file.\<close>

definition on_time :: "control_calls \<Rightarrow> bool" where
  "on_time c \<longleftrightarrow> \<not> late_failure (kc_save c) \<and> \<not> late_failure (kc_save_ssh c)"

definition good_step :: "control_calls \<Rightarrow> control \<Rightarrow> outcome \<Rightarrow> bool" where
  "good_step c s out \<longleftrightarrow>
     control_inv (snd out) \<and> cs_token (snd out) = cs_token s
     \<and> (cs_ssh s \<noteq> None \<longrightarrow> cs_ssh (snd out) \<noteq> None)
     \<and> (\<not> re_OK (fst out) \<longrightarrow> unchanged s (snd out))
     \<and> (on_time c \<longrightarrow> disk_current s \<longrightarrow> disk_current (snd out))"

section \<open>Steps that leave the registries alone\<close>

lemma re_OK_error [simp]: "\<not> re_OK (error_response e)"
  by (simp add: error_response_def)

lemma re_OK_success [simp]: "re_OK (successResponse format s)"
  by (simp add: successResponse_def)

lemma unchanged_refl [simp]: "unchanged s s"
  by (simp add: unchanged_def)

lemma ssh_view_simps [simp]:
  "ssh_view (s\<lparr>cs_secrets := b\<rparr>) = ssh_view s" "ssh_view (s\<lparr>cs_registry := reg\<rparr>) = ssh_view s"
  "ssh_view (s\<lparr>cs_file := f\<rparr>) = ssh_view s" "ssh_view (s\<lparr>cs_other := b\<rparr>) = ssh_view s"
  "ssh_view (s\<lparr>cs_egress := m\<rparr>) = ssh_view s" "ssh_view (s\<lparr>cs_health := h\<rparr>) = ssh_view s"
  "ssh_view (s\<lparr>cs_activity := rec\<rparr>) = ssh_view s"
  "ssh_view (s\<lparr>cs_ssh := Some cfg\<rparr>) = map_of (sc_Registry cfg)"
  by (simp_all add: ssh_view_def)

text \<open>One order of the updates that an undone change makes.\<close>

lemma update_order [simp]:
  "s\<lparr>cs_file := f, cs_registry := reg\<rparr> = s\<lparr>cs_registry := reg, cs_file := f\<rparr>"
  "cfg\<lparr>sc_File := g, sc_Registry := ssh\<rparr> = cfg\<lparr>sc_Registry := ssh, sc_File := g\<rparr>"
  by simp_all

lemma ssh_ok_Some [simp]: "ssh_ok (Some cfg) = ssh_registry_inv (sc_Registry cfg)"
  by (simp add: ssh_ok_def)

lemma ssh_disk_Some [simp]: "ssh_disk (Some cfg) = ssh_file_holds (map_of (sc_Registry cfg)) (sc_File cfg)"
  by (simp add: ssh_disk_def)

text \<open>A state with the same registries, files and token.\<close>

definition same_routes :: "control \<Rightarrow> control \<Rightarrow> bool" where
  "same_routes s s' \<longleftrightarrow> cs_registry s' = cs_registry s \<and> cs_ssh s' = cs_ssh s \<and> cs_file s' = cs_file s
     \<and> cs_token s' = cs_token s"

lemma same_routes_step:
  assumes "control_inv s" "same_routes s s'" "\<not> re_OK resp \<longrightarrow> unchanged s s'"
  shows "good_step c s (resp, s')"
  using assms
  by (simp add: good_step_def control_inv_def disk_current_def same_routes_def ssh_view_def)

lemma fail_step: "control_inv s \<Longrightarrow> good_step c s (fail e s)"
  by (simp add: fail_def same_routes_step same_routes_def)

lemma succeed_step: "control_inv s \<Longrightarrow> same_routes s s' \<Longrightarrow> good_step c s (succeed c s')"
  by (simp add: succeed_def same_routes_step)

text \<open>What is in the secret store does not matter to a step, before or after it.\<close>

lemma secrets_irrelevant [simp]:
  "control_inv (s\<lparr>cs_secrets := b\<rparr>) = control_inv s"
  "unchanged (s\<lparr>cs_secrets := b\<rparr>) s' = unchanged s s'"
  "unchanged s (s'\<lparr>cs_secrets := b\<rparr>) = unchanged s s'"
  "disk_current (s\<lparr>cs_secrets := b\<rparr>) = disk_current s"
  by (simp_all add: control_inv_def unchanged_def disk_current_def)

lemma good_step_secrets: "good_step c (s\<lparr>cs_secrets := b\<rparr>) out = good_step c s out"
  by (simp add: good_step_def)

lemma fail_secrets_step: "control_inv s \<Longrightarrow> good_step c s (fail e (s\<lparr>cs_secrets := b\<rparr>))"
  by (simp add: fail_def good_step_def)

lemma put_http_secrets: "put_http c s r t = (e, s1) \<Longrightarrow> \<exists>b. s1 = s\<lparr>cs_secrets := b\<rparr>"
  by (auto simp: put_http_def split: prod.splits)

lemma put_ssh_secrets: "put_ssh c s r t = (e, s1) \<Longrightarrow> \<exists>b. s1 = s\<lparr>cs_secrets := b\<rparr>"
  by (auto simp: put_ssh_def split: prod.splits)

lemma delete_target_secrets: "delete_target c s r = (e, s1) \<Longrightarrow> \<exists>b. s1 = s\<lparr>cs_secrets := b\<rparr>"
  by (auto simp: delete_target_def split: prod.splits)

lemma snd_delete_target: "\<exists>b. snd (delete_target c s r) = s\<lparr>cs_secrets := b\<rparr>"
  using delete_target_secrets by (metis prod.collapse)

section \<open>Changes of one HTTP route\<close>

lemma apart_upd: "apart m n \<Longrightarrow> n a = None \<Longrightarrow> apart (m(a \<mapsto> x)) n"
  by (simp add: apart_def)

lemma apart_del: "apart m n \<Longrightarrow> apart (m(a := None)) n"
  by (simp add: apart_def)

lemma apart_ssh_upd: "apart m n \<Longrightarrow> m a = None \<Longrightarrow> apart m (n(a \<mapsto> x))"
  by (simp add: apart_def)

lemma apart_ssh_del: "apart m n \<Longrightarrow> apart m (n(a := None))"
  by (simp add: apart_def)

lemma refs_upd: "refs_ok m \<Longrightarrow> hr_TargetSecretRef x = ''routes/'' @ a \<Longrightarrow> refs_ok (m(a \<mapsto> x))"
  by (simp add: refs_ok_def)

lemma refs_del: "refs_ok m \<Longrightarrow> refs_ok (m(a := None))"
  by (simp add: refs_ok_def)

text \<open>After a change that was saved, and after one that was undone.\<close>

lemma http_saved_step:
  assumes "control_inv s" "registry_inv reg" "refs_ok (map_of reg)" "apart (map_of reg) (ssh_view s)"
    "file_holds (map_of reg) f" "re_OK resp"
  shows "good_step c s (resp, s\<lparr>cs_registry := reg, cs_file := f, cs_health := h, cs_secrets := b\<rparr>)"
  using assms by (simp add: good_step_def control_inv_def disk_current_def ssh_view_def)

lemma http_restored_step:
  assumes "control_inv s" "http_store.restored (kc_save c) (cs_registry s) (cs_file s) reg f"
  shows "good_step c s (fail e (s\<lparr>cs_registry := reg, cs_file := f, cs_secrets := b\<rparr>))"
  using assms
  by (simp add: good_step_def control_inv_def disk_current_def unchanged_def fail_def on_time_def
      http_store.restored_def ssh_view_def)

lemma ssh_saved_step:
  assumes "control_inv s" "ssh_registry_inv (sc_Registry cfg)"
    "apart (map_of (cs_registry s)) (map_of (sc_Registry cfg))"
    "ssh_file_holds (map_of (sc_Registry cfg)) (sc_File cfg)" "re_OK resp"
  shows "good_step c s (resp, s\<lparr>cs_ssh := Some cfg, cs_health := h, cs_secrets := b\<rparr>)"
  using assms by (simp add: good_step_def control_inv_def disk_current_def ssh_view_def)

lemma ssh_restored_step:
  assumes "control_inv s" "cs_ssh s = Some cfg"
    "ssh_store.restored (kc_save_ssh c) (sc_Registry cfg) (sc_File cfg) (sc_Registry cfg') (sc_File cfg')"
  shows "good_step c s (fail e (s\<lparr>cs_ssh := Some cfg', cs_secrets := b\<rparr>))"
  using assms
  by (simp add: good_step_def control_inv_def disk_current_def unchanged_def fail_def on_time_def
      ssh_store.restored_def ssh_view_def)

lemma insert_route_step:
  assumes inv: "control_inv s" and new: "map_of (cs_registry s) (hr_Alias x) = None"
    "ssh_view s (hr_Alias x) = None" and ref: "hr_TargetSecretRef x = ''routes/'' @ hr_Alias x"
  shows "good_step c s (insert_route c s x token m1 m2)"
proof (cases "Upsert (cs_registry s) x")
  case (Inl e)
  then show ?thesis
    using snd_delete_target [of c s "hr_TargetSecretRef x"] inv
    by (auto simp: insert_route_def fail_secrets_step)
next
  case (Inr reg)
  have reg: "registry_inv (cs_registry s)" using inv by (simp add: control_inv_def)
  obtain err f where sv: "Save (kc_save c) (List_routes reg) (cs_file s) = (err, f)" by fastforce
  show ?thesis
  proof (cases err)
    case None
    note saved = http_store.upsert_saved [OF reg Inr sv [unfolded None]]
    have "good_step c s (resp, s\<lparr>cs_registry := reg, cs_file := f, cs_health := cs_health s,
        cs_secrets := cs_secrets s\<rparr>)" if "re_OK resp" for resp
      using inv saved new ref that
      by (intro http_saved_step) (auto simp: control_inv_def intro: refs_upd apart_upd)
    then show ?thesis
      by (simp add: insert_route_def Inr save_routes_def sv None succeed_created_def)
  next
    case (Some e)
    from http_store.insert_undone [OF reg new(1) Inr sv [unfolded Some]]
    obtain r2 where r2: "Delete reg (hr_Alias x) = Inr (x, r2)"
        "http_store.restored (kc_save c) (cs_registry s) (cs_file s) r2 f" by blast
    let ?s = "s\<lparr>cs_registry := r2, cs_file := f\<rparr>"
    obtain b where "snd (delete_target c ?s (hr_TargetSecretRef x)) = ?s\<lparr>cs_secrets := b\<rparr>"
      using snd_delete_target by blast
    with http_restored_step [OF inv r2(2), of m2 b] show ?thesis
      by (simp add: insert_route_def Inr save_routes_def sv Some r2 Let_def)
  qed
qed

lemma replace_route_step:
  assumes inv: "control_inv s" and old: "map_of (cs_registry s) a = Some old"
    and new: "hr_Alias new = a" "hr_TargetSecretRef new = hr_TargetSecretRef old"
    and ok: "\<And>s1. re_OK (fst (cont s1))" "\<And>s1. snd (cont s1) = s1"
  shows "good_step c s (replace_route c s old new m1 m2 cont)"
proof (cases "Upsert (cs_registry s) new")
  case (Inl e)
  then show ?thesis using inv by (simp add: replace_route_def fail_step)
next
  case (Inr reg)
  have reg: "registry_inv (cs_registry s)" using inv by (simp add: control_inv_def)
  obtain err f where sv: "Save (kc_save c) (List_routes reg) (cs_file s) = (err, f)" by fastforce
  show ?thesis
  proof (cases err)
    case None
    note saved = http_store.upsert_saved [OF reg Inr sv [unfolded None]]
    let ?s1 = "s\<lparr>cs_registry := reg, cs_file := f\<rparr>"
    have free: "ssh_view s a = None" using inv old unfolding control_inv_def apart_def by (metis option.distinct(1))
    have "hr_TargetSecretRef new = ''routes/'' @ a"
      using inv old new by (simp add: control_inv_def refs_ok_def)
    then have "good_step c s (fst (cont ?s1), s\<lparr>cs_registry := reg, cs_file := f,
        cs_health := cs_health s, cs_secrets := cs_secrets s\<rparr>)"
      using inv saved new free ok by (intro http_saved_step) (auto simp: control_inv_def intro: refs_upd apart_upd)
    moreover have "cont ?s1 = (fst (cont ?s1), ?s1)" using ok(2) by (metis prod.collapse)
    ultimately show ?thesis by (simp add: replace_route_def Inr save_routes_def sv None)
  next
    case (Some e)
    from http_store.replace_undone [OF reg old Inr new(1) sv [unfolded Some]]
    obtain r2 where r2: "Upsert reg old = Inr r2"
        "http_store.restored (kc_save c) (cs_registry s) (cs_file s) r2 f" by blast
    from http_restored_step [OF inv r2(2), of m2 "cs_secrets s"] show ?thesis
      by (simp add: replace_route_def Inr save_routes_def sv Some r2)
  qed
qed

section \<open>Changes of one SSH route\<close>

lemma insert_ssh_route_step:
  assumes inv: "control_inv s" and cfg: "cs_ssh s = Some cfg"
    and new: "map_of (cs_registry s) (sr_Alias x) = None" "map_of (sc_Registry cfg) (sr_Alias x) = None"
  shows "good_step c s (insert_ssh_route c s cfg x token)"
proof (cases "Ssh_Upsert (sc_Registry cfg) x")
  case (Inl e)
  then show ?thesis
    using snd_delete_target [of c s "sr_TargetSecretRef x"] inv
    by (auto simp: insert_ssh_route_def fail_secrets_step)
next
  case (Inr reg)
  have reg: "ssh_registry_inv (sc_Registry cfg)" using inv cfg by (simp add: control_inv_def)
  have ap: "apart (map_of (cs_registry s)) (map_of (sc_Registry cfg))"
    using inv cfg by (simp add: control_inv_def ssh_view_def)
  obtain err f where sv: "Ssh_Save (kc_save_ssh c) (Ssh_List reg) (sc_File cfg) = (err, f)" by fastforce
  show ?thesis
  proof (cases err)
    case None
    note saved = ssh_store.upsert_saved [OF reg Inr sv [unfolded None]]
    have "good_step c s (resp, s\<lparr>cs_ssh := Some (cfg\<lparr>sc_Registry := reg, sc_File := f\<rparr>),
        cs_health := cs_health s, cs_secrets := cs_secrets s\<rparr>)" if "re_OK resp" for resp
      using inv saved new that ap by (intro ssh_saved_step) (auto intro: apart_ssh_upd)
    then show ?thesis
      by (simp add: insert_ssh_route_def Inr save_ssh_def sv None succeed_created_def)
  next
    case (Some e)
    from ssh_store.insert_undone [OF reg new(2) Inr sv [unfolded Some]]
    obtain r2 where r2: "Ssh_Delete reg (sr_Alias x) = Inr (x, r2)"
        "ssh_store.restored (kc_save_ssh c) (sc_Registry cfg) (sc_File cfg) r2 f" by blast
    let ?cfg = "cfg\<lparr>sc_Registry := r2, sc_File := f\<rparr>"
    let ?s = "s\<lparr>cs_ssh := Some ?cfg\<rparr>"
    obtain b where "snd (delete_target c ?s (sr_TargetSecretRef x)) = ?s\<lparr>cs_secrets := b\<rparr>"
      using snd_delete_target by blast
    with ssh_restored_step [OF inv cfg, of c ?cfg _ b] r2 show ?thesis
      by (simp add: insert_ssh_route_def Inr save_ssh_def sv Some Let_def)
  qed
qed

lemma replace_ssh_route_step:
  assumes inv: "control_inv s" and cfg: "cs_ssh s = Some cfg"
    and old: "map_of (sc_Registry cfg) a = Some old" and new: "sr_Alias new = a"
    and ok: "\<And>s1. re_OK (fst (cont s1))" "\<And>s1. snd (cont s1) = s1"
  shows "good_step c s (replace_ssh_route c s cfg old new m1 m2 cont)"
proof (cases "Ssh_Upsert (sc_Registry cfg) new")
  case (Inl e)
  then show ?thesis using inv by (simp add: replace_ssh_route_def fail_step)
next
  case (Inr reg)
  have reg: "ssh_registry_inv (sc_Registry cfg)" using inv cfg by (simp add: control_inv_def)
  have ap: "apart (map_of (cs_registry s)) (map_of (sc_Registry cfg))"
    using inv cfg by (simp add: control_inv_def ssh_view_def)
  obtain err f where sv: "Ssh_Save (kc_save_ssh c) (Ssh_List reg) (sc_File cfg) = (err, f)" by fastforce
  show ?thesis
  proof (cases err)
    case None
    note saved = ssh_store.upsert_saved [OF reg Inr sv [unfolded None]]
    let ?cfg = "cfg\<lparr>sc_Registry := reg, sc_File := f\<rparr>"
    let ?s1 = "s\<lparr>cs_ssh := Some ?cfg\<rparr>"
    have free: "map_of (cs_registry s) a = None" using ap old unfolding apart_def by (metis option.distinct(1))
    then have "good_step c s (fst (cont ?s1), s\<lparr>cs_ssh := Some ?cfg,
        cs_health := cs_health s, cs_secrets := cs_secrets s\<rparr>)"
      using inv saved new ok ap by (intro ssh_saved_step) (auto intro: apart_ssh_upd)
    moreover have "cont ?s1 = (fst (cont ?s1), ?s1)" using ok(2) by (metis prod.collapse)
    ultimately show ?thesis by (simp add: replace_ssh_route_def Inr save_ssh_def sv None)
  next
    case (Some e)
    from ssh_store.replace_undone [OF reg old Inr new sv [unfolded Some]]
    obtain r2 where r2: "Ssh_Upsert reg old = Inr r2"
        "ssh_store.restored (kc_save_ssh c) (sc_Registry cfg) (sc_File cfg) r2 f" by blast
    from ssh_restored_step [OF inv cfg, of c "cfg\<lparr>sc_Registry := r2, sc_File := f\<rparr>" m2 "cs_secrets s"] r2
    show ?thesis by (simp add: replace_ssh_route_def Inr save_ssh_def sv Some Let_def)
  qed
qed

section \<open>Every action is a good step\<close>

text \<open>Case distinctions under \<open>good_step\<close>, one rule per construct, for \<open>intro\<close>.\<close>

lemma step_if: "(P \<Longrightarrow> good_step c s A) \<Longrightarrow> (\<not> P \<Longrightarrow> good_step c s B) \<Longrightarrow> good_step c s (if P then A else B)"
  by simp

lemma step_option:
  "(x = None \<Longrightarrow> good_step c s A) \<Longrightarrow> (\<And>y. x = Some y \<Longrightarrow> good_step c s (B y)) \<Longrightarrow>
   good_step c s (case x of None \<Rightarrow> A | Some y \<Rightarrow> B y)"
  by (cases x) simp_all

lemma step_sum:
  "(\<And>y. x = Inl y \<Longrightarrow> good_step c s (A y)) \<Longrightarrow> (\<And>y. x = Inr y \<Longrightarrow> good_step c s (B y)) \<Longrightarrow>
   good_step c s (case x of Inl y \<Rightarrow> A y | Inr y \<Rightarrow> B y)"
  by (cases x) simp_all

lemma step_prod: "(\<And>y z. x = (y, z) \<Longrightarrow> good_step c s (A y z)) \<Longrightarrow> good_step c s (case x of (y, z) \<Rightarrow> A y z)"
  by (cases x) simp

lemma step_let: "good_step c s (A x) \<Longrightarrow> good_step c s (let y = x in A y)"
  by simp

lemmas step_splits = step_if step_option step_sum step_prod step_let

lemma alias_conflict_free:
  "alias_conflict s a = None \<Longrightarrow> map_of (cs_registry s) a = None \<and> ssh_view s a = None"
  by (auto simp: alias_conflict_def Get_def Ssh_Get_def ssh_view_def split: option.splits)

lemma ssh_alias_conflict_free:
  "ssh_alias_conflict s cfg a u = None \<Longrightarrow> map_of (cs_registry s) a = None \<and> map_of (sc_Registry cfg) a = None"
  by (auto simp: ssh_alias_conflict_def Get_def Ssh_Get_def split: option.splits)

lemma Get_view: "Get reg a = Inr r \<Longrightarrow> map_of reg a = Some r"
  by (simp add: Get_def split: option.splits)

lemma Ssh_Get_view: "Ssh_Get reg a = Inr r \<Longrightarrow> map_of reg a = Some r"
  by (simp add: Ssh_Get_def split: option.splits)

lemma put_http_step:
  assumes "control_inv s" "put_http c s r t = (err, s1)"
    and "\<And>b. good_step c (s\<lparr>cs_secrets := b\<rparr>) (cont (s\<lparr>cs_secrets := b\<rparr>))"
  shows "good_step c s (case err of None \<Rightarrow> cont s1 | Some _ \<Rightarrow> fail e s1)"
  using put_http_secrets [OF assms(2)] assms(1,3)
  by (auto simp: fail_secrets_step good_step_secrets split: option.splits)

lemma put_ssh_step:
  assumes "control_inv s" "put_ssh c s r t = (err, s1)"
    and "\<And>b. good_step c (s\<lparr>cs_secrets := b\<rparr>) (cont (s\<lparr>cs_secrets := b\<rparr>))"
  shows "good_step c s (case err of None \<Rightarrow> cont s1 | Some _ \<Rightarrow> fail e s1)"
  using put_ssh_secrets [OF assms(2)] assms(1,3)
  by (auto simp: fail_secrets_step good_step_secrets split: option.splits)

lemma createHTTPRoute_step: "control_inv s \<Longrightarrow> good_step c s (createHTTPRoute c s input)"
  unfolding createHTTPRoute_def
  by (intro step_splits fail_step put_http_step insert_route_step)
    (simp_all add: alias_conflict_free)

lemma createLLMRoute_step: "control_inv s \<Longrightarrow> good_step c s (createLLMRoute c s input)"
  unfolding createLLMRoute_def
  by (intro step_splits fail_step put_http_step insert_route_step)
    (simp_all add: alias_conflict_free)

lemma succeed_parts [simp]: "re_OK (fst (succeed c s))" "snd (succeed c s) = s"
  "re_OK (fst (succeed_created c s m t))" "snd (succeed_created c s m t) = s"
  by (simp_all add: succeed_def succeed_created_def)

lemma setLLMPolicy_step: "control_inv s \<Longrightarrow> good_step c s (setLLMPolicy c s a input)"
  unfolding setLLMPolicy_def
  by (intro step_splits fail_step replace_route_step)
    (auto dest!: Get_view simp: control_inv_def registry_invD)

lemma rotateLLMAPIKey_step: "control_inv s \<Longrightarrow> good_step c s (rotateLLMAPIKey c s a input)"
  unfolding rotateLLMAPIKey_def
  by (intro step_splits fail_step replace_route_step)
    (auto dest!: Get_view simp: control_inv_def registry_invD)

lemma persist_usage: "persist_route (r\<lparr>hr_Usage := u\<rparr>) = persist_route r"
  by (simp add: persist_route_def EffectiveKind_def)

text \<open>Counting usage is invisible to the invariant and to the file, which does not hold it.\<close>

lemma usage_update:
  assumes inv: "control_inv s" and r: "map_of (cs_registry s) a = Some r"
    and s': "s' = s\<lparr>cs_registry := AList.update a (r\<lparr>hr_Usage := u\<rparr>) (cs_registry s)\<rparr>"
  shows "control_inv s' \<and> (disk_current s \<longrightarrow> disk_current s')"
proof -
  have view: "map_of (cs_registry s') = (map_of (cs_registry s))(a \<mapsto> r\<lparr>hr_Usage := u\<rparr>)" by (simp add: s')
  have free: "ssh_view s a = None" using inv r unfolding control_inv_def apart_def by (metis option.distinct(1))
  have reg: "registry_inv (cs_registry s)" using inv by (simp add: control_inv_def)
  have "registry_inv (cs_registry s')"
    using registry_invD [OF reg r] registry_inv_update [OF reg] by (simp add: s')
  then have "control_inv s'"
    using inv r free by (auto simp: control_inv_def view refs_ok_def apart_def ssh_view_def s')
  moreover have "disk_current s \<Longrightarrow> disk_current s'"
    using r by (auto simp: disk_current_def file_holds_def view fun_eq_iff persist_usage) (simp_all add: s')
  ultimately show ?thesis by blast
qed

lemma resetLLMUsage_step:
  assumes inv: "control_inv s"
  shows "good_step c s (resetLLMUsage c s a)"
proof (cases "ResetLLMUsage (cs_registry s) a")
  case (Inl e)
  then show ?thesis using inv by (simp add: resetLLMUsage_def fail_step)
next
  case (Inr reg)
  then obtain r where r: "map_of (cs_registry s) a = Some r"
      and reg: "reg = AList.update a (r\<lparr>hr_Usage := zero_usage\<rparr>) (cs_registry s)"
    by (auto simp: ResetLLMUsage_def split: option.splits if_splits)
  from usage_update [OF inv r refl] show ?thesis
    by (simp add: resetLLMUsage_def Inr good_step_def succeed_def reg)
qed

lemma ok_same_step: "control_inv s \<Longrightarrow> re_OK resp \<Longrightarrow> same_routes s s' \<Longrightarrow> good_step c s (resp, s')"
  by (simp add: same_routes_step)

lemma same_routes_refl [simp]: "same_routes s s"
  by (simp add: same_routes_def)

lemma probeSSHHostKey_step: "control_inv s \<Longrightarrow> good_step c s (probeSSHHostKey c s input)"
  unfolding probeSSHHostKey_def prod.case by (intro step_splits fail_step ok_same_step) simp_all

lemma getSSHKeywordReplacements_step: "control_inv s \<Longrightarrow> good_step c s (getSSHKeywordReplacements c s a)"
  unfolding getSSHKeywordReplacements_def by (intro step_splits fail_step ok_same_step) simp_all

lemma createSSHRoute_step: "control_inv s \<Longrightarrow> good_step c s (createSSHRoute c s input)"
  unfolding createSSHRoute_def prod.case
  by (intro step_splits fail_step put_ssh_step insert_ssh_route_step)
    (simp_all add: ssh_alias_conflict_free new_ssh_route_def)

lemma ssh_alias_of: "control_inv s \<Longrightarrow> cs_ssh s = Some cfg \<Longrightarrow> map_of (sc_Registry cfg) a = Some r \<Longrightarrow> sr_Alias r = a"
  by (auto simp: control_inv_def dest: ssh_registry_invD)

lemma setSSHPolicy_step: "control_inv s \<Longrightarrow> good_step c s (setSSHPolicy c s a input)"
  unfolding setSSHPolicy_def prod.case
  by (intro step_splits fail_step replace_ssh_route_step)
    (auto dest!: Ssh_Get_view simp: update_ssh_policy_def ssh_alias_of)

lemma setSSHKeywordReplacements_step: "control_inv s \<Longrightarrow> good_step c s (setSSHKeywordReplacements c s a ks)"
  unfolding setSSHKeywordReplacements_def
  by (intro step_splits fail_step replace_ssh_route_step) (auto dest!: Ssh_Get_view simp: ssh_alias_of)

lemma rotateSSHCredential_step: "control_inv s \<Longrightarrow> good_step c s (rotateSSHCredential c s a input)"
  unfolding rotateSSHCredential_def prod.case
  by (intro step_splits fail_step replace_ssh_route_step) (auto dest!: Ssh_Get_view simp: ssh_alias_of)

lemma clearRouteHealth_same: "same_routes s (clearRouteHealth s a)"
  by (simp add: same_routes_def clearRouteHealth_def)

lemma updateSSHTarget_step: "control_inv s \<Longrightarrow> good_step c s (updateSSHTarget c s a input)"
  unfolding updateSSHTarget_def prod.case
  by (intro step_splits fail_step put_ssh_step succeed_step) (simp_all add: clearRouteHealth_same)

lemma testSSHRoute_step: "control_inv s \<Longrightarrow> good_step c s (testSSHRoute c s a token command)"
  unfolding testSSHRoute_def by (intro step_splits fail_step succeed_step) simp_all

lemma step_upstream_error:
  "good_step c s A \<Longrightarrow> good_step c s B \<Longrightarrow> good_step c s C \<Longrightarrow>
   good_step c s (case e of ErrHostKeyMismatch \<Rightarrow> A | ErrUpstreamAuth \<Rightarrow> B | ErrUpstreamUnavailable \<Rightarrow> C)"
  by (cases e) simp_all

lemma testSSHRouteAuthentication_step: "control_inv s \<Longrightarrow> good_step c s (testSSHRouteAuthentication c s a)"
  unfolding testSSHRouteAuthentication_def
  by (intro step_splits step_upstream_error fail_step succeed_step) simp_all

lemma record_health_same: "same_routes s s1 \<Longrightarrow> same_routes s (record_health c s1 e)"
  by (auto simp: record_health_def same_routes_def split: option.splits sum.splits)

lemma health_response_step: "control_inv s \<Longrightarrow> same_routes s s1 \<Longrightarrow> good_step c s (health_response c s1 a msg h)"
  by (simp add: health_response_def ok_same_step)

lemma finish_health_step: "control_inv s \<Longrightarrow> good_step c s (finish_health c s a cat pol check)"
  unfolding finish_health_def
  by (intro step_splits health_response_step record_health_same) (simp_all add: setRouteHealth_def same_routes_def)

lemma testRouteHealth_step: "control_inv s \<Longrightarrow> good_step c s (testRouteHealth c s a)"
  unfolding testRouteHealth_def by (intro step_splits fail_step finish_health_step) simp_all

lemma testProxyHealth_step: "control_inv s \<Longrightarrow> good_step c s (testProxyHealth c s)"
  unfolding testProxyHealth_def
  by (intro step_splits health_response_step record_health_same) simp_all

lemma configureProxy_step: "control_inv s \<Longrightarrow> good_step c s (configureProxy c s raw)"
proof -
  assume inv: "control_inv s"
  have del: "good_step c s (fail e (snd (delete_target c (s\<lparr>cs_secrets := b\<rparr>) r)))" for e b r
    using snd_delete_target [of c "s\<lparr>cs_secrets := b\<rparr>" r] inv by (auto simp: fail_secrets_step)
  show ?thesis
    unfolding configureProxy_def
    by (intro step_splits fail_step fail_secrets_step succeed_step del inv)
      (simp add: same_routes_def)
qed

lemma clearProxy_step: "control_inv s \<Longrightarrow> good_step c s (clearProxy c s)"
proof -
  assume inv: "control_inv s"
  obtain e b where "delete_target c s DefaultSecretReference = (e, s\<lparr>cs_secrets := b\<rparr>)"
    using delete_target_secrets by (metis prod.exhaust)
  then show ?thesis
    using inv by (auto simp: clearProxy_def fail_secrets_step intro!: succeed_step simp: same_routes_def)
qed

lemma migrateSecretStore_step: "control_inv s \<Longrightarrow> good_step c s (migrateSecretStore c s mode)"
  unfolding migrateSecretStore_def
  by (intro step_splits fail_step succeed_step)
    (auto simp: fail_def same_routes_def unchanged_def intro!: same_routes_step)

lemma cleanupSecretStore_step: "control_inv s \<Longrightarrow> good_step c s (cleanupSecretStore c s mode)"
  unfolding cleanupSecretStore_def
  by (intro step_splits fail_step ok_same_step) (simp_all add: same_routes_def)

section \<open>Switching and deleting\<close>

lemma http_enabled_step:
  assumes inv: "control_inv s" and old: "map_of (cs_registry s) a = Some r"
    and set: "SetEnabled (cs_registry s) a b = Inr reg"
  shows "good_step c s (case save_routes (kc_save c) (s\<lparr>cs_registry := reg\<rparr>) of (err, s1) \<Rightarrow>
    (case err of None \<Rightarrow> succeed c s1
     | Some _ \<Rightarrow> fail e (case SetEnabled (cs_registry s1) a (hr_Enabled r) of
         Inl _ \<Rightarrow> s1 | Inr reg' \<Rightarrow> s1\<lparr>cs_registry := reg'\<rparr>)))"
proof -
  have reg: "registry_inv (cs_registry s)" using inv by (simp add: control_inv_def)
  obtain err f where sv: "Save (kc_save c) (List_routes reg) (cs_file s) = (err, f)" by fastforce
  show ?thesis
  proof (cases err)
    case None
    note saved = http_store.enabled_saved [OF reg old set sv [unfolded None]]
    have "ssh_view s a = None" "hr_TargetSecretRef r = ''routes/'' @ a"
      using inv old unfolding control_inv_def apart_def refs_ok_def by (metis option.distinct(1), blast)
    then have "good_step c s (resp, s\<lparr>cs_registry := reg, cs_file := f, cs_health := cs_health s,
        cs_secrets := cs_secrets s\<rparr>)" if "re_OK resp" for resp
      using inv saved that
      by (intro http_saved_step) (auto simp: control_inv_def intro: refs_upd apart_upd)
    then show ?thesis by (simp add: save_routes_def sv None succeed_def)
  next
    case (Some e')
    from http_store.enabled_undone [OF reg old set sv [unfolded Some]]
    obtain r2 where r2: "SetEnabled reg a (hr_Enabled r) = Inr r2"
        "http_store.restored (kc_save c) (cs_registry s) (cs_file s) r2 f" by blast
    from http_restored_step [OF inv r2(2), of e "cs_secrets s"] show ?thesis
      by (simp add: save_routes_def sv Some r2)
  qed
qed

lemma ssh_enabled_step:
  assumes inv: "control_inv s" and cfg: "cs_ssh s = Some cfg" and old: "map_of (sc_Registry cfg) a = Some r"
    and set: "Ssh_SetEnabled (sc_Registry cfg) a b = Inr reg"
  shows "good_step c s (case save_ssh (kc_save_ssh c) (cfg\<lparr>sc_Registry := reg\<rparr>) of (err, cfg1) \<Rightarrow>
    (case err of None \<Rightarrow> succeed c (s\<lparr>cs_ssh := Some cfg1\<rparr>)
     | Some _ \<Rightarrow> fail e (s\<lparr>cs_ssh := Some (case Ssh_SetEnabled (sc_Registry cfg1) a (sr_Enabled r) of
         Inl _ \<Rightarrow> cfg1 | Inr reg' \<Rightarrow> cfg1\<lparr>sc_Registry := reg'\<rparr>)\<rparr>)))"
proof -
  have reg: "ssh_registry_inv (sc_Registry cfg)" using inv cfg by (simp add: control_inv_def)
  have ap: "apart (map_of (cs_registry s)) (map_of (sc_Registry cfg))"
    using inv cfg by (simp add: control_inv_def ssh_view_def)
  obtain err f where sv: "Ssh_Save (kc_save_ssh c) (Ssh_List reg) (sc_File cfg) = (err, f)" by fastforce
  show ?thesis
  proof (cases err)
    case None
    note saved = ssh_store.enabled_saved [OF reg old set sv [unfolded None]]
    have "map_of (cs_registry s) a = None" using ap old unfolding apart_def by (metis option.distinct(1))
    then have "good_step c s (resp, s\<lparr>cs_ssh := Some (cfg\<lparr>sc_Registry := reg, sc_File := f\<rparr>),
        cs_health := cs_health s, cs_secrets := cs_secrets s\<rparr>)" if "re_OK resp" for resp
      using inv saved that ap by (intro ssh_saved_step) (auto intro: apart_ssh_upd)
    then show ?thesis by (simp add: save_ssh_def sv None succeed_def)
  next
    case (Some e')
    from ssh_store.enabled_undone [OF reg old set sv [unfolded Some]]
    obtain r2 where r2: "Ssh_SetEnabled reg a (sr_Enabled r) = Inr r2"
        "ssh_store.restored (kc_save_ssh c) (sc_Registry cfg) (sc_File cfg) r2 f" by blast
    from ssh_restored_step [OF inv cfg, of c "cfg\<lparr>sc_Registry := r2, sc_File := f\<rparr>" e "cs_secrets s"] r2
    show ?thesis by (simp add: save_ssh_def sv Some)
  qed
qed

lemma setRouteEnabled_step: "control_inv s \<Longrightarrow> good_step c s (setRouteEnabled c s a b)"
  unfolding setRouteEnabled_def
  by (rule step_sum step_if fail_step step_option http_enabled_step ssh_enabled_step Get_view Ssh_Get_view
      | assumption)+

lemma deleted_response_shape:
  "\<exists>resp sec. deleted_response c s a ref = (resp, s\<lparr>cs_health := AList.delete a (cs_health s), cs_secrets := sec\<rparr>)
     \<and> re_OK resp"
proof -
  obtain e sec where "delete_target c (clearRouteHealth s a) ref = (e, (clearRouteHealth s a)\<lparr>cs_secrets := sec\<rparr>)"
    using delete_target_secrets by (metis prod.exhaust)
  then show ?thesis by (auto simp: deleted_response_def Let_def clearRouteHealth_def)
qed

lemma http_delete_step:
  assumes inv: "control_inv s" and del: "Delete (cs_registry s) a = Inr (x, reg)"
  shows "good_step c s (case save_routes (kc_save c) (s\<lparr>cs_registry := reg\<rparr>) of (err, s1) \<Rightarrow>
    (case err of None \<Rightarrow> deleted_response c s1 a (hr_TargetSecretRef x)
     | Some _ \<Rightarrow> fail e (case Upsert (cs_registry s1) x of
         Inl _ \<Rightarrow> s1 | Inr reg' \<Rightarrow> s1\<lparr>cs_registry := reg'\<rparr>)))"
proof -
  have reg: "registry_inv (cs_registry s)" using inv by (simp add: control_inv_def)
  obtain err f where sv: "Save (kc_save c) (List_routes reg) (cs_file s) = (err, f)" by fastforce
  show ?thesis
  proof (cases err)
    case None
    note saved = http_store.remove_saved [OF reg del sv [unfolded None]]
    then have "good_step c s (resp, s\<lparr>cs_registry := reg, cs_file := f, cs_health := h,
        cs_secrets := sec\<rparr>)" if "re_OK resp" for resp h sec
      using inv that by (intro http_saved_step) (auto simp: control_inv_def intro: refs_del apart_del)
    then show ?thesis
      using deleted_response_shape [of c "s\<lparr>cs_registry := reg, cs_file := f\<rparr>" a "hr_TargetSecretRef x"]
      by (auto simp: save_routes_def sv None)
  next
    case (Some e')
    from http_store.remove_undone [OF reg del sv [unfolded Some]]
    obtain r2 where r2: "Upsert reg x = Inr r2"
        "http_store.restored (kc_save c) (cs_registry s) (cs_file s) r2 f" by blast
    from http_restored_step [OF inv r2(2), of e "cs_secrets s"] show ?thesis
      by (simp add: save_routes_def sv Some r2)
  qed
qed

lemma ssh_delete_step:
  assumes inv: "control_inv s" and cfg: "cs_ssh s = Some cfg"
    and del: "Ssh_Delete (sc_Registry cfg) a = Inr (x, reg)"
  shows "good_step c s (case save_ssh (kc_save_ssh c) (cfg\<lparr>sc_Registry := reg\<rparr>) of (err, cfg1) \<Rightarrow>
    (case err of None \<Rightarrow> deleted_response c (s\<lparr>cs_ssh := Some cfg1\<rparr>) a (sr_TargetSecretRef x)
     | Some _ \<Rightarrow> fail e (s\<lparr>cs_ssh := Some (case Ssh_Upsert (sc_Registry cfg1) x of
         Inl _ \<Rightarrow> cfg1 | Inr reg' \<Rightarrow> cfg1\<lparr>sc_Registry := reg'\<rparr>)\<rparr>)))"
proof -
  have reg: "ssh_registry_inv (sc_Registry cfg)" using inv cfg by (simp add: control_inv_def)
  have ap: "apart (map_of (cs_registry s)) (map_of (sc_Registry cfg))"
    using inv cfg by (simp add: control_inv_def ssh_view_def)
  obtain err f where sv: "Ssh_Save (kc_save_ssh c) (Ssh_List reg) (sc_File cfg) = (err, f)" by fastforce
  show ?thesis
  proof (cases err)
    case None
    note saved = ssh_store.remove_saved [OF reg del sv [unfolded None]]
    then have "good_step c s (resp, s\<lparr>cs_ssh := Some (cfg\<lparr>sc_Registry := reg, sc_File := f\<rparr>),
        cs_health := h, cs_secrets := sec\<rparr>)" if "re_OK resp" for resp h sec
      using inv that ap by (intro ssh_saved_step) (auto intro: apart_ssh_del)
    then show ?thesis
      using deleted_response_shape [of c "s\<lparr>cs_ssh := Some (cfg\<lparr>sc_Registry := reg, sc_File := f\<rparr>)\<rparr>" a
          "sr_TargetSecretRef x"]
      by (auto simp: save_ssh_def sv None)
  next
    case (Some e')
    from ssh_store.remove_undone [OF reg del sv [unfolded Some]]
    obtain r2 where r2: "Ssh_Upsert reg x = Inr r2"
        "ssh_store.restored (kc_save_ssh c) (sc_Registry cfg) (sc_File cfg) r2 f" by blast
    from ssh_restored_step [OF inv cfg, of c "cfg\<lparr>sc_Registry := r2, sc_File := f\<rparr>" e "cs_secrets s"] r2
    show ?thesis by (simp add: save_ssh_def sv Some)
  qed
qed

lemma deleteRoute_step: "control_inv s \<Longrightarrow> good_step c s (deleteRoute c s a)"
  unfolding deleteRoute_def
proof (rule step_sum, goal_cases)
  case (1 e)
  show ?case
    by (rule step_if fail_step step_option step_sum 1 | assumption)+
      (rule step_prod, simp only:, rule ssh_delete_step, rule 1, assumption+)
next
  case (2 y)
  then show ?case by (cases y) (simp only: prod.case, rule http_delete_step)
qed

section \<open>Stopping everything\<close>

lemma restore_http_disable_all:
  assumes "registry_inv reg"
  shows "registry_inv (restore_http (DisableAll reg) (List_routes reg))
    \<and> map_of (restore_http (DisableAll reg) (List_routes reg)) = map_of reg"
proof -
  have "restore_http r l = foldl http_reg.restore_one r l" for r l
    unfolding restore_http_def http_reg.restore_one_def ..
  with http_reg.rollback_disable_all [OF assms] show ?thesis by simp
qed

lemma restore_ssh_disable_all:
  assumes "ssh_registry_inv reg"
  shows "ssh_registry_inv (restore_ssh (Ssh_DisableAll reg) (Ssh_List reg))
    \<and> map_of (restore_ssh (Ssh_DisableAll reg) (Ssh_List reg)) = map_of reg"
proof -
  have "restore_ssh r l = foldl ssh_reg.restore_one r l" for r l
    unfolding restore_ssh_def ssh_reg.restore_one_def ..
  with ssh_reg.rollback_disable_all [OF assms] show ?thesis by simp
qed

lemma refs_disable_all: "refs_ok (map_of reg) \<Longrightarrow> refs_ok (map_of (DisableAll reg))"
  by (auto simp: refs_ok_def DisableAll_view)

lemma apart_disable_all:
  "apart (map_of reg) (map_of ssh) \<Longrightarrow> apart (map_of (DisableAll reg)) (map_of (Ssh_DisableAll ssh))"
  "apart (map_of reg) (map_of ssh) \<Longrightarrow> apart (map_of reg) (map_of (Ssh_DisableAll ssh))"
  by (auto simp: apart_def DisableAll_view Ssh_DisableAll_view)

lemma persist_all_good:
  "\<forall>r\<in>set rs. Validate r = None \<and> hr_TargetSecretRef r = ''routes/'' @ hr_Alias r \<Longrightarrow>
   persist_all rs = Inr (map persist_route rs)"
  by (induction rs) auto

lemma Save_good:
  assumes "registry_inv reg" "refs_ok (map_of reg)" "all_writes_ok os"
  shows "\<exists>f'. Save os (List_routes reg) f = (None, f')"
proof -
  have "\<forall>r\<in>set (List_routes reg). Validate r = None \<and> hr_TargetSecretRef r = ''routes/'' @ hr_Alias r"
    using http_reg.listing_view [OF assms(1)] registry_invD [OF assms(1)] assms(2)
    unfolding refs_ok_def by blast
  from persist_all_good [OF this] assms(3) show ?thesis
    by (simp add: Save_def route_document_def install_private_all_ok all_writes_ok_def
        install_private_def)
qed

text \<open>
  What \<open>stopAll\<close> does: without an SSH configuration it disables every route and saves; with one, it
  also saves the SSH routes, and undoes everything when that save fails.
\<close>

lemma stopAll_no_ssh:
  assumes inv: "control_inv s" and none: "cs_ssh s = None"
  shows "good_step c s (stopAll c s)"
proof -
  let ?reg = "cs_registry s"
  have reg: "registry_inv ?reg" and refs: "refs_ok (map_of ?reg)" using inv by (simp_all add: control_inv_def)
  have view: "ssh_view s = Map.empty" using none by (simp add: ssh_view_def)
  have ap: "apart m Map.empty" for m by (simp add: apart_def)
  obtain err f where sv: "Save (kc_save c) (List_routes (DisableAll ?reg)) (cs_file s) = (err, f)" by fastforce
  have st: "s\<lparr>cs_registry := r, cs_ssh := None\<rparr> = s\<lparr>cs_registry := r\<rparr>" for r using none by simp
  show ?thesis
  proof (cases err)
    case None
    from http_store.disable_all_saved [OF reg sv [unfolded None]]
    have "good_step c s (resp, s\<lparr>cs_registry := DisableAll ?reg, cs_file := f, cs_health := cs_health s,
        cs_secrets := cs_secrets s\<rparr>)" if "re_OK resp" for resp
      using inv refs_disable_all [OF refs] that by (intro http_saved_step) (simp_all add: view ap)
    then show ?thesis
      using none by (simp add: stopAll_def save_routes_def sv None succeed_def st Let_def)
  next
    case (Some e)
    have "http_store.restored (kc_save c) ?reg (cs_file s) (restore_http (DisableAll ?reg) (List_routes ?reg)) f"
      using restore_http_disable_all [OF reg] http_store.save_failed [OF sv [unfolded Some]]
      by (simp add: http_store.restored_def)
    from http_restored_step [OF inv this, of _ "cs_secrets s"] show ?thesis
      using none by (simp add: stopAll_def save_routes_def sv Some st Let_def)
  qed
qed

lemma stopAll_ssh:
  assumes inv: "control_inv s" and cfg: "cs_ssh s = Some cfg"
    and sv: "Save (kc_save c) (List_routes (DisableAll (cs_registry s))) (cs_file s) = (None, f)"
  shows "control_inv (snd (stopAll c s)) \<and> cs_token (snd (stopAll c s)) = cs_token s
    \<and> cs_ssh (snd (stopAll c s)) \<noteq> None
    \<and> (\<not> re_OK (fst (stopAll c s)) \<longrightarrow> unchanged s (snd (stopAll c s)))
    \<and> (on_time c \<longrightarrow> all_writes_ok (kc_save_back c) \<longrightarrow> disk_current s \<longrightarrow> disk_current (snd (stopAll c s)))"
proof -
  let ?reg = "cs_registry s" and ?ssh = "sc_Registry cfg"
  have reg: "registry_inv ?reg" and refs: "refs_ok (map_of ?reg)" and ssh: "ssh_registry_inv ?ssh"
    and ap: "apart (map_of ?reg) (map_of ?ssh)"
    using inv cfg by (simp_all add: control_inv_def ssh_view_def)
  note saved = http_store.disable_all_saved [OF reg sv]
  obtain err g where sv2: "Ssh_Save (kc_save_ssh c) (Ssh_List (Ssh_DisableAll ?ssh)) (sc_File cfg) = (err, g)"
    by fastforce
  show ?thesis
  proof (cases err)
    case None
    note saved2 = ssh_store.disable_all_saved [OF ssh sv2 [unfolded None]]
    show ?thesis
      using saved saved2 refs_disable_all [OF refs] apart_disable_all(1) [OF ap]
      by (simp add: stopAll_def save_routes_def sv cfg save_ssh_def sv2 None succeed_def control_inv_def
          disk_current_def)
  next
    case (Some e)
    note back_http = restore_http_disable_all [OF reg] and back_ssh = restore_ssh_disable_all [OF ssh]
    let ?r2 = "restore_http (DisableAll ?reg) (List_routes ?reg)"
    let ?q2 = "restore_ssh (Ssh_DisableAll ?ssh) (Ssh_List ?ssh)"
    have disk: "file_holds (map_of ?reg) (snd (Save (kc_save_back c) (List_routes ?reg) f))"
      if "all_writes_ok (kc_save_back c)"
      using Save_good [OF reg refs that, of f] http_store.save_ok [OF reg] by (metis snd_conv)
    have ssh_disk: "g = sc_File cfg" if "on_time c"
      using ssh_store.save_failed [OF sv2 [unfolded Some]] that by (simp add: on_time_def)
    show ?thesis
      using back_http back_ssh refs ap disk ssh_disk cfg
      by (simp add: stopAll_def save_routes_def sv save_ssh_def sv2 Some fail_def
          control_inv_def disk_current_def unchanged_def Let_def ssh_view_def)
  qed
qed

text \<open>When the first save fails, the SSH registry stays disabled: only the invariant is left.\<close>

lemma stopAll_ssh_failed:
  assumes inv: "control_inv s" and cfg: "cs_ssh s = Some cfg"
    and sv: "Save (kc_save c) (List_routes (DisableAll (cs_registry s))) (cs_file s) = (Some e, f)"
  shows "stopAll c s = fail (English ''could not persist stopped routes'')
      (s\<lparr>cs_registry := restore_http (DisableAll (cs_registry s)) (List_routes (cs_registry s)),
         cs_file := f, cs_ssh := Some (cfg\<lparr>sc_Registry := Ssh_DisableAll (sc_Registry cfg)\<rparr>)\<rparr>)"
    and "control_inv (snd (stopAll c s))"
proof -
  show eq: "stopAll c s = fail (English ''could not persist stopped routes'')
      (s\<lparr>cs_registry := restore_http (DisableAll (cs_registry s)) (List_routes (cs_registry s)),
         cs_file := f, cs_ssh := Some (cfg\<lparr>sc_Registry := Ssh_DisableAll (sc_Registry cfg)\<rparr>)\<rparr>)"
    using sv cfg by (simp add: stopAll_def save_routes_def fail_def)
  have "registry_inv (cs_registry s)" "ssh_registry_inv (sc_Registry cfg)"
    "apart (map_of (cs_registry s)) (map_of (sc_Registry cfg))" "refs_ok (map_of (cs_registry s))"
    using inv cfg by (simp_all add: control_inv_def ssh_view_def)
  then show "control_inv (snd (stopAll c s))"
    by (simp add: eq fail_def control_inv_def restore_http_disable_all ssh_registry_inv_DisableAll
        apart_disable_all(2))
qed

lemma stopAll_inv:
  assumes inv: "control_inv s"
  shows "control_inv (snd (stopAll c s)) \<and> cs_token (snd (stopAll c s)) = cs_token s
    \<and> (cs_ssh s \<noteq> None \<longrightarrow> cs_ssh (snd (stopAll c s)) \<noteq> None)"
proof (cases "cs_ssh s")
  case None
  from stopAll_no_ssh [OF inv this] show ?thesis by (simp add: good_step_def)
next
  case (Some cfg)
  obtain err f where sv: "Save (kc_save c) (List_routes (DisableAll (cs_registry s))) (cs_file s) = (err, f)"
    by fastforce
  show ?thesis
  proof (cases err)
    case None
    from stopAll_ssh [OF inv Some sv [unfolded None]] show ?thesis by simp
  next
    case err: (Some e)
    from stopAll_ssh_failed [OF inv Some sv [unfolded err]] show ?thesis by (simp add: fail_def)
  qed
qed

lemma stopAll_step:
  assumes inv: "control_inv s" and writes: "all_writes_ok (kc_save c)" "all_writes_ok (kc_save_back c)"
  shows "good_step c s (stopAll c s)"
proof (cases "cs_ssh s")
  case None
  then show ?thesis by (rule stopAll_no_ssh [OF inv])
next
  case (Some cfg)
  have "registry_inv (DisableAll (cs_registry s))" "refs_ok (map_of (DisableAll (cs_registry s)))"
    using inv registry_inv_DisableAll refs_disable_all by (auto simp: control_inv_def)
  from Save_good [OF this writes(1)] obtain f where
    "Save (kc_save c) (List_routes (DisableAll (cs_registry s))) (cs_file s) = (None, f)" by blast
  from stopAll_ssh [OF inv Some this] writes(2) show ?thesis by (simp add: good_step_def)
qed

lemma stopAll_unchanged:
  assumes inv: "control_inv s" and writes: "all_writes_ok (kc_save c)"
  shows "\<not> re_OK (fst (stopAll c s)) \<longrightarrow> unchanged s (snd (stopAll c s))"
proof (cases "cs_ssh s")
  case None
  from stopAll_no_ssh [OF inv this] show ?thesis by (simp add: good_step_def)
next
  case (Some cfg)
  have "registry_inv (DisableAll (cs_registry s))" "refs_ok (map_of (DisableAll (cs_registry s)))"
    using inv registry_inv_DisableAll refs_disable_all by (auto simp: control_inv_def)
  from Save_good [OF this writes] obtain f where
    "Save (kc_save c) (List_routes (DisableAll (cs_registry s))) (cs_file s) = (None, f)" by blast
  from stopAll_ssh [OF inv Some this] show ?thesis by simp
qed

section \<open>Dispatch\<close>

lemmas action_steps =
  createHTTPRoute_step createLLMRoute_step setLLMPolicy_step rotateLLMAPIKey_step resetLLMUsage_step
  probeSSHHostKey_step createSSHRoute_step setSSHPolicy_step getSSHKeywordReplacements_step
  setSSHKeywordReplacements_step updateSSHTarget_step rotateSSHCredential_step testSSHRoute_step
  testSSHRouteAuthentication_step testRouteHealth_step testProxyHealth_step setRouteEnabled_step
  deleteRoute_step configureProxy_step clearProxy_step migrateSecretStore_step cleanupSecretStore_step

lemma dispatch_step:
  assumes inv: "control_inv s"
    and stop: "rq_Action r = ''stop_all'' \<Longrightarrow> good_step c s (stopAll c s)"
  shows "good_step c s (dispatch c s r)"
  unfolding dispatch_def
  by (intro step_if fail_step action_steps succeed_step inv stop same_routes_refl)

lemma dispatch_inv:
  assumes inv: "control_inv s"
  shows "control_inv (snd (dispatch c s r)) \<and> cs_token (snd (dispatch c s r)) = cs_token s
    \<and> (cs_ssh s \<noteq> None \<longrightarrow> cs_ssh (snd (dispatch c s r)) \<noteq> None)"
proof (cases "good_step c s (dispatch c s r)")
  case False
  then have "rq_Action r = ''stop_all''" using dispatch_step [OF inv] by blast
  moreover from False have "rq_Version r = protocolVersion \<and> validToken (rq_Token r) (cs_token s)"
    using fail_step [OF inv] by (auto simp: dispatch_def split: if_splits)
  ultimately have "dispatch c s r = stopAll c s" by (simp add: dispatch_def)
  then show ?thesis using stopAll_inv [OF inv] by simp
qed (simp add: good_step_def)

end
