(* ===== verification/Control_Server.thy ===== *)
theory Control_Server
  imports Control_Laws
begin

text \<open>
  Properties of the control server: who may use it, what every run of requests keeps, what a
  failed action leaves behind, and the agreement of memory with the files a restart reads.
\<close>

text \<open>A run: connections are handled one after the other, each with the outcomes of its own calls.\<close>

fun control_run :: "control \<Rightarrow> (control_calls \<times> control_request option) list \<Rightarrow> control" where
  "control_run s [] = s"
| "control_run s ((c, m) # rest) = control_run (snd (handle c s m)) rest"

lemma validToken_iff: "validToken a e \<longleftrightarrow> a = e"
  by (auto simp: validToken_def ConstantTimeCompare_iff)

lemma handle_inv:
  "control_inv s \<Longrightarrow> control_inv (snd (handle c s m)) \<and> cs_token (snd (handle c s m)) = cs_token s
     \<and> (cs_ssh s \<noteq> None \<longrightarrow> cs_ssh (snd (handle c s m)) \<noteq> None)"
  using dispatch_inv by (auto simp: handle_def fail_def split: option.splits)

lemma dispatch_stop_all:
  assumes "rq_Action r = ''stop_all''"
  shows "dispatch c s r = (if rq_Version r \<noteq> protocolVersion \<or> \<not> validToken (rq_Token r) (cs_token s)
    then fail (English ''control authentication failed'') s else stopAll c s)"
  using assms by (simp add: dispatch_def)

section \<open>A sample server\<close>

definition sample_ssh_configuration :: ssh_configuration where
  "sample_ssh_configuration = \<lparr>sc_Registry = [(''box'', sample_ssh_route)],
     sc_File = snd (Ssh_Save sample_writes [sample_ssh_route] None), sc_ListenAddress = ''127.0.0.1:4770'',
     sc_DialAddress = ''127.0.0.1:4770'', sc_HTTPAddress = [], sc_HostKey = ''H'', sc_CommandAudit = None\<rparr>"

definition sample_control :: control where
  "sample_control = \<lparr>cs_registry = [(''api'', sample_route)], cs_secrets = [],
     cs_file = snd (Save sample_writes [sample_route] None), cs_egress = NewManager,
     cs_ssh = Some sample_ssh_configuration, cs_httpAddress = ''127.0.0.1:4768'',
     cs_token = replicate 32 (CHR ''t''), cs_secretMode = StoreModeLocalFile, cs_storeFactory = True,
     cs_other = [], cs_activity = None, cs_health = []\<rparr>"

definition sample_calls :: control_calls where
  "sample_calls = \<lparr>kc_rand = Some (replicate 32 (CHR ''r'')), kc_save = sample_writes,
     kc_save_ssh = sample_writes, kc_save_back = sample_writes, kc_put = (\<lambda>_. went_through),
     kc_delete = (\<lambda>_. went_through), kc_get_ok = (\<lambda>_. True), kc_factory_ok = True,
     kc_other_put = (\<lambda>_. went_through), kc_other_delete = (\<lambda>_. went_through),
     kc_other_get_ok = (\<lambda>_. True), kc_library = sample_library, kc_network = failing_network,
     kc_localIPs = Some [], kc_tls_ok = (\<lambda>_ _. True), kc_session_ok = True, kc_run_ok = (\<lambda>_. True),
     kc_format = (\<lambda>_. []), kc_eventID = ''event-1'', kc_started = 1, kc_recorded = 1, kc_durationMS = 1\<rparr>"

definition sample_request :: control_request where
  "sample_request = \<lparr>rq_Version = 1, rq_Token = replicate 32 (CHR ''t''), rq_Action = ''stop_all'',
     rq_Create = None, rq_CreateSSH = None, rq_ProbeSSH = None, rq_SSHPolicy = None, rq_Alias = ''api'',
     rq_Enabled = False, rq_ProxyURL = [], rq_Capability = [], rq_Command = [], rq_SecretMode = [],
     rq_KeywordReplacements = []\<rparr>"

lemma sample_http_registry: "registry_inv [(''api'', sample_route)]"
  using sample_route_valid by (simp add: registry_inv_def amap_wf_def sample_route_def)

lemma sample_ssh_registry: "ssh_registry_inv [(''box'', sample_ssh_route)]"
  using sample_ssh_route_valid
  by (simp add: ssh_registry_inv_def amap_wf_def usernames_def sample_ssh_route_def)

lemma sample_control_inv: "control_inv sample_control"
  using sample_http_registry sample_ssh_registry
  by (simp add: control_inv_def sample_control_def sample_ssh_configuration_def refs_ok_def apart_def
      ssh_view_def sample_route_def)

lemma sample_http_saved: "fst (Save sample_writes [sample_route] f) = None"
proof -
  have "refs_ok (map_of [(''api'', sample_route)])" by (simp add: refs_ok_def sample_route_def)
  from Save_good [OF sample_http_registry this sample_writes_ok, of f] show ?thesis
    by (auto simp: List_routes_def)
qed

lemma sample_ssh_saved: "fst (Ssh_Save sample_writes [sample_ssh_route] f) = None"
  using sample_writes_ok sample_ssh_route_valid
  by (simp add: Ssh_Save_def ssh_route_document_def all_writes_ok_def install_private_def
      sample_ssh_route_def)

lemma sample_control_disk: "disk_current sample_control"
proof -
  have "file_holds (map_of [(''api'', sample_route)]) (snd (Save sample_writes [sample_route] None))"
    using sample_http_saved [of None]
    by (intro Save_holds [OF sample_http_registry, where os = sample_writes and f = None])
      (simp add: List_routes_def prod_eq_iff)
  moreover have "ssh_file_holds (map_of [(''box'', sample_ssh_route)])
      (snd (Ssh_Save sample_writes [sample_ssh_route] None))"
    using sample_ssh_saved [of None]
    by (intro Ssh_Save_holds [OF sample_ssh_registry, where os = sample_writes and f = None])
      (simp add: Ssh_List_def prod_eq_iff)
  ultimately show ?thesis
    by (simp add: disk_current_def sample_control_def sample_ssh_configuration_def)
qed

lemma sample_calls_writes: "kc_save sample_calls = sample_writes" "kc_save_ssh sample_calls = sample_writes"
  "kc_save_back sample_calls = sample_writes"
  by (simp_all add: sample_calls_def)

lemma sample_on_time: "on_time sample_calls"
  using sample_writes_ok by (simp add: on_time_def late_failure_def sample_calls_writes all_writes_ok_def)

section \<open>Authentication and the invariant\<close>

text \<open>
  C33: A request whose protocol version or token is not the server's is answered with an
  authentication error and changes nothing at all.
\<close>

theorem control_requires_token:
  assumes "rq_Version r \<noteq> protocolVersion \<or> rq_Token r \<noteq> cs_token s"
  shows "dispatch c s r = (error_response (English ''control authentication failed''), s)"
  using assms by (auto simp: dispatch_def validToken_iff fail_def)

theorem control_requires_token_witness:
  "dispatch sample_calls sample_control (sample_request\<lparr>rq_Token := ''guess''\<rparr>)
     = (error_response (English ''control authentication failed''), sample_control)"
  by (rule control_requires_token)
    (auto simp: sample_control_def sample_request_def dest: arg_cong [where f = length])

text \<open>
  C6: Whatever requests arrive and however their calls end, the server keeps its invariant: both
  registries hold only valid routes under their own aliases with their own secret references, SSH
  usernames are unique, no alias names both an HTTP and an SSH route; and the token stays the same.
\<close>

theorem control_server_invariant:
  assumes "control_inv s"
  shows "control_inv (control_run s requests) \<and> cs_token (control_run s requests) = cs_token s"
  using assms handle_inv by (induction s requests rule: control_run.induct) auto

theorem control_server_invariant_witness:
  "control_inv (control_run sample_control [(sample_calls, Some sample_request), (sample_calls, None)])"
  using control_server_invariant [OF sample_control_inv] by blast

section \<open>Failure leaves the routes alone\<close>



section \<open>Memory and disk\<close>

lemma dispatch_disk:
  assumes inv: "control_inv s" and disk: "disk_current s" and time: "on_time c"
    and stop: "rq_Action r = ''stop_all'' \<Longrightarrow> all_writes_ok (kc_save c) \<and> all_writes_ok (kc_save_back c)"
  shows "disk_current (snd (dispatch c s r))"
proof -
  have "good_step c s (dispatch c s r)" using dispatch_step [OF inv] stopAll_step [OF inv] stop by blast
  with disk time show ?thesis by (simp add: good_step_def)
qed

definition timely :: "control_calls \<times> control_request option \<Rightarrow> bool" where
  "timely step = (case step of (c, m) \<Rightarrow> on_time c \<and>
     (case m of None \<Rightarrow> True
      | Some r \<Rightarrow> rq_Action r = ''stop_all'' \<longrightarrow> all_writes_ok (kc_save c) \<and> all_writes_ok (kc_save_back c)))"

lemma handle_disk:
  assumes "control_inv s" "disk_current s" "timely (c, m)"
  shows "disk_current (snd (handle c s m))"
  using dispatch_disk [OF assms(1,2)] assms(2,3)
  by (auto simp: handle_def fail_def timely_def split: option.splits)



text \<open>
  When only the last step of the save fails, the directory sync after the rename, switching
  a route reports an error and the running server keeps the old switch, but the file already holds
  the new one: a restart applies the change that was reported as failed.
\<close>

theorem late_save_failure_diverges:
  assumes inv: "control_inv s" and old: "map_of (cs_registry s) a = Some route"
    and save: "all_writes_ok (os\<lparr>wc_syncdir_ok := True\<rparr>)" "\<not> wc_syncdir_ok os" "kc_save c = os"
  shows "\<not> re_OK (fst (setRouteEnabled c s a b))
    \<and> map_of (cs_registry (snd (setRouteEnabled c s a b))) a = Some route
    \<and> map_option pr_Enabled (stored_view (cs_file (snd (setRouteEnabled c s a b))) a) = Some b"
proof -
  let ?r = "cs_registry s"
  have reg: "registry_inv ?r" and refs: "refs_ok (map_of ?r)" using inv by (simp_all add: control_inv_def)
  obtain reg' where set: "SetEnabled ?r a b = Inr reg'" and reg': "registry_inv reg'"
      "map_of reg' = (map_of ?r)(a \<mapsto> route\<lparr>hr_Enabled := b\<rparr>)"
    using http_reg.set_enabled_some [OF reg old, of b] by blast
  have refs': "refs_ok (map_of reg')" using refs old reg'(2) by (simp add: refs_ok_def)
  from Save_good [OF reg'(1) refs' save(1), of "cs_file s"] obtain f where
    f: "Save (os\<lparr>wc_syncdir_ok := True\<rparr>) (List_routes reg') (cs_file s) = (None, f)" by blast
  have late: "\<exists>e. Save os (List_routes reg') (cs_file s) = (Some e, f)"
    using f save(1,2) by (auto simp: Save_def install_private_def all_writes_ok_def split: sum.splits if_splits)
  then obtain e where sv: "Save (kc_save c) (List_routes reg') (cs_file s) = (Some e, f)" using save(3) by blast
  have holds: "file_holds (map_of reg') f" by (rule http_store.save_ok [OF reg'(1) f])
  obtain r2 where r2: "SetEnabled reg' a (hr_Enabled route) = Inr r2" "map_of r2 = map_of ?r"
    using http_store.enabled_undone [OF reg old set sv] by (auto simp: http_store.restored_def)
  have "setRouteEnabled c s a b = fail (English ''could not persist route status'')
      (s\<lparr>cs_registry := r2, cs_file := f\<rparr>)"
    by (simp add: setRouteEnabled_def Get_def old set save_routes_def sv r2)
  then show ?thesis
    using holds old r2(2) by (simp add: fail_def file_holds_def reg'(2) json_route_def persist_route_def)
qed

theorem late_save_failure_diverges_witness:
  "let c = sample_calls\<lparr>kc_save := sample_writes\<lparr>wc_syncdir_ok := False\<rparr>\<rparr> in
   \<not> re_OK (fst (setRouteEnabled c sample_control ''api'' False))
   \<and> map_of (cs_registry (snd (setRouteEnabled c sample_control ''api'' False))) ''api'' = Some sample_route
   \<and> map_option pr_Enabled (stored_view (cs_file (snd (setRouteEnabled c sample_control ''api'' False))) ''api'')
       = Some False"
  unfolding Let_def
  by (rule late_save_failure_diverges [OF sample_control_inv])
    (use sample_writes_ok in \<open>auto simp: sample_control_def all_writes_ok_def\<close>)

section \<open>Stopping everything\<close>

lemma stop_all_ok:
  assumes inv: "control_inv s" and ok: "re_OK (fst (stopAll c s))"
  shows "cs_registry (snd (stopAll c s)) = DisableAll (cs_registry s)
    \<and> ssh_view (snd (stopAll c s))
        = (case cs_ssh s of None \<Rightarrow> Map.empty | Some cfg \<Rightarrow> map_of (Ssh_DisableAll (sc_Registry cfg)))
    \<and> disk_current (snd (stopAll c s))"
proof -
  have reg: "registry_inv (cs_registry s)" and ssh: "ssh_ok (cs_ssh s)" using inv by (simp_all add: control_inv_def)
  obtain err f where sv: "Save (kc_save c) (List_routes (DisableAll (cs_registry s))) (cs_file s) = (err, f)"
    by fastforce
  have err: "err = None"
    using ok by (cases err) (simp_all add: stopAll_def save_routes_def sv fail_def Let_def)
  have holds: "file_holds (map_of (DisableAll (cs_registry s))) f"
    using http_store.disable_all_saved [OF reg sv [unfolded err]] by simp
  show ?thesis
  proof (cases "cs_ssh s")
    case None
    then show ?thesis
      using holds
      by (simp add: stopAll_def save_routes_def sv err succeed_def ssh_view_def disk_current_def ssh_disk_def Let_def)
  next
    case (Some cfg)
    obtain err2 g where sv2:
      "Ssh_Save (kc_save_ssh c) (Ssh_List (Ssh_DisableAll (sc_Registry cfg))) (sc_File cfg) = (err2, g)"
      by fastforce
    have err2: "err2 = None"
      using ok Some by (cases err2)
        (simp_all add: stopAll_def save_routes_def save_ssh_def sv sv2 err fail_def Let_def)
    have "ssh_file_holds (map_of (Ssh_DisableAll (sc_Registry cfg))) g"
      using ssh_store.disable_all_saved [OF _ sv2 [unfolded err2]] ssh Some by simp
    then show ?thesis
      using holds Some
      by (simp add: stopAll_def save_routes_def save_ssh_def sv sv2 err err2 succeed_def disk_current_def Let_def)
  qed
qed

text \<open>
  When \<open>stop_all\<close> succeeds, no HTTP or LLM route and no SSH route can be looked up any more,
  neither by alias nor by local username, and a restart would load every HTTP route disabled.
\<close>

theorem stop_all_stops_everything:
  assumes inv: "control_inv s" and ok: "re_OK (fst (stopAll c s))"
    and s': "s' = snd (stopAll c s)"
  shows "Lookup (cs_registry s') a = Inl ErrNotFound
    \<and> (\<forall>cfg. cs_ssh s' = Some cfg \<longrightarrow> Ssh_Lookup (sc_Registry cfg) a = Inl ErrRouteNotFound
          \<and> LookupByUsername (sc_Registry cfg) a = Inl ErrRouteNotFound)
    \<and> (\<forall>p. stored_view (cs_file s') a = Some p \<longrightarrow> \<not> pr_Enabled p)"
proof (intro conjI allI impI)
  note parts = stop_all_ok [OF inv ok, folded s']
  have reg: "registry_inv (cs_registry s)" using inv by (simp add: control_inv_def)
  show "Lookup (cs_registry s') a = Inl ErrNotFound"
    using parts http_reg.lookup_disable_all [OF reg] by simp
  show "\<not> pr_Enabled p" if "stored_view (cs_file s') a = Some p" for p
    using that parts by (auto simp: disk_current_def file_holds_def DisableAll_view json_route_def persist_route_def)
  fix cfg assume cfg: "cs_ssh s' = Some cfg"
  have off: "\<not> sr_Enabled r" if "map_of (sc_Registry cfg) b = Some r" for b r
    using that parts cfg by (auto simp: ssh_view_def Ssh_DisableAll_view split: option.splits)
  then show "Ssh_Lookup (sc_Registry cfg) a = Inl ErrRouteNotFound"
    by (simp add: Ssh_Lookup_def split: option.splits)
  have "ssh_registry_inv (sc_Registry cfg)"
    using stopAll_inv [OF inv, of c] cfg by (simp add: s' [symmetric] control_inv_def)
  then have "find (\<lambda>route. sr_Enabled route \<and> EffectiveLocalUsername route = a) (map snd (sc_Registry cfg)) = None"
    using off amap_values [OF ssh_registry_inv_wf] by (auto simp: find_None_iff)
  then show "LookupByUsername (sc_Registry cfg) a = Inl ErrRouteNotFound"
    by (simp add: LookupByUsername_def)
qed

lemma sample_stop_ok: "re_OK (fst (stopAll sample_calls sample_control))"
proof -
  let ?on = "sample_route\<lparr>hr_Enabled := False\<rparr>" and ?ssh = "sample_ssh_route\<lparr>sr_Enabled := False\<rparr>"
  have "registry_inv [(''api'', ?on)]" using registry_inv_DisableAll [OF sample_http_registry]
    by (simp add: DisableAll_def)
  moreover have "refs_ok (map_of [(''api'', ?on)])" by (simp add: refs_ok_def sample_route_def)
  ultimately obtain f where "Save sample_writes (List_routes [(''api'', ?on)]) (cs_file sample_control) = (None, f)"
    using Save_good [OF _ _ sample_writes_ok] by blast
  then have f: "Save sample_writes [?on] (cs_file sample_control) = (None, f)" by (simp add: List_routes_def)
  have "Ssh_Validate ?ssh = None" using sample_ssh_route_valid by simp
  then have g: "fst (Ssh_Save sample_writes [?ssh] f') = None" for f'
    using sample_writes_ok
    by (simp add: Ssh_Save_def ssh_route_document_def all_writes_ok_def install_private_def
        sample_ssh_route_def)
  then obtain h where h: "Ssh_Save sample_writes [?ssh] (sc_File sample_ssh_configuration) = (None, h)"
    by (metis prod.collapse)
  show ?thesis
    using f h
    by (simp add: stopAll_def sample_control_def sample_ssh_configuration_def DisableAll_def
        Ssh_DisableAll_def List_routes_def Ssh_List_def save_routes_def save_ssh_def sample_calls_writes
        Let_def succeed_def)
qed

theorem stop_all_stops_everything_witness:
  "Lookup (cs_registry (snd (stopAll sample_calls sample_control))) ''api'' = Inl ErrNotFound"
  using stop_all_stops_everything [OF sample_control_inv sample_stop_ok refl] by blast

text \<open>
  When the very first write of \<open>stop_all\<close> fails, the error response leaves the HTTP routes
  as they were but the SSH routes disabled in memory, while their file still has them as before: this
  is the one failure that is not undone.
\<close>

theorem stop_all_failure_keeps_ssh_stopped:
  assumes inv: "control_inv s" and cfg: "cs_ssh s = Some cfg"
    and failed: "Save (kc_save c) (List_routes (DisableAll (cs_registry s))) (cs_file s) = (Some e, f)"
    and s': "s' = snd (stopAll c s)"
  shows "\<not> re_OK (fst (stopAll c s)) \<and> map_of (cs_registry s') = map_of (cs_registry s)
    \<and> ssh_view s' = (\<lambda>a. map_option (\<lambda>r. r\<lparr>sr_Enabled := False\<rparr>) (ssh_view s a))
    \<and> map_option sc_File (cs_ssh s') = Some (sc_File cfg)"
proof -
  have reg: "registry_inv (cs_registry s)" using inv by (simp add: control_inv_def)
  note st = stopAll_ssh_failed(1) [OF inv cfg failed]
  have "ssh_view s' = map_of (Ssh_DisableAll (sc_Registry cfg))" by (simp add: s' st fail_def)
  also have "\<dots> = (\<lambda>a. map_option (\<lambda>r. r\<lparr>sr_Enabled := False\<rparr>) (ssh_view s a))"
    using cfg by (simp add: fun_eq_iff Ssh_DisableAll_view ssh_view_def)
  finally show ?thesis
    using restore_http_disable_all [OF reg] by (simp add: s' st fail_def)
qed

theorem stop_all_failure_keeps_ssh_stopped_witness:
  "ssh_view (snd (stopAll (sample_calls\<lparr>kc_save := sample_writes\<lparr>wc_create_ok := False\<rparr>\<rparr>) sample_control)) ''box''
     = Some (sample_ssh_route\<lparr>sr_Enabled := False\<rparr>)"
proof -
  let ?c = "sample_calls\<lparr>kc_save := sample_writes\<lparr>wc_create_ok := False\<rparr>\<rparr>"
  obtain err f where sv: "Save (kc_save ?c) (List_routes (DisableAll (cs_registry sample_control)))
      (cs_file sample_control) = (err, f)" by fastforce
  have "err \<noteq> None"
    using Save_cases [OF sv] sv by (auto simp: Save_def install_private_def split: if_splits sum.splits)
  then obtain e where "err = Some e" by blast
  with stop_all_failure_keeps_ssh_stopped [OF sample_control_inv _ sv [unfolded \<open>err = Some e\<close>] refl]
  show ?thesis by (simp add: sample_control_def sample_ssh_configuration_def ssh_view_def)
qed

end
