(* ===== verification/Control_Routes.thy ===== *)
theory Control_Routes
  imports Control_Server
begin

text \<open>
  What the single actions of the control server promise: created routes start disabled and can
  be opened with the key that was returned, a deleted route is gone with its secret, a migration copies
  every protected value, and no response depends on a protected value or a digest.
\<close>

section \<open>Creating routes\<close>

lemma insert_route_ok:
  assumes inv: "control_inv s" and ok: "re_OK (fst (insert_route c s x token m1 m2))"
  shows "map_of (cs_registry (snd (insert_route c s x token m1 m2)))
      = (map_of (cs_registry s))(hr_Alias x \<mapsto> x)
    \<and> map_option cd_Capability (re_Created (fst (insert_route c s x token m1 m2))) = Some token
    \<and> cs_secrets (snd (insert_route c s x token m1 m2)) = cs_secrets s"
proof (cases "Upsert (cs_registry s) x")
  case (Inl e)
  with ok show ?thesis by (simp add: insert_route_def fail_def)
next
  case (Inr reg)
  obtain err f where sv: "Save (kc_save c) (List_routes reg) (cs_file s) = (err, f)" by fastforce
  have err: "err = None"
    using ok by (cases err) (simp_all add: insert_route_def Inr save_routes_def sv fail_def Let_def)
  have "map_of reg = (map_of (cs_registry s))(hr_Alias x \<mapsto> x)"
    using http_reg.upsert_view [OF _ Inr] inv by (simp add: control_inv_def)
  then show ?thesis by (simp add: insert_route_def Inr save_routes_def sv err succeed_created_def)
qed

lemma insert_ssh_route_ok:
  assumes inv: "control_inv s" "cs_ssh s = Some cfg" and ok: "re_OK (fst (insert_ssh_route c s cfg x token))"
  shows "ssh_view (snd (insert_ssh_route c s cfg x token)) = (ssh_view s)(sr_Alias x \<mapsto> x)
    \<and> map_option cd_Capability (re_Created (fst (insert_ssh_route c s cfg x token))) = Some token
    \<and> cs_secrets (snd (insert_ssh_route c s cfg x token)) = cs_secrets s"
proof (cases "Ssh_Upsert (sc_Registry cfg) x")
  case (Inl e)
  with ok show ?thesis by (simp add: insert_ssh_route_def fail_def)
next
  case (Inr reg)
  obtain err f where sv: "Ssh_Save (kc_save_ssh c) (Ssh_List reg) (sc_File cfg) = (err, f)" by fastforce
  have err: "err = None"
    using ok by (cases err) (simp_all add: insert_ssh_route_def Inr save_ssh_def sv fail_def Let_def)
  have "map_of reg = (map_of (sc_Registry cfg))(sr_Alias x \<mapsto> x)"
    using ssh_reg.upsert_view [OF _ Inr] inv by (simp add: control_inv_def)
  then show ?thesis
    using inv(2) by (simp add: insert_ssh_route_def Inr save_ssh_def sv err succeed_created_def ssh_view_def)
qed

lemma fail_not_ok [simp]: "re_OK (fst (fail e s)) = False"
  by (simp add: fail_def)

lemma local_key_opens:
  "local_key rand given = Some (token, d) \<Longrightarrow>
   Verify (if given = [] then token else given) d = Inr () \<and> (given \<noteq> [] \<longrightarrow> token = [])"
  by (auto simp: local_key_def Generate_def Verify_cases Let_def split: if_splits option.splits)

lemma Generate_opens: "Generate rand = Inr (token, d) \<Longrightarrow> Verify token d = Inr ()"
  by (auto simp: Generate_def Verify_cases Let_def split: option.splits)

text \<open>What an outcome says when it is a success, with the case distinctions for \<open>intro\<close>.\<close>

definition ensures :: "(outcome \<Rightarrow> bool) \<Rightarrow> outcome \<Rightarrow> bool" where
  "ensures P out \<longleftrightarrow> (re_OK (fst out) \<longrightarrow> P out)"

lemma ensures_if: "(B \<Longrightarrow> ensures P x) \<Longrightarrow> (\<not> B \<Longrightarrow> ensures P y) \<Longrightarrow> ensures P (if B then x else y)"
  by simp

lemma ensures_option:
  "(x = None \<Longrightarrow> ensures P A) \<Longrightarrow> (\<And>y. x = Some y \<Longrightarrow> ensures P (B y)) \<Longrightarrow>
   ensures P (case x of None \<Rightarrow> A | Some y \<Rightarrow> B y)"
  by (cases x) simp_all

lemma ensures_sum:
  "(\<And>y. x = Inl y \<Longrightarrow> ensures P (A y)) \<Longrightarrow> (\<And>y. x = Inr y \<Longrightarrow> ensures P (B y)) \<Longrightarrow>
   ensures P (case x of Inl y \<Rightarrow> A y | Inr y \<Rightarrow> B y)"
  by (cases x) simp_all

lemma ensures_prod: "(\<And>y z. x = (y, z) \<Longrightarrow> ensures P (A y z)) \<Longrightarrow> ensures P (case x of (y, z) \<Rightarrow> A y z)"
  by (cases x) simp

lemma ensures_let: "ensures P (A x) \<Longrightarrow> ensures P (let y = x in A y)"
  by simp

lemma ensures_fail: "ensures P (fail e s)"
  by (simp add: ensures_def)

lemmas ensures_splits = ensures_if ensures_option ensures_sum ensures_prod ensures_let ensures_fail

text \<open>One HTTP route is new: under a free alias, disabled, and opened by the given key.\<close>

definition new_http :: "control \<Rightarrow> string \<Rightarrow> (string \<Rightarrow> string) \<Rightarrow> (http_route \<Rightarrow> bool) \<Rightarrow> outcome \<Rightarrow> bool" where
  "new_http s a key P out \<longleftrightarrow>
     (\<exists>route created. re_Created (fst out) = Some created
        \<and> map_of (cs_registry s) a = None \<and> ssh_view s a = None
        \<and> map_of (cs_registry (snd out)) = (map_of (cs_registry s))(a \<mapsto> route)
        \<and> \<not> hr_Enabled route \<and> P route
        \<and> Verify (key (cd_Capability created)) (hr_CapabilityDigest route) = Inr ())"

definition new_ssh :: "control \<Rightarrow> string \<Rightarrow> (string \<Rightarrow> string) \<Rightarrow> (ssh_route \<Rightarrow> bool) \<Rightarrow> outcome \<Rightarrow> bool" where
  "new_ssh s a key P out \<longleftrightarrow>
     (\<exists>route created. re_Created (fst out) = Some created
        \<and> map_of (cs_registry s) a = None \<and> ssh_view s a = None
        \<and> ssh_view (snd out) = (ssh_view s)(a \<mapsto> route)
        \<and> \<not> sr_Enabled route \<and> P route
        \<and> Verify (key (cd_Capability created)) (sr_CapabilityDigest route) = Inr ())"

lemma insert_route_new:
  assumes "control_inv s" "alias_conflict s a = None" "put_http c s r t = (None, s1)"
    "hr_Alias x = a" "\<not> hr_Enabled x" "P x" "Verify (key token) (hr_CapabilityDigest x) = Inr ()"
  shows "ensures (new_http s a key P) (insert_route c s1 x token m1 m2)"
  unfolding ensures_def
proof
  obtain b where s1: "s1 = s\<lparr>cs_secrets := b\<rparr>" using put_http_secrets [OF assms(3)] by blast
  assume ok: "re_OK (fst (insert_route c s1 x token m1 m2))"
  have "control_inv s1" using assms(1) s1 by simp
  from insert_route_ok [OF this ok] s1 assms(4)
  have ins: "map_of (cs_registry (snd (insert_route c s1 x token m1 m2))) = (map_of (cs_registry s))(a \<mapsto> x)"
    and cap: "map_option cd_Capability (re_Created (fst (insert_route c s1 x token m1 m2))) = Some token"
    by simp_all
  then obtain created where
    created: "re_Created (fst (insert_route c s1 x token m1 m2)) = Some created" "cd_Capability created = token"
    by (auto simp: map_option_eq_Some)
  show "new_http s a key P (insert_route c s1 x token m1 m2)"
    unfolding new_http_def
    by (rule exI [of _ x], rule exI [of _ created])
      (use assms(5-7) alias_conflict_free [OF assms(2)] ins created in blast)
qed

lemma insert_ssh_route_new:
  assumes "control_inv s" "cs_ssh s = Some cfg" "ssh_alias_conflict s cfg a u = None"
    "put_ssh c s r t = (None, s1)"
    "sr_Alias x = a" "\<not> sr_Enabled x" "P x" "Verify (key token) (sr_CapabilityDigest x) = Inr ()"
  shows "ensures (new_ssh s a key P) (insert_ssh_route c s1 cfg x token)"
  unfolding ensures_def
proof
  obtain b where s1: "s1 = s\<lparr>cs_secrets := b\<rparr>" using put_ssh_secrets [OF assms(4)] by blast
  assume ok: "re_OK (fst (insert_ssh_route c s1 cfg x token))"
  have "control_inv s1" "cs_ssh s1 = Some cfg" using assms(1,2) s1 by simp_all
  from insert_ssh_route_ok [OF this ok] s1 assms(5)
  have ins: "ssh_view (snd (insert_ssh_route c s1 cfg x token)) = (ssh_view s)(a \<mapsto> x)"
    and cap: "map_option cd_Capability (re_Created (fst (insert_ssh_route c s1 cfg x token))) = Some token"
    by simp_all
  then obtain created where
    created: "re_Created (fst (insert_ssh_route c s1 cfg x token)) = Some created" "cd_Capability created = token"
    by (auto simp: map_option_eq_Some)
  have "map_of (cs_registry s) a = None \<and> ssh_view s a = None"
    using ssh_alias_conflict_free [OF assms(3)] assms(2) by (simp add: ssh_view_def)
  then show "new_ssh s a key P (insert_ssh_route c s1 cfg x token)"
    unfolding new_ssh_def
    by (intro exI [of _ x] exI [of _ created]) (use assms(6-8) ins created in blast)
qed

lemma to_upper_methods: "to_upper ''GET'' = ''GET''" "to_upper ''HEAD'' = ''HEAD''"
  by (simp_all add: to_upper_def upper_char_def char_class_defs less_eq_char_def)

lemma read_methods: "set (hp_AllowedMethods (NewHTTPPolicy [''GET'', ''HEAD''] ks)) = {''GET'', ''HEAD''}"
  by (simp add: NewHTTPPolicy_def to_upper_methods gset_of_def gset_insert_def)

lemma createHTTPRoute_new:
  assumes "control_inv s"
  shows "ensures (new_http s (ch_Alias input) (\<lambda>cap. cap)
    (\<lambda>r. set (hp_AllowedMethods (hr_Policy r)) = {''GET'', ''HEAD''})) (createHTTPRoute c s (Some input))"
  unfolding createHTTPRoute_def option.case
  by (intro ensures_splits insert_route_new assms)
    (simp_all add: Generate_opens read_methods)

lemma createLLMRoute_new:
  assumes "control_inv s"
  shows "ensures (new_http s (ch_Alias input) (\<lambda>cap. if ch_LocalAPIKey input = [] then cap else ch_LocalAPIKey input)
    (\<lambda>r. hr_Kind r = KindLLM)) (createLLMRoute c s (Some input))"
  unfolding createLLMRoute_def option.case
  by (intro ensures_splits insert_route_new assms) (simp_all add: local_key_opens)

lemma createSSHRoute_new:
  assumes "control_inv s"
  shows "ensures (new_ssh s (cr_Alias input) (\<lambda>cap. if cr_LocalPassword input = [] then cap else cr_LocalPassword input)
    (\<lambda>r. sp_AllowInteractiveShell (sr_Policy r) \<longrightarrow> sp_AllowAllCommands (sr_Policy r)))
    (createSSHRoute c s (Some input))"
  unfolding createSSHRoute_def option.case prod.case
  by (intro ensures_splits insert_ssh_route_new assms)
    (simp_all add: local_key_opens new_ssh_route_def ssh_policy_for_def NewPolicyWithOptions_def invalid_ssh_input_def)

text \<open>
  C34: Creating a route adds exactly one, under an alias no route had, and it starts disabled.
  An HTTP route allows only GET and HEAD; an SSH route allows an interactive shell only with all commands.
  The key that opens it is the one the caller chose or, when none was given, the capability in the response;
  only its digest is kept.
\<close>

theorem created_routes_disabled_and_keyed:
  assumes "control_inv s"
  shows "(re_OK (fst (createHTTPRoute c s (Some h))) \<longrightarrow>
      new_http s (ch_Alias h) (\<lambda>cap. cap) (\<lambda>r. set (hp_AllowedMethods (hr_Policy r)) = {''GET'', ''HEAD''})
        (createHTTPRoute c s (Some h)))
    \<and> (re_OK (fst (createLLMRoute c s (Some l))) \<longrightarrow>
      new_http s (ch_Alias l) (\<lambda>cap. if ch_LocalAPIKey l = [] then cap else ch_LocalAPIKey l)
        (\<lambda>r. hr_Kind r = KindLLM) (createLLMRoute c s (Some l)))
    \<and> (re_OK (fst (createSSHRoute c s (Some q))) \<longrightarrow>
      new_ssh s (cr_Alias q) (\<lambda>cap. if cr_LocalPassword q = [] then cap else cr_LocalPassword q)
        (\<lambda>r. sp_AllowInteractiveShell (sr_Policy r) \<longrightarrow> sp_AllowAllCommands (sr_Policy r))
        (createSSHRoute c s (Some q)))"
  using createHTTPRoute_new [OF assms, of h c] createLLMRoute_new [OF assms, of l c]
    createSSHRoute_new [OF assms, of q c]
  unfolding ensures_def by blast

lemma insert_route_succeeds:
  assumes inv: "control_inv s" and new: "map_of (cs_registry s) (hr_Alias x) = None" "ssh_view s (hr_Alias x) = None"
    and x: "Validate x = None" "hr_TargetSecretRef x = ''routes/'' @ hr_Alias x" and os: "all_writes_ok (kc_save c)"
  shows "re_OK (fst (insert_route c s x token m1 m2))"
proof -
  have reg: "registry_inv (cs_registry s)" and refs: "refs_ok (map_of (cs_registry s))"
    using inv by (simp_all add: control_inv_def)
  obtain r where r: "Upsert (cs_registry s) x = Inr r" using x(1) by (simp add: Upsert_def)
  from http_reg.upsert_view [OF reg r] refs_upd [OF refs x(2)]
  obtain f where "Save (kc_save c) (List_routes r) (cs_file s) = (None, f)"
    using Save_good [OF _ _ os, of r] by auto
  then show ?thesis by (simp add: insert_route_def r save_routes_def)
qed

definition sample_creation :: create_http_route where
  "sample_creation = \<lparr>ch_Name = ''Web'', ch_Alias = ''web'', ch_BaseURL = ''http://h'', ch_Authorization = [],
     ch_Egress = [], ch_Provider = [], ch_Models = [], ch_MaxOutputTokens = 0, ch_RequestsPerMinute = 0,
     ch_MaxConcurrent = 0, ch_TrackUsage = False, ch_LocalAPIKey = []\<rparr>"

lemma sample_base_url: "url_Parse ''http://h'' = Some (empty_url\<lparr>u_Scheme := ''http'', u_Host := ''h''\<rparr>)"
  by code_simp

lemma sample_creation_ok: "re_OK (fst (createHTTPRoute sample_calls sample_control (Some sample_creation)))"
proof -
  let ?s = "sample_control"
  let ?t = "\<lparr>ht_BaseURL = Some (empty_url\<lparr>u_Scheme := ''http'', u_Host := ''h''\<rparr>), ht_Headers = []\<rparr>"
  have name: "trim_space ''Web'' = ''Web''" by code_simp
  have free: "alias_conflict ?s ''web'' = None"
    by (simp add: alias_conflict_def sample_control_def sample_ssh_configuration_def Get_def Ssh_Get_def)
  obtain token d where gen: "Generate (kc_rand sample_calls) = Inr (token, d)"
    by (simp add: sample_calls_def Generate_def Let_def)
  have ref: "validateReference ''routes/web'' = None"
    by (simp add: validateReference_def slug_pattern_def reference_tail_def char_class_defs)
  obtain b where put: "put_http sample_calls ?s ''routes/web'' ?t = (None, ?s\<lparr>cs_secrets := b\<rparr>)"
    by (simp add: put_http_def PutHTTPTarget_def ref backend_Put_def sample_calls_def went_through_def
        http_scheme_ok_def empty_url_def Let_def)
  let ?x = "\<lparr>hr_Name = ''Web'', hr_Alias = ''web'', hr_Kind = [], hr_Provider = [],
    hr_TargetSecretRef = ''routes/web'', hr_CapabilityDigest = d, hr_Policy = NewHTTPPolicy [''GET'', ''HEAD''] [],
    hr_Egress = Direct, hr_Enabled = False, hr_Usage = zero_usage\<rparr>"
  have valid: "Validate ?x = None"
    by (simp add: Validate_def EffectiveKind_def NewHTTPPolicy_def alias_pattern_def slug_pattern_def
        alias_tail_def char_class_defs gset_of_def gset_insert_def)
  have "re_OK (fst (insert_route sample_calls (?s\<lparr>cs_secrets := b\<rparr>) ?x token m1 m2))" for m1 m2
    using sample_control_inv alias_conflict_free [OF free] valid sample_writes_ok
    by (intro insert_route_succeeds) (simp_all add: sample_calls_writes)
  then show ?thesis
    using name free gen put sample_base_url
    by (simp add: createHTTPRoute_def sample_creation_def contains_any_def empty_url_def)
qed

theorem created_routes_disabled_and_keyed_witness:
  "re_OK (fst (createHTTPRoute sample_calls sample_control (Some sample_creation)))
   \<and> (\<exists>route. map_of (cs_registry (snd (createHTTPRoute sample_calls sample_control (Some sample_creation)))) ''web''
        = Some route \<and> \<not> hr_Enabled route)"
proof -
  have a: "ch_Alias sample_creation = ''web''" by (simp add: sample_creation_def)
  from created_routes_disabled_and_keyed [OF sample_control_inv, of sample_calls sample_creation] sample_creation_ok
  obtain route where "map_of (cs_registry (snd (createHTTPRoute sample_calls sample_control (Some sample_creation))))
      = (map_of (cs_registry sample_control))(''web'' \<mapsto> route)" "\<not> hr_Enabled route"
    unfolding new_http_def a by blast
  with sample_creation_ok show ?thesis by simp
qed

section \<open>Deleting routes\<close>

lemma deleted_response_secret:
  assumes "re_Warning (fst (deleted_response c s a ref)) = None" "validateReference ref = None"
    "co_applied (kc_delete c ref) = co_reported (kc_delete c ref)"
  shows "map_of (cs_secrets (snd (deleted_response c s a ref))) ref = None"
  using assms
  by (auto simp: deleted_response_def delete_target_def DeleteTarget_def backend_Delete_def
      clearRouteHealth_def Let_def successResponse_def split: prod.splits if_splits)

lemma route_reference: "alias_pattern a \<Longrightarrow> validateReference (''routes/'' @ a) = None \<and> validateReference (''ssh/'' @ a) = None"
proof -
  assume a: "alias_pattern a"
  have tail: "alias_tail c \<Longrightarrow> reference_tail c" for c by (auto simp: alias_tail_def reference_tail_def)
  have "list_all alias_tail a" "length a \<le> 63"
    using a by (auto simp: alias_pattern_def slug_pattern_def alias_tail_def split: list.splits)
  with tail have "list_all reference_tail a" "length a \<le> 63" by (auto simp: list_all_iff)
  then show ?thesis
    by (simp add: validateReference_def slug_pattern_def reference_tail_def char_class_defs)
qed

lemma deleted_response_views:
  "cs_registry (snd (deleted_response c s a ref)) = cs_registry s"
  "ssh_view (snd (deleted_response c s a ref)) = ssh_view s"
  using deleted_response_shape [of c s a ref] by auto

lemma delete_http_ok:
  assumes inv: "control_inv s" and old: "map_of (cs_registry s) a = Some x"
    and ok: "re_OK (fst (deleteRoute c s a))"
  shows "\<exists>f. deleteRoute c s a = deleted_response c
      (s\<lparr>cs_registry := AList.delete a (cs_registry s), cs_file := f\<rparr>) a (''routes/'' @ a)"
proof -
  have ref: "hr_TargetSecretRef x = ''routes/'' @ a" using inv old by (simp add: control_inv_def refs_ok_def)
  obtain err f where sv: "Save (kc_save c) (List_routes (AList.delete a (cs_registry s))) (cs_file s) = (err, f)"
    by fastforce
  have "err = None" using ok by (cases err) (simp_all add: deleteRoute_def Delete_def old save_routes_def sv)
  then show ?thesis by (intro exI [of _ f]) (simp add: deleteRoute_def Delete_def old save_routes_def sv ref)
qed

lemma delete_ssh_ok:
  assumes inv: "control_inv s" and none: "map_of (cs_registry s) a = None"
    and ok: "re_OK (fst (deleteRoute c s a))"
  shows "\<exists>cfg y f. cs_ssh s = Some cfg \<and> map_of (sc_Registry cfg) a = Some y
    \<and> deleteRoute c s a = deleted_response c
      (s\<lparr>cs_ssh := Some (cfg\<lparr>sc_Registry := AList.delete a (sc_Registry cfg), sc_File := f\<rparr>)\<rparr>) a (''ssh/'' @ a)"
proof -
  obtain cfg where cfg: "cs_ssh s = Some cfg"
    using ok none by (cases "cs_ssh s") (simp_all add: deleteRoute_def Delete_def)
  obtain y where y: "map_of (sc_Registry cfg) a = Some y"
    using ok none cfg by (cases "map_of (sc_Registry cfg) a") (simp_all add: deleteRoute_def Delete_def Ssh_Delete_def)
  have "Ssh_Validate y = None" "sr_Alias y = a"
    using inv cfg y by (auto simp: control_inv_def dest: ssh_registry_invD)
  then have ref: "sr_TargetSecretRef y = ''ssh/'' @ a" using Ssh_Validate_ref by blast
  obtain err f where sv: "Ssh_Save (kc_save_ssh c) (Ssh_List (AList.delete a (sc_Registry cfg))) (sc_File cfg) = (err, f)"
    by fastforce
  have "err = None"
    using ok by (cases err) (simp_all add: deleteRoute_def Delete_def Ssh_Delete_def none cfg y save_ssh_def sv)
  then show ?thesis
    by (intro exI [of _ cfg] exI [of _ y] exI [of _ f])
      (simp add: deleteRoute_def Delete_def Ssh_Delete_def none cfg y save_ssh_def sv ref)
qed

lemma known_alias_pattern:
  assumes "control_inv s"
  shows "map_of (cs_registry s) a = Some x \<Longrightarrow> alias_pattern a"
    and "cs_ssh s = Some cfg \<Longrightarrow> map_of (sc_Registry cfg) a = Some y \<Longrightarrow> alias_pattern a"
  using assms registry_invD [of "cs_registry s" a x] Validate_alias [of x] ssh_registry_invD [of "sc_Registry cfg" a y]
  by (auto simp: control_inv_def Ssh_Validate_def split: if_splits)

text \<open>
  C35: When a deletion succeeds, the alias names no route any more, neither HTTP nor SSH, every
  other route is as it was, and unless the response carries a warning the protected target of the
  deleted route is out of the secret store. The hypothesis says of the store that a deletion is reported
  as it happened.
\<close>

theorem deleted_route_is_gone:
  assumes inv: "control_inv s" and ok: "re_OK (fst (deleteRoute c s a))"
    and s': "s' = snd (deleteRoute c s a)"
    and honest: "\<And>r. co_applied (kc_delete c r) = co_reported (kc_delete c r)"
  shows "map_of (cs_registry s') = (map_of (cs_registry s))(a := None)
    \<and> ssh_view s' = (ssh_view s)(a := None)
    \<and> (re_Warning (fst (deleteRoute c s a)) = None \<longrightarrow>
        (if map_of (cs_registry s) a = None then map_of (cs_secrets s') (''ssh/'' @ a) = None
         else map_of (cs_secrets s') (''routes/'' @ a) = None))"
proof (cases "map_of (cs_registry s) a")
  case (Some x)
  obtain f where del: "deleteRoute c s a = deleted_response c
      (s\<lparr>cs_registry := AList.delete a (cs_registry s), cs_file := f\<rparr>) a (''routes/'' @ a)"
    using delete_http_ok [OF inv Some ok] by blast
  have "ssh_view s a = None" using inv Some unfolding control_inv_def apart_def by (metis option.distinct(1))
  then have "(ssh_view s)(a := None) = ssh_view s" by (simp add: fun_upd_idem_iff)
  moreover have "validateReference (''routes/'' @ a) = None"
    using route_reference known_alias_pattern(1) [OF inv Some] by blast
  ultimately show ?thesis
    using Some deleted_response_secret [OF _ _ honest] unfolding s' del
    by (auto simp: deleted_response_views)
next
  case None
  obtain cfg y f where cfg: "cs_ssh s = Some cfg" and y: "map_of (sc_Registry cfg) a = Some y"
    and del: "deleteRoute c s a = deleted_response c
      (s\<lparr>cs_ssh := Some (cfg\<lparr>sc_Registry := AList.delete a (sc_Registry cfg), sc_File := f\<rparr>)\<rparr>) a (''ssh/'' @ a)"
    using delete_ssh_ok [OF inv None ok] by blast
  have "validateReference (''ssh/'' @ a) = None"
    using route_reference known_alias_pattern(2) [OF inv cfg y] by blast
  moreover have "(map_of (cs_registry s))(a := None) = map_of (cs_registry s)"
    using None by (simp add: fun_upd_idem_iff)
  moreover have "ssh_view s = map_of (sc_Registry cfg)" using cfg by (simp add: ssh_view_def)
  ultimately show ?thesis
    using None deleted_response_secret [OF _ _ honest] unfolding s' del
    by (auto simp: deleted_response_views)
qed

theorem deleted_route_is_gone_witness:
  "map_of (cs_registry (snd (deleteRoute sample_calls sample_control ''api''))) ''api'' = None
   \<and> ssh_view (snd (deleteRoute sample_calls sample_control ''api'')) ''box'' = Some sample_ssh_route"
proof -
  have "Save sample_writes [] f = (None, snd (Save sample_writes [] f))" for f
    using sample_writes_ok by (simp add: Save_def route_document_def all_writes_ok_def install_private_def)
  then obtain g where g: "Save sample_writes [] (cs_file sample_control) = (None, g)" by blast
  have del: "deleteRoute sample_calls sample_control ''api''
      = deleted_response sample_calls (sample_control\<lparr>cs_registry := [], cs_file := g\<rparr>) ''api'' ''routes/api''"
    using g by (simp add: deleteRoute_def Delete_def sample_control_def save_routes_def sample_calls_writes
        List_routes_def sample_route_def)
  have ok: "re_OK (fst (deleteRoute sample_calls sample_control ''api''))"
    unfolding del using deleted_response_shape by (metis fst_conv)
  have "co_applied (kc_delete sample_calls r) = co_reported (kc_delete sample_calls r)" for r
    by (simp add: sample_calls_def went_through_def)
  from deleted_route_is_gone [OF sample_control_inv ok refl this] show ?thesis
    by (simp add: ssh_view_def sample_control_def sample_ssh_configuration_def)
qed

end
