(* ===== verification/Control_Secrets.thy ===== *)
theory Control_Secrets
  imports Control_Routes
begin

text \<open>
  The control server and the secret stores: what a migration copies, what responses may depend
  on, and the clash of one SSH alias with the reference of the gateway's own host key.
\<close>

section \<open>Migration\<close>

lemma backend_Get_cong: "map_of b r = map_of b' r \<Longrightarrow> backend_Get ok b r = backend_Get ok b' r"
  by (simp add: backend_Get_def)

lemma ResolveHTTPTarget_cong:
  "map_of b r = map_of b' r \<Longrightarrow> ResolveHTTPTarget d ok b r = ResolveHTTPTarget d ok b' r"
  unfolding ResolveHTTPTarget_def by (simp only: backend_Get_cong [of b r b'])

lemma ResolveSSHTarget_cong:
  "map_of b r = map_of b' r \<Longrightarrow> ResolveSSHTarget kp d ok b r = ResolveSSHTarget kp d ok b' r"
  unfolding ResolveSSHTarget_def by (simp only: backend_Get_cong [of b r b'])

lemma ResolveSSHHostIdentity_cong:
  "map_of b r = map_of b' r \<Longrightarrow> ResolveSSHHostIdentity kp d ok b r = ResolveSSHHostIdentity kp d ok b' r"
  unfolding ResolveSSHHostIdentity_def by (simp only: backend_Get_cong [of b r b'])

text \<open>A reference holds what a successful put of the value leaves there.\<close>

definition holds_http :: "backend \<Rightarrow> string \<Rightarrow> http_target \<Rightarrow> bool" where
  "holds_http b r t \<longleftrightarrow>
     (\<exists>b0 b1. PutHTTPTarget False went_through b0 r t = (None, b1) \<and> map_of b r = map_of b1 r)"

definition holds_ssh :: "key_parsers \<Rightarrow> backend \<Rightarrow> string \<Rightarrow> ssh_target \<Rightarrow> bool" where
  "holds_ssh kp b r t \<longleftrightarrow>
     (\<exists>b0 b1. PutSSHTarget kp False went_through b0 r t = (None, b1) \<and> map_of b r = map_of b1 r)"

lemma holds_http_resolve: "holds_http b r t \<Longrightarrow> http_storable t \<Longrightarrow> ResolveHTTPTarget False True b r = Inr t"
  using kept_http.put_same ResolveHTTPTarget_cong unfolding holds_http_def as_sum_Inr by metis

lemma holds_ssh_resolve: "holds_ssh kp b r t \<Longrightarrow> ssh_target_utf8 t \<Longrightarrow> ResolveSSHTarget kp False True b r = Inr t"
  using kept_ssh.put_same ResolveSSHTarget_cong unfolding holds_ssh_def as_sum_Inr by metis

lemma PutHTTPTarget_other: "PutHTTPTarget d out b r t = (e, b') \<Longrightarrow> q \<noteq> r \<Longrightarrow> map_of b' q = map_of b q"
  by (auto simp: PutHTTPTarget_def backend_Put_def Let_def split: if_splits option.splits)

lemma PutSSHTarget_other: "PutSSHTarget kp d out b r t = (e, b') \<Longrightarrow> q \<noteq> r \<Longrightarrow> map_of b' q = map_of b q"
  by (auto simp: PutSSHTarget_def backend_Put_def Let_def split: if_splits option.splits)

lemma PutProxyConfig_other: "PutProxyConfig d out b r t = (e, b') \<Longrightarrow> q \<noteq> r \<Longrightarrow> map_of b' q = map_of b q"
  by (auto simp: PutProxyConfig_def backend_Put_def Let_def split: if_splits option.splits)

lemma PutSSHHostIdentity_other: "PutSSHHostIdentity kp d out b r t = (e, b') \<Longrightarrow> q \<noteq> r \<Longrightarrow> map_of b' q = map_of b q"
  by (auto simp: PutSSHHostIdentity_def backend_Put_def Let_def split: if_splits option.splits)

lemma migrate_http_copies:
  assumes "migrate_http c src rs dst = (None, dst')" "\<And>r. kc_other_put c r = went_through"
  shows "(\<forall>r\<in>set rs. \<exists>t. ResolveHTTPTarget False (kc_get_ok c (hr_TargetSecretRef r)) src (hr_TargetSecretRef r) = Inr t
       \<and> holds_http dst' (hr_TargetSecretRef r) t)
    \<and> (\<forall>q. q \<notin> hr_TargetSecretRef ` set rs \<longrightarrow> map_of dst' q = map_of dst q)"
  using assms(1)
proof (induction rs arbitrary: dst)
  case (Cons r rs)
  let ?q = "hr_TargetSecretRef r"
  from Cons.prems obtain t dst1 where
    t: "ResolveHTTPTarget False (kc_get_ok c ?q) src ?q = Inr t"
    and put: "PutHTTPTarget False went_through dst ?q t = (None, dst1)"
    and rest: "migrate_http c src rs dst1 = (None, dst')"
    by (auto simp: assms(2) Let_def split: sum.splits prod.splits option.splits)
  note IH = Cons.IH [OF rest]
  have "holds_http dst' ?q t"
  proof (cases "?q \<in> hr_TargetSecretRef ` set rs")
    case True
    then obtain r' where "r' \<in> set rs" "hr_TargetSecretRef r' = ?q" by force
    with IH t show ?thesis by force
  next
    case False
    with IH have "map_of dst' ?q = map_of dst1 ?q" by blast
    with put show ?thesis unfolding holds_http_def by blast
  qed
  moreover have "map_of dst' q = map_of dst q" if "q \<notin> hr_TargetSecretRef ` set (r # rs)" for q
    using IH that PutHTTPTarget_other [OF put, of q] by auto
  ultimately show ?case using IH t by auto
qed simp

lemma migrate_ssh_copies:
  assumes "migrate_ssh c src rs dst = (None, dst')" "\<And>r. kc_other_put c r = went_through"
    and kp: "kp = parsers (kc_library c)"
  shows "(\<forall>r\<in>set rs. \<exists>t. ResolveSSHTarget kp False (kc_get_ok c (sr_TargetSecretRef r)) src (sr_TargetSecretRef r) = Inr t
       \<and> holds_ssh kp dst' (sr_TargetSecretRef r) t)
    \<and> (\<forall>q. q \<notin> sr_TargetSecretRef ` set rs \<longrightarrow> map_of dst' q = map_of dst q)"
  using assms(1)
proof (induction rs arbitrary: dst)
  case (Cons r rs)
  let ?q = "sr_TargetSecretRef r"
  from Cons.prems obtain t dst1 where
    t: "ResolveSSHTarget kp False (kc_get_ok c ?q) src ?q = Inr t"
    and put: "PutSSHTarget kp False went_through dst ?q t = (None, dst1)"
    and rest: "migrate_ssh c src rs dst1 = (None, dst')"
    by (auto simp: assms(2) kp Let_def split: sum.splits prod.splits option.splits)
  note IH = Cons.IH [OF rest]
  have "holds_ssh kp dst' ?q t"
  proof (cases "?q \<in> sr_TargetSecretRef ` set rs")
    case True
    then obtain r' where "r' \<in> set rs" "sr_TargetSecretRef r' = ?q" by force
    with IH t show ?thesis by force
  next
    case False
    with IH have "map_of dst' ?q = map_of dst1 ?q" by blast
    with put show ?thesis unfolding holds_ssh_def by blast
  qed
  moreover have "map_of dst' q = map_of dst q" if "q \<notin> sr_TargetSecretRef ` set (r # rs)" for q
    using IH that PutSSHTarget_other [OF put, of q] by auto
  ultimately show ?case using IH t by auto
qed simp

lemma migrate_proxy_other:
  "migrate_proxy c src dst = (e, dst') \<Longrightarrow> q \<noteq> DefaultSecretReference \<Longrightarrow> map_of dst' q = map_of dst q"
  by (auto simp: migrate_proxy_def Let_def split: sum.splits prod.splits option.splits dest: PutProxyConfig_other)

lemma migrate_identity_other:
  "migrate_identity c src dst = (e, dst') \<Longrightarrow> q \<noteq> HostIdentitySecretReference \<Longrightarrow> map_of dst' q = map_of dst q"
  by (auto simp: migrate_identity_def Let_def split: sum.splits prod.splits option.splits
      dest: PutSSHHostIdentity_other)

lemma migrate_identity_copies:
  assumes "migrate_identity c src dst = (None, dst')" "\<And>r. kc_other_put c r = went_through"
    and kp: "kp = parsers (kc_library c)"
    and src: "ResolveSSHHostIdentity kp False (kc_get_ok c HostIdentitySecretReference) src HostIdentitySecretReference = Inr i"
  shows "ResolveSSHHostIdentity kp False True dst' HostIdentitySecretReference = Inr i"
proof -
  have "PutSSHHostIdentity kp False went_through dst HostIdentitySecretReference i = (None, dst')"
    using assms(1) src
    by (auto simp: migrate_identity_def assms(2) kp Let_def split: sum.splits prod.splits option.splits)
  then show ?thesis using kept_identity.put_same unfolding as_sum_Inr by blast
qed

lemma and_then_ok: "and_then r f = (None, b) \<longleftrightarrow> (\<exists>b0. r = (None, b0) \<and> f b0 = (None, b))"
  by (auto simp: and_then_def split: prod.splits option.splits)

lemma reference_kinds:
  "''routes/'' @ a \<noteq> ''ssh/'' @ b" "''routes/'' @ a \<noteq> DefaultSecretReference"
  "''routes/'' @ a \<noteq> HostIdentitySecretReference" "''ssh/'' @ a \<noteq> DefaultSecretReference"
  "''ssh/'' @ a = HostIdentitySecretReference \<longleftrightarrow> a = ''host-identity''"
  by (simp_all add: DefaultSecretReference_def HostIdentitySecretReference_def)

lemma migrate_ok:
  assumes "re_OK (fst (migrateSecretStore c s mode))"
  shows "\<exists>dst. migrate_all c s = (None, dst) \<and> snd (migrateSecretStore c s mode) = s\<lparr>cs_other := dst\<rparr>"
  using assms by (auto simp: migrateSecretStore_def succeed_def split: if_splits prod.splits option.splits)

lemma ssh_routes_view:
  assumes "control_inv s"
  shows "r \<in> set (ssh_routes s) \<longleftrightarrow> ssh_view s (sr_Alias r) = Some r"
  using assms ssh_reg.listing_view by (auto simp: ssh_routes_def ssh_view_def control_inv_def split: option.splits)

lemma ssh_view_ref:
  assumes "control_inv s" "ssh_view s a = Some r"
  shows "sr_Alias r = a \<and> sr_TargetSecretRef r = ''ssh/'' @ a"
  using assms Ssh_Validate_ref
  by (auto simp: ssh_view_def control_inv_def split: option.splits dest!: ssh_registry_invD)


lemma host_identity_reference: "validateReference HostIdentitySecretReference = None"
  by (simp add: HostIdentitySecretReference_def validateReference_def slug_pattern_def reference_tail_def
      char_class_defs)

definition sample_migration :: control where
  "sample_migration = sample_control\<lparr>cs_registry := [], cs_file := None,
     cs_secrets := [(''ssh/box'', ssh_payload sample_upstream),
       (HostIdentitySecretReference, empty_payload\<lparr>pl_private_key := ''K''\<rparr>)]\<rparr>"

lemma sample_migration_inv: "control_inv sample_migration"
  using sample_ssh_registry
  by (simp add: control_inv_def sample_migration_def sample_control_def sample_ssh_configuration_def refs_ok_def
      apart_def)

lemma sample_upstream_valid:
  "validateSSHTarget (parsers sample_library) sample_upstream = None" "ssh_target_utf8 sample_upstream"
  by (simp_all add: validateSSHTarget_def sample_upstream_def sample_library_def SplitHostPort_def Atoi_def
      decimal_def digit_value_def char_class_defs key_parsers.truncate_def ssh_target_utf8_def
      utf8_valid_ascii less_char_def)

lemma sample_resolves:
  "map_of b ''ssh/box'' = Some (ssh_payload sample_upstream) \<Longrightarrow>
   ResolveSSHTarget (parsers sample_library) False True b ''ssh/box'' = Inr sample_upstream"
  using sample_upstream_valid sample_references(1)
  by (simp add: ResolveSSHTarget_def backend_Get_def payload_ssh_roundtrip Let_def)

lemma sample_migration_ok: "re_OK (fst (migrateSecretStore sample_calls sample_migration StoreModeKeychain))"
proof -
  let ?kp = "parsers sample_library"
  let ?src = "cs_secrets sample_migration"
  let ?d = "[(''ssh/box'', ssh_payload sample_upstream)]"
  have lib: "kc_library sample_calls = sample_library" "kc_get_ok sample_calls r" "kc_other_get_ok sample_calls r"
    "kc_other_put sample_calls r = went_through" "kc_factory_ok sample_calls" for r
    by (simp_all add: sample_calls_def)
  have src: "map_of ?src ''ssh/box'' = Some (ssh_payload sample_upstream)"
    "map_of ?src HostIdentitySecretReference = Some (empty_payload\<lparr>pl_private_key := ''K''\<rparr>)"
    "map_of ?src DefaultSecretReference = None"
    by (simp_all add: sample_migration_def HostIdentitySecretReference_def DefaultSecretReference_def)
  have put: "PutSSHTarget ?kp False went_through [] ''ssh/box'' sample_upstream = (None, ?d)"
    using sample_upstream_valid(1) sample_references(1)
    by (simp add: PutSSHTarget_def backend_Put_def went_through_def)
  have routes: "ssh_routes sample_migration = [sample_ssh_route]" "sr_TargetSecretRef sample_ssh_route = ''ssh/box''"
    by (simp_all add: ssh_routes_def sample_migration_def sample_control_def sample_ssh_configuration_def
        Ssh_List_def sample_ssh_route_def)
  have m2: "migrate_ssh sample_calls ?src [sample_ssh_route] [] = (None, ?d)"
    using sample_resolves [OF src(1)] sample_resolves [of ?d] put by (simp add: lib routes(2) Let_def)
  have "validateReference DefaultSecretReference = None"
    by (simp add: DefaultSecretReference_def validateReference_def slug_pattern_def reference_tail_def char_class_defs)
  then have m3: "migrate_proxy sample_calls ?src ?d = (None, ?d)"
    using src(3) by (simp add: migrate_proxy_def ResolveProxyConfig_def backend_Get_def lib Let_def)
  let ?i = "AList.update HostIdentitySecretReference (empty_payload\<lparr>pl_private_key := ''K''\<rparr>) ?d"
  have id: "ResolveSSHHostIdentity ?kp False True b HostIdentitySecretReference = Inr ''K''"
    if "map_of b HostIdentitySecretReference = Some (empty_payload\<lparr>pl_private_key := ''K''\<rparr>)" for b
    using that by (simp add: ResolveSSHHostIdentity_def backend_Get_def host_identity_reference
        validateSSHHostIdentity_def sample_library_def key_parsers.truncate_def empty_payload_def)
  have "PutSSHHostIdentity ?kp False went_through ?d HostIdentitySecretReference ''K'' = (None, ?i)"
    by (simp add: PutSSHHostIdentity_def host_identity_reference validateSSHHostIdentity_def sample_library_def
        key_parsers.truncate_def backend_Put_def went_through_def)
  then have m4: "migrate_identity sample_calls ?src ?d = (None, ?i)"
    using id [OF src(2)] id [of ?i] by (simp add: migrate_identity_def lib Let_def)
  have "migrate_all sample_calls sample_migration = (None, ?i)"
    unfolding migrate_all_def routes(1) using m2 m3 m4
    by (simp add: and_then_def sample_migration_def sample_control_def List_routes_def)
  then show ?thesis
    by (simp add: migrateSecretStore_def lib sample_migration_def sample_control_def validSecretStoreMode_def
        StoreModeKeychain_def StoreModeLocalFile_def)
qed


section \<open>Responses do not depend on secrets\<close>

text \<open>The same server with other secrets, digests, token and host key.\<close>

definition other_secrets ::
  "(string \<Rightarrow> digest) \<Rightarrow> backend \<Rightarrow> backend \<Rightarrow> string \<Rightarrow> bytes \<Rightarrow> control \<Rightarrow> control" where
  "other_secrets d b b' token key s = s
     \<lparr>cs_secrets := b, cs_other := b', cs_token := token,
      cs_registry := map (\<lambda>(a, r). (a, r\<lparr>hr_CapabilityDigest := d a\<rparr>)) (cs_registry s),
      cs_ssh := map_option (\<lambda>cfg. cfg\<lparr>sc_HostKey := key,
        sc_Registry := map (\<lambda>(a, r). (a, r\<lparr>sr_CapabilityDigest := d a\<rparr>)) (sc_Registry cfg)\<rparr>) (cs_ssh s)\<rparr>"

lemma kind_digest: "EffectiveKind (r\<lparr>hr_CapabilityDigest := d\<rparr>) = EffectiveKind r"
  "llm_permission_summary (r\<lparr>hr_CapabilityDigest := d\<rparr>) = llm_permission_summary r"
  by (simp_all add: EffectiveKind_def llm_permission_summary_def)

lemma summarize_digest: "summarize (r\<lparr>hr_CapabilityDigest := d\<rparr>) addr = summarize r addr"
  by (simp add: summarize_def kind_digest Let_def split del: if_split cong del: if_weak_cong)

lemma user_digest:
  "EffectiveLocalUsername (r\<lparr>sr_CapabilityDigest := d\<rparr>) = EffectiveLocalUsername r"
  "EffectiveAuthenticationTimeoutSeconds (r\<lparr>sr_CapabilityDigest := d\<rparr>) = EffectiveAuthenticationTimeoutSeconds r"
  "ssh_permission_summary (r\<lparr>sr_CapabilityDigest := d\<rparr>) = ssh_permission_summary r"
  by (simp_all add: EffectiveLocalUsername_def EffectiveAuthenticationTimeoutSeconds_def
      ssh_permission_summary_def split del: if_split cong del: if_weak_cong)

lemma summarizeSSH_digest: "summarizeSSH (r\<lparr>sr_CapabilityDigest := d\<rparr>) addr = summarizeSSH r addr"
  by (simp add: summarizeSSH_def user_digest Let_def split del: if_split cong del: if_weak_cong)

lemma display_name_digest:
  "routeDisplayName (other_secrets d b b' token key s) a = routeDisplayName s a"
proof -
  have http: "Get (map (\<lambda>(a, r). (a, r\<lparr>hr_CapabilityDigest := d a\<rparr>)) reg) a
      = map_sum id (\<lambda>r. r\<lparr>hr_CapabilityDigest := d a\<rparr>) (Get reg a)" for reg
    unfolding Get_def map_of_map_values [where f = "\<lambda>a r. r\<lparr>hr_CapabilityDigest := d a\<rparr>"]
    by (simp split: option.splits)
  have ssh: "Ssh_Get (map (\<lambda>(a, r). (a, r\<lparr>sr_CapabilityDigest := d a\<rparr>)) reg) a
      = map_sum id (\<lambda>r. r\<lparr>sr_CapabilityDigest := d a\<rparr>) (Ssh_Get reg a)" for reg
    unfolding Ssh_Get_def map_of_map_values [where f = "\<lambda>a r. r\<lparr>sr_CapabilityDigest := d a\<rparr>"]
    by (simp split: option.splits)
  show ?thesis
    by (cases "cs_ssh s"; cases "Get (cs_registry s) a"; cases "Ssh_Get (sc_Registry (the (cs_ssh s))) a")
      (simp_all add: routeDisplayName_def other_secrets_def http ssh)
qed

lemma summaries_digest:
  "routeSummaries (other_secrets d b b' token key s) = routeSummaries s"
proof -
  have h: "routeHealth (other_secrets d b b' token key s) = routeHealth s"
    by (simp add: routeHealth_def other_secrets_def fun_eq_iff)
  have l: "map (\<lambda>route. summarize route addr) (List_routes (map (\<lambda>(a, r). (a, r\<lparr>hr_CapabilityDigest := d a\<rparr>)) reg))
      = map (\<lambda>route. summarize route addr) (List_routes reg)" for reg addr
    by (induction reg) (auto simp: List_routes_def summarize_digest)
  have l2: "map (\<lambda>route. summarizeSSH route addr) (Ssh_List (map (\<lambda>(a, r). (a, r\<lparr>sr_CapabilityDigest := d a\<rparr>)) reg))
      = map (\<lambda>route. summarizeSSH route addr) (Ssh_List reg)" for reg addr
    by (induction reg) (auto simp: Ssh_List_def summarizeSSH_digest)
  show ?thesis
    unfolding routeSummaries_def h summaries_def
    by (cases "cs_ssh s") (simp_all add: other_secrets_def l l2)
qed

lemma activities_digest:
  "recentActivities format (other_secrets d b b' token key s) = recentActivities format s"
proof -
  have entries: "activity_entry format (other_secrets d b b' token key s) = activity_entry format s"
    "command_entry format (other_secrets d b b' token key s) = command_entry format s"
    by (simp_all add: fun_eq_iff activity_entry_def command_entry_def display_name_digest)
  have "cs_activity (other_secrets d b b' token key s) = cs_activity s"
    and "map_option sc_CommandAudit (cs_ssh (other_secrets d b b' token key s))
      = map_option sc_CommandAudit (cs_ssh s)"
    by (simp_all add: other_secrets_def option.map_comp comp_def)
  then show ?thesis
    unfolding recentActivities_def entries
    by (cases "cs_ssh s"; cases "cs_ssh (other_secrets d b b' token key s)") simp_all
qed


section \<open>The alias of the host identity\<close>

lemma put_ssh_stored:
  assumes "put_ssh c s r t = (None, s1)" "kc_put c r = went_through"
  shows "map_of (cs_secrets s1) r = Some (ssh_payload t)"
  using assms PutSSHTarget_ok by (fastforce simp: put_ssh_def split: prod.splits)

lemma delete_target_gone:
  assumes "kc_delete c r = went_through" "validateReference r = None"
  shows "map_of (cs_secrets (snd (delete_target c s r))) r = None"
  using assms by (simp add: delete_target_def DeleteTarget_def backend_Delete_def went_through_def split: prod.splits)

text \<open>After the end of a creation the reference holds the new target or nothing.\<close>

lemma insert_ssh_route_secret:
  assumes "kc_delete c r = went_through" "validateReference r = None" "sr_TargetSecretRef x = r"
  shows "map_of (cs_secrets (snd (insert_ssh_route c s cfg x token))) r \<in> {map_of (cs_secrets s) r, None}"
  using delete_target_gone [OF assms(1,2)] assms(3)
  by (auto simp: insert_ssh_route_def fail_def succeed_created_def Let_def split: sum.splits prod.splits option.splits)

lemma no_host_identity:
  assumes "map_of b HostIdentitySecretReference \<in> {Some (ssh_payload t), None}" "st_PrivateKey t = []"
  shows "\<not> is_ok (ResolveSSHHostIdentity kp False True b HostIdentitySecretReference)"
proof -
  have "pl_private_key (ssh_payload t) = []" using assms(2) by (simp add: ssh_payload_def)
  with assms(1) show ?thesis
    by (auto simp: ResolveSSHHostIdentity_def backend_Get_def host_identity_reference
        validateSSHHostIdentity_def is_ok_def)
qed

text \<open>
  Asking for an SSH route with the alias \<open>host-identity\<close> destroys the gateway's own host key:
  the reference of the route's target is the reference of the host identity, so the request (whether it then
  succeeds or is rolled back) leaves a store from which the host identity does not resolve. The hypotheses say
  that the request passes the checks before the target is stored and that the store does what it is told.
\<close>

theorem host_identity_destroyed:
  assumes cfg: "cs_ssh s = Some cfg" and alias_name: "cr_Alias input = ''host-identity''"
    and accepted: "\<not> invalid_ssh_input input" "normalizeSSHAddress (cr_Address input) = Some address"
      "NormalizeAuthenticationTimeoutSeconds (cr_AuthenticationTimeoutSeconds input) = Inr timeout"
      "decode_host_key (cr_ExpectedHostKey input) = Some hostKey"
      "ssh_alias_conflict s cfg (cr_Alias input)
        (if cr_LocalUsername input = [] then cr_Alias input else cr_LocalUsername input) = None"
      "local_key (kc_rand c) (cr_LocalPassword input) = Some (token, digest)"
      "validateSSHTarget (parsers (kc_library c)) (password_target address input hostKey) = None"
    and store: "\<And>r. kc_put c r = went_through" "\<And>r. kc_delete c r = went_through"
  shows "\<not> is_ok (ResolveSSHHostIdentity kp False True (cs_secrets (snd (createSSHRoute c s (Some input))))
    HostIdentitySecretReference)"
proof -
  let ?t = "password_target address input hostKey"
  let ?x = "new_ssh_route input (if cr_LocalUsername input = [] then cr_Alias input else cr_LocalUsername input) timeout digest"
  have ref: "''ssh/'' @ cr_Alias input = HostIdentitySecretReference"
    using alias_name by (simp add: HostIdentitySecretReference_def)
  have "put_ssh c s (''ssh/'' @ cr_Alias input) ?t
      = (None, s\<lparr>cs_secrets := AList.update HostIdentitySecretReference (ssh_payload ?t) (cs_secrets s)\<rparr>)"
    unfolding ref using accepted(7) store
    by (simp add: put_ssh_def PutSSHTarget_def host_identity_reference backend_Put_def went_through_def)
  then have create: "createSSHRoute c s (Some input)
      = insert_ssh_route c (s\<lparr>cs_secrets := AList.update HostIdentitySecretReference (ssh_payload ?t) (cs_secrets s)\<rparr>)
          cfg ?x token"
    using cfg accepted(1-6) unfolding createSSHRoute_def by (simp add: Let_def split del: if_split)
  have "sr_TargetSecretRef ?x = HostIdentitySecretReference" unfolding ref [symmetric] by (simp add: new_ssh_route_def)
  from insert_ssh_route_secret [OF store(2) host_identity_reference this,
      of "s\<lparr>cs_secrets := AList.update HostIdentitySecretReference (ssh_payload ?t) (cs_secrets s)\<rparr>" cfg token,
      folded create]
  have "map_of (cs_secrets (snd (createSSHRoute c s (Some input)))) HostIdentitySecretReference
      \<in> {Some (ssh_payload ?t), None}" by simp
  moreover have "st_PrivateKey ?t = []" by (simp add: password_target_def)
  ultimately show ?thesis by (rule no_host_identity)
qed

definition sample_identity_request :: create_ssh_route where
  "sample_identity_request = \<lparr>cr_Name = ''Box'', cr_Alias = ''host-identity'', cr_LocalUsername = [],
     cr_Address = ''h:22'', cr_Username = ''u'', cr_Password = ''p'', cr_LocalPassword = [],
     cr_ExpectedHostKey = ''SGVs'', cr_AllowedCommand = ''uptime'', cr_AllowAllCommands = False,
     cr_RecordCommands = False, cr_AllowSFTP = False, cr_AllowInteractiveShell = False,
     cr_AuthenticationTimeoutSeconds = 0, cr_Egress = [], cr_KeywordReplacements = []\<rparr>"

lemma sample_identity_checks:
  "\<not> invalid_ssh_input sample_identity_request" "normalizeSSHAddress ''h:22'' = Some ''h:22''"
  "decode_host_key ''SGVs'' = Some ''Hel''"
  by code_simp+

theorem host_identity_destroyed_witness:
  "\<not> is_ok (ResolveSSHHostIdentity sample_parsers False True
     (cs_secrets (snd (createSSHRoute sample_calls sample_control (Some sample_identity_request))))
     HostIdentitySecretReference)"
proof -
  obtain token d where gen: "local_key (kc_rand sample_calls) [] = Some (token, d)"
    by (simp add: local_key_def sample_calls_def Generate_def Let_def)
  have target: "validateSSHTarget (parsers (kc_library sample_calls)) (password_target ''h:22'' sample_identity_request ''Hel'') = None"
    by (simp add: validateSSHTarget_def password_target_def sample_identity_request_def sample_calls_def
        sample_library_def SplitHostPort_def Atoi_def decimal_def digit_value_def char_class_defs
        key_parsers.truncate_def)
  have free: "ssh_alias_conflict sample_control sample_ssh_configuration ''host-identity'' ''host-identity'' = None"
    by (simp add: ssh_alias_conflict_def sample_control_def sample_ssh_configuration_def Get_def Ssh_Get_def
        GetByUsername_def EffectiveLocalUsername_def sample_ssh_route_def)
  show ?thesis
    by (rule host_identity_destroyed [where cfg = sample_ssh_configuration and address = "''h:22''"
          and timeout = 20 and hostKey = "''Hel''" and token = token and digest = d])
      (use gen target free sample_identity_checks in
        \<open>simp_all add: sample_control_def sample_identity_request_def sample_calls_def
          NormalizeAuthenticationTimeoutSeconds_def DefaultAuthenticationTimeoutSeconds_def\<close>)
qed

end
