(* ===== verification/Secure_File.thy ===== *)
theory Secure_File
  imports Private_File
begin

text \<open>
  Package \<open>internal/securefile\<close>: the protected token and specification files of the operator. A file
  is its content, if it exists; the results of the system calls are arguments, in the order of the
  calls.
\<close>

definition filepath_IsAbs :: "string \<Rightarrow> bool" where
  "filepath_IsAbs p \<longleftrightarrow> has_prefix p ''/''"

definition maxTokenBytes :: int where
  "maxTokenBytes = 128"

section \<open>Reading\<close>

record file_calls =
  fc_lstat :: lstat_result
  fc_open_ok :: bool
  fc_stat_ok :: bool
  fc_same_file :: bool
  fc_read_ok :: bool

definition Read :: "file_calls \<Rightarrow> bytes \<Rightarrow> string \<Rightarrow> int \<Rightarrow> string + bytes" where
  "Read os content p maxBytes =
     (if p = [] \<or> maxBytes < 1 then Inl ''invalid protected file path''
      else case fc_lstat os of
        StatOk info \<Rightarrow>
          if \<not> IsPrivateRegularFile info \<or> fi_Size info > maxBytes
          then Inl ''protected file must be a regular 0600 file''
          else if \<not> fc_open_ok os then Inl ''open protected file''
          else if \<not> fc_stat_ok os \<or> \<not> fc_same_file os then Inl ''protected file changed while opening''
          else
            let contents = take (nat (maxBytes + 1)) content in
            if \<not> fc_read_ok os \<or> int (length contents) > maxBytes then Inl ''read protected file''
            else Inr contents
      | _ \<Rightarrow> Inl ''protected file must be a regular 0600 file'')"

definition ReadToken :: "file_calls \<Rightarrow> bytes \<Rightarrow> string \<Rightarrow> string + string" where
  "ReadToken os content p =
     (case Read os content p maxTokenBytes of
        Inl e \<Rightarrow> Inl e
      | Inr contents \<Rightarrow>
          let token = trim_space contents in
          if length token < 32 \<or> int (length token) > maxTokenBytes
             \<or> contains_any token [NUL, CR, LF, TAB, CHR '' '']
          then Inl ''invalid protected token'' else Inr token)"

section \<open>Creating a token\<close>

text \<open>
  \<open>tc_left\<close> is what a write that failed left in the file. A file that could not be removed after a
  failure stays.
\<close>

record create_calls =
  tc_create_ok :: bool
  tc_protect_ok :: bool
  tc_write_ok :: bool
  tc_left :: bytes
  tc_sync_ok :: bool
  tc_close_ok :: bool
  tc_remove_ok :: bool

definition after_remove :: "create_calls \<Rightarrow> bytes \<Rightarrow> bytes option" where
  "after_remove os content = (if tc_remove_ok os then None else Some content)"

text \<open>\<open>O_EXCL\<close>: the file is created only where there is none.\<close>

definition CreateToken ::
  "create_calls \<Rightarrow> bytes option \<Rightarrow> string \<Rightarrow> bytes option \<Rightarrow> (string + string) \<times> bytes option" where
  "CreateToken os random p present =
     (if p = [] \<or> \<not> filepath_IsAbs p then (Inl ''token output path must be absolute'', present)
      else case random of
        None \<Rightarrow> (Inl ''generate token'', present)
      | Some bs \<Rightarrow>
          let token = RawURLEncoding_EncodeToString bs; line = token @ [LF] in
          if present \<noteq> None \<or> \<not> tc_create_ok os then (Inl ''create protected token file'', present)
          else if \<not> tc_protect_ok os then (Inl ''protect token file'', after_remove os [])
          else if \<not> tc_write_ok os then (Inl ''write protected token file'', after_remove os (tc_left os))
          else if \<not> tc_sync_ok os then (Inl ''sync protected token file'', after_remove os line)
          else if \<not> tc_close_ok os then (Inl ''close protected token file'', after_remove os line)
          else (Inr token, Some line))"

section \<open>Trimming\<close>

text \<open>A character that neither starts nor ends a space: printable ASCII other than the space.\<close>

definition graphic :: "char \<Rightarrow> bool" where
  "graphic c \<longleftrightarrow> CHR 0x21 \<le> c \<and> c \<le> CHR 0x7E"

lemma trim_with_stop:
  assumes "\<And>p. p \<in> set ps \<Longrightarrow> p \<noteq> [] \<Longrightarrow> \<not> prefix p s"
  shows "trim_with ps s = s"
proof -
  have "find (\<lambda>p. p \<noteq> [] \<and> prefix p s) ps = None" using assms by (auto simp: find_None_iff)
  then show ?thesis by (subst trim_with.simps) simp
qed

lemma space_ends:
  "p \<in> set go_spaces \<Longrightarrow> p \<noteq> [] \<and> \<not> graphic (hd p) \<and> \<not> graphic (last p)"
  by (auto simp: go_spaces_def graphic_def less_eq_char_def)

lemma trim_front: "graphic c \<Longrightarrow> trim_with go_spaces (c # s) = c # s"
proof (rule trim_with_stop)
  fix p
  assume "graphic c" "p \<in> set go_spaces"
  then show "\<not> prefix p (c # s)" using space_ends [of p] by (cases p) auto
qed

lemma trim_end: "graphic c \<Longrightarrow> trim_with (map rev go_spaces) (c # s) = c # s"
proof (rule trim_with_stop)
  fix p
  assume "graphic c" "p \<in> set (map rev go_spaces)"
  then obtain q where "p = rev q" "q \<in> set go_spaces" by auto
  with \<open>graphic c\<close> show "\<not> prefix p (c # s)" using space_ends [of q] by (cases q rule: rev_cases) auto
qed

lemma trim_end_line:
  assumes "graphic c"
  shows "trim_with (map rev go_spaces) (LF # c # s) = c # s"
proof -
  have "find (\<lambda>p. p \<noteq> [] \<and> prefix p (LF # c # s)) (map rev go_spaces) = Some [LF]"
    by (simp add: go_spaces_def)
  then show ?thesis by (subst trim_with.simps) (simp add: trim_end [OF assms])
qed

lemma trim_space_ends:
  assumes "s \<noteq> []" "graphic (hd s)" "graphic (last s)"
  shows "trim_space s = s" and "trim_space (s @ [LF]) = s"
proof -
  obtain c r where s: "s = c # r" using assms(1) by (cases s) auto
  obtain q where rs: "rev s = last s # q" using assms(1) by (metis append_butlast_last_id rev_eq_Cons_iff rev_rev_ident)
  then have back_to: "rev (last s # q) = s" by (metis rev_rev_ident)
  have "trim_with go_spaces s = s" using trim_front [of c r] assms(2) s by simp
  moreover have "trim_with (map rev go_spaces) (rev s) = rev s" unfolding rs by (rule trim_end [OF assms(3)])
  ultimately show "trim_space s = s" by (simp add: trim_space_def)
  have "trim_with go_spaces (s @ [LF]) = s @ [LF]" using trim_front [of c "r @ [LF]"] assms(2) s by simp
  then show "trim_space (s @ [LF]) = s"
    using trim_end_line [OF assms(3), of q] back_to by (simp add: trim_space_def rs)
qed

text \<open>Trimming takes the line end off a word, and leaves a word alone.\<close>

lemma trim_space_word:
  assumes "list_all graphic w" "w \<noteq> []"
  shows "trim_space w = w" and "trim_space (w @ [LF]) = w"
  using trim_space_ends [OF assms(2)] assms by (simp_all add: list_all_iff)

lemma b64_char_graphic [simp]: "graphic (b64_char url n)"
  by (auto simp: b64_char_def graphic_def less_eq_char_def)

lemma b64_encode_graphic: "list_all graphic (b64_encode url False bs)"
  by (induction url False bs rule: b64_encode.induct) (simp_all add: Let_def)

lemma length_b64_encode: "length (b64_encode url False bs) = (4 * length bs + 2) div 3"
  by (induction url False bs rule: b64_encode.induct) (auto simp: Let_def)

section \<open>Properties\<close>

lemma graphic_word: "list_all graphic w \<Longrightarrow> \<not> contains_any w [NUL, CR, LF, TAB, CHR '' '']"
  by (auto simp: contains_any_def list_all_iff graphic_def less_eq_char_def)

text \<open>The system calls that find a private file of the size of its content.\<close>

definition readable :: "file_calls \<Rightarrow> bytes \<Rightarrow> bool" where
  "readable os content \<longleftrightarrow>
     (\<exists>info. fc_lstat os = StatOk info \<and> IsPrivateRegularFile info \<and> fi_Size info = int (length content))
     \<and> fc_open_ok os \<and> fc_stat_ok os \<and> fc_same_file os \<and> fc_read_ok os"

text \<open>
  C40: a token file that was created reads back as the token that was reported, of the length the
  control server and its client require, and a file that was there before is never touched; a failed
  creation leaves no file behind when its removal works.
\<close>

theorem token_file_roundtrip:
  assumes random: "length bs = 32" and path: "p \<noteq> []"
    and create: "CreateToken os (Some bs) p present = (result, written)"
  shows "(\<forall>token. result = Inr token \<longrightarrow> present = None \<and> 32 \<le> length token \<and> length token \<le> 128
      \<and> (\<exists>content. written = Some content \<and> (\<forall>ros. readable ros content \<longrightarrow> ReadToken ros content p = Inr token)))
    \<and> (present \<noteq> None \<longrightarrow> written = present)
    \<and> (present = None \<and> tc_remove_ok os \<and> \<not> is_ok result \<longrightarrow> written = None)"
proof -
  define t where "t = RawURLEncoding_EncodeToString bs"
  have l: "length t = 43" by (simp add: t_def length_b64_encode random)
  have g: "list_all graphic t" by (simp add: t_def b64_encode_graphic)
  have "t \<noteq> []" using l by auto
  have trim: "trim_space (t @ [LF]) = t" by (rule trim_space_word(2) [OF g \<open>t \<noteq> []\<close>])
  have read: "ReadToken ros (t @ [LF]) p = Inr t" if "readable ros (t @ [LF])" for ros
    using that path l graphic_word [OF g]
    by (auto simp: ReadToken_def Read_def readable_def maxTokenBytes_def trim Let_def)
  show ?thesis
    using create l read
    by (auto simp: CreateToken_def t_def [symmetric] after_remove_def Let_def split: if_splits)
qed

definition sample_create :: create_calls where
  "sample_create = \<lparr>tc_create_ok = True, tc_protect_ok = True, tc_write_ok = True, tc_left = [],
     tc_sync_ok = True, tc_close_ok = True, tc_remove_ok = True\<rparr>"

definition sample_file_calls :: file_calls where
  "sample_file_calls = \<lparr>fc_lstat = StatOk \<lparr>fi_Type = Regular, fi_Perm = 384, fi_Size = 44\<rparr>,
     fc_open_ok = True, fc_stat_ok = True, fc_same_file = True, fc_read_ok = True\<rparr>"

theorem token_file_roundtrip_witness:
  "\<exists>token content. CreateToken sample_create (Some (replicate 32 (CHR ''r''))) ''/t'' None = (Inr token, Some content)
     \<and> ReadToken sample_file_calls content ''/t'' = Inr token"
proof -
  let ?t = "RawURLEncoding_EncodeToString (replicate 32 (CHR ''r''))"
  have c: "CreateToken sample_create (Some (replicate 32 (CHR ''r''))) ''/t'' None = (Inr ?t, Some (?t @ [LF]))"
    by (simp add: CreateToken_def sample_create_def filepath_IsAbs_def has_prefix_def Let_def)
  have r: "readable sample_file_calls (?t @ [LF])"
    by (simp add: readable_def sample_file_calls_def IsPrivateRegularFile_def length_b64_encode)
  from token_file_roundtrip [OF _ _ c] r c show ?thesis by auto
qed

end
