(* ===== verification/Control_Endpoint.thy ===== *)
theory Control_Endpoint
  imports Control_Server Secure_File
begin

text \<open>
  Package \<open>internal/control\<close>, the ends of the control channel: where the Unix socket is
  (\<open>transport_unix.go\<close>), how the daemon opens it (\<open>listen\<close> of \<open>server.go\<close>) and the client
  (\<open>client.go\<close>). A call of the client is one exchange with the server's \<open>handle\<close>: the request is
  encoded, decoded by the server, the response encoded and decoded again. Encoding and decoding these
  structures forces every string to valid UTF-8; the lengths of the two texts are arguments, because the
  limit on them is what the code tests.
\<close>

section \<open>Paths\<close>

fun rel_step :: "string list \<Rightarrow> string \<Rightarrow> string list" where
  "rel_step st seg =
     (if seg = [] \<or> seg = ''.'' then st
      else if seg = ''..'' then
        (case st of [] \<Rightarrow> [''..''] | t # r \<Rightarrow> if t = ''..'' then ''..'' # st else r)
      else seg # st)"

definition filepath_Clean :: "string \<Rightarrow> string" where
  "filepath_Clean p =
     (if filepath_IsAbs p then path_clean p
      else (let segs = rev (foldl rel_step [] (split_on CHR ''/'' p)) in
            if segs = [] then ''.'' else join_with ''/'' segs))"

definition filepath_Join :: "string \<Rightarrow> string \<Rightarrow> string" where
  "filepath_Join dir name = (if dir = [] then filepath_Clean name else filepath_Clean (dir @ ''/'' @ name))"

definition filepath_Dir :: "string \<Rightarrow> string" where
  "filepath_Dir p = filepath_Clean (rev (dropWhile (\<lambda>c. c \<noteq> CHR ''/'') (rev p)))"

record paths =
  pt_Directory :: string
  pt_Socket :: string

definition PathsForDirectory :: "string \<Rightarrow> string + paths" where
  "PathsForDirectory directory =
     (if \<not> filepath_IsAbs directory then Inl ''control directory must be absolute''
      else Inr \<lparr>pt_Directory = directory, pt_Socket = filepath_Join directory ''control.sock''\<rparr>)"

definition DefaultPaths :: "string option \<Rightarrow> string + paths" where
  "DefaultPaths configDir =
     (case configDir of
        None \<Rightarrow> Inl ''locate user configuration directory''
      | Some dir \<Rightarrow> PathsForDirectory (filepath_Join dir ''io.airlock.relay''))"

definition validControlPaths :: "paths \<Rightarrow> bool" where
  "validControlPaths p \<longleftrightarrow>
     pt_Directory p \<noteq> [] \<and> pt_Socket p \<noteq> [] \<and> filepath_IsAbs (pt_Directory p) \<and> filepath_IsAbs (pt_Socket p)
     \<and> filepath_Dir (pt_Socket p) = pt_Directory p"

definition ValidatePaths :: "paths \<Rightarrow> string option" where
  "ValidatePaths p = (if \<not> validControlPaths p then Some ''invalid control paths'' else None)"

definition validControlEndpoint :: "string \<Rightarrow> bool" where
  "validControlEndpoint endpoint \<longleftrightarrow> filepath_IsAbs endpoint"

section \<open>Opening the socket\<close>

record endpoint_calls =
  ec_dir :: dir_calls
  ec_lstat :: lstat_result
  ec_remove_ok :: bool
  ec_listen_error :: "string option"
  ec_chmod_ok :: bool

datatype endpoint_effect = RemovedPath string | Bound string | Protected string "32 word" | ClosedListener

definition prepareDirectory :: "endpoint_calls \<Rightarrow> string option" where
  "prepareDirectory os =
     (if EnsurePrivateDirectory (ec_dir os) \<noteq> None then Some ''create or protect control directory'' else None)"

definition removeStaleSocket :: "endpoint_calls \<Rightarrow> string \<Rightarrow> string option \<times> endpoint_effect list" where
  "removeStaleSocket os p =
     (case ec_lstat os of
        StatNotExist \<Rightarrow> (None, [])
      | StatFailed \<Rightarrow> (Some ''control socket path is not a socket'', [])
      | StatOk info \<Rightarrow>
          if fi_Type info \<noteq> Socket then (Some ''control socket path is not a socket'', [])
          else if \<not> ec_remove_ok os then (Some ''remove stale control socket'', [])
          else (None, [RemovedPath p]))"

definition listenControlEndpoint :: "endpoint_calls \<Rightarrow> paths \<Rightarrow> string option \<times> endpoint_effect list" where
  "listenControlEndpoint os p =
     (case prepareDirectory os of
        Some e \<Rightarrow> (Some e, [])
      | None \<Rightarrow>
          (case removeStaleSocket os (pt_Socket p) of
             (Some e, effects) \<Rightarrow> (Some e, effects)
           | (None, effects) \<Rightarrow>
               (case ec_listen_error os of
                  Some e \<Rightarrow> (Some e, effects)
                | None \<Rightarrow>
                    if \<not> ec_chmod_ok os
                    then (Some ''protect control socket'', effects @ [Bound (pt_Socket p), ClosedListener])
                    else (None, effects @ [Bound (pt_Socket p), Protected (pt_Socket p) 384]))))"

definition Cleanup :: "paths \<Rightarrow> endpoint_effect list" where
  "Cleanup p = [RemovedPath (pt_Socket p)]"

section \<open>Creating the server\<close>

text \<open>
  The metadata store and the egress manager may be nil (\<open>None\<close>); the registry and the metadata store of
  an SSH configuration never are at its one use. The recorder is the one of the SSH configuration.
\<close>

definition listen ::
  "endpoint_calls \<Rightarrow> paths \<Rightarrow> string \<Rightarrow> http_registry \<Rightarrow> backend \<Rightarrow> route_file option \<Rightarrow> manager option
   \<Rightarrow> ssh_configuration option \<Rightarrow> recorder option \<Rightarrow> (string + control) \<times> endpoint_effect list" where
  "listen os p token registry store persistence egressManager ssh recorder =
     (if length token < 32 \<or> length token > 128 then (Inl ''invalid in-memory control token'', [])
      else case persistence of
        None \<Rightarrow> (Inl ''route metadata store is required'', [])
      | Some metadata \<Rightarrow>
          (case egressManager of
             None \<Rightarrow> (Inl ''egress manager is required'', [])
           | Some manager \<Rightarrow>
               (case ValidatePaths p of
                  Some e \<Rightarrow> (Inl e, [])
                | None \<Rightarrow>
                    (case listenControlEndpoint os p of
                       (Some e, effects) \<Rightarrow> (Inl (''listen on control endpoint: '' @ e), effects)
                     | (None, effects) \<Rightarrow>
                         (Inr \<lparr>cs_registry = registry, cs_secrets = store, cs_file = metadata,
                               cs_egress = manager, cs_ssh = ssh,
                               cs_httpAddress =
                                 (case ssh of
                                    Some cfg \<Rightarrow> if sc_HTTPAddress cfg \<noteq> [] then sc_HTTPAddress cfg
                                                else ''127.0.0.1:4768''
                                  | None \<Rightarrow> ''127.0.0.1:4768''),
                               cs_token = token, cs_secretMode = [], cs_storeFactory = False,
                               cs_other = [], cs_activity = (if ssh = None then None else recorder),
                               cs_health = []\<rparr>, effects)))))"

definition Listen ::
  "endpoint_calls \<Rightarrow> paths \<Rightarrow> string \<Rightarrow> http_registry \<Rightarrow> backend \<Rightarrow> route_file option \<Rightarrow> manager option
   \<Rightarrow> (string + control) \<times> endpoint_effect list" where
  "Listen os p token registry store persistence egressManager =
     listen os p token registry store persistence egressManager None None"

definition ListenWithSSH ::
  "endpoint_calls \<Rightarrow> paths \<Rightarrow> string \<Rightarrow> http_registry \<Rightarrow> backend \<Rightarrow> route_file option \<Rightarrow> manager option
   \<Rightarrow> ssh_configuration \<Rightarrow> recorder option \<Rightarrow> (string + control) \<times> endpoint_effect list" where
  "ListenWithSSH os p token registry store persistence egressManager cfg recorder =
     (if sc_ListenAddress cfg = [] \<or> sc_HostKey cfg = [] then (Inl ''invalid SSH control configuration'', [])
      else
        let cfg1 = (if sc_DialAddress cfg = [] then cfg\<lparr>sc_DialAddress := sc_ListenAddress cfg\<rparr> else cfg)
        in listen os p token registry store persistence egressManager (Some cfg1) recorder)"

section \<open>What encoding and decoding make of the messages\<close>

definition json_create_http :: "create_http_route \<Rightarrow> create_http_route" where
  "json_create_http r = r
     \<lparr>ch_Name := utf8_coerce (ch_Name r), ch_Alias := utf8_coerce (ch_Alias r),
      ch_BaseURL := utf8_coerce (ch_BaseURL r), ch_Authorization := utf8_coerce (ch_Authorization r),
      ch_Egress := utf8_coerce (ch_Egress r), ch_Provider := utf8_coerce (ch_Provider r),
      ch_Models := map utf8_coerce (ch_Models r), ch_LocalAPIKey := utf8_coerce (ch_LocalAPIKey r)\<rparr>"

definition json_create_ssh :: "create_ssh_route \<Rightarrow> create_ssh_route" where
  "json_create_ssh r = r
     \<lparr>cr_Name := utf8_coerce (cr_Name r), cr_Alias := utf8_coerce (cr_Alias r),
      cr_LocalUsername := utf8_coerce (cr_LocalUsername r), cr_Address := utf8_coerce (cr_Address r),
      cr_Username := utf8_coerce (cr_Username r), cr_Password := utf8_coerce (cr_Password r),
      cr_LocalPassword := utf8_coerce (cr_LocalPassword r),
      cr_ExpectedHostKey := utf8_coerce (cr_ExpectedHostKey r),
      cr_AllowedCommand := utf8_coerce (cr_AllowedCommand r), cr_Egress := utf8_coerce (cr_Egress r),
      cr_KeywordReplacements := map json_keyword (cr_KeywordReplacements r)\<rparr>"

definition json_policy :: "ssh_policy_update \<Rightarrow> ssh_policy_update" where
  "json_policy r = r
     \<lparr>pu_Name := utf8_coerce (pu_Name r), pu_LocalUsername := utf8_coerce (pu_LocalUsername r),
      pu_AllowedCommand := utf8_coerce (pu_AllowedCommand r), pu_Egress := utf8_coerce (pu_Egress r)\<rparr>"

definition json_probe :: "probe_ssh_host_key \<Rightarrow> probe_ssh_host_key" where
  "json_probe r = \<lparr>pk_Address = utf8_coerce (pk_Address r), pk_Egress = utf8_coerce (pk_Egress r)\<rparr>"

definition json_request :: "control_request \<Rightarrow> control_request" where
  "json_request r =
     \<lparr>rq_Version = rq_Version r, rq_Token = utf8_coerce (rq_Token r), rq_Action = utf8_coerce (rq_Action r),
      rq_Create = map_option json_create_http (rq_Create r),
      rq_CreateSSH = map_option json_create_ssh (rq_CreateSSH r),
      rq_ProbeSSH = map_option json_probe (rq_ProbeSSH r),
      rq_SSHPolicy = map_option json_policy (rq_SSHPolicy r), rq_Alias = utf8_coerce (rq_Alias r),
      rq_Enabled = rq_Enabled r, rq_ProxyURL = utf8_coerce (rq_ProxyURL r),
      rq_Capability = utf8_coerce (rq_Capability r), rq_Command = utf8_coerce (rq_Command r),
      rq_SecretMode = utf8_coerce (rq_SecretMode r),
      rq_KeywordReplacements = map json_keyword (rq_KeywordReplacements r)\<rparr>"

definition json_summary :: "route_summary \<Rightarrow> route_summary" where
  "json_summary m = m
     \<lparr>rm_ID := utf8_coerce (rm_ID m), rm_Name := utf8_coerce (rm_Name m), rm_Alias := utf8_coerce (rm_Alias m),
      rm_LocalUsername := utf8_coerce (rm_LocalUsername m), rm_Kind := utf8_coerce (rm_Kind m),
      rm_Status := utf8_coerce (rm_Status m), rm_LocalEndpoint := utf8_coerce (rm_LocalEndpoint m),
      rm_PermissionSummary := utf8_coerce (rm_PermissionSummary m), rm_Egress := utf8_coerce (rm_Egress m),
      rm_Health := utf8_coerce (rm_Health m), rm_LastUsed := utf8_coerce (rm_LastUsed m),
      rm_AllowedCommand := utf8_coerce (rm_AllowedCommand m), rm_Provider := utf8_coerce (rm_Provider m),
      rm_AllowedModels := map utf8_coerce (rm_AllowedModels m)\<rparr>"

text \<open>The time an entry is sorted by is not part of the message.\<close>

definition json_activity :: "activity_summary \<Rightarrow> activity_summary" where
  "json_activity a =
     \<lparr>as_ID = utf8_coerce (as_ID a), as_Time = utf8_coerce (as_Time a),
      as_RouteName = utf8_coerce (as_RouteName a), as_Caller = utf8_coerce (as_Caller a),
      as_Action = utf8_coerce (as_Action a), as_Detail = utf8_coerce (as_Detail a),
      as_Result = utf8_coerce (as_Result a), as_Latency = utf8_coerce (as_Latency a),
      as_Egress = utf8_coerce (as_Egress a), as_Category = utf8_coerce (as_Category a),
      as_EventType = utf8_coerce (as_EventType a), as_when = 0\<rparr>"

text \<open>An empty message is left out; the Chinese messages are valid UTF-8.\<close>

definition json_text :: "message \<Rightarrow> message" where
  "json_text m = (case m of English s \<Rightarrow> English (utf8_coerce s) | Localized s \<Rightarrow> Localized s)"

definition json_message :: "message option \<Rightarrow> message option" where
  "json_message m = (case m of None \<Rightarrow> None | Some e \<Rightarrow> if e = English [] then None else Some (json_text e))"

definition json_response :: "control_response \<Rightarrow> control_response" where
  "json_response r = r
     \<lparr>re_Error := json_message (re_Error r), re_Warning := json_message (re_Warning r),
      re_Routes := map json_summary (re_Routes r),
      re_Created := map_option (\<lambda>c. \<lparr>cd_Route = json_summary (cd_Route c),
                                      cd_Capability = utf8_coerce (cd_Capability c)\<rparr>) (re_Created r),
      re_SSHHostKeyProbe := map_option (\<lambda>p. \<lparr>hk_HostKey = utf8_coerce (hk_HostKey p),
                                              hk_Fingerprint = utf8_coerce (hk_Fingerprint p)\<rparr>)
                              (re_SSHHostKeyProbe r),
      re_HealthCheck := map_option (\<lambda>h. \<lparr>hc_Alias = utf8_coerce (hc_Alias h),
                                          hc_Status = utf8_coerce (hc_Status h),
                                          hc_Message = json_text (hc_Message h),
                                          hc_Latency = utf8_coerce (hc_Latency h),
                                          hc_CheckedAt = utf8_coerce (hc_CheckedAt h)\<rparr>) (re_HealthCheck r),
      re_Activity := map json_activity (re_Activity r),
      re_KeywordReplacements := map json_keyword (re_KeywordReplacements r)\<rparr>"

section \<open>The client\<close>

record control_client =
  cc_socketPath :: string
  cc_token :: string

definition NewClient :: "string \<Rightarrow> string \<Rightarrow> string + control_client" where
  "NewClient socketPath token =
     (if \<not> validControlEndpoint socketPath \<or> length token < 32 \<or> length token > 128
      then Inl ''invalid control client configuration''
      else Inr \<lparr>cc_socketPath = socketPath, cc_token = token\<rparr>)"

definition maxMessageBytes :: nat where
  "maxMessageBytes = 65536"

text \<open>Durations and points in time are nanoseconds.\<close>

definition second :: int where
  "second = 1000000000"

definition exchange_timeout :: "string \<Rightarrow> int" where
  "exchange_timeout action = (if action = ''test_route_health'' then 125 * second else 20 * second)"

definition client_deadline :: "int \<Rightarrow> string \<Rightarrow> int option \<Rightarrow> int" where
  "client_deadline now action ctxDeadline =
     (let deadline = now + exchange_timeout action in
      case ctxDeadline of Some requested \<Rightarrow> if requested < deadline then requested else deadline
        | None \<Rightarrow> deadline)"

text \<open>
  What became of the exchange: whether each call succeeded within the deadline, and whether the whole
  request reached the server although writing it reported an error.
\<close>

record client_calls =
  cl_dial_ok :: bool
  cl_deadline_ok :: bool
  cl_write_ok :: bool
  cl_delivered :: bool
  cl_read_ok :: bool

record wire =
  wr_request_length :: "control_request \<Rightarrow> nat"
  wr_response_length :: "control_response \<Rightarrow> nat"

definition server_receives :: "wire \<Rightarrow> control_request \<Rightarrow> control_request option" where
  "server_receives w sent = (if wr_request_length w sent \<le> maxMessageBytes then Some (json_request sent) else None)"

definition Do ::
  "client_calls \<Rightarrow> wire \<Rightarrow> control_calls \<Rightarrow> control_client option \<Rightarrow> control_request \<Rightarrow> control
   \<Rightarrow> (string + control_response) \<times> control" where
  "Do cl w c client request s =
     (case client of
        None \<Rightarrow> (Inl ''control client is unavailable'', s)
      | Some k \<Rightarrow>
          if \<not> cl_dial_ok cl then (Inl ''connect to airlockd control endpoint'', s)
          else if \<not> cl_deadline_ok cl then (Inl ''protect control socket exchange'', snd (handle c s None))
          else
            let sent = request\<lparr>rq_Version := protocolVersion, rq_Token := cc_token k\<rparr>;
                received = (if cl_write_ok cl \<or> cl_delivered cl then server_receives w sent else None)
            in (case handle c s received of
                  (response, s') \<Rightarrow>
                    if \<not> cl_write_ok cl then (Inl ''write control request'', s')
                    else if \<not> cl_read_ok cl \<or> wr_response_length w response > maxMessageBytes
                    then (Inl ''read control response'', s')
                    else (Inr (json_response response), s')))"

section \<open>Where the socket is\<close>

lemma slashed_clean:
  "list_all (\<lambda>seg. seg \<noteq> [] \<and> \<not> dot_segment seg \<and> CHR ''/'' \<notin> set seg) segs \<Longrightarrow>
   clean_segments (slashed segs) = segs"
proof (induction segs rule: rev_induct)
  case Nil
  show ?case by (simp add: slashed_def clean_segments_def clean_step_def)
next
  case (snoc seg segs)
  then have "clean_segments (slashed segs @ ''/'' @ seg) = clean_segments (slashed segs) @ [seg]"
    by (subst clean_segments_append) (simp_all add: split_on_no_sep)
  with snoc show ?case by (simp add: slashed_def)
qed

lemma clean_segments_plain:
  "list_all (\<lambda>seg. seg \<noteq> [] \<and> \<not> dot_segment seg \<and> CHR ''/'' \<notin> set seg) (clean_segments p)"
  using clean_segments_ordinary [of _ p] split_on_elem_no_sep [of _ "CHR ''/''" p] clean_segments_subset [of p]
  by (auto simp: list_all_iff)

lemma path_clean_abs: "filepath_IsAbs (path_clean p)"
  by (simp add: filepath_IsAbs_def has_prefix_def path_clean_def)

lemma socket_path:
  assumes "filepath_IsAbs d"
  shows "filepath_Join d ''control.sock'' = slashed (clean_segments d) @ ''/control.sock''"
proof -
  have "d \<noteq> []" "filepath_IsAbs (d @ ''/'' @ ''control.sock'')"
    using assms by (auto simp: filepath_IsAbs_def has_prefix_def)
  then have "filepath_Join d ''control.sock'' = path_clean (d @ ''/'' @ ''control.sock'')"
    by (simp add: filepath_Join_def filepath_Clean_def)
  moreover have "clean_segments (d @ ''/'' @ ''control.sock'') = clean_segments d @ [''control.sock'']"
    by (subst clean_segments_append) (simp_all add: dot_segment_def)
  ultimately show ?thesis by (simp add: path_clean_slashed slashed_def)
qed

lemma socket_directory:
  assumes "filepath_IsAbs d"
  shows "filepath_Dir (filepath_Join d ''control.sock'') = filepath_Clean d"
proof -
  let ?segs = "clean_segments d"
  have "rev (dropWhile (\<lambda>c. c \<noteq> CHR ''/'') (rev (slashed ?segs @ ''/control.sock''))) = slashed ?segs @ ''/''"
    by simp
  moreover have "filepath_IsAbs (slashed ?segs @ ''/'')"
    by (cases ?segs) (simp_all add: filepath_IsAbs_def has_prefix_def slashed_def)
  moreover have "clean_segments (slashed ?segs @ ''/'' @ []) = ?segs"
    by (subst clean_segments_append) (simp_all add: slashed_clean [OF clean_segments_plain] dot_segment_def)
  ultimately show ?thesis
    using assms by (simp add: socket_path filepath_Dir_def filepath_Clean_def path_clean_slashed)
qed

text \<open>
  the control paths made from a directory pass their own validation exactly when the directory is
  written in its shortest form: a trailing slash, a doubled one or a dot segment makes them invalid.
\<close>

theorem control_paths_need_clean_directory:
  assumes "PathsForDirectory d = Inr p"
  shows "ValidatePaths p = None \<longleftrightarrow> filepath_Clean d = d"
proof -
  from assms have d: "filepath_IsAbs d" and p: "p = \<lparr>pt_Directory = d, pt_Socket = filepath_Join d ''control.sock''\<rparr>"
    by (auto simp: PathsForDirectory_def split: if_splits)
  have "d \<noteq> []" using d by (auto simp: filepath_IsAbs_def has_prefix_def)
  moreover have "filepath_IsAbs (slashed (clean_segments d) @ ''/control.sock'')"
    by (cases "clean_segments d") (simp_all add: filepath_IsAbs_def has_prefix_def slashed_def)
  ultimately show ?thesis
    using d by (auto simp: ValidatePaths_def validControlPaths_def p socket_path [OF d]
        socket_directory [OF d, unfolded socket_path [OF d]])
qed

theorem control_paths_need_clean_directory_witness:
  "\<exists>p q. PathsForDirectory ''/var/lib/airlock'' = Inr p \<and> ValidatePaths p = None
     \<and> PathsForDirectory ''/var/lib/airlock/'' = Inr q \<and> ValidatePaths q \<noteq> None"
proof -
  obtain p where p: "PathsForDirectory ''/var/lib/airlock'' = Inr p"
    by (simp add: PathsForDirectory_def filepath_IsAbs_def has_prefix_def)
  obtain q where q: "PathsForDirectory ''/var/lib/airlock/'' = Inr q"
    by (simp add: PathsForDirectory_def filepath_IsAbs_def has_prefix_def)
  have "filepath_Clean ''/var/lib/airlock'' = ''/var/lib/airlock''"
    "filepath_Clean ''/var/lib/airlock/'' \<noteq> ''/var/lib/airlock/''" by code_simp+
  with control_paths_need_clean_directory [OF p] control_paths_need_clean_directory [OF q] p q
  show ?thesis by blast
qed

section \<open>Opening the endpoint\<close>

text \<open>
  The endpoint is handed out only after its directory was made private and, as the last step, the
  socket too; what was at its path before is removed only when it is a socket.
\<close>

lemma endpoint_protected:
  assumes "listenControlEndpoint os p = (None, effects)"
  shows "EnsurePrivateDirectory (ec_dir os) = None \<and> last effects = Protected (pt_Socket p) 384
    \<and> (\<forall>x. RemovedPath x \<in> set effects \<longrightarrow>
         x = pt_Socket p \<and> (\<exists>info. ec_lstat os = StatOk info \<and> fi_Type info = Socket))"
  using assms
  by (auto simp: listenControlEndpoint_def prepareDirectory_def removeStaleSocket_def
      split: option.splits if_splits lstat_result.splits prod.splits)

lemma endpoint_refused:
  assumes "listenControlEndpoint os p = (Some e, effects)"
  shows "Bound x \<in> set effects \<longrightarrow> last effects = ClosedListener \<and> ClosedListener \<in> set effects"
  using assms
  by (auto simp: listenControlEndpoint_def prepareDirectory_def removeStaleSocket_def
      split: option.splits if_splits lstat_result.splits prod.splits)

lemma listen_ok:
  assumes "listen os p token registry store persistence egress ssh recorder = (Inr s, effects)"
  shows "32 \<le> length token \<and> length token \<le> 128 \<and> ValidatePaths p = None \<and> cs_token s = token
    \<and> cs_registry s = registry \<and> persistence = Some (cs_file s) \<and> cs_ssh s = ssh \<and> cs_secrets s = store
    \<and> egress = Some (cs_egress s) \<and> cs_activity s = (if ssh = None then None else recorder)
    \<and> listenControlEndpoint os p = (None, effects)"
  using assms by (auto simp: listen_def split: option.splits if_splits prod.splits)

section \<open>Calls of the client\<close>

lemma handle_nothing [simp]: "handle c s None = fail (English ''invalid control request'') s"
  by (simp add: handle_def)

lemma Do_step:
  "\<exists>received. snd (Do cl w c client request s) = snd (handle c s received)
    \<and> (case received of None \<Rightarrow> True
       | Some r \<Rightarrow> \<exists>k. client = Some k \<and> r = json_request (request\<lparr>rq_Version := protocolVersion, rq_Token := cc_token k\<rparr>))"
proof (cases client)
  case None
  then show ?thesis by (auto simp: Do_def fail_def intro!: exI [of _ None])
next
  case (Some k)
  define sent where "sent = request\<lparr>rq_Version := protocolVersion, rq_Token := cc_token k\<rparr>"
  show ?thesis
  proof (cases "cl_dial_ok cl \<and> cl_deadline_ok cl \<and> (cl_write_ok cl \<or> cl_delivered cl)
      \<and> wr_request_length w sent \<le> maxMessageBytes")
    case True
    then show ?thesis
      using Some by (intro exI [of _ "Some (json_request sent)"])
        (auto simp: Do_def sent_def server_receives_def Let_def split: prod.splits)
  next
    case False
    then show ?thesis
      using Some by (intro exI [of _ None])
        (auto simp: Do_def sent_def server_receives_def fail_def Let_def split: prod.splits)
  qed
qed

lemma Do_inv:
  assumes "control_inv s"
  shows "control_inv (snd (Do cl w c client request s)) \<and> cs_token (snd (Do cl w c client request s)) = cs_token s"
  using Do_step [of cl w c client request s] handle_inv [OF assms] by metis

lemma json_request_token: "rq_Version (json_request r) = rq_Version r" "rq_Token (json_request r) = utf8_coerce (rq_Token r)"
  by (simp_all add: json_request_def)

text \<open>Without the server's token nothing happens, and no answer reports success.\<close>

lemma Do_unauthenticated:
  assumes "\<And>k. client = Some k \<Longrightarrow> utf8_coerce (cc_token k) \<noteq> cs_token s"
  shows "snd (Do cl w c client request s) = s"
    and "fst (Do cl w c client request s) = Inr response \<Longrightarrow> \<not> re_OK response"
proof -
  have d: "dispatch c s (json_request (request\<lparr>rq_Version := protocolVersion, rq_Token := cc_token k\<rparr>))
      = fail (English ''control authentication failed'') s" if "client = Some k" for k
    using assms [OF that] by (simp add: dispatch_def json_request_token validToken_iff)
  show "snd (Do cl w c client request s) = s"
    using d by (auto simp: Do_def server_receives_def handle_def fail_def Let_def split: option.splits if_splits)
  show "\<not> re_OK response" if "fst (Do cl w c client request s) = Inr response"
    using that d
    by (auto simp: Do_def server_receives_def handle_def fail_def json_response_def error_response_def Let_def
        split: option.splits if_splits)
qed

text \<open>An exchange in which every call succeeds and the texts are short enough.\<close>

definition smooth :: "client_calls \<Rightarrow> bool" where
  "smooth cl \<longleftrightarrow> cl_dial_ok cl \<and> cl_deadline_ok cl \<and> cl_write_ok cl \<and> cl_read_ok cl"

lemma Do_smooth:
  assumes "smooth cl" "wr_request_length w (request\<lparr>rq_Version := protocolVersion, rq_Token := cc_token k\<rparr>) \<le> maxMessageBytes"
    and "dispatch c s (json_request (request\<lparr>rq_Version := protocolVersion, rq_Token := cc_token k\<rparr>)) = (response, s')"
  shows "Do cl w c (Some k) request s =
    (if wr_response_length w response > maxMessageBytes then Inl ''read control response''
     else Inr (json_response response), s')"
  using assms by (simp add: Do_def smooth_def server_receives_def handle_def Let_def)

text \<open>
  The check of a route's credentials may take as long as the route's budget, which can be six times what the
  exchange allows it.
\<close>

lemma authentication_test_outlives_exchange:
  "NormalizeAuthenticationTimeoutSeconds 120 = Inr 120
   \<and> exchange_timeout ''test_ssh_route_authentication'' < 120 * second
   \<and> 120 * second < exchange_timeout ''test_route_health''"
  by (simp add: NormalizeAuthenticationTimeoutSeconds_def MinAuthenticationTimeoutSeconds_def
      MaxAuthenticationTimeoutSeconds_def exchange_timeout_def second_def)

text \<open>A successful answer that is too long for the client is lost although the action was carried out.\<close>

lemma long_answer_lost:
  assumes "fst (Do cl w c (Some k) request s) = Inr response"
  shows "\<exists>full. response = json_response full \<and> wr_response_length w full \<le> maxMessageBytes"
  using assms by (auto simp: Do_def Let_def split: if_splits prod.splits)

end
