(* ===== verification/Web_Ui.thy ===== *)
theory Web_Ui
  imports Control_Endpoint Go_Json
begin

text \<open>
  Package \<open>internal/webui\<close>: the operations console. The controller is any function that answers a
  control request and moves its own state on; the daemon passes the client of the control channel
  (\<open>Do\<close>). A request is what the handler reads of it: method, path, the \<open>Authorization\<close> field and the
  body, which is \<open>None\<close> when reading it fails. The console page itself is the one constant \<open>ShellHTML\<close>.
\<close>

type_synonym 's controller = "control_request \<Rightarrow> 's \<Rightarrow> (string + control_response) \<times> 's"

record web_request =
  wq_Method :: string
  wq_Path :: string
  wq_Authorization :: string
  wq_Body :: "string option"

datatype web_body = ShellHTML | HealthOK | WebError string | WebResponse control_response

record web_reply =
  wp_Status :: int
  wp_Header :: header
  wp_Body :: web_body

definition maxRequestBytes :: nat where
  "maxRequestBytes = 1024"

section \<open>Construction and authentication\<close>

definition Web_New :: "string \<Rightarrow> bool \<Rightarrow> string + string" where
  "Web_New token has_controller =
     (if length token < 32 \<or> length token > 128 \<or> \<not> has_controller then Inl ''invalid web UI configuration''
      else Inr token)"

definition web_authenticated :: "string \<Rightarrow> web_request \<Rightarrow> bool" where
  "web_authenticated token q \<longleftrightarrow>
     (case cut_prefix (trim_space (wq_Authorization q)) ''Bearer '' of
        None \<Rightarrow> False
      | Some provided \<Rightarrow> length provided = length token \<and> ConstantTimeCompare provided token = 1)"

section \<open>Replies\<close>

definition setSecurityHeaders :: "header \<Rightarrow> header" where
  "setSecurityHeaders h =
     foldl (\<lambda>h (k, v). header_Set h k v) h
       [(''Cache-Control'', ''no-store''),
        (''Content-Security-Policy'', ''default-src '' @ [CHR 0x27] @ ''self'' @ [CHR 0x27]
           @ ''; base-uri '' @ [CHR 0x27] @ ''none'' @ [CHR 0x27]
           @ ''; frame-ancestors '' @ [CHR 0x27] @ ''none'' @ [CHR 0x27]
           @ ''; form-action '' @ [CHR 0x27] @ ''self'' @ [CHR 0x27]
           @ ''; object-src '' @ [CHR 0x27] @ ''none'' @ [CHR 0x27]
           @ ''; style-src '' @ [CHR 0x27] @ ''self'' @ [CHR 0x27] @ '' '' @ [CHR 0x27] @ ''unsafe-inline'' @ [CHR 0x27]
           @ ''; script-src '' @ [CHR 0x27] @ ''self'' @ [CHR 0x27] @ '' '' @ [CHR 0x27] @ ''unsafe-inline'' @ [CHR 0x27]
           @ ''; connect-src '' @ [CHR 0x27] @ ''self'' @ [CHR 0x27]),
        (''Referrer-Policy'', ''no-referrer''),
        (''X-Content-Type-Options'', ''nosniff''),
        (''X-Frame-Options'', ''DENY'')]"

definition web_writeJSON :: "header \<Rightarrow> int \<Rightarrow> web_body \<Rightarrow> web_reply" where
  "web_writeJSON h status body =
     \<lparr>wp_Status = status, wp_Header = header_Set h ''Content-Type'' ''application/json; charset=utf-8'',
      wp_Body = body\<rparr>"

section \<open>The body of an enabled request\<close>

text \<open>The members of a valid object after its opening brace, in order, each with the text of its value.\<close>

fun member_texts :: "nat \<Rightarrow> string \<Rightarrow> (string \<times> string) list" where
  "member_texts 0 s = []"
| "member_texts (Suc n) s =
     (case skip_ws s of
        c # cs \<Rightarrow>
          if c \<noteq> QUOTE then []
          else (case skip_string cs of
            None \<Rightarrow> []
          | Some r \<Rightarrow>
              let v = skip_ws (drop 1 (skip_ws r)) in
              (case scan_value v of
                 None \<Rightarrow> []
               | Some r2 \<Rightarrow>
                   (decode_string cs, take (length v - length r2) v)
                   # (case skip_ws r2 of
                        e # es \<Rightarrow> if e = CHR '','' then member_texts n es else []
                      | [] \<Rightarrow> [])))
      | [] \<Rightarrow> [])"

text \<open>
  Into a structure with the one field \<open>enabled\<close>, a pointer to a boolean: names match without regard to
  case, an unknown name or a value of another type is an error, and the last member wins.
\<close>

fun enabled_members :: "bool option \<Rightarrow> (string \<times> string) list \<Rightarrow> bool option option" where
  "enabled_members acc [] = Some acc"
| "enabled_members acc ((name, t) # rest) =
     (if \<not> equal_fold name ''enabled'' then None
      else if t = ''true'' then enabled_members (Some True) rest
      else if t = ''false'' then enabled_members (Some False) rest
      else if t = ''null'' then enabled_members None rest
      else None)"

definition decode_enabled :: "string \<Rightarrow> bool option" where
  "decode_enabled body =
     (if length body > maxRequestBytes \<or> \<not> json_Valid body then None
      else case skip_ws body of
        c # cs \<Rightarrow>
          if c \<noteq> CHR ''{'' then None
          else (case enabled_members None (member_texts (Suc (length body)) cs) of
                  None \<Rightarrow> None | Some enabled \<Rightarrow> enabled)
      | [] \<Rightarrow> None)"

section \<open>The handler\<close>

definition blank_request :: "string \<Rightarrow> control_request" where
  "blank_request action =
     \<lparr>rq_Version = 0, rq_Token = [], rq_Action = action, rq_Create = None, rq_CreateSSH = None,
      rq_ProbeSSH = None, rq_SSHPolicy = None, rq_Alias = [], rq_Enabled = False, rq_ProxyURL = [],
      rq_Capability = [], rq_Command = [], rq_SecretMode = [], rq_KeywordReplacements = []\<rparr>"

definition web_dispatch ::
  "'s controller \<Rightarrow> header \<Rightarrow> control_request \<Rightarrow> 's \<Rightarrow> web_reply \<times> 's" where
  "web_dispatch controller h operation s =
     (case controller operation s of
        (Inl _, s') \<Rightarrow> (web_writeJSON h 503 (WebError ''airlockd control channel is unavailable''), s')
      | (Inr response, s') \<Rightarrow>
          (web_writeJSON h (if \<not> re_OK response then 400 else 200) (WebResponse response), s'))"

definition handleRouteAction ::
  "'s controller \<Rightarrow> header \<Rightarrow> web_request \<Rightarrow> 's \<Rightarrow> web_reply \<times> 's" where
  "handleRouteAction controller h q s =
     (case split_on CHR ''/'' (trim_prefix (wq_Path q) ''/api/routes/'') of
        [a, action] \<Rightarrow>
          if \<not> alias_pattern a then (web_writeJSON h 400 (WebError ''invalid route alias''), s)
          else if action = ''health''
          then web_dispatch controller h ((blank_request ''test_route_health'')\<lparr>rq_Alias := a\<rparr>) s
          else if action = ''enabled'' then
            (case Option.bind (wq_Body q) decode_enabled of
               None \<Rightarrow> (web_writeJSON h 400 (WebError ''invalid enabled state''), s)
             | Some enabled \<Rightarrow>
                 web_dispatch controller h
                   ((blank_request ''set_route_enabled'')\<lparr>rq_Alias := a, rq_Enabled := enabled\<rparr>) s)
          else (web_writeJSON h 404 (WebError ''not found''), s)
      | _ \<Rightarrow> (web_writeJSON h 400 (WebError ''invalid route alias''), s))"

definition Web_ServeHTTP ::
  "string \<Rightarrow> 's controller \<Rightarrow> web_request \<Rightarrow> 's \<Rightarrow> web_reply \<times> 's" where
  "Web_ServeHTTP token controller q s =
     (let h = setSecurityHeaders [] in
      if wq_Method q = ''GET'' \<and> wq_Path q = ''/healthz'' then (web_writeJSON h 200 HealthOK, s)
      else if wq_Method q = ''GET'' \<and> wq_Path q = ''/'' then
        (\<lparr>wp_Status = 200, wp_Header = header_Set h ''Content-Type'' ''text/html; charset=utf-8'',
          wp_Body = ShellHTML\<rparr>, s)
      else if \<not> web_authenticated token q then
        (web_writeJSON (header_Set h ''WWW-Authenticate'' (''Bearer realm='' @ [QUOTE] @ ''Airlock'' @ [QUOTE]))
           401 (WebError ''web UI authentication failed''), s)
      else if wq_Method q = ''GET'' \<and> wq_Path q = ''/api/status''
      then web_dispatch controller h (blank_request ''status'') s
      else if wq_Method q = ''POST'' \<and> wq_Path q = ''/api/stop-all''
      then web_dispatch controller h (blank_request ''stop_all'') s
      else if wq_Method q = ''POST'' \<and> has_prefix (wq_Path q) ''/api/routes/''
      then handleRouteAction controller h q s
      else (web_writeJSON h 404 (WebError ''not found''), s))"

section \<open>What a request asks for\<close>

text \<open>The console's token as a bearer credential, up to surrounding white space.\<close>

definition carries_token :: "string \<Rightarrow> web_request \<Rightarrow> bool" where
  "carries_token token q \<longleftrightarrow> trim_space (wq_Authorization q) = ''Bearer '' @ token"

lemma cut_prefix_iff: "cut_prefix s p = Some t \<longleftrightarrow> s = p @ t"
  by (auto simp: cut_prefix_def prefix_def)

lemma web_authenticated_iff: "web_authenticated token q \<longleftrightarrow> carries_token token q"
proof (cases "cut_prefix (trim_space (wq_Authorization q)) ''Bearer ''")
  case None
  then have "trim_space (wq_Authorization q) \<noteq> ''Bearer '' @ token"
    using cut_prefix_iff [of "trim_space (wq_Authorization q)" "''Bearer ''" token] by simp
  with None show ?thesis by (simp add: web_authenticated_def carries_token_def)
next
  case (Some provided)
  then have "trim_space (wq_Authorization q) = ''Bearer '' @ provided" by (rule cut_prefix_iff [THEN iffD1])
  with Some show ?thesis by (auto simp: web_authenticated_def carries_token_def ConstantTimeCompare_iff)
qed

text \<open>The control request a console request stands for, if any: the reference the handler is compared with.\<close>

definition route_operation :: "web_request \<Rightarrow> control_request option" where
  "route_operation q =
     (case split_on CHR ''/'' (trim_prefix (wq_Path q) ''/api/routes/'') of
        [a, action] \<Rightarrow>
          if \<not> alias_pattern a then None
          else if action = ''health'' then Some ((blank_request ''test_route_health'')\<lparr>rq_Alias := a\<rparr>)
          else if action = ''enabled'' then
            map_option (\<lambda>b. (blank_request ''set_route_enabled'')\<lparr>rq_Alias := a, rq_Enabled := b\<rparr>)
              (Option.bind (wq_Body q) decode_enabled)
          else None
      | _ \<Rightarrow> None)"

definition console_operation :: "string \<Rightarrow> web_request \<Rightarrow> control_request option" where
  "console_operation token q =
     (if \<not> carries_token token q then None
      else if (wq_Method q, wq_Path q) = (''GET'', ''/api/status'') then Some (blank_request ''status'')
      else if (wq_Method q, wq_Path q) = (''POST'', ''/api/stop-all'') then Some (blank_request ''stop_all'')
      else if wq_Method q = ''POST'' \<and> has_prefix (wq_Path q) ''/api/routes/'' then route_operation q
      else None)"

lemma handleRouteAction_operation:
  "snd (handleRouteAction controller h q s) =
     (case route_operation q of None \<Rightarrow> s | Some r \<Rightarrow> snd (controller r s))"
  by (auto simp: handleRouteAction_def route_operation_def web_dispatch_def
      split: list.splits option.splits prod.splits sum.splits)

lemma serve_operation:
  "snd (Web_ServeHTTP token controller q s) =
     (case console_operation token q of None \<Rightarrow> s | Some r \<Rightarrow> snd (controller r s))"
proof -
  have "snd (web_dispatch controller h r s) = snd (controller r s)" for h r
    by (simp add: web_dispatch_def split: prod.splits sum.splits)
  then show ?thesis
    by (auto simp: Web_ServeHTTP_def console_operation_def web_authenticated_iff handleRouteAction_operation has_prefix_def Let_def)
qed

lemma route_operation_cases:
  "route_operation q = Some r \<Longrightarrow>
    \<exists>a. alias_pattern a \<and> (r = (blank_request ''test_route_health'')\<lparr>rq_Alias := a\<rparr>
      \<or> (\<exists>b. r = (blank_request ''set_route_enabled'')\<lparr>rq_Alias := a, rq_Enabled := b\<rparr>))"
  by (auto simp: route_operation_def split: list.splits if_splits option.splits)

text \<open>The only requests the console makes.\<close>

inductive console_request :: "control_request \<Rightarrow> bool" where
  ask_status: "console_request (blank_request ''status'')"
| ask_stop_all: "console_request (blank_request ''stop_all'')"
| ask_health: "alias_pattern a \<Longrightarrow> console_request ((blank_request ''test_route_health'')\<lparr>rq_Alias := a\<rparr>)"
| ask_enabled: "alias_pattern a \<Longrightarrow>
    console_request ((blank_request ''set_route_enabled'')\<lparr>rq_Alias := a, rq_Enabled := b\<rparr>)"

lemma console_operation_request:
  "console_operation token q = Some r \<Longrightarrow> carries_token token q \<and> console_request r"
  using route_operation_cases [of q r]
  by (auto simp: console_operation_def intro: console_request.intros split: if_splits)

section \<open>The interface \<open>Controller\<close>\<close>

text \<open>
  What the console needs of its controller: an invariant that every request keeps, and a relation between states
  that the requests of the console stay within. The console then stays within it, and without the token it
  never calls the controller.
\<close>

locale console_controller =
  fixes controller :: "'s controller"
    and inv :: "'s \<Rightarrow> bool"
    and moves :: "'s \<Rightarrow> 's \<Rightarrow> bool"
  assumes keeps: "inv s \<Longrightarrow> inv (snd (controller r s))"
    and stays: "moves s s"
    and restricted: "console_request r \<Longrightarrow> moves s (snd (controller r s))"
begin

lemma serve_inv: "inv s \<Longrightarrow> inv (snd (Web_ServeHTTP token controller q s))"
  by (simp add: serve_operation keeps split: option.splits)

lemma serve_moves: "moves s (snd (Web_ServeHTTP token controller q s))"
  using console_operation_request [of token q] restricted stays
  by (auto simp: serve_operation split: option.splits)

lemma serve_refused: "\<not> carries_token token q \<Longrightarrow> snd (Web_ServeHTTP token controller q s) = s"
  by (simp add: serve_operation console_operation_def)

end

end
