(* ===== verification/Web_Console.thy ===== *)
theory Web_Console
  imports Web_Ui
begin

text \<open>
  The console on top of the control channel and the control server: what a run of console requests
  does to the server.
\<close>

section \<open>Runs\<close>

text \<open>
  One console request: the exchange with the control server it may make, the outcomes of the server's own
  calls, and the request.
\<close>

record console_step =
  st_exchange :: client_calls
  st_wire :: wire
  st_calls :: control_calls
  st_request :: web_request

definition console_serve :: "string \<Rightarrow> control_client \<Rightarrow> console_step \<Rightarrow> control \<Rightarrow> web_reply \<times> control" where
  "console_serve token k x s =
     Web_ServeHTTP token (Do (st_exchange x) (st_wire x) (st_calls x) (Some k)) (st_request x) s"

fun console_run :: "string \<Rightarrow> control_client \<Rightarrow> control \<Rightarrow> console_step list \<Rightarrow> control" where
  "console_run token k s [] = s"
| "console_run token k s (x # rest) = console_run token k (snd (console_serve token k x s)) rest"

text \<open>What reaches the server of it, and when nothing is lost on the way.\<close>

definition sent_by :: "control_client \<Rightarrow> control_request \<Rightarrow> control_request" where
  "sent_by k r = r\<lparr>rq_Version := protocolVersion, rq_Token := cc_token k\<rparr>"

definition step_messages :: "string \<Rightarrow> control_client \<Rightarrow> console_step \<Rightarrow> (control_calls \<times> control_request option) list" where
  "step_messages token k x =
     (case console_operation token (st_request x) of
        None \<Rightarrow> []
      | Some r \<Rightarrow> [(st_calls x, Some (json_request (sent_by k r)))])"

definition delivered :: "console_step \<Rightarrow> bool" where
  "delivered x \<longleftrightarrow> smooth (st_exchange x) \<and> (\<forall>r. wr_request_length (st_wire x) r \<le> maxMessageBytes)"

lemma console_serve_state:
  "snd (console_serve token k x s) =
     (case console_operation token (st_request x) of
        None \<Rightarrow> s
      | Some r \<Rightarrow> snd (Do (st_exchange x) (st_wire x) (st_calls x) (Some k) r s))"
  by (simp add: console_serve_def serve_operation)

lemma delivered_step:
  assumes "delivered x"
  shows "snd (console_serve token k x s) = control_run s (step_messages token k x)"
proof (cases "console_operation token (st_request x)")
  case None
  then show ?thesis by (simp add: console_serve_state step_messages_def)
next
  case (Some r)
  obtain response s' where d: "dispatch (st_calls x) s (json_request (sent_by k r)) = (response, s')"
    by (cases "dispatch (st_calls x) s (json_request (sent_by k r))")
  have "snd (Do (st_exchange x) (st_wire x) (st_calls x) (Some k) r s) = s'"
    using assms Do_smooth [where cl = "st_exchange x" and w = "st_wire x" and c = "st_calls x" and s = s
        and k = k and request = r and response = response and s' = s'] d
    by (simp add: delivered_def sent_by_def)
  with Some d show ?thesis by (simp add: console_serve_state step_messages_def handle_def)
qed

lemma control_run_append: "control_run s (xs @ ys) = control_run (control_run s xs) ys"
  by (induction s xs rule: control_run.induct) auto


section \<open>Only switches move\<close>

definition same_http :: "(string \<Rightarrow> http_route option) \<Rightarrow> (string \<Rightarrow> http_route option) \<Rightarrow> bool" where
  "same_http m m' \<longleftrightarrow>
     (\<forall>a. map_option (\<lambda>r. r\<lparr>hr_Enabled := False\<rparr>) (m' a) = map_option (\<lambda>r. r\<lparr>hr_Enabled := False\<rparr>) (m a))"

definition same_ssh :: "(string \<Rightarrow> ssh_route option) \<Rightarrow> (string \<Rightarrow> ssh_route option) \<Rightarrow> bool" where
  "same_ssh m m' \<longleftrightarrow>
     (\<forall>a. map_option (\<lambda>r. r\<lparr>sr_Enabled := False\<rparr>) (m' a) = map_option (\<lambda>r. r\<lparr>sr_Enabled := False\<rparr>) (m a))"

definition switches_only :: "control \<Rightarrow> control \<Rightarrow> bool" where
  "switches_only s s' \<longleftrightarrow>
     same_http (map_of (cs_registry s)) (map_of (cs_registry s')) \<and> same_ssh (ssh_view s) (ssh_view s')
     \<and> cs_secrets s' = cs_secrets s \<and> cs_other s' = cs_other s \<and> cs_egress s' = cs_egress s
     \<and> cs_token s' = cs_token s \<and> cs_httpAddress s' = cs_httpAddress s \<and> cs_secretMode s' = cs_secretMode s
     \<and> cs_storeFactory s' = cs_storeFactory s"

lemma switches_refl [simp]: "switches_only s s"
  by (simp add: switches_only_def same_http_def same_ssh_def)

lemma switches_trans: "switches_only s t \<Longrightarrow> switches_only t u \<Longrightarrow> switches_only s u"
  by (simp add: switches_only_def same_http_def same_ssh_def)

lemma same_http_refl [simp]: "same_http m m" and same_ssh_refl [simp]: "same_ssh n n"
  by (simp_all add: same_http_def same_ssh_def)

lemma SetEnabled_same:
  assumes "SetEnabled reg a b = Inr reg'" "same_http m (map_of reg)"
  shows "same_http m (map_of reg')"
proof -
  obtain r where r: "map_of reg a = Some r" "reg' = AList.update a (r\<lparr>hr_Enabled := b\<rparr>) reg"
    using assms(1) by (auto simp: SetEnabled_def split: option.splits)
  have "map_option (\<lambda>r. r\<lparr>hr_Enabled := False\<rparr>) (m a) = Some (r\<lparr>hr_Enabled := False\<rparr>)"
    using assms(2) r(1) by (metis same_http_def option.simps(9))
  then obtain z where "m a = Some z" "z\<lparr>hr_Enabled := False\<rparr> = r\<lparr>hr_Enabled := False\<rparr>" by auto
  with assms(2) r(2) show ?thesis by (simp add: same_http_def)
qed

lemma Ssh_SetEnabled_same:
  assumes "Ssh_SetEnabled reg a b = Inr reg'" "same_ssh m (map_of reg)"
  shows "same_ssh m (map_of reg')"
proof -
  obtain r where r: "map_of reg a = Some r" "reg' = AList.update a (r\<lparr>sr_Enabled := b\<rparr>) reg"
    using assms(1) by (auto simp: Ssh_SetEnabled_def split: option.splits)
  have "map_option (\<lambda>r. r\<lparr>sr_Enabled := False\<rparr>) (m a) = Some (r\<lparr>sr_Enabled := False\<rparr>)"
    using assms(2) r(1) by (metis same_ssh_def option.simps(9))
  then obtain z where "m a = Some z" "z\<lparr>sr_Enabled := False\<rparr> = r\<lparr>sr_Enabled := False\<rparr>" by auto
  with assms(2) r(2) show ?thesis by (simp add: same_ssh_def)
qed

lemma DisableAll_same: "same_http m (map_of reg) \<Longrightarrow> same_http m (map_of (DisableAll reg))"
  using map_of_map_values [of "\<lambda>_ r. r\<lparr>hr_Enabled := False\<rparr>" reg]
  by (simp add: DisableAll_def same_http_def option.map_comp comp_def)

lemma Ssh_DisableAll_same: "same_ssh m (map_of reg) \<Longrightarrow> same_ssh m (map_of (Ssh_DisableAll reg))"
  using map_of_map_values [of "\<lambda>_ r. r\<lparr>sr_Enabled := False\<rparr>" reg]
  by (simp add: Ssh_DisableAll_def same_ssh_def option.map_comp comp_def)

lemma restore_http_same: "same_http m (map_of reg) \<Longrightarrow> same_http m (map_of (restore_http reg previous))"
  unfolding restore_http_def
  by (induction previous arbitrary: reg) (auto intro: SetEnabled_same split: sum.splits)

lemma restore_ssh_same: "same_ssh m (map_of reg) \<Longrightarrow> same_ssh m (map_of (restore_ssh reg previous))"
  unfolding restore_ssh_def
  by (induction previous arbitrary: reg) (auto intro: Ssh_SetEnabled_same split: sum.splits)

lemmas same_intros = SetEnabled_same Ssh_SetEnabled_same DisableAll_same Ssh_DisableAll_same
  restore_http_same restore_ssh_same

lemma saved_fields:
  "save_routes os s = (e, s') \<Longrightarrow> \<exists>f. s' = s\<lparr>cs_file := f\<rparr>"
  "save_ssh os cfg = (e, cfg') \<Longrightarrow> \<exists>f. cfg' = cfg\<lparr>sc_File := f\<rparr>"
  by (auto simp: save_routes_def save_ssh_def split: prod.splits)

text \<open>The predicate on the outcome of an action, with the rules that follow the action's branches.\<close>

definition moves :: "control \<Rightarrow> outcome \<Rightarrow> bool" where
  "moves s out \<longleftrightarrow> switches_only s (snd out)"

lemma moves_if: "(B \<Longrightarrow> moves s x) \<Longrightarrow> (\<not> B \<Longrightarrow> moves s y) \<Longrightarrow> moves s (if B then x else y)"
  by simp

lemma moves_sum:
  "(\<And>y. x = Inl y \<Longrightarrow> moves s (A y)) \<Longrightarrow> (\<And>y. x = Inr y \<Longrightarrow> moves s (B y)) \<Longrightarrow>
   moves s (case x of Inl y \<Rightarrow> A y | Inr y \<Rightarrow> B y)"
  by (cases x) simp_all

lemma moves_option:
  "(x = None \<Longrightarrow> moves s A) \<Longrightarrow> (\<And>y. x = Some y \<Longrightarrow> moves s (B y)) \<Longrightarrow>
   moves s (case x of None \<Rightarrow> A | Some y \<Rightarrow> B y)"
  by (cases x) simp_all

lemma moves_prod: "(\<And>y z. x = (y, z) \<Longrightarrow> moves s (A y z)) \<Longrightarrow> moves s (case x of (y, z) \<Rightarrow> A y z)"
  by (cases x) simp

lemma moves_let: "moves s (A x) \<Longrightarrow> moves s (let y = x in A y)"
  by simp

lemma moves_fail: "switches_only s t \<Longrightarrow> moves s (fail e t)"
  and moves_succeed: "switches_only s t \<Longrightarrow> moves s (succeed c t)"
  by (simp_all add: moves_def fail_def succeed_def)

lemmas moves_splits = moves_if moves_sum moves_option moves_prod moves_let moves_fail moves_succeed

lemma switches_registry:
  "same_http (map_of (cs_registry s)) (map_of reg) \<Longrightarrow> switches_only s (s\<lparr>cs_registry := reg, cs_file := f\<rparr>)"
  by (simp add: switches_only_def)

lemma switches_ssh:
  "cs_ssh s = Some cfg \<Longrightarrow> same_ssh (map_of (sc_Registry cfg)) (map_of (sc_Registry cfg')) \<Longrightarrow>
   switches_only s (s\<lparr>cs_ssh := Some cfg'\<rparr>)"
  by (simp add: switches_only_def ssh_view_def)

lemma saved_registry: "save_routes os (s\<lparr>cs_registry := reg\<rparr>) = (e, s') \<Longrightarrow> \<exists>f. s' = s\<lparr>cs_registry := reg, cs_file := f\<rparr>"
  using saved_fields(1) by blast

lemma toggle_http:
  assumes "SetEnabled (cs_registry s) a b = Inr reg" "save_routes os (s\<lparr>cs_registry := reg\<rparr>) = (e, s1)"
  shows "switches_only s s1" "switches_only s (case SetEnabled (cs_registry s1) a' b' of
      Inl _ \<Rightarrow> s1 | Inr reg' \<Rightarrow> s1\<lparr>cs_registry := reg'\<rparr>)"
proof -
  obtain f where s1: "s1 = s\<lparr>cs_registry := reg, cs_file := f\<rparr>" using saved_registry [OF assms(2)] by blast
  have same: "same_http (map_of (cs_registry s)) (map_of reg)" using SetEnabled_same [OF assms(1)] by simp
  then show "switches_only s s1" unfolding s1 by (rule switches_registry)
  have "switches_only s (s1\<lparr>cs_registry := reg'\<rparr>)" if "SetEnabled reg a' b' = Inr reg'" for reg'
    using SetEnabled_same [OF that same] by (simp add: s1 switches_only_def)
  with \<open>switches_only s s1\<close> show "switches_only s (case SetEnabled (cs_registry s1) a' b' of
      Inl _ \<Rightarrow> s1 | Inr reg' \<Rightarrow> s1\<lparr>cs_registry := reg'\<rparr>)"
    by (simp add: s1 split: sum.splits)
qed

lemma toggle_ssh:
  assumes "cs_ssh s = Some cfg" "Ssh_SetEnabled (sc_Registry cfg) a b = Inr reg"
    "save_ssh os (cfg\<lparr>sc_Registry := reg\<rparr>) = (e, cfg1)"
  shows "switches_only s (s\<lparr>cs_ssh := Some cfg1\<rparr>)" "switches_only s (s\<lparr>cs_ssh := Some (case Ssh_SetEnabled (sc_Registry cfg1) a' b' of
      Inl _ \<Rightarrow> cfg1 | Inr reg' \<Rightarrow> cfg1\<lparr>sc_Registry := reg'\<rparr>)\<rparr>)"
proof -
  obtain f where cfg1: "cfg1 = cfg\<lparr>sc_Registry := reg, sc_File := f\<rparr>" using saved_fields(2) [OF assms(3)] by auto
  have same: "same_ssh (map_of (sc_Registry cfg)) (map_of reg)" using Ssh_SetEnabled_same [OF assms(2)] by simp
  then show "switches_only s (s\<lparr>cs_ssh := Some cfg1\<rparr>)" by (intro switches_ssh [OF assms(1)]) (simp add: cfg1)
  show "switches_only s (s\<lparr>cs_ssh := Some (case Ssh_SetEnabled (sc_Registry cfg1) a' b' of
      Inl _ \<Rightarrow> cfg1 | Inr reg' \<Rightarrow> cfg1\<lparr>sc_Registry := reg'\<rparr>)\<rparr>)"
    using same Ssh_SetEnabled_same [OF _ same]
    by (intro switches_ssh [OF assms(1)]) (auto simp: cfg1 split: sum.splits)
qed

lemma setRouteEnabled_switches: "switches_only s (snd (setRouteEnabled c s a b))"
proof -
  have "moves s (setRouteEnabled c s a b)"
    unfolding setRouteEnabled_def by (intro moves_splits) (simp_all add: toggle_http toggle_ssh)
  then show ?thesis by (simp add: moves_def)
qed

lemma switches_file: "switches_only s t \<Longrightarrow> switches_only s (t\<lparr>cs_file := f\<rparr>)"
  by (simp add: switches_only_def)

lemma switches_restored:
  "switches_only s t \<Longrightarrow> switches_only s (t\<lparr>cs_registry := restore_http (cs_registry t) previous\<rparr>)"
  by (simp add: switches_only_def restore_http_same)

lemma switches_configuration:
  "switches_only s t \<Longrightarrow> same_ssh (ssh_view s) (map_of (sc_Registry cfg)) \<Longrightarrow> switches_only s (t\<lparr>cs_ssh := Some cfg\<rparr>)"
  by (simp add: switches_only_def)

lemma stopAll_switches: "switches_only s (snd (stopAll c s))"
proof -
  define s1 where "s1 = s\<lparr>cs_registry := DisableAll (cs_registry s),
    cs_ssh := map_option (\<lambda>cfg. cfg\<lparr>sc_Registry := Ssh_DisableAll (sc_Registry cfg)\<rparr>) (cs_ssh s)\<rparr>"
  have s1: "switches_only s s1"
    by (auto simp: s1_def switches_only_def ssh_view_def intro: DisableAll_same Ssh_DisableAll_same split: option.splits)
  obtain e t where w: "save_routes (kc_save c) s1 = (e, t)" by (cases "save_routes (kc_save c) s1")
  have t: "switches_only s t" using saved_fields(1) [OF w] s1 switches_file by blast
  note out = stopAll_def [of c s, unfolded Let_def, folded s1_def, unfolded w prod.case]
  show ?thesis
  proof (cases e)
    case (Some x)
    then show ?thesis using switches_restored [OF t] by (simp add: out fail_def)
  next
    case None
    show ?thesis
    proof (cases "cs_ssh s")
      case no_ssh: None
      with None t show ?thesis by (simp add: out succeed_def)
    next
      case (Some cfg)
      define cfg2 where "cfg2 = cfg\<lparr>sc_Registry := Ssh_DisableAll (sc_Registry cfg)\<rparr>"
      have t2: "cs_ssh t = Some cfg2" using saved_fields(1) [OF w] Some by (auto simp: s1_def cfg2_def)
      obtain e2 cfg3 where w2: "save_ssh (kc_save_ssh c) cfg2 = (e2, cfg3)" by (cases "save_ssh (kc_save_ssh c) cfg2")
      have shut: "same_ssh (ssh_view s) (map_of (sc_Registry cfg2))"
        using Some by (simp add: cfg2_def ssh_view_def Ssh_DisableAll_same)
      then have shut3: "same_ssh (ssh_view s) (map_of (sc_Registry cfg3))" using saved_fields(2) [OF w2] by auto
      show ?thesis
      proof (cases e2)
        case none2: None
        with None Some t2 w2 show ?thesis
          using switches_configuration [OF t shut3] by (simp add: out succeed_def)
      next
        case (Some x)
        let ?cfg4 = "cfg3\<lparr>sc_Registry := restore_ssh (sc_Registry cfg3) (Ssh_List (sc_Registry cfg))\<rparr>"
        have "switches_only s (t\<lparr>cs_registry := restore_http (cs_registry t) (List_routes (cs_registry s)),
            cs_ssh := Some ?cfg4\<rparr>)"
          using switches_configuration [OF switches_restored [OF t], of ?cfg4] restore_ssh_same [OF shut3] by simp
        with None \<open>cs_ssh s = Some cfg\<close> t2 w2 Some show ?thesis
          using switches_file by (simp add: out fail_def)
      qed
    qed
  qed
qed

lemma testRouteHealth_switches: "switches_only s (snd (testRouteHealth c s a))"
proof -
  have "moves s (finish_health c s a category policy check)" for category policy check
    by (auto simp: moves_def switches_only_def finish_health_def record_health_def health_response_def
        setRouteHealth_def ssh_view_def Let_def split: option.splits sum.splits prod.splits)
  then have "moves s (testRouteHealth c s a)"
    unfolding testRouteHealth_def by (intro moves_splits) simp_all
  then show ?thesis by (simp add: moves_def)
qed

text \<open>The action names survive their encoding, and no other action is reached.\<close>

lemma action_names [simp]:
  "utf8_coerce ''status'' = ''status''" "utf8_coerce ''stop_all'' = ''stop_all''"
  "utf8_coerce ''test_route_health'' = ''test_route_health''"
  "utf8_coerce ''set_route_enabled'' = ''set_route_enabled''"
  by code_simp+

lemma console_dispatch:
  assumes "console_request r"
  shows "switches_only s (snd (dispatch c s (json_request (sent_by k r))))"
  using assms
proof cases
  case ask_status
  then show ?thesis
    by (simp add: dispatch_def json_request_def sent_by_def blank_request_def fail_def succeed_def)
next
  case ask_stop_all
  then show ?thesis
    using stopAll_switches [of s c]
    by (simp add: dispatch_def json_request_def sent_by_def blank_request_def fail_def)
next
  case (ask_health a)
  then show ?thesis
    using testRouteHealth_switches [of s c "utf8_coerce a"]
    by (simp add: dispatch_def json_request_def sent_by_def blank_request_def fail_def)
next
  case (ask_enabled a b)
  then show ?thesis
    using setRouteEnabled_switches [of s c "utf8_coerce a" b]
    by (simp add: dispatch_def json_request_def sent_by_def blank_request_def fail_def)
qed

lemma console_Do:
  assumes "console_request r"
  shows "switches_only s (snd (Do cl w c (Some k) r s))"
proof -
  obtain received where h: "snd (Do cl w c (Some k) r s) = snd (handle c s received)"
    and rec: "case received of None \<Rightarrow> True | Some r' \<Rightarrow> r' = json_request (sent_by k r)"
    using Do_step [of cl w c "Some k" r s] by (auto simp: sent_by_def split: option.splits)
  show ?thesis
  proof (cases received)
    case None
    then show ?thesis using h by (simp add: fail_def)
  next
    case (Some r')
    then show ?thesis using h rec console_dispatch [OF assms, of s c k] by (simp add: handle_def)
  qed
qed

text \<open>The client of the control channel, over the control server, is such a controller.\<close>

interpretation channel: console_controller "Do cl w c (Some k)" control_inv switches_only
  by unfold_locales (simp_all add: Do_inv console_Do)

lemma console_serve_switches:
  "switches_only s (snd (console_serve token k x s))"
  "\<not> carries_token token (st_request x) \<Longrightarrow> snd (console_serve token k x s) = s"
  "control_inv s \<Longrightarrow> control_inv (snd (console_serve token k x s))"
  by (simp_all add: console_serve_def channel.serve_moves channel.serve_refused channel.serve_inv)

text \<open>
  C17: whatever is sent to the console, through whatever exchanges with the control server, it can only move
  the switches of the routes that are there, run health checks and read the status: the routes, their
  policies and keys, the secrets, the proxy and the token stay as they were, the registries stay valid, and
  as long as no request carries the console's token nothing changes at all.
\<close>

theorem console_moves_only_switches:
  assumes "control_inv s"
  shows "switches_only s (console_run token k s steps) \<and> control_inv (console_run token k s steps)
    \<and> (list_all (\<lambda>x. \<not> carries_token token (st_request x)) steps \<longrightarrow> console_run token k s steps = s)"
  using assms
proof (induction token k s steps rule: console_run.induct)
  case (2 token k s x rest)
  let ?s1 = "snd (console_serve token k x s)"
  have IH: "switches_only ?s1 (console_run token k ?s1 rest)" "control_inv (console_run token k ?s1 rest)"
    "list_all (\<lambda>x. \<not> carries_token token (st_request x)) rest \<longrightarrow> console_run token k ?s1 rest = ?s1"
    using 2(1) [OF console_serve_switches(3) [OF 2(2)]] by blast+
  have "switches_only s (console_run token k ?s1 rest)"
    by (rule switches_trans [OF console_serve_switches(1) IH(1)])
  moreover have "list_all (\<lambda>x. \<not> carries_token token (st_request x)) (x # rest) \<longrightarrow> console_run token k ?s1 rest = s"
    using IH(3) console_serve_switches(2) [of token x k s] by auto
  ultimately show ?case using IH(2) by simp
qed simp

section \<open>A sample console\<close>

definition sample_step :: console_step where
  "sample_step = \<lparr>st_exchange = \<lparr>cl_dial_ok = True, cl_deadline_ok = True, cl_write_ok = True,
       cl_delivered = True, cl_read_ok = True\<rparr>,
     st_wire = \<lparr>wr_request_length = (\<lambda>_. 512), wr_response_length = (\<lambda>_. 2048)\<rparr>, st_calls = sample_calls,
     st_request = \<lparr>wq_Method = ''POST'', wq_Path = ''/api/stop-all'',
       wq_Authorization = ''Bearer '' @ replicate 32 (CHR ''w''),
       wq_Body = Some []\<rparr>\<rparr>"

definition sample_client :: control_client where
  "sample_client = \<lparr>cc_socketPath = ''/run/control.sock'', cc_token = replicate 32 (CHR ''t'')\<rparr>"

lemma sample_authenticated: "carries_token (replicate 32 (CHR ''w'')) (st_request sample_step)"
proof -
  let ?v = "''Bearer '' @ replicate 32 (CHR ''w'')"
  have "trim_space ?v = ?v" by (rule trim_space_ends) (simp_all add: graphic_def less_eq_char_def)
  then show ?thesis
    by (simp add: carries_token_def sample_step_def)
qed

lemma sample_step_operation:
  "console_operation (replicate 32 (CHR ''w'')) (st_request sample_step) = Some (blank_request ''stop_all'')"
  using sample_authenticated by (simp add: console_operation_def sample_step_def)

lemma sample_delivered: "delivered sample_step"
  by (simp add: delivered_def sample_step_def smooth_def maxMessageBytes_def)


theorem console_moves_only_switches_witness:
  "switches_only sample_control
     (console_run (replicate 32 (CHR ''w'')) sample_client sample_control [sample_step])
   \<and> carries_token (replicate 32 (CHR ''w'')) (st_request sample_step)"
  using console_moves_only_switches [OF sample_control_inv] sample_authenticated by blast

end
