(* ===== verification/Platform_Store.thy ===== *)
theory Platform_Store
  imports Secrets Secure_File
begin

text \<open>
  Package \<open>internal/secrets\<close>, the backends of the keychain store on the credential services of the
  operating systems (\<open>keychain_linux.go\<close>, \<open>keychain_windows.go\<close>, \<open>keychain_darwin.go\<close>) and \<open>OpenStore\<close>.

  The two credential libraries are arguments: a record of the calls the code makes, over a state of
  any type. What the code relies on is named: \<open>keyring_ok\<close> says what a successful call of go-keyring
  means for the entries of the service, \<open>keyring_atomic\<close> that a call which reports an error changed
  nothing; \<open>keychain_ok\<close> is the same for go-keychain.
\<close>

datatype keyring_error = KeyringNotFound | KeyringError string

record 's keyring =
  kg_Set :: "'s \<Rightarrow> string \<Rightarrow> string \<Rightarrow> string \<Rightarrow> keyring_error option \<times> 's"
  kg_Get :: "'s \<Rightarrow> string \<Rightarrow> string \<Rightarrow> keyring_error + string"
  kg_Delete :: "'s \<Rightarrow> string \<Rightarrow> string \<Rightarrow> keyring_error option \<times> 's"

definition platformStoreService :: string where
  "platformStoreService = ''io.airlock.relay.targets''"

text \<open>An error of the library that the code hands on as it is.\<close>

definition service_error :: "keyring_error \<Rightarrow> secrets_error" where
  "service_error e = (case e of KeyringNotFound \<Rightarrow> SecretError ''secret not found in keyring''
     | KeyringError m \<Rightarrow> SecretError m)"

text \<open>An error after the test for a missing entry.\<close>

definition lookup_error :: "keyring_error \<Rightarrow> secrets_error" where
  "lookup_error e = (if e = KeyringNotFound then ErrSecretNotFound else service_error e)"

section \<open>Linux\<close>

definition linux_Put :: "'s keyring \<Rightarrow> 's \<Rightarrow> string \<Rightarrow> bytes \<Rightarrow> secrets_error option \<times> 's" where
  "linux_Put kg s reference data =
     (case kg_Set kg s platformStoreService reference (RawStdEncoding_EncodeToString data) of
        (e, s') \<Rightarrow> (map_option service_error e, s'))"

definition linux_Get :: "'s keyring \<Rightarrow> 's \<Rightarrow> string \<Rightarrow> secrets_error + bytes" where
  "linux_Get kg s reference =
     (case kg_Get kg s platformStoreService reference of
        Inl e \<Rightarrow> Inl (lookup_error e)
      | Inr encoded \<Rightarrow>
          (case raw_b64_decode False encoded of
             None \<Rightarrow> Inl (SecretError ''decode platform secret'')
           | Some data \<Rightarrow> Inr data))"

definition linux_Delete :: "'s keyring \<Rightarrow> 's \<Rightarrow> string \<Rightarrow> secrets_error option \<times> 's" where
  "linux_Delete kg s reference =
     (case kg_Delete kg s platformStoreService reference of (e, s') \<Rightarrow> (map_option lookup_error e, s'))"

section \<open>Windows\<close>

definition windowsCredentialChunkBytes :: nat where
  "windowsCredentialChunkBytes = 1200"

record credential_index =
  wi_generation :: string
  wi_chunks :: nat

definition windowsCredentialIndexName :: "string \<Rightarrow> string" where
  "windowsCredentialIndexName reference = reference @ '':index''"

definition windowsCredentialChunkName :: "string \<Rightarrow> string \<Rightarrow> nat \<Rightarrow> string" where
  "windowsCredentialChunkName reference generation index =
     reference @ '':'' @ generation @ '':'' @ nat_digits index"

definition windowsCredentialGeneration :: "bytes option \<Rightarrow> secrets_error + string" where
  "windowsCredentialGeneration random =
     (case random of
        None \<Rightarrow> Inl (SecretError ''generate platform secret reference'')
      | Some bs \<Rightarrow> Inr (RawURLEncoding_EncodeToString bs))"

definition parse_index :: "string \<Rightarrow> credential_index option" where
  "parse_index v =
     (case split_on CHR '':'' v of
        [tag, generation, count] \<Rightarrow>
          if tag \<noteq> ''v1'' \<or> length generation \<noteq> 24 then None
          else (case Atoi count of
                  None \<Rightarrow> None
                | Some chunks \<Rightarrow>
                    if chunks < 1 \<or> chunks > 1024 then None
                    else Some \<lparr>wi_generation = generation, wi_chunks = nat chunks\<rparr>)
      | _ \<Rightarrow> None)"

definition loadWindowsCredentialIndex ::
  "'s keyring \<Rightarrow> 's \<Rightarrow> string \<Rightarrow> secrets_error + credential_index" where
  "loadWindowsCredentialIndex kg s reference =
     (case kg_Get kg s platformStoreService (windowsCredentialIndexName reference) of
        Inl e \<Rightarrow> Inl (lookup_error e)
      | Inr v \<Rightarrow>
          (case parse_index v of
             None \<Rightarrow> Inl (SecretError ''invalid platform secret index'')
           | Some index \<Rightarrow> Inr index))"

definition deleteWindowsCredentialChunks ::
  "'s keyring \<Rightarrow> 's \<Rightarrow> string \<Rightarrow> string \<Rightarrow> nat \<Rightarrow> 's" where
  "deleteWindowsCredentialChunks kg s reference generation chunks =
     foldl (\<lambda>s index. snd (kg_Delete kg s platformStoreService
                             (windowsCredentialChunkName reference generation index))) s [0..<chunks]"

definition chunk_at :: "bytes \<Rightarrow> nat \<Rightarrow> bytes" where
  "chunk_at data index =
     (let start = index * windowsCredentialChunkBytes;
          stop = min (start + windowsCredentialChunkBytes) (length data)
      in take (stop - start) (drop start data))"

definition chunk_count :: "bytes \<Rightarrow> nat" where
  "chunk_count data =
     (let chunks = (length data + windowsCredentialChunkBytes - 1) div windowsCredentialChunkBytes
      in if chunks = 0 then 1 else chunks)"

fun put_chunks ::
  "'s keyring \<Rightarrow> 's \<Rightarrow> string \<Rightarrow> string \<Rightarrow> bytes \<Rightarrow> nat list \<Rightarrow> keyring_error option \<times> 's" where
  "put_chunks kg s reference generation data [] = (None, s)"
| "put_chunks kg s reference generation data (index # rest) =
     (case kg_Set kg s platformStoreService (windowsCredentialChunkName reference generation index)
             (RawStdEncoding_EncodeToString (chunk_at data index)) of
        (Some e, s') \<Rightarrow> (Some e, deleteWindowsCredentialChunks kg s' reference generation index)
      | (None, s') \<Rightarrow> put_chunks kg s' reference generation data rest)"

definition windows_Put ::
  "'s keyring \<Rightarrow> bytes option \<Rightarrow> 's \<Rightarrow> string \<Rightarrow> bytes \<Rightarrow> secrets_error option \<times> 's" where
  "windows_Put kg random s reference data =
     (let previous = (case loadWindowsCredentialIndex kg s reference of
                        Inl _ \<Rightarrow> \<lparr>wi_generation = [], wi_chunks = 0\<rparr> | Inr index \<Rightarrow> index)
      in case windowsCredentialGeneration random of
           Inl e \<Rightarrow> (Some e, s)
         | Inr generation \<Rightarrow>
             let chunks = chunk_count data in
             (case put_chunks kg s reference generation data [0..<chunks] of
                (Some e, s1) \<Rightarrow> (Some (service_error e), s1)
              | (None, s1) \<Rightarrow>
                  (case kg_Set kg s1 platformStoreService (windowsCredentialIndexName reference)
                          (''v1:'' @ generation @ '':'' @ nat_digits chunks) of
                     (Some e, s2) \<Rightarrow>
                       (Some (service_error e), deleteWindowsCredentialChunks kg s2 reference generation chunks)
                   | (None, s2) \<Rightarrow>
                       (None, if wi_chunks previous > 0
                              then deleteWindowsCredentialChunks kg s2 reference (wi_generation previous)
                                     (wi_chunks previous)
                              else s2))))"

fun get_chunks :: "'s keyring \<Rightarrow> 's \<Rightarrow> string \<Rightarrow> string \<Rightarrow> nat list \<Rightarrow> secrets_error + bytes" where
  "get_chunks kg s reference generation [] = Inr []"
| "get_chunks kg s reference generation (part # rest) =
     (case kg_Get kg s platformStoreService (windowsCredentialChunkName reference generation part) of
        Inl e \<Rightarrow> Inl (lookup_error e)
      | Inr encoded \<Rightarrow>
          (case raw_b64_decode False encoded of
             None \<Rightarrow> Inl (SecretError ''decode platform secret'')
           | Some chunk \<Rightarrow>
               (case get_chunks kg s reference generation rest of
                  Inl e \<Rightarrow> Inl e
                | Inr data \<Rightarrow> Inr (chunk @ data))))"

definition windows_Get :: "'s keyring \<Rightarrow> 's \<Rightarrow> string \<Rightarrow> secrets_error + bytes" where
  "windows_Get kg s reference =
     (case loadWindowsCredentialIndex kg s reference of
        Inl e \<Rightarrow> Inl e
      | Inr index \<Rightarrow> get_chunks kg s reference (wi_generation index) [0..<wi_chunks index])"

definition windows_Delete :: "'s keyring \<Rightarrow> 's \<Rightarrow> string \<Rightarrow> secrets_error option \<times> 's" where
  "windows_Delete kg s reference =
     (case loadWindowsCredentialIndex kg s reference of
        Inl e \<Rightarrow> (Some e, s)
      | Inr index \<Rightarrow>
          (case kg_Delete kg
                  (deleteWindowsCredentialChunks kg s reference (wi_generation index) (wi_chunks index))
                  platformStoreService (windowsCredentialIndexName reference) of
             (e, s') \<Rightarrow> (map_option lookup_error e, s')))"

section \<open>macOS\<close>

datatype keychain_error = ErrorDuplicateItem | ErrorItemNotFound | KeychainError string

record keychain_item =
  ki_service :: string
  ki_account :: string
  ki_label :: string
  ki_data :: bytes
  ki_synchronizable :: bool
  ki_this_device_only :: bool

record 's keychain =
  kn_AddItem :: "'s \<Rightarrow> keychain_item \<Rightarrow> keychain_error option \<times> 's"
  kn_UpdateItem :: "'s \<Rightarrow> string \<Rightarrow> string \<Rightarrow> bytes \<Rightarrow> keychain_error option \<times> 's"
  kn_QueryItem :: "'s \<Rightarrow> string \<Rightarrow> string \<Rightarrow> keychain_error + bytes list"
  kn_DeleteItem :: "'s \<Rightarrow> string \<Rightarrow> string \<Rightarrow> keychain_error option \<times> 's"

definition item_error :: "keychain_error \<Rightarrow> secrets_error" where
  "item_error e = (case e of ErrorDuplicateItem \<Rightarrow> SecretError ''duplicate item''
     | ErrorItemNotFound \<Rightarrow> SecretError ''item not found'' | KeychainError m \<Rightarrow> SecretError m)"

definition target_item :: "string \<Rightarrow> bytes \<Rightarrow> keychain_item" where
  "target_item r d = \<lparr>ki_service = platformStoreService, ki_account = r, ki_label = ''Airlock protected target'',
     ki_data = d, ki_synchronizable = False, ki_this_device_only = True\<rparr>"

definition darwin_Put :: "'s keychain \<Rightarrow> 's \<Rightarrow> string \<Rightarrow> bytes \<Rightarrow> secrets_error option \<times> 's" where
  "darwin_Put kn s reference data =
     (case kn_AddItem kn s (target_item reference data) of
        (Some ErrorDuplicateItem, s1) \<Rightarrow>
          (case kn_UpdateItem kn s1 platformStoreService reference data of
             (e, s2) \<Rightarrow> (map_option item_error e, s2))
      | (e, s1) \<Rightarrow> (map_option item_error e, s1))"

definition darwin_Get :: "'s keychain \<Rightarrow> 's \<Rightarrow> string \<Rightarrow> secrets_error + bytes" where
  "darwin_Get kn s reference =
     (case kn_QueryItem kn s platformStoreService reference of
        Inl e \<Rightarrow> Inl (item_error e)
      | Inr results \<Rightarrow> if length results \<noteq> 1 then Inl ErrSecretNotFound else Inr (results ! 0))"

definition darwin_Delete :: "'s keychain \<Rightarrow> 's \<Rightarrow> string \<Rightarrow> secrets_error option \<times> 's" where
  "darwin_Delete kn s reference =
     (case kn_DeleteItem kn s platformStoreService reference of
        (None, s') \<Rightarrow> (None, s')
      | (Some e, s') \<Rightarrow> (Some (if e = ErrorItemNotFound then ErrSecretNotFound else item_error e), s'))"

section \<open>Opening a store\<close>

text \<open>
  The entries of the store a mode selects: the platform's, where there is one (the build for another
  system, \<open>keychain_unsupported.go\<close>, has none), or those of the local file.
\<close>

definition NewPlatformStore :: "backend option \<Rightarrow> secrets_error + backend" where
  "NewPlatformStore platform =
     (case platform of
        None \<Rightarrow> Inl (SecretError ''platform secret store is not supported'')
      | Some entries \<Rightarrow> Inr entries)"

definition OpenStore ::
  "backend option \<Rightarrow> (payload \<Rightarrow> nat) \<Rightarrow> read_calls \<Rightarrow> backend_file \<Rightarrow> string \<Rightarrow> string
   \<Rightarrow> secrets_error + backend" where
  "OpenStore platform psize os file mode localFilePath =
     (if mode = StoreModeKeychain then NewPlatformStore platform
      else if mode = StoreModeLocalFile then
        (if localFilePath = [] then Inl (SecretError ''local secret file path is required'')
         else Secret_NewFileStore psize os file)
      else Inl (SecretError ''invalid secret store mode''))"

section \<open>What the code relies on\<close>

text \<open>The entries of the service, read off a state of the library.\<close>

definition keyring_ok :: "'s keyring \<Rightarrow> ('s \<Rightarrow> string \<Rightarrow> string option) \<Rightarrow> bool" where
  "keyring_ok kg view \<longleftrightarrow>
     (\<forall>s k v s'. kg_Set kg s platformStoreService k v = (None, s') \<longrightarrow> view s' = (view s)(k \<mapsto> v))
   \<and> (\<forall>s k v e s'. kg_Set kg s platformStoreService k v = (Some e, s') \<longrightarrow>
        (\<forall>j. j \<noteq> k \<longrightarrow> view s' j = view s j))
   \<and> (\<forall>s k v. kg_Get kg s platformStoreService k = Inr v \<longrightarrow> view s k = Some v)
   \<and> (\<forall>s k. kg_Get kg s platformStoreService k = Inl KeyringNotFound \<longrightarrow> view s k = None)
   \<and> (\<forall>s k s'. kg_Delete kg s platformStoreService k = (None, s') \<longrightarrow> view s' = (view s)(k := None))
   \<and> (\<forall>s k e s'. kg_Delete kg s platformStoreService k = (Some e, s') \<longrightarrow>
        (\<forall>j. j \<noteq> k \<longrightarrow> view s' j = view s j))"

definition keyring_atomic :: "'s keyring \<Rightarrow> ('s \<Rightarrow> string \<Rightarrow> string option) \<Rightarrow> bool" where
  "keyring_atomic kg view \<longleftrightarrow>
     (\<forall>s k v e s'. kg_Set kg s platformStoreService k v = (Some e, s') \<longrightarrow> view s' = view s)"

definition keychain_ok :: "'s keychain \<Rightarrow> ('s \<Rightarrow> string \<Rightarrow> bytes option) \<Rightarrow> bool" where
  "keychain_ok kn view \<longleftrightarrow>
     (\<forall>s item s'. ki_service item = platformStoreService \<longrightarrow> kn_AddItem kn s item = (None, s') \<longrightarrow>
        view s' = (view s)(ki_account item \<mapsto> ki_data item))
   \<and> (\<forall>s item e s'. ki_service item = platformStoreService \<longrightarrow> kn_AddItem kn s item = (Some e, s') \<longrightarrow>
        (\<forall>j. j \<noteq> ki_account item \<longrightarrow> view s' j = view s j))
   \<and> (\<forall>s k d s'. kn_UpdateItem kn s platformStoreService k d = (None, s') \<longrightarrow> view s' = (view s)(k \<mapsto> d))
   \<and> (\<forall>s k d e s'. kn_UpdateItem kn s platformStoreService k d = (Some e, s') \<longrightarrow>
        (\<forall>j. j \<noteq> k \<longrightarrow> view s' j = view s j))
   \<and> (\<forall>s k results. kn_QueryItem kn s platformStoreService k = Inr results \<longrightarrow>
        results = (case view s k of None \<Rightarrow> [] | Some d \<Rightarrow> [d]))
   \<and> (\<forall>s k s'. kn_DeleteItem kn s platformStoreService k = (None, s') \<longrightarrow> view s' = (view s)(k := None))
   \<and> (\<forall>s k e s'. kn_DeleteItem kn s platformStoreService k = (Some e, s') \<longrightarrow>
        (\<forall>j. j \<noteq> k \<longrightarrow> view s' j = view s j))"

text \<open>What an index and its chunks stand for.\<close>

fun chunks_stored :: "(string \<Rightarrow> string option) \<Rightarrow> string \<Rightarrow> string \<Rightarrow> nat list \<Rightarrow> bytes option" where
  "chunks_stored m reference generation [] = Some []"
| "chunks_stored m reference generation (i # rest) =
     (case m (windowsCredentialChunkName reference generation i) of
        None \<Rightarrow> None
      | Some encoded \<Rightarrow>
          (case (raw_b64_decode False encoded, chunks_stored m reference generation rest) of
             (Some chunk, Some data) \<Rightarrow> Some (chunk @ data)
           | _ \<Rightarrow> None))"

definition windows_stored :: "(string \<Rightarrow> string option) \<Rightarrow> string \<Rightarrow> bytes option" where
  "windows_stored m reference =
     (case m (windowsCredentialIndexName reference) of
        None \<Rightarrow> None
      | Some v \<Rightarrow>
          (case parse_index v of
             None \<Rightarrow> None
           | Some index \<Rightarrow> chunks_stored m reference (wi_generation index) [0..<wi_chunks index]))"

definition linux_stored :: "(string \<Rightarrow> string option) \<Rightarrow> string \<Rightarrow> bytes option" where
  "linux_stored m reference =
     (case m reference of None \<Rightarrow> None | Some encoded \<Rightarrow> raw_b64_decode False encoded)"

section \<open>Names and chunks\<close>

lemma b64_char_no_colon: "b64_char url n \<noteq> CHR '':''"
proof
  assume "b64_char url n = CHR '':''"
  then have "(of_char (b64_char url n) :: nat) = 58" by simp
  then show False by (auto simp: b64_char_def split: if_splits)
qed

lemma set_b64_encode: "set (b64_encode url False bs) \<subseteq> range (b64_char url)"
  by (induction url False bs rule: b64_encode.induct) (auto simp: Let_def)

lemma b64_no_colon: "CHR '':'' \<notin> set (b64_encode url False bs)"
  using set_b64_encode [of url bs] b64_char_no_colon [of url] by force

lemma digits_no_colon: "CHR '':'' \<notin> set (nat_digits n)"
  using nat_digits_all [of n] by (auto simp: list_all_iff char_class_defs)

lemma nat_digits_inj: "nat_digits m = nat_digits n \<longleftrightarrow> m = n"
  by (metis nat_digits_decimal)

lemma before_colon:
  assumes "r @ CHR '':'' # x = q @ CHR '':'' # y" "CHR '':'' \<notin> set r" "CHR '':'' \<notin> set q"
  shows "r = q \<and> x = y"
  using assms cut_char_found [of "CHR '':''" "r @ CHR '':'' # x" r x]
    cut_char_found [of "CHR '':''" "r @ CHR '':'' # x" q y] by simp

lemma valid_no_colon: "validateReference r = None \<Longrightarrow> CHR '':'' \<notin> set r"
  by (auto simp: validateReference_def slug_pattern_def list_all_iff reference_tail_def char_class_defs
      split: if_splits list.splits)

lemma chunk_name_eq:
  assumes "validateReference r = None" "validateReference q = None" "CHR '':'' \<notin> set g" "CHR '':'' \<notin> set h"
  shows "windowsCredentialChunkName r g i = windowsCredentialChunkName q h j \<longleftrightarrow> r = q \<and> g = h \<and> i = j"
proof
  assume eq: "windowsCredentialChunkName r g i = windowsCredentialChunkName q h j"
  have "r = q \<and> g @ '':'' @ nat_digits i = h @ '':'' @ nat_digits j"
    using before_colon [OF _ assms(1,2) [THEN valid_no_colon]] eq by (simp add: windowsCredentialChunkName_def)
  then show "r = q \<and> g = h \<and> i = j"
    using before_colon [OF _ assms(3,4), of "nat_digits i" "nat_digits j"] by (simp add: nat_digits_inj)
qed simp

lemma chunk_name_not_index:
  assumes "validateReference r = None" "validateReference q = None"
  shows "windowsCredentialChunkName r g i \<noteq> windowsCredentialIndexName q"
proof
  assume eq: "windowsCredentialChunkName r g i = windowsCredentialIndexName q"
  then have "g @ '':'' @ nat_digits i = ''index''"
    using before_colon [OF _ assms [THEN valid_no_colon], of "g @ '':'' @ nat_digits i" "''index''"]
    by (simp add: windowsCredentialChunkName_def windowsCredentialIndexName_def)
  then have "CHR '':'' \<in> set ''index''" by (metis append_Cons in_set_conv_decomp append_Nil)
  then show False by simp
qed

lemma index_name_eq: "windowsCredentialIndexName r = windowsCredentialIndexName q \<longleftrightarrow> r = q"
  by (simp add: windowsCredentialIndexName_def)

lemma chunk_at_take: "chunk_at data i = take windowsCredentialChunkBytes (drop (i * windowsCredentialChunkBytes) data)"
  by (auto simp: chunk_at_def Let_def min_def)

lemma chunks_joined:
  "concat (map (chunk_at data) [0..<n]) = take (n * windowsCredentialChunkBytes) data"
proof (induction n)
  case (Suc n)
  then show ?case
    using take_add [of "n * windowsCredentialChunkBytes" windowsCredentialChunkBytes data]
    by (simp add: chunk_at_take add.commute)
qed simp

lemma round_up_div: "n \<le> (n + m) div Suc m * Suc m"
  using div_mult_mod_eq [of "n + m" "Suc m"] mod_less_divisor [of "Suc m" "n + m"] by linarith

lemma chunks_whole: "concat (map (chunk_at data) [0..<chunk_count data]) = data"
proof -
  define c where "c = (length data + windowsCredentialChunkBytes - 1) div windowsCredentialChunkBytes"
  have "length data \<le> c * windowsCredentialChunkBytes"
    using round_up_div [of "length data" 1199] by (simp add: c_def windowsCredentialChunkBytes_def)
  moreover have "c \<le> chunk_count data" by (simp add: chunk_count_def c_def Let_def)
  ultimately have "length data \<le> chunk_count data * windowsCredentialChunkBytes"
    by (meson mult_le_mono1 order_trans)
  then show ?thesis by (simp add: chunks_joined)
qed

lemma index_split:
  assumes "CHR '':'' \<notin> set g" "v = ''v1:'' @ g @ '':'' @ nat_digits n"
  shows "split_on CHR '':'' v = [''v1'', g, nat_digits n]"
proof -
  have "split_on CHR '':'' v = split_on CHR '':'' ''v1'' @ split_on CHR '':'' g @ split_on CHR '':'' (nat_digits n)"
    using split_on_append_sep [of "CHR '':''" "''v1''"] split_on_append_sep [of "CHR '':''" g] assms(2) by simp
  then show ?thesis using assms(1) digits_no_colon by (simp add: split_on_no_sep)
qed

lemma parse_index_written:
  assumes "CHR '':'' \<notin> set g" "length g = 24" "1 \<le> n" "n \<le> 1024"
  shows "parse_index (''v1:'' @ g @ '':'' @ nat_digits n) = Some \<lparr>wi_generation = g, wi_chunks = n\<rparr>"
  using index_split [OF assms(1) refl] assms(2-4) by (simp add: parse_index_def Atoi_digits)

lemma parse_index_parts: "parse_index v = Some x \<Longrightarrow> \<exists>t n. split_on CHR '':'' v = [t, wi_generation x, n]"
  by (auto simp: parse_index_def split: list.splits if_splits option.splits)

lemma parse_index_colon: "parse_index v = Some x \<Longrightarrow> CHR '':'' \<notin> set (wi_generation x)"
  using parse_index_parts [of v x] split_on_elem_no_sep [of "wi_generation x" "CHR '':''" v] by auto

section \<open>Runs of calls\<close>

lemma set_ok:
  "keyring_ok kg view \<Longrightarrow> kg_Set kg s platformStoreService k v = (None, s') \<Longrightarrow> view s' = (view s)(k \<mapsto> v)"
  unfolding keyring_ok_def by metis

lemma set_frame:
  "keyring_ok kg view \<Longrightarrow> kg_Set kg s platformStoreService k v = (e, s') \<Longrightarrow> j \<noteq> k \<Longrightarrow> view s' j = view s j"
  using set_ok [of kg view s k v s'] unfolding keyring_ok_def by (cases e) (simp, metis)

lemma delete_ok:
  "keyring_ok kg view \<Longrightarrow> kg_Delete kg s platformStoreService k = (None, s') \<Longrightarrow> view s' = (view s)(k := None)"
  unfolding keyring_ok_def by metis

lemma delete_frame:
  "keyring_ok kg view \<Longrightarrow> kg_Delete kg s platformStoreService k = (e, s') \<Longrightarrow> j \<noteq> k \<Longrightarrow> view s' j = view s j"
  using delete_ok [of kg view s k s'] unfolding keyring_ok_def by (cases e) (simp, metis)

lemma get_ok: "keyring_ok kg view \<Longrightarrow> kg_Get kg s platformStoreService k = Inr v \<Longrightarrow> view s k = Some v"
  unfolding keyring_ok_def by metis

lemma get_missing:
  "keyring_ok kg view \<Longrightarrow> kg_Get kg s platformStoreService k = Inl KeyringNotFound \<Longrightarrow> view s k = None"
  unfolding keyring_ok_def by metis

definition chunk_names :: "string \<Rightarrow> string \<Rightarrow> string set" where
  "chunk_names r g = range (windowsCredentialChunkName r g)"

lemma delete_chunks_frame:
  assumes "keyring_ok kg view" "k \<notin> chunk_names r g"
  shows "view (deleteWindowsCredentialChunks kg s r g n) k = view s k"
proof (induction n)
  case (Suc n)
  define s1 where "s1 = deleteWindowsCredentialChunks kg s r g n"
  obtain e s2 where d: "kg_Delete kg s1 platformStoreService (windowsCredentialChunkName r g n) = (e, s2)"
    by (cases "kg_Delete kg s1 platformStoreService (windowsCredentialChunkName r g n)")
  have "deleteWindowsCredentialChunks kg s r g (Suc n) = s2"
    using d by (simp add: deleteWindowsCredentialChunks_def s1_def)
  moreover have "view s2 k = view s1 k"
    using delete_frame [OF assms(1) d, of k] assms(2) by (auto simp: chunk_names_def)
  ultimately show ?case using Suc by (simp add: s1_def)
qed (simp add: deleteWindowsCredentialChunks_def)

lemma put_chunks_Cons:
  "put_chunks kg s r g d (i # rest) = (None, s') \<longleftrightarrow>
     (\<exists>s1. kg_Set kg s platformStoreService (windowsCredentialChunkName r g i)
        (RawStdEncoding_EncodeToString (chunk_at d i)) = (None, s1) \<and> put_chunks kg s1 r g d rest = (None, s'))"
  by (auto split: prod.splits option.splits)

lemma put_chunks_kept:
  assumes "keyring_ok kg view" "put_chunks kg s r g d is = (None, s')" "k \<notin> windowsCredentialChunkName r g ` set is"
  shows "view s' k = view s k"
  using assms(2,3)
proof (induction "is" arbitrary: s)
  case (Cons i rest)
  obtain s1 where c: "kg_Set kg s platformStoreService (windowsCredentialChunkName r g i)
      (RawStdEncoding_EncodeToString (chunk_at d i)) = (None, s1)" and p: "put_chunks kg s1 r g d rest = (None, s')"
    using Cons(2) unfolding put_chunks_Cons by blast
  from Cons(1) [OF p] Cons(3) set_frame [OF assms(1) c, of k] show ?case by auto
qed simp

lemma put_chunks_frame:
  assumes "keyring_ok kg view" "put_chunks kg s r g d is = (e, s')" "k \<notin> chunk_names r g"
  shows "view s' k = view s k"
  using assms(2)
proof (induction "is" arbitrary: s)
  case (Cons i rest)
  obtain e1 s1 where c: "kg_Set kg s platformStoreService (windowsCredentialChunkName r g i)
      (RawStdEncoding_EncodeToString (chunk_at d i)) = (e1, s1)"
    by (cases "kg_Set kg s platformStoreService (windowsCredentialChunkName r g i)
      (RawStdEncoding_EncodeToString (chunk_at d i))")
  have "view s1 k = view s k"
    using set_frame [OF assms(1) c, of k] assms(3) by (auto simp: chunk_names_def)
  with Cons c delete_chunks_frame [OF assms(1,3)] show ?case by (cases e1) auto
qed simp

lemma put_chunks_stored:
  assumes kg: "keyring_ok kg view" and r: "validateReference r = None" and g: "CHR '':'' \<notin> set g"
    and "put_chunks kg s r g d is = (None, s')" "i \<in> set is"
  shows "view s' (windowsCredentialChunkName r g i) = Some (RawStdEncoding_EncodeToString (chunk_at d i))"
  using assms(4,5)
proof (induction "is" arbitrary: s)
  case (Cons j rest)
  obtain s1 where c: "kg_Set kg s platformStoreService (windowsCredentialChunkName r g j)
      (RawStdEncoding_EncodeToString (chunk_at d j)) = (None, s1)" and p: "put_chunks kg s1 r g d rest = (None, s')"
    using Cons(2) unfolding put_chunks_Cons by blast
  show ?case
  proof (cases "i \<in> set rest")
    case True
    with Cons p show ?thesis by blast
  next
    case False
    then have "windowsCredentialChunkName r g i \<notin> windowsCredentialChunkName r g ` set rest"
      by (auto simp: chunk_name_eq [OF r r g g])
    with put_chunks_kept [OF kg p] set_ok [OF kg c] False Cons(3) show ?thesis by simp
  qed
qed simp

lemma chunks_stored_concat:
  assumes "\<And>i. i \<in> set is \<Longrightarrow> m (windowsCredentialChunkName r g i) = Some (RawStdEncoding_EncodeToString (f i))"
  shows "chunks_stored m r g is = Some (concat (map f is))"
  using assms by (induction "is") (simp_all add: raw_b64_roundtrip)

lemma chunks_stored_cong:
  "(\<And>k. k \<in> chunk_names r g \<Longrightarrow> m k = m' k) \<Longrightarrow> chunks_stored m r g is = chunks_stored m' r g is"
  by (induction "is") (auto simp: chunk_names_def split: option.splits)

lemma windows_stored_cong:
  assumes "\<And>k. k = windowsCredentialIndexName q \<or> (\<exists>g. CHR '':'' \<notin> set g \<and> k \<in> chunk_names q g) \<Longrightarrow> m k = m' k"
  shows "windows_stored m q = windows_stored m' q"
proof -
  have "m (windowsCredentialIndexName q) = m' (windowsCredentialIndexName q)" using assms by simp
  moreover have "chunks_stored m q (wi_generation x) js = chunks_stored m' q (wi_generation x) js"
    if "parse_index v = Some x" for v x js
    using parse_index_colon [OF that] assms by (intro chunks_stored_cong) blast
  ultimately show ?thesis by (auto simp: windows_stored_def split: option.splits)
qed

section \<open>The backends fulfil the contract\<close>

lemma lookup_not_found [simp]: "lookup_error e = ErrSecretNotFound \<longleftrightarrow> e = KeyringNotFound"
  by (simp add: lookup_error_def service_error_def split: keyring_error.splits)

lemma linux_backend:
  assumes "keyring_ok kg view"
  shows "secret_backend (linux_Put kg) (linux_Get kg) (linux_Delete kg) (\<lambda>s. linux_stored (view s))
    (\<lambda>_. True) (\<lambda>_ _ _. True) ErrSecretNotFound"
  by unfold_locales
    (use set_ok [OF assms] set_frame [OF assms] delete_ok [OF assms] delete_frame [OF assms] get_ok [OF assms]
      get_missing [OF assms] in \<open>fastforce simp: linux_Put_def linux_Get_def linux_Delete_def linux_stored_def
      raw_b64_roundtrip split: prod.splits sum.splits option.splits\<close>)+

lemma add_item:
  assumes "keychain_ok kn view" "ki_service item = platformStoreService" "kn_AddItem kn s item = (e, s')"
  shows "e = None \<Longrightarrow> view s' = (view s)(ki_account item \<mapsto> ki_data item)"
    and "j \<noteq> ki_account item \<Longrightarrow> view s' j = view s j"
proof -
  show ok: "e = None \<Longrightarrow> view s' = (view s)(ki_account item \<mapsto> ki_data item)"
    using assms unfolding keychain_ok_def by metis
  have "e \<noteq> None \<Longrightarrow> j \<noteq> ki_account item \<Longrightarrow> view s' j = view s j"
    using assms unfolding keychain_ok_def by (metis not_None_eq)
  with ok show "j \<noteq> ki_account item \<Longrightarrow> view s' j = view s j" by (cases e) auto
qed

lemma update_item:
  assumes "keychain_ok kn view" "kn_UpdateItem kn s platformStoreService k d = (e, s')"
  shows "e = None \<Longrightarrow> view s' = (view s)(k \<mapsto> d)" and "j \<noteq> k \<Longrightarrow> view s' j = view s j"
proof -
  show ok: "e = None \<Longrightarrow> view s' = (view s)(k \<mapsto> d)"
    using assms unfolding keychain_ok_def by metis
  have "e \<noteq> None \<Longrightarrow> j \<noteq> k \<Longrightarrow> view s' j = view s j"
    using assms unfolding keychain_ok_def by (metis not_None_eq)
  with ok show "j \<noteq> k \<Longrightarrow> view s' j = view s j" by (cases e) auto
qed

lemma target_item_simps [simp]:
  "ki_service (target_item r d) = platformStoreService" "ki_account (target_item r d) = r" "ki_data (target_item r d) = d"
  by (simp_all add: target_item_def)

lemma darwin_Put_cases:
  assumes "darwin_Put kn s r d = (e, s')"
  obtains (added) x where "kn_AddItem kn s (target_item r d) = (x, s')" "e = map_option item_error x"
  | (updated) t x where "kn_AddItem kn s (target_item r d) = (Some ErrorDuplicateItem, t)"
      "kn_UpdateItem kn t platformStoreService r d = (x, s')" "e = map_option item_error x"
  using assms
  by (auto simp: darwin_Put_def split: prod.splits option.splits keychain_error.splits)

lemma darwin_Put_view:
  assumes "keychain_ok kn view" "darwin_Put kn s r d = (e, s')"
  shows "(e = None \<longrightarrow> view s' r = Some d) \<and> (q \<noteq> r \<longrightarrow> view s' q = view s q)"
  using assms(2)
proof (cases rule: darwin_Put_cases)
  case (added x)
  then show ?thesis using add_item [OF assms(1) _ added(1)] by auto
next
  case (updated t x)
  then show ?thesis using add_item(2) [OF assms(1) _ updated(1)] update_item [OF assms(1) updated(2)] by auto
qed

lemma item_error_not_found [simp]: "item_error e \<noteq> ErrSecretNotFound"
  by (simp add: item_error_def split: keychain_error.splits)

lemma darwin_Get_view:
  assumes "keychain_ok kn view"
  shows "darwin_Get kn s r = Inr d \<Longrightarrow> view s r = Some d" "darwin_Get kn s r = Inl ErrSecretNotFound \<Longrightarrow> view s r = None"
proof -
  have q: "results = (case view s r of None \<Rightarrow> [] | Some d \<Rightarrow> [d])"
    if "kn_QueryItem kn s platformStoreService r = Inr results" for results
    using assms that unfolding keychain_ok_def by metis
  show "darwin_Get kn s r = Inr d \<Longrightarrow> view s r = Some d" "darwin_Get kn s r = Inl ErrSecretNotFound \<Longrightarrow> view s r = None"
    using q by (auto simp: darwin_Get_def split: sum.splits if_splits option.splits)
qed

lemma darwin_Delete_view:
  assumes "keychain_ok kn view" "darwin_Delete kn s r = (e, s')"
  shows "(e = None \<longrightarrow> view s' r = None) \<and> (q \<noteq> r \<longrightarrow> view s' q = view s q)"
proof -
  obtain x where d: "kn_DeleteItem kn s platformStoreService r = (x, s')" and x: "e = None \<longleftrightarrow> x = None"
    using assms(2) by (auto simp: darwin_Delete_def split: prod.splits option.splits)
  have ok: "x = None \<Longrightarrow> view s' = (view s)(r := None)"
    using assms(1) d unfolding keychain_ok_def by metis
  have "x \<noteq> None \<Longrightarrow> q \<noteq> r \<Longrightarrow> view s' q = view s q"
    using assms(1) d unfolding keychain_ok_def by (metis not_None_eq)
  with ok x show ?thesis by (cases x) auto
qed

lemma darwin_backend:
  assumes "keychain_ok kn view"
  shows "secret_backend (darwin_Put kn) (darwin_Get kn) (darwin_Delete kn) view (\<lambda>_. True) (\<lambda>_ _ _. True)
    ErrSecretNotFound"
  by unfold_locales (simp_all add: darwin_Put_view [OF assms] darwin_Get_view [OF assms] darwin_Delete_view [OF assms])

text \<open>A generation of 18 random bytes that the previous entry of the reference does not use, and at most 1024 chunks.\<close>

definition windows_fits ::
  "('s \<Rightarrow> string \<Rightarrow> string option) \<Rightarrow> bytes \<Rightarrow> 's \<Rightarrow> string \<Rightarrow> bytes \<Rightarrow> bool" where
  "windows_fits view random s reference data \<longleftrightarrow>
     length random = 18 \<and> length data \<le> 1024 * windowsCredentialChunkBytes
     \<and> (case view s (windowsCredentialIndexName reference) of
          None \<Rightarrow> True
        | Some v \<Rightarrow> (case parse_index v of
            None \<Rightarrow> True | Some index \<Rightarrow> wi_generation index \<noteq> RawURLEncoding_EncodeToString random))"

lemma chunk_count_bounds:
  "1 \<le> chunk_count data" "length data \<le> 1024 * windowsCredentialChunkBytes \<Longrightarrow> chunk_count data \<le> 1024"
proof -
  show "1 \<le> chunk_count data" by (simp add: chunk_count_def Let_def)
  assume "length data \<le> 1024 * windowsCredentialChunkBytes"
  then have "(length data + 1199) div 1200 \<le> (1024 * 1200 + 1199) div (1200::nat)"
    by (intro div_le_mono) (simp add: windowsCredentialChunkBytes_def)
  then have "(length data + 1199) div 1200 \<le> 1024" by simp
  moreover have "length data + windowsCredentialChunkBytes - 1 = length data + 1199"
    by (simp add: windowsCredentialChunkBytes_def)
  ultimately show "chunk_count data \<le> 1024"
    unfolding chunk_count_def Let_def windowsCredentialChunkBytes_def by (simp only: split: if_split) simp
qed

lemma chunk_count_large: "1024 * windowsCredentialChunkBytes < length data \<Longrightarrow> 1024 < chunk_count data"
proof -
  assume l: "1024 * windowsCredentialChunkBytes < length data"
  have "length data \<le> chunk_count data * windowsCredentialChunkBytes"
    using arg_cong [OF chunks_whole [of data, unfolded chunks_joined], of length] by simp
  with l have "1024 * windowsCredentialChunkBytes < chunk_count data * windowsCredentialChunkBytes" by linarith
  then show ?thesis using mult_less_cancel2 by blast
qed

text \<open>The successful put, step by step.\<close>

lemma windows_Put_cases:
  assumes "windows_Put kg (Some random) s r data = (None, s')"
  obtains s1 s2 where
    "put_chunks kg s r (RawURLEncoding_EncodeToString random) data [0..<chunk_count data] = (None, s1)"
    "kg_Set kg s1 platformStoreService (windowsCredentialIndexName r)
       (''v1:'' @ RawURLEncoding_EncodeToString random @ '':'' @ nat_digits (chunk_count data)) = (None, s2)"
    "s' = s2 \<or> (\<exists>index. loadWindowsCredentialIndex kg s r = Inr index
        \<and> s' = deleteWindowsCredentialChunks kg s2 r (wi_generation index) (wi_chunks index))"
  using assms
  by (auto simp: windows_Put_def windowsCredentialGeneration_def Let_def split: prod.splits option.splits
      sum.splits if_splits)

lemma loaded_index:
  assumes "keyring_ok kg view" "loadWindowsCredentialIndex kg s r = Inr index"
  shows "\<exists>v. view s (windowsCredentialIndexName r) = Some v \<and> parse_index v = Some index"
  using assms(2) get_ok [OF assms(1)]
  by (fastforce simp: loadWindowsCredentialIndex_def split: sum.splits option.splits)

lemma windows_Put_stored:
  assumes kg: "keyring_ok kg view" and r: "validateReference r = None"
    and put: "windows_Put kg (Some random) s r data = (None, s')" and fits: "windows_fits view random s r data"
  shows "windows_stored (view s') r = Some data"
proof -
  define g where "g = RawURLEncoding_EncodeToString random"
  have gc: "CHR '':'' \<notin> set g" by (simp add: g_def b64_no_colon)
  have gl: "length g = 24" using fits by (simp add: g_def length_b64_encode windows_fits_def)
  obtain s1 s2 where p: "put_chunks kg s r g data [0..<chunk_count data] = (None, s1)"
    and i: "kg_Set kg s1 platformStoreService (windowsCredentialIndexName r)
       (''v1:'' @ g @ '':'' @ nat_digits (chunk_count data)) = (None, s2)"
    and e: "s' = s2 \<or> (\<exists>index. loadWindowsCredentialIndex kg s r = Inr index
        \<and> s' = deleteWindowsCredentialChunks kg s2 r (wi_generation index) (wi_chunks index))"
    using windows_Put_cases [OF put, folded g_def] by blast
  have same: "view s' k = view s2 k" if "k = windowsCredentialIndexName r \<or> k \<in> chunk_names r g" for k
  proof (cases "s' = s2")
    case False
    with e obtain index where l: "loadWindowsCredentialIndex kg s r = Inr index"
      and s': "s' = deleteWindowsCredentialChunks kg s2 r (wi_generation index) (wi_chunks index)" by blast
    have "wi_generation index \<noteq> g" using fits loaded_index [OF kg l] by (auto simp: windows_fits_def g_def)
    moreover have "CHR '':'' \<notin> set (wi_generation index)"
      using loaded_index [OF kg l] parse_index_colon by blast
    ultimately have "k \<notin> chunk_names r (wi_generation index)"
      using that chunk_name_eq [OF r r _ gc] chunk_name_not_index [OF r r] by (auto simp: chunk_names_def)
    then show ?thesis using delete_chunks_frame [OF kg] s' by simp
  qed simp
  have "view s2 (windowsCredentialChunkName r g j) = Some (RawStdEncoding_EncodeToString (chunk_at data j))"
    if "j \<in> set [0..<chunk_count data]" for j
    using put_chunks_stored [OF kg r gc p that] set_ok [OF kg i] chunk_name_not_index [OF r r] by simp
  then have "chunks_stored (view s') r g [0..<chunk_count data] = Some data"
    using chunks_stored_concat [of "[0..<chunk_count data]" "view s'" r g "chunk_at data"] same chunks_whole
    by (auto simp: chunk_names_def)
  moreover have "view s' (windowsCredentialIndexName r) = Some (''v1:'' @ g @ '':'' @ nat_digits (chunk_count data))"
    using same set_ok [OF kg i] by simp
  moreover have "parse_index (''v1:'' @ g @ '':'' @ nat_digits (chunk_count data))
      = Some \<lparr>wi_generation = g, wi_chunks = chunk_count data\<rparr>"
    using parse_index_written [OF gc gl] chunk_count_bounds fits by (simp add: windows_fits_def)
  ultimately show ?thesis by (simp add: windows_stored_def)
qed

text \<open>What no call on a reference touches: the entries of the others.\<close>

definition foreign :: "string \<Rightarrow> string \<Rightarrow> bool" where
  "foreign r k \<longleftrightarrow> k \<noteq> windowsCredentialIndexName r \<and> (\<forall>g. CHR '':'' \<notin> set g \<longrightarrow> k \<notin> chunk_names r g)"

lemma foreign_names:
  assumes "validateReference r = None" "validateReference q = None" "q \<noteq> r"
    and "k = windowsCredentialIndexName q \<or> (\<exists>g. CHR '':'' \<notin> set g \<and> k \<in> chunk_names q g)"
  shows "foreign r k"
  using assms chunk_name_eq [OF assms(2,1)] chunk_name_not_index [OF assms(2,1)]
    chunk_name_not_index [OF assms(1,2)] index_name_eq
  unfolding foreign_def chunk_names_def by (metis imageE)

lemma windows_Put_frame:
  assumes kg: "keyring_ok kg view" and put: "windows_Put kg random s r data = (e, s')" and k: "foreign r k"
  shows "view s' k = view s k"
proof -
  have nc: "k \<notin> chunk_names r (RawURLEncoding_EncodeToString bs)" for bs
    using k b64_no_colon by (simp add: foreign_def)
  have np: "k \<notin> chunk_names r (wi_generation index)" if "loadWindowsCredentialIndex kg s r = Inr index" for index
    using k loaded_index [OF kg that] parse_index_colon by (auto simp: foreign_def)
  have ni: "k \<noteq> windowsCredentialIndexName r" using k by (simp add: foreign_def)
  show ?thesis
    using put put_chunks_frame [OF kg _ nc] set_frame [OF kg _ ni] delete_chunks_frame [OF kg nc]
      delete_chunks_frame [OF kg np]
    by (auto simp: windows_Put_def windowsCredentialGeneration_def Let_def split: prod.splits option.splits
        sum.splits if_splits)
qed

lemma windows_Delete_frame:
  assumes kg: "keyring_ok kg view" and del: "windows_Delete kg s r = (e, s')" and k: "foreign r k"
  shows "view s' k = view s k"
proof (cases "loadWindowsCredentialIndex kg s r")
  case (Inr index)
  have "k \<notin> chunk_names r (wi_generation index)"
    using k loaded_index [OF kg Inr] parse_index_colon by (auto simp: foreign_def)
  with Inr del k delete_frame [OF kg] delete_chunks_frame [OF kg] show ?thesis
    by (auto simp: windows_Delete_def foreign_def split: prod.splits)
qed (use del in \<open>simp add: windows_Delete_def\<close>)

lemma get_chunks_stored:
  assumes "keyring_ok kg view"
  shows "get_chunks kg s r g is = Inr d \<Longrightarrow> chunks_stored (view s) r g is = Some d"
    and "get_chunks kg s r g is = Inl ErrSecretNotFound \<Longrightarrow> chunks_stored (view s) r g is = None"
  using get_ok [OF assms] get_missing [OF assms]
  by (induction "is" arbitrary: d) (fastforce split: sum.splits option.splits)+

lemma windows_backend:
  assumes kg: "keyring_ok kg view"
  shows "secret_backend (windows_Put kg (Some random)) (windows_Get kg) (windows_Delete kg)
    (\<lambda>s. windows_stored (view s)) (\<lambda>r. validateReference r = None) (windows_fits view random) ErrSecretNotFound"
proof unfold_locales
  show "windows_stored (view s') r = Some d"
    if "windows_Put kg (Some random) s r d = (None, s')" "validateReference r = None"
      "windows_fits view random s r d" for s r d s'
    using windows_Put_stored [OF kg] that by blast
  show "windows_stored (view s') q = windows_stored (view s) q"
    if "windows_Put kg (Some random) s r d = (e, s')" "validateReference r = None" "validateReference q = None"
      "q \<noteq> r" for s r d e s' q
    using windows_Put_frame [OF kg that(1)] foreign_names [OF that(2-4)] by (intro windows_stored_cong) blast
  show "windows_stored (view s) r = Some d" if "windows_Get kg s r = Inr d" for s r d
    using that get_chunks_stored(1) [OF kg] loaded_index [OF kg]
    by (fastforce simp: windows_Get_def windows_stored_def split: sum.splits)
  show "windows_stored (view s) r = None" if g: "windows_Get kg s r = Inl ErrSecretNotFound" for s r
  proof (cases "loadWindowsCredentialIndex kg s r")
    case (Inl e)
    with g have "kg_Get kg s platformStoreService (windowsCredentialIndexName r) = Inl KeyringNotFound"
      by (auto simp: windows_Get_def loadWindowsCredentialIndex_def split: sum.splits option.splits)
    then show ?thesis using get_missing [OF kg] by (simp add: windows_stored_def)
  next
    case (Inr index)
    with g get_chunks_stored(2) [OF kg] loaded_index [OF kg Inr] show ?thesis
      by (auto simp: windows_Get_def windows_stored_def)
  qed
  show "windows_stored (view s') r = None"
    if "windows_Delete kg s r = (None, s')" "validateReference r = None" for s r s'
    using that delete_ok [OF kg] by (auto simp: windows_Delete_def windows_stored_def split: sum.splits prod.splits)
  show "windows_stored (view s') q = windows_stored (view s) q"
    if "windows_Delete kg s r = (e, s')" "validateReference r = None" "validateReference q = None" "q \<noteq> r"
    for s r e s' q
    using windows_Delete_frame [OF kg that(1)] foreign_names [OF that(2-4)] by (intro windows_stored_cong) blast
qed

section \<open>Properties\<close>

lemma windows_stored_same:
  assumes "view s' (windowsCredentialIndexName r) = view s (windowsCredentialIndexName r)"
    and "\<And>v index k. view s (windowsCredentialIndexName r) = Some v \<Longrightarrow> parse_index v = Some index \<Longrightarrow>
      k \<in> chunk_names r (wi_generation index) \<Longrightarrow> view s' k = view s k"
  shows "windows_stored (view s') r = windows_stored (view s) r"
  using assms chunks_stored_cong [of r _ "view s'" "view s"]
  by (auto simp: windows_stored_def split: option.splits)

lemma windows_Put_failed:
  assumes kg: "keyring_ok kg view" and at: "keyring_atomic kg view" and r: "validateReference r = None"
    and put: "windows_Put kg (Some random) s r data = (Some e, s')" and fits: "windows_fits view random s r data"
  shows "windows_stored (view s') r = windows_stored (view s) r"
proof -
  define g where "g = RawURLEncoding_EncodeToString random"
  have gc: "CHR '':'' \<notin> set g" by (simp add: g_def b64_no_colon)
  have kept: "view s' k = view s k" if k: "k \<notin> chunk_names r g" for k
    using put put_chunks_frame [OF kg _ k] delete_chunks_frame [OF kg k] at
    by (auto simp: windows_Put_def windowsCredentialGeneration_def keyring_atomic_def g_def Let_def
        split: prod.splits option.splits sum.splits if_splits)
  show ?thesis
  proof (rule windows_stored_same)
    show "view s' (windowsCredentialIndexName r) = view s (windowsCredentialIndexName r)"
      using kept chunk_name_not_index [OF r r] by (metis chunk_names_def imageE)
    fix v index k
    assume v: "view s (windowsCredentialIndexName r) = Some v" "parse_index v = Some index"
      "k \<in> chunk_names r (wi_generation index)"
    have "wi_generation index \<noteq> g" using fits v by (simp add: windows_fits_def g_def)
    then have "k \<notin> chunk_names r g"
      using v chunk_name_eq [OF r r parse_index_colon [OF v(2)] gc] by (auto simp: chunk_names_def)
    then show "view s' k = view s k" by (rule kept)
  qed
qed

text \<open>
  C39: writing a protected value to the Windows credential store, cut into chunks under a fresh
  generation and an index that names it: when the put reports success the value is held, and whatever
  a reading then returns is that value; when it reports an error the value held before is still held;
  and no other reference is touched in either case.
\<close>

theorem windows_credentials_kept:
  assumes kg: "keyring_ok kg view" and at: "keyring_atomic kg view" and r: "validateReference r = None"
    and fits: "windows_fits view random s r data"
    and put: "windows_Put kg (Some random) s r data = (err, s')"
  shows "(err = None \<longrightarrow> windows_stored (view s') r = Some data \<and> windows_Get kg s' r \<noteq> Inl ErrSecretNotFound
      \<and> (\<forall>d. windows_Get kg s' r = Inr d \<longrightarrow> d = data))
    \<and> (err \<noteq> None \<longrightarrow> windows_stored (view s') r = windows_stored (view s) r)
    \<and> (\<forall>q. validateReference q = None \<longrightarrow> q \<noteq> r \<longrightarrow> windows_stored (view s') q = windows_stored (view s) q)"
proof -
  note wb = windows_backend [OF kg, of random]
  have "windows_stored (view s') r = windows_stored (view s) r" if "err \<noteq> None"
    using windows_Put_failed [OF kg at r _ fits] put that by auto
  moreover have "windows_stored (view s') q = windows_stored (view s) q"
    if "validateReference q = None" "q \<noteq> r" for q
    using secret_backend.put_frame [OF wb put r] that by blast
  ultimately show ?thesis
    using secret_backend.read_back [OF wb, of s r data s'] windows_Put_stored [OF kg r _ fits] put r fits by blast
qed

text \<open>A keyring that keeps its entries in an association list and always succeeds.\<close>

definition map_keyring :: "(string, string) amap keyring" where
  "map_keyring = \<lparr>kg_Set = (\<lambda>s _ k v. (None, AList.update k v s)),
     kg_Get = (\<lambda>s _ k. case map_of s k of None \<Rightarrow> Inl KeyringNotFound | Some v \<Rightarrow> Inr v),
     kg_Delete = (\<lambda>s _ k. if map_of s k = None then (Some KeyringNotFound, s) else (None, AList.delete k s))\<rparr>"

lemma map_keyring_ok: "keyring_ok map_keyring map_of" "keyring_atomic map_keyring map_of"
  by (auto simp: keyring_ok_def keyring_atomic_def map_keyring_def split: option.splits if_splits)

theorem windows_credentials_kept_witness:
  "windows_Get map_keyring (snd (windows_Put map_keyring (Some (replicate 18 (CHR ''r''))) [] ''routes/api'' ''secret''))
     ''routes/api'' = Inr ''secret''"
proof -
  let ?put = "windows_Put map_keyring (Some (replicate 18 (CHR ''r''))) [] ''routes/api'' ''secret''"
  have r: "validateReference ''routes/api'' = None" by code_simp
  have fits: "windows_fits map_of (replicate 18 (CHR ''r'')) [] ''routes/api'' ''secret''"
    by (simp add: windows_fits_def windowsCredentialChunkBytes_def)
  have ok: "fst ?put = None" by code_simp
  have "is_ok (windows_Get map_keyring (snd ?put) ''routes/api'')" by code_simp
  then have read: "\<exists>d. windows_Get map_keyring (snd ?put) ''routes/api'' = Inr d" by (simp add: is_ok_iff)
  from windows_credentials_kept [OF map_keyring_ok r fits surjective_pairing] ok read show ?thesis by auto
qed

text \<open>
  A value of more than 1024 chunks is accepted and the previous one discarded, but the index that is
  written cannot be read back.
\<close>

lemma windows_oversized_lost:
  assumes kg: "keyring_ok kg view" and r: "validateReference r = None"
    and "1024 * windowsCredentialChunkBytes < length data"
    and put: "windows_Put kg (Some random) s r data = (None, s')"
  shows "windows_Get kg s' r \<noteq> Inr d"
proof
  assume get: "windows_Get kg s' r = Inr d"
  define g where "g = RawURLEncoding_EncodeToString random"
  define v where "v = ''v1:'' @ g @ '':'' @ nat_digits (chunk_count data)"
  obtain s1 s2 where i: "kg_Set kg s1 platformStoreService (windowsCredentialIndexName r) v = (None, s2)"
    and e: "s' = s2 \<or> (\<exists>index. loadWindowsCredentialIndex kg s r = Inr index
        \<and> s' = deleteWindowsCredentialChunks kg s2 r (wi_generation index) (wi_chunks index))"
    using windows_Put_cases [OF put, folded g_def, folded v_def] by blast
  have "windowsCredentialIndexName r \<notin> chunk_names r h" for h
    using chunk_name_not_index [OF r r] by (metis chunk_names_def imageE)
  then have at_index: "view s' (windowsCredentialIndexName r) = Some v"
    using e set_ok [OF kg i] delete_chunks_frame [OF kg] by auto
  obtain index where "loadWindowsCredentialIndex kg s' r = Inr index"
    using get by (auto simp: windows_Get_def split: sum.splits)
  then obtain index where p: "parse_index v = Some index" using loaded_index [OF kg] at_index by fastforce
  have "split_on CHR '':'' v = [''v1'', g, nat_digits (chunk_count data)]"
    by (rule index_split) (simp_all add: v_def g_def b64_no_colon)
  moreover have "1024 < chunk_count data" using chunk_count_large assms(3) by blast
  ultimately show False
    using p by (auto simp: parse_index_def Atoi_def nat_digits_all nat_digits_decimal Let_def digits_unsigned
        split: if_splits)
qed

end
