(* ===== verification/Daemon.thy ===== *)
theory Daemon
  imports Web_Console Platform_Store Http_Serve Ssh_Session
begin

text \<open>
  Command \<open>airlockd\<close> (\<open>cmd/airlockd/main.go\<close>): from the command line to the configuration, and from the
  configuration to the running daemon. The flags are given as they are after \<open>flag.Parse\<close>. Everything
  the start reads from its surroundings is an argument: the files and what reading them meets, the
  platform's secret entries, the listeners' addresses, the network interfaces.
\<close>

section \<open>Addresses\<close>

definition requireAllowedListen :: "string \<Rightarrow> bool \<Rightarrow> string option" where
  "requireAllowedListen address allowLAN =
     (case SplitHostPort address of
        None \<Rightarrow> Some ''invalid listen address''
      | Some (host, _) \<Rightarrow>
          (case ParseIP host of
             None \<Rightarrow> Some ''listen address must use loopback or an allowed private LAN IP''
           | Some ip \<Rightarrow>
               if \<not> IsLoopback ip \<and> (\<not> allowLAN \<or> (\<not> IsUnspecified ip \<and> \<not> IsPrivate ip))
               then Some ''listen address must use loopback or an allowed private LAN IP'' else None))"

definition requireLoopback :: "string \<Rightarrow> string option" where
  "requireLoopback address = requireAllowedListen address False"

definition loopbackAddress :: "string \<Rightarrow> string" where
  "loopbackAddress address =
     (case SplitHostPort address of None \<Rightarrow> address | Some (_, port) \<Rightarrow> JoinHostPort ''127.0.0.1'' port)"

text \<open>An interface: up, loopback, and its addresses (\<open>None\<close> when they cannot be listed or parsed).\<close>

record net_interface =
  ni_up :: bool
  ni_loopback :: bool
  ni_addrs :: "ip option list option"

definition ipv4_String :: "ip \<Rightarrow> string" where
  "ipv4_String ip4 = join_with ''.'' (map nat_digits ip4)"

fun first_private :: "ip option list \<Rightarrow> string option" where
  "first_private [] = None"
| "first_private (address # rest) =
     (case Option.bind address (\<lambda>ip. if IsPrivate ip then To4 ip else None) of
        Some ip4 \<Rightarrow> Some (ipv4_String ip4)
      | None \<Rightarrow> first_private rest)"

fun private_of :: "net_interface list \<Rightarrow> string" where
  "private_of [] = []"
| "private_of (i # rest) =
     (if \<not> ni_up i \<or> ni_loopback i then private_of rest
      else case ni_addrs i of
        None \<Rightarrow> private_of rest
      | Some addresses \<Rightarrow>
          (case first_private addresses of Some ip \<Rightarrow> ip | None \<Rightarrow> private_of rest))"

definition firstPrivateLANIP :: "net_interface list option \<Rightarrow> string" where
  "firstPrivateLANIP interfaces = (case interfaces of None \<Rightarrow> [] | Some is \<Rightarrow> private_of is)"

definition advertisedAddressString :: "net_interface list option \<Rightarrow> string \<Rightarrow> string" where
  "advertisedAddressString interfaces address =
     (case SplitHostPort address of
        None \<Rightarrow> address
      | Some (host, port) \<Rightarrow>
          (case ParseIP host of
             None \<Rightarrow> address
           | Some ip \<Rightarrow>
               if \<not> IsUnspecified ip then address
               else let lanIP = firstPrivateLANIP interfaces in
                 if lanIP \<noteq> [] then JoinHostPort lanIP port else JoinHostPort ''127.0.0.1'' port))"

section \<open>The command line\<close>

record daemon_flags =
  df_version :: bool
  df_mode :: string
  df_listen :: string
  df_sshListen :: string
  df_networkScope :: string
  df_secretStore :: string
  df_controlTokenStdin :: bool
  df_controlDir :: string
  df_dataDir :: string
  df_controlTokenFile :: string
  df_webListen :: string
  df_webTokenFile :: string

record runtime_config =
  rt_HTTPAddress :: string
  rt_SSHAddress :: string
  rt_NetworkScope :: string
  rt_SecretStoreMode :: string
  rt_ControlToken :: string
  rt_ControlPaths :: paths
  rt_WebListen :: string
  rt_WebToken :: string

text \<open>What the configuration reads: standard input, the user's configuration directory and token files.\<close>

record config_io =
  ci_stdin :: bytes
  ci_stdin_ok :: bool
  ci_configDir :: "string option"
  ci_calls :: "string \<Rightarrow> file_calls"
  ci_file :: "string \<Rightarrow> bytes"

definition readControlToken :: "bytes \<Rightarrow> bool \<Rightarrow> string + string" where
  "readControlToken input ok =
     (let limited = take 256 input; line = takeWhile (\<lambda>c. c \<noteq> LF) limited;
          tokenBytes = trim_space (if length line < length limited then line @ [LF] else line)
      in if LF \<notin> set limited \<and> \<not> ok then Inl ''read control token''
         else if length tokenBytes < 32 \<or> length tokenBytes > 128 then Inl ''invalid control token''
         else Inr tokenBytes)"

definition desktopControlPaths :: "string option \<Rightarrow> string \<Rightarrow> string + paths" where
  "desktopControlPaths configDir directory =
     (if directory = [] then DefaultPaths configDir
      else if \<not> filepath_IsAbs directory then Inl ''desktop control directory must be absolute''
      else PathsForDirectory directory)"

definition no_paths :: paths where
  "no_paths = \<lparr>pt_Directory = [], pt_Socket = []\<rparr>"

definition base_config :: "daemon_flags \<Rightarrow> runtime_config" where
  "base_config f =
     \<lparr>rt_HTTPAddress = df_listen f, rt_SSHAddress = df_sshListen f, rt_NetworkScope = df_networkScope f,
      rt_SecretStoreMode = df_secretStore f, rt_ControlToken = [], rt_ControlPaths = no_paths,
      rt_WebListen = df_webListen f, rt_WebToken = []\<rparr>"

definition desktop_config :: "config_io \<Rightarrow> daemon_flags \<Rightarrow> int + runtime_config" where
  "desktop_config io f =
     (if \<not> df_controlTokenStdin f \<or> df_controlTokenFile f \<noteq> [] \<or> df_dataDir f \<noteq> [] \<or> df_webListen f \<noteq> []
         \<or> df_webTokenFile f \<noteq> []
      then Inl 2
      else case readControlToken (ci_stdin io) (ci_stdin_ok io) of
        Inl _ \<Rightarrow> Inl 2
      | Inr token \<Rightarrow>
          (case desktopControlPaths (ci_configDir io) (df_controlDir f) of
             Inl _ \<Rightarrow> Inl 2
           | Inr p \<Rightarrow> Inr ((base_config f)\<lparr>rt_ControlToken := token, rt_ControlPaths := p,
               rt_SecretStoreMode := (if df_secretStore f = [] then StoreModeKeychain else df_secretStore f)\<rparr>)))"

text \<open>The error of reading the control token is overwritten by the next assignment.\<close>

definition server_config :: "config_io \<Rightarrow> daemon_flags \<Rightarrow> int + runtime_config" where
  "server_config io f =
     (if df_controlTokenStdin f \<or> df_controlDir f \<noteq> [] \<or> df_dataDir f = [] \<or> df_controlTokenFile f = []
         \<or> \<not> filepath_IsAbs (df_dataDir f) \<or> (df_webListen f = []) \<noteq> (df_webTokenFile f = [])
      then Inl 2
      else
        let token = (case ReadToken (ci_calls io (df_controlTokenFile f)) (ci_file io (df_controlTokenFile f))
                            (df_controlTokenFile f) of Inl _ \<Rightarrow> [] | Inr t \<Rightarrow> t)
        in (case PathsForDirectory (df_dataDir f) of
              Inl _ \<Rightarrow> Inl 2
            | Inr p \<Rightarrow>
                (case (if df_webTokenFile f \<noteq> []
                       then ReadToken (ci_calls io (df_webTokenFile f)) (ci_file io (df_webTokenFile f))
                              (df_webTokenFile f)
                       else Inr []) of
                   Inl _ \<Rightarrow> Inl 2
                 | Inr webToken \<Rightarrow> Inr ((base_config f)\<lparr>rt_ControlToken := token, rt_ControlPaths := p,
                     rt_SecretStoreMode := (if df_secretStore f = [] then StoreModeLocalFile
                                            else df_secretStore f),
                     rt_WebToken := webToken\<rparr>))))"

definition lan_defaults :: "runtime_config \<Rightarrow> runtime_config" where
  "lan_defaults config =
     (if rt_NetworkScope config = ''lan'' then
        config\<lparr>rt_HTTPAddress := (if rt_HTTPAddress config = ''127.0.0.1:4768'' then ''0.0.0.0:4768''
                                 else rt_HTTPAddress config),
               rt_SSHAddress := (if rt_SSHAddress config = ''127.0.0.1:4770'' then ''0.0.0.0:4770''
                                else rt_SSHAddress config)\<rparr>
      else config)"

text \<open>An exit code, or the configuration to run with.\<close>

definition daemon_main :: "config_io \<Rightarrow> daemon_flags \<Rightarrow> int + runtime_config" where
  "daemon_main io f =
     (if df_version f then Inl 0
      else case (if df_mode f = ''desktop'' then desktop_config io f
                 else if df_mode f = ''server'' then server_config io f
                 else Inl 2) of
        Inl code \<Rightarrow> Inl code
      | Inr config \<Rightarrow> Inr (lan_defaults config))"

section \<open>Starting\<close>

datatype startup_error =
    StartupError string | RoutesError routes_error | SshRoutesError ssh_route_error
  | StoreError secrets_error | ProxyConfigError egress_error

record startup_io =
  su_routes_read :: read_calls
  su_routes_file :: route_file
  su_platform :: "backend option"
  su_secret_size :: "payload \<Rightarrow> nat"
  su_secret_read :: read_calls
  su_secret_file :: backend_file
  su_ssh_read :: read_calls
  su_ssh_file :: ssh_route_file
  su_parsers :: key_parsers
  su_get_ok :: bool
  su_put :: call_outcome
  su_identity :: identity_calls
  su_public_key :: "bytes \<Rightarrow> bytes"
  su_audit_read :: read_calls
  su_audit_file :: audit_file
  su_proxy_ok :: bool
  su_ssh_listener :: "string + string"
  su_endpoint :: endpoint_calls
  su_other :: backend
  su_http_listener :: "string + string"
  su_web_listener :: "string + string"
  su_interfaces :: "net_interface list option"

definition text_of :: "'d file_text option \<Rightarrow> 'd file_text" where
  "text_of file = (case file of None \<Rightarrow> NotJSON | Some t \<Rightarrow> t)"

definition allowed_token :: "string \<Rightarrow> bool" where
  "allowed_token token \<longleftrightarrow> \<not> (length token < 32 \<or> length token > 128)"

definition check_config :: "runtime_config \<Rightarrow> startup_error option" where
  "check_config config =
     (let allowLAN = (rt_NetworkScope config = ''lan'') in
      if rt_NetworkScope config \<noteq> ''loopback'' \<and> \<not> allowLAN then Some (StartupError ''invalid network scope'')
      else case requireAllowedListen (rt_HTTPAddress config) allowLAN of
        Some e \<Rightarrow> Some (StartupError e)
      | None \<Rightarrow>
          (case requireAllowedListen (rt_SSHAddress config) allowLAN of
             Some e \<Rightarrow> Some (StartupError (''invalid SSH listener: '' @ e))
           | None \<Rightarrow>
               (case ValidatePaths (rt_ControlPaths config) of
                  Some e \<Rightarrow> Some (StartupError e)
                | None \<Rightarrow>
                    if \<not> allowed_token (rt_ControlToken config) then Some (StartupError ''invalid control token'')
                    else if rt_WebListen config = [] then None
                    else (case requireLoopback (rt_WebListen config) of
                      Some e \<Rightarrow> Some (StartupError (''invalid Web UI listener: '' @ e))
                    | None \<Rightarrow>
                        if \<not> allowed_token (rt_WebToken config) then Some (StartupError ''invalid Web UI token'')
                        else None))))"

text \<open>What is read from the state directory.\<close>

record loaded_state =
  ld_registry :: http_registry
  ld_secrets :: backend
  ld_ssh :: ssh_registry
  ld_hostKey :: bytes
  ld_audit :: command_audit
  ld_egress :: manager

definition load_http :: "startup_io \<Rightarrow> startup_error + http_registry" where
  "load_http io =
     (case Load (su_routes_read io) (text_of (su_routes_file io)) of
        Inl e \<Rightarrow> Inl (StartupError (''load route metadata: '' @ e))
      | Inr persisted \<Rightarrow>
          (case NewRegistry persisted of Inl e \<Rightarrow> Inl (RoutesError e) | Inr reg \<Rightarrow> Inr reg))"

definition load_ssh :: "startup_io \<Rightarrow> http_registry \<Rightarrow> startup_error + ssh_registry" where
  "load_ssh io registry =
     (case Ssh_Load (su_ssh_read io) (text_of (su_ssh_file io)) of
        Inl e \<Rightarrow> Inl (StartupError (''load SSH route metadata: '' @ e))
      | Inr persisted \<Rightarrow>
          (case Ssh_NewRegistry persisted of
             Inl e \<Rightarrow> Inl (SshRoutesError e)
           | Inr ssh \<Rightarrow>
               if list_ex (\<lambda>route. is_ok (Get registry (sr_Alias route))) persisted
               then Inl (StartupError ''HTTP and SSH route aliases must be unique'') else Inr ssh))"

definition load_egress :: "startup_io \<Rightarrow> backend \<Rightarrow> startup_error + manager" where
  "load_egress io store =
     (case ResolveProxyConfig False (su_proxy_ok io) store DefaultSecretReference of
        Inr config \<Rightarrow>
          (case Configure NewManager config of
             Inl e \<Rightarrow> Inl (ProxyConfigError e) | Inr m \<Rightarrow> Inr m)
      | Inl e \<Rightarrow> if e \<noteq> ErrSecretNotFound then Inl (StoreError e) else Inr NewManager)"

definition load_state :: "startup_io \<Rightarrow> runtime_config \<Rightarrow> startup_error + loaded_state" where
  "load_state io config =
     (case load_http io of
        Inl e \<Rightarrow> Inl e
      | Inr registry \<Rightarrow>
          (case OpenStore (su_platform io) (su_secret_size io) (su_secret_read io) (su_secret_file io)
                  (rt_SecretStoreMode config)
                  (filepath_Join (pt_Directory (rt_ControlPaths config)) ''protected-targets.json'') of
             Inl e \<Rightarrow> Inl (StoreError e)
           | Inr store0 \<Rightarrow>
               (case load_ssh io registry of
                  Inl e \<Rightarrow> Inl e
                | Inr ssh \<Rightarrow>
                    (case LoadOrCreateHostSigner (su_parsers io) False (su_get_ok io) (su_put io)
                            (su_identity io) store0 of
                       (Inl e, _) \<Rightarrow> Inl (StartupError (''initialize SSH host identity: '' @ e))
                     | (Inr signer, store) \<Rightarrow>
                         (case OpenFileCommandAudit (su_audit_read io) (su_audit_file io) of
                            Inl e \<Rightarrow> Inl (StartupError (''initialize SSH command audit: '' @ e))
                          | Inr audit \<Rightarrow>
                              (case load_egress io store of
                                 Inl e \<Rightarrow> Inl e
                               | Inr manager \<Rightarrow>
                                   Inr \<lparr>ld_registry = registry, ld_secrets = store, ld_ssh = ssh,
                                        ld_hostKey = su_public_key io signer, ld_audit = audit,
                                        ld_egress = manager\<rparr>))))))"

text \<open>
  The running daemon: the control server, which owns the registries, and the state of the two gateways, which
  look routes up in them; where each listens, and the console's token and client.
\<close>

record daemon =
  dm_control :: control
  dm_http :: handler
  dm_ssh :: ssh_server
  dm_http_address :: string
  dm_ssh_address :: string
  dm_web :: "(string \<times> string \<times> control_client) option"

definition start_web :: "startup_io \<Rightarrow> runtime_config \<Rightarrow> startup_error + (string \<times> string \<times> control_client) option" where
  "start_web io config =
     (if rt_WebListen config = [] then Inr None
      else case NewClient (pt_Socket (rt_ControlPaths config)) (rt_ControlToken config) of
        Inl e \<Rightarrow> Inl (StartupError (''initialize Web UI control client: '' @ e))
      | Inr client \<Rightarrow>
          (case Web_New (rt_WebToken config) True of
             Inl e \<Rightarrow> Inl (StartupError (''initialize Web UI: '' @ e))
           | Inr token \<Rightarrow>
               (case su_web_listener io of
                  Inl e \<Rightarrow> Inl (StartupError (''listen for Web UI: '' @ e))
                | Inr address \<Rightarrow> Inr (Some (address, token, client)))))"

definition ssh_control_configuration ::
  "startup_io \<Rightarrow> runtime_config \<Rightarrow> loaded_state \<Rightarrow> string \<Rightarrow> ssh_configuration" where
  "ssh_control_configuration io config loaded sshAddress =
     \<lparr>sc_Registry = ld_ssh loaded, sc_File = su_ssh_file io,
      sc_ListenAddress = advertisedAddressString (su_interfaces io) sshAddress,
      sc_DialAddress = loopbackAddress sshAddress,
      sc_HTTPAddress = advertisedAddressString (su_interfaces io) (rt_HTTPAddress config),
      sc_HostKey = ld_hostKey loaded, sc_CommandAudit = Some (ld_audit loaded)\<rparr>"

definition start_services ::
  "startup_io \<Rightarrow> runtime_config \<Rightarrow> loaded_state \<Rightarrow> (startup_error + daemon) \<times> endpoint_effect list" where
  "start_services io config loaded =
     (case su_ssh_listener io of
        Inl e \<Rightarrow> (Inl (StartupError (''listen for local SSH: '' @ e)), [])
      | Inr sshAddress \<Rightarrow>
          (case ListenWithSSH (su_endpoint io) (rt_ControlPaths config) (rt_ControlToken config)
                  (ld_registry loaded) (ld_secrets loaded) (Some (su_routes_file io)) (Some (ld_egress loaded))
                  (ssh_control_configuration io config loaded sshAddress) (Some NewMemoryRecorder) of
             (Inl e, effects) \<Rightarrow> (Inl (StartupError (''initialize control channel: '' @ e)), effects)
           | (Inr server, effects) \<Rightarrow>
               (case ConfigureSecretStoreMigration server (rt_SecretStoreMode config) True of
                  Inl e \<Rightarrow> (Inl (StartupError (''initialize secret store migration: '' @ e)),
                           effects @ [ClosedListener])
                | Inr server1 \<Rightarrow>
                    let leave = effects @ [ClosedListener] @ Cleanup (rt_ControlPaths config) in
                    (case su_http_listener io of
                       Inl e \<Rightarrow> (Inl (StartupError e), leave)
                     | Inr httpAddress \<Rightarrow>
                         (case start_web io config of
                            Inl e \<Rightarrow> (Inl e, leave)
                          | Inr web \<Rightarrow>
                              (Inr \<lparr>dm_control = server1\<lparr>cs_other := su_other io\<rparr>,
                                    dm_http = NewHandler (ld_registry loaded) (Some NewMemoryRecorder),
                                    dm_ssh = NewServer (ld_ssh loaded) (Some (ld_audit loaded))
                                               (Some NewMemoryRecorder) (rt_NetworkScope config = ''lan''),
                                    dm_http_address = httpAddress, dm_ssh_address = sshAddress,
                                    dm_web = web\<rparr>, effects))))))"

definition runWithConfig ::
  "startup_io \<Rightarrow> runtime_config \<Rightarrow> (startup_error + daemon) \<times> endpoint_effect list" where
  "runWithConfig io config =
     (case check_config config of
        Some e \<Rightarrow> (Inl e, [])
      | None \<Rightarrow>
          (case load_state io config of
             Inl e \<Rightarrow> (Inl e, [])
           | Inr loaded \<Rightarrow> start_services io config loaded))"

text \<open>The entry point for a desktop without options.\<close>

definition run_daemon ::
  "startup_io \<Rightarrow> string option \<Rightarrow> string \<Rightarrow> string \<Rightarrow> string \<Rightarrow> string \<Rightarrow> string
   \<Rightarrow> (startup_error + daemon) \<times> endpoint_effect list" where
  "run_daemon io configDir address sshAddress networkScope secretStoreMode controlToken =
     (case DefaultPaths configDir of
        Inl e \<Rightarrow> (Inl (StartupError e), [])
      | Inr controlPaths \<Rightarrow>
          runWithConfig io
            \<lparr>rt_HTTPAddress = address, rt_SSHAddress = sshAddress, rt_NetworkScope = networkScope,
             rt_SecretStoreMode = secretStoreMode, rt_ControlToken = controlToken, rt_ControlPaths = controlPaths,
             rt_WebListen = [], rt_WebToken = []\<rparr>)"

section \<open>Stopping\<close>

text \<open>
  What ends the daemon: a signal (with the result of shutting the servers down), or one of its servers
  returning, because it was closed or with an error. The result is the error that is reported.
\<close>

datatype stop_event =
    SignalReceived "string option" | HttpStopped bool string | ControlStopped bool string
  | SshStopped bool string | WebStopped bool string

definition stop_result :: "stop_event \<Rightarrow> string option" where
  "stop_result event =
     (case event of
        SignalReceived e \<Rightarrow> e
      | HttpStopped closed e \<Rightarrow> if closed then None else Some e
      | ControlStopped closed e \<Rightarrow> if closed then None else Some (''control channel stopped: '' @ e)
      | SshStopped closed e \<Rightarrow> if closed then None else Some (''SSH gateway stopped: '' @ e)
      | WebStopped closed e \<Rightarrow> if closed then None else Some (''Web UI stopped: '' @ e))"

end
