(* ===== verification/Startup.thy ===== *)
theory Startup
  imports Daemon
begin

text \<open>
  What a successful start of the daemon establishes, whatever the files and the flags were; what a failed one
  leaves behind; and what a restart brings back.
\<close>

section \<open>Loading\<close>

lemma load_http_ok:
  assumes "load_http io = Inr reg"
  shows "registry_inv reg \<and> refs_ok (map_of reg)"
proof -
  from assms obtain rs where rs: "Load (su_routes_read io) (text_of (su_routes_file io)) = Inr rs" "NewRegistry rs = Inr reg"
    by (auto simp: load_http_def split: sum.splits)
  from loaded_routes_build_registry [OF rs(1)] rs(2) show ?thesis by (auto simp: refs_ok_def)
qed

lemma ssh_upsert_all_view:
  "ssh_registry_inv reg \<Longrightarrow> ssh_upsert_all reg rs = Inr reg' \<Longrightarrow>
   map_of reg' = map_of reg ++ map_of (rev (map (\<lambda>r. (sr_Alias r, r)) rs))"
proof (induction rs arbitrary: reg)
  case (Cons r rs)
  from Cons.prems(2) obtain reg1 where u: "Ssh_Upsert reg r = Inr reg1" "ssh_upsert_all reg1 rs = Inr reg'"
    by (auto split: sum.splits)
  from ssh_reg.upsert_view [OF Cons.prems(1) u(1)] Cons.IH [OF _ u(2)] show ?case
    by (auto simp: fun_eq_iff map_add_def split: option.splits)
qed simp

lemma Ssh_loaded:
  assumes "Ssh_Load os text = Inr rs" "Ssh_NewRegistry rs = Inr reg"
  shows "ssh_registry_inv reg \<and> (\<forall>a r. map_of reg a = Some r \<longleftrightarrow> r \<in> set rs \<and> sr_Alias r = a)"
proof -
  have i: "ssh_registry_inv reg" using loaded_ssh_routes_build_registry [OF assms(1)] assms(2) by auto
  have d: "distinct (map sr_Alias rs)"
    using Ssh_Load_cases [OF assms(1)] ssh_load_entries_valid [of "[]" "[]" _ rs] by auto
  have "map_of reg = map_of (rev (map (\<lambda>r. (sr_Alias r, r)) rs))"
    using ssh_upsert_all_view [of "[]" rs reg] assms(2)
    by (simp add: Ssh_NewRegistry_def ssh_registry_inv_def usernames_def)
  moreover have "distinct (map fst (rev (map (\<lambda>r. (sr_Alias r, r)) rs)))"
    using d by (simp add: rev_map [symmetric] comp_def)
  ultimately show ?thesis using i by (auto simp: map_of_eq_Some_iff)
qed

lemma load_ssh_ok:
  assumes "load_ssh io reg = Inr ssh"
  shows "ssh_registry_inv ssh \<and> apart (map_of reg) (map_of ssh)"
proof -
  from assms obtain rs where rs: "Ssh_Load (su_ssh_read io) (text_of (su_ssh_file io)) = Inr rs" "Ssh_NewRegistry rs = Inr ssh"
    and free: "\<And>r. r \<in> set rs \<Longrightarrow> \<not> is_ok (Get reg (sr_Alias r))"
    by (auto simp: load_ssh_def list_ex_iff split: sum.splits if_splits)
  have "map_of reg (sr_Alias r) = None" if "r \<in> set rs" for r
    using free [OF that] by (auto simp: Get_def split: option.splits)
  then show ?thesis
    using Ssh_loaded [OF rs] unfolding apart_def by (metis option.exhaust)
qed

lemma load_state_ok:
  assumes "load_state io config = Inr loaded"
  shows "load_http io = Inr (ld_registry loaded) \<and> load_ssh io (ld_registry loaded) = Inr (ld_ssh loaded)"
  using assms by (auto simp: load_state_def split: sum.splits prod.splits)

section \<open>Starting\<close>

definition reachable_from :: "bool \<Rightarrow> string \<Rightarrow> bool" where
  "reachable_from lan address \<longleftrightarrow>
     (case SplitHostPort address of
        None \<Rightarrow> False
      | Some (host, _) \<Rightarrow>
          (case ParseIP host of
             None \<Rightarrow> False
           | Some ip \<Rightarrow> IsLoopback ip \<or> lan \<and> (IsUnspecified ip \<or> IsPrivate ip)))"

lemma requireAllowedListen_iff: "requireAllowedListen address lan = None \<longleftrightarrow> reachable_from lan address"
  by (auto simp: requireAllowedListen_def reachable_from_def split: option.splits)

lemma check_config_ok:
  assumes "check_config config = None"
  shows "(rt_NetworkScope config = ''loopback'' \<or> rt_NetworkScope config = ''lan'')
    \<and> reachable_from (rt_NetworkScope config = ''lan'') (rt_HTTPAddress config)
    \<and> reachable_from (rt_NetworkScope config = ''lan'') (rt_SSHAddress config)
    \<and> ValidatePaths (rt_ControlPaths config) = None \<and> allowed_token (rt_ControlToken config)
    \<and> (rt_WebListen config \<noteq> [] \<longrightarrow> reachable_from False (rt_WebListen config) \<and> allowed_token (rt_WebToken config))"
  using assms
  by (auto simp: check_config_def requireLoopback_def Let_def requireAllowedListen_iff
      split: if_splits option.splits)

lemma ListenWithSSH_ok:
  assumes "ListenWithSSH os p token reg store f m cfg act = (Inr server, effects)"
  obtains cfg1 where "sc_Registry cfg1 = sc_Registry cfg" "sc_File cfg1 = sc_File cfg"
    "listen os p token reg store f m (Some cfg1) act = (Inr server, effects)"
proof -
  define cfg1 where "cfg1 = (if sc_DialAddress cfg = [] then cfg\<lparr>sc_DialAddress := sc_ListenAddress cfg\<rparr> else cfg)"
  have "listen os p token reg store f m (Some cfg1) act = (Inr server, effects)"
    using assms by (simp add: ListenWithSSH_def Let_def cfg1_def split: if_splits)
  then show ?thesis using that [of cfg1] by (simp add: cfg1_def)
qed

lemma started:
  assumes "runWithConfig io config = (Inr d, effects)"
  obtains loaded cfg where "check_config config = None" "load_state io config = Inr loaded"
    "start_services io config loaded = (Inr d, effects)"
    "cs_registry (dm_control d) = ld_registry loaded" "cs_ssh (dm_control d) = Some cfg"
    "sc_Registry cfg = ld_ssh loaded" "cs_token (dm_control d) = rt_ControlToken config"
    "cs_file (dm_control d) = su_routes_file io" "sc_File cfg = su_ssh_file io"
    "listenControlEndpoint (su_endpoint io) (rt_ControlPaths config) = (None, effects)"
    "dm_http d = NewHandler (ld_registry loaded) (Some NewMemoryRecorder)"
    "sx_routes (dm_ssh d) = ld_ssh loaded" "start_web io config = Inr (dm_web d)"
    "cs_activity (dm_control d) = Some NewMemoryRecorder" "sx_activity (dm_ssh d) = Some NewMemoryRecorder"
proof -
  from assms obtain loaded where l: "check_config config = None" "load_state io config = Inr loaded"
      "start_services io config loaded = (Inr d, effects)"
    by (auto simp: runWithConfig_def split: option.splits sum.splits)
  then obtain sshAddress server server1 httpAddress web where
    s: "ListenWithSSH (su_endpoint io) (rt_ControlPaths config) (rt_ControlToken config) (ld_registry loaded)
          (ld_secrets loaded) (Some (su_routes_file io)) (Some (ld_egress loaded))
          (ssh_control_configuration io config loaded sshAddress) (Some NewMemoryRecorder) = (Inr server, effects)"
      "ConfigureSecretStoreMigration server (rt_SecretStoreMode config) True = Inr server1"
      "start_web io config = Inr web"
      "d = \<lparr>dm_control = server1\<lparr>cs_other := su_other io\<rparr>,
            dm_http = NewHandler (ld_registry loaded) (Some NewMemoryRecorder),
            dm_ssh = NewServer (ld_ssh loaded) (Some (ld_audit loaded)) (Some NewMemoryRecorder)
                       (rt_NetworkScope config = ''lan''),
            dm_http_address = httpAddress, dm_ssh_address = sshAddress, dm_web = web\<rparr>"
    by (auto simp: start_services_def Let_def split: sum.splits prod.splits)
  from s(1) obtain cfg where c: "sc_Registry cfg = ld_ssh loaded" "sc_File cfg = su_ssh_file io"
      "listen (su_endpoint io) (rt_ControlPaths config) (rt_ControlToken config) (ld_registry loaded)
         (ld_secrets loaded) (Some (su_routes_file io)) (Some (ld_egress loaded)) (Some cfg)
         (Some NewMemoryRecorder) = (Inr server, effects)"
    by (rule ListenWithSSH_ok) (simp add: ssh_control_configuration_def)
  from s(2) have v: "server1 = server\<lparr>cs_secretMode := rt_SecretStoreMode config, cs_storeFactory := True\<rparr>"
    by (auto simp: ConfigureSecretStoreMigration_def split: if_splits)
  from that [OF l, of cfg] listen_ok [OF c(3)] c(1,2) s(3,4) v show ?thesis by (simp add: NewServer_def)
qed

lemma started_inv:
  assumes "load_state io config = Inr loaded" "cs_registry s = ld_registry loaded" "cs_ssh s = Some cfg"
    "sc_Registry cfg = ld_ssh loaded"
  shows "control_inv s"
  using load_state_ok [OF assms(1)] load_http_ok [of io "ld_registry loaded"]
    load_ssh_ok [of io "ld_registry loaded" "ld_ssh loaded"] assms(2-4)
  by (simp add: control_inv_def ssh_ok_def ssh_view_def)

section \<open>A first start\<close>

definition sample_missing :: read_calls where
  "sample_missing = sample_reads\<lparr>rc_lstat := StatNotExist\<rparr>"

definition sample_config :: runtime_config where
  "sample_config = \<lparr>rt_HTTPAddress = ''127.0.0.1:4768'', rt_SSHAddress = ''127.0.0.1:4770'',
     rt_NetworkScope = ''loopback'', rt_SecretStoreMode = StoreModeKeychain,
     rt_ControlToken = replicate 32 (CHR ''t''),
     rt_ControlPaths = \<lparr>pt_Directory = ''/a'', pt_Socket = ''/a/control.sock''\<rparr>,
     rt_WebListen = ''127.0.0.1:4780'', rt_WebToken = replicate 32 (CHR ''w'')\<rparr>"

definition sample_io :: startup_io where
  "sample_io = \<lparr>su_routes_read = sample_missing, su_routes_file = None, su_platform = Some [],
     su_secret_size = (\<lambda>_. 0), su_secret_read = sample_missing, su_secret_file = None,
     su_ssh_read = sample_missing, su_ssh_file = None, su_parsers = parsers sample_library, su_get_ok = True,
     su_put = went_through, su_identity = \<lparr>ic_generated = True, ic_encoded = Some ''K''\<rparr>,
     su_public_key = (\<lambda>_. ''H''), su_audit_read = sample_missing, su_audit_file = None, su_proxy_ok = True,
     su_ssh_listener = Inr ''127.0.0.1:4770'',
     su_endpoint = \<lparr>ec_dir = sample_dir, ec_lstat = StatNotExist, ec_remove_ok = True, ec_listen_error = None,
       ec_chmod_ok = True\<rparr>,
     su_other = [], su_http_listener = Inr ''127.0.0.1:4768'', su_web_listener = Inr ''127.0.0.1:4780'',
     su_interfaces = Some []\<rparr>"

lemma sample_listens:
  "requireAllowedListen ''127.0.0.1:4768'' lan = None" "requireAllowedListen ''127.0.0.1:4770'' lan = None"
  "requireAllowedListen ''127.0.0.1:4780'' lan = None"
  by (cases lan; code_simp)+

lemma sample_check: "check_config sample_config = None"
proof -
  have "ValidatePaths \<lparr>pt_Directory = ''/a'', pt_Socket = ''/a/control.sock''\<rparr> = None" by code_simp
  then show ?thesis by (simp add: check_config_def sample_config_def sample_listens requireLoopback_def allowed_token_def Let_def)
qed

lemma sample_open: "open_private a b c e n sample_missing = Inr False"
  by (simp add: open_private_def sample_missing_def sample_file_defs EnsurePrivateDirectory_def)

lemma sample_loaded:
  "\<exists>loaded. load_state sample_io sample_config = Inr loaded \<and> ld_hostKey loaded = ''H''
     \<and> ld_registry loaded = [] \<and> ld_ssh loaded = []"
proof -
  have "validateReference DefaultSecretReference = None" "HostIdentitySecretReference \<noteq> DefaultSecretReference"
    by code_simp+
  then have "ResolveProxyConfig False True [(HostIdentitySecretReference, empty_payload\<lparr>pl_private_key := ''K''\<rparr>)]
      DefaultSecretReference = Inl ErrSecretNotFound"
    by (simp add: ResolveProxyConfig_def backend_Get_def)
  then show ?thesis
    by (simp add: load_state_def load_http_def load_ssh_def load_egress_def Load_def Ssh_Load_def sample_io_def sample_open
        NewRegistry_def Ssh_NewRegistry_def OpenStore_def NewPlatformStore_def sample_config_def sample_identity
        OpenFileCommandAudit_def)
qed

lemma sample_services:
  assumes "ld_hostKey loaded = ''H''"
    and "io = sample_io\<lparr>su_routes_read := r, su_routes_file := f, su_ssh_read := q, su_ssh_file := g\<rparr>"
  shows "\<exists>d effects. start_services io sample_config loaded = (Inr d, effects)"
proof -
  have a: "advertisedAddressString (Some []) ''127.0.0.1:4770'' = ''127.0.0.1:4770''"
    "ValidatePaths \<lparr>pt_Directory = ''/a'', pt_Socket = ''/a/control.sock''\<rparr> = None" by code_simp+
  show ?thesis
    by (simp add: assms start_services_def sample_io_def sample_config_def ssh_control_configuration_def a
        ListenWithSSH_def listen_def Let_def listenControlEndpoint_def prepareDirectory_def sample_file_defs
        EnsurePrivateDirectory_def removeStaleSocket_def ConfigureSecretStoreMigration_def validSecretStoreMode_def
        start_web_def NewClient_def validControlEndpoint_def filepath_IsAbs_def has_prefix_def Web_New_def
        StoreModeKeychain_def)
qed

lemma sample_started: "\<exists>d effects. runWithConfig sample_io sample_config = (Inr d, effects)"
proof -
  obtain loaded where l: "load_state sample_io sample_config = Inr loaded" "ld_hostKey loaded = ''H''"
    using sample_loaded by blast
  have "sample_io = sample_io\<lparr>su_routes_read := su_routes_read sample_io, su_routes_file := su_routes_file sample_io,
      su_ssh_read := su_ssh_read sample_io, su_ssh_file := su_ssh_file sample_io\<rparr>" by simp
  from sample_services [OF l(2) this] show ?thesis by (simp add: runWithConfig_def sample_check l(1))
qed

section \<open>What a start establishes\<close>

text \<open>
  C5: whatever the files of the state directory hold and whatever is configured, a daemon that starts
  runs in a consistent state: the control server's invariant holds (valid routes under unique aliases, no alias
  on both sides, derived secret references), both gateways look routes up in the registries the control
  server changes, and nothing is in flight. Its relays listen on loopback addresses, or on private or
  unspecified ones when the scope is the LAN; the console only on loopback. Control and console tokens have
  32 to 128 bytes, and the control socket is protected before anything is served.
\<close>

theorem startup_is_safe:
  assumes "runWithConfig io config = (Inr d, effects)"
  shows "control_inv (dm_control d) \<and> gateway_run (dm_http d) [] []
    \<and> hd_routes (dm_http d) = cs_registry (dm_control d) \<and> map_of (sx_routes (dm_ssh d)) = ssh_view (dm_control d)
    \<and> (\<forall>address \<in> {rt_HTTPAddress config, rt_SSHAddress config}.
         reachable_from (rt_NetworkScope config = ''lan'') address)
    \<and> cs_token (dm_control d) = rt_ControlToken config \<and> length (rt_ControlToken config) \<in> {32..128}
    \<and> (case dm_web d of None \<Rightarrow> True
       | Some (_, token, client) \<Rightarrow> reachable_from False (rt_WebListen config) \<and> token = rt_WebToken config
           \<and> length token \<in> {32..128} \<and> cc_token client = cs_token (dm_control d))
    \<and> last effects = Protected (pt_Socket (rt_ControlPaths config)) 384"
proof -
  from started [OF assms] obtain loaded cfg where s: "check_config config = None" "load_state io config = Inr loaded"
    "cs_registry (dm_control d) = ld_registry loaded" "cs_ssh (dm_control d) = Some cfg"
    "sc_Registry cfg = ld_ssh loaded" "cs_token (dm_control d) = rt_ControlToken config"
    "listenControlEndpoint (su_endpoint io) (rt_ControlPaths config) = (None, effects)"
    "dm_http d = NewHandler (ld_registry loaded) (Some NewMemoryRecorder)"
    "sx_routes (dm_ssh d) = ld_ssh loaded" "start_web io config = Inr (dm_web d)" by metis
  note c = check_config_ok [OF s(1)] and i = started_inv [OF s(2-5)]
  obtain web where web: "web = dm_web d" by simp
  have "case web of None \<Rightarrow> True
       | Some (_, token, client) \<Rightarrow> rt_WebListen config \<noteq> [] \<and> token = rt_WebToken config \<and> cc_token client = rt_ControlToken config"
    using s(10) [folded web] by (auto simp: start_web_def NewClient_def Web_New_def split: if_splits sum.splits)
  then have w: "case dm_web d of None \<Rightarrow> True
       | Some (_, token, client) \<Rightarrow> rt_WebListen config \<noteq> [] \<and> token = rt_WebToken config \<and> cc_token client = rt_ControlToken config"
    by (simp add: web)
  have g: "gateway_run (dm_http d) [] []" "hd_routes (dm_http d) = ld_registry loaded"
    using s(8) gateway_run.start by (simp_all add: NewHandler_def)
  show ?thesis
    using i g c w s(3-6,9) endpoint_protected [OF s(7)]
    by (auto simp: ssh_view_def allowed_token_def split: option.splits)
qed

theorem startup_is_safe_witness:
  "\<exists>d effects. runWithConfig sample_io sample_config = (Inr d, effects) \<and> control_inv (dm_control d)
    \<and> gateway_run (dm_http d) [] [] \<and> last effects = Protected ''/a/control.sock'' 384"
proof -
  obtain d effects where "runWithConfig sample_io sample_config = (Inr d, effects)" using sample_started by blast
  with startup_is_safe [OF this] show ?thesis by (simp add: sample_config_def)
qed

text \<open>A start that fails after the socket was bound closes the listener again.\<close>

lemma failed_start_closes:
  assumes "runWithConfig io config = (Inl e, effects)" "Bound x \<in> set effects"
  shows "ClosedListener \<in> set effects"
proof -
  obtain loaded where l: "start_services io config loaded = (Inl e, effects)"
    using assms by (auto simp: runWithConfig_def split: option.splits sum.splits)
  have refused: "ClosedListener \<in> set effects"
    if "ListenWithSSH os p token reg store f m cfg act = (Inl e', effects)" for os p token reg store f m cfg act e'
    using that assms(2) endpoint_refused [of os p _ effects x]
    by (auto simp: ListenWithSSH_def listen_def Let_def split: if_splits option.splits prod.splits)
  show ?thesis
    using l refused assms(2)
    by (auto simp: start_services_def Let_def split: sum.splits prod.splits)
qed

section \<open>Restarting\<close>

text \<open>What a route that was saved is loaded as: its entry in the file, decoded.\<close>

definition reloaded :: "http_route \<Rightarrow> http_route" where
  "reloaded r = restore_route metadataVersion (json_route (persist_route r)) (hr_CapabilityDigest r)"

definition ssh_reloaded :: "ssh_route \<Rightarrow> ssh_route" where
  "ssh_reloaded r = ssh_restore_route (ssh_json_route (ssh_persist_route r)) (sr_CapabilityDigest r)"

lemma load_entries_each:
  "load_entries v seen ps = Inr rs \<Longrightarrow>
   list_all2 (\<lambda>p r. \<exists>d. hex_decode (pr_CapabilityDigest p) = Some d \<and> r = restore_route v p d) ps rs"
  by (induction v seen ps arbitrary: rs rule: load_entries.induct)
    (auto simp: Let_def split: if_splits option.splits sum.splits)

lemma ssh_load_entries_each:
  "ssh_load_entries seen seenU ps = Inr rs \<Longrightarrow>
   list_all2 (\<lambda>p r. \<exists>d. hex_decode (ps_CapabilityDigest p) = Some d \<and> r = ssh_restore_route p d) ps rs"
  by (induction seen seenU ps arbitrary: rs rule: ssh_load_entries.induct)
    (auto simp: Let_def split: if_splits option.splits sum.splits)

lemma restored_alias: "hr_Alias (restore_route v p d) = pr_Alias p"
  by (simp add: restore_route_def)

lemma ssh_restored_alias: "sr_Alias (ssh_restore_route p d) = ps_Alias p"
  by (simp add: ssh_restore_route_def Let_def)

lemma load_entries_view:
  assumes "load_entries v [] ps = Inr rs" "\<And>r. m a = Some r \<longleftrightarrow> r \<in> set rs \<and> hr_Alias r = a"
  shows "rel_option (\<lambda>p r. \<exists>d. hex_decode (pr_CapabilityDigest p) = Some d \<and> r = restore_route v p d)
    (map_of (map (\<lambda>p. (pr_Alias p, p)) ps) a) (m a)"
proof (rule map_of_list_all2 [OF load_entries_each [OF assms(1)]])
  have "map pr_Alias ps = map hr_Alias rs"
    by (rule keys_list_all2 [OF load_entries_each [OF assms(1)]]) (auto simp: restored_alias)
  then show "distinct (map pr_Alias ps)" using load_entries_valid [OF assms(1)] by simp
qed (use assms(2) in \<open>auto simp: restored_alias\<close>)

lemma ssh_load_entries_view:
  assumes "ssh_load_entries [] [] ps = Inr rs" "\<And>r. m a = Some r \<longleftrightarrow> r \<in> set rs \<and> sr_Alias r = a"
  shows "rel_option (\<lambda>p r. \<exists>d. hex_decode (ps_CapabilityDigest p) = Some d \<and> r = ssh_restore_route p d)
    (map_of (map (\<lambda>p. (ps_Alias p, p)) ps) a) (m a)"
proof (rule map_of_list_all2 [OF ssh_load_entries_each [OF assms(1)]])
  have "map ps_Alias ps = map sr_Alias rs"
    by (rule keys_list_all2 [OF ssh_load_entries_each [OF assms(1)]]) (auto simp: ssh_restored_alias)
  then show "distinct (map ps_Alias ps)" using ssh_load_entries_valid [OF assms(1)] by simp
qed (use assms(2) in \<open>auto simp: ssh_restored_alias\<close>)

lemma saved_digest: "hex_decode (utf8_coerce (hex_encode d)) = Some d"
  by (simp add: utf8_coerce_valid hex_roundtrip)

definition is_missing :: "read_calls \<Rightarrow> bool" where
  "is_missing os \<longleftrightarrow> rc_lstat os = StatNotExist"

lemma open_private_missing:
  "open_private a b c e n os = Inr False \<Longrightarrow> is_missing os"
  by (auto simp: open_private_def is_missing_def split: if_splits lstat_result.splits)

lemma load_http_reloads:
  assumes "load_http io = Inr reg" and "file_holds m (su_routes_file io)"
    and "is_missing (su_routes_read io) \<Longrightarrow> su_routes_file io = None"
  shows "map_of reg = map_option reloaded \<circ> m"
proof
  fix a
  from assms(1) obtain rs where rs: "Load (su_routes_read io) (text_of (su_routes_file io)) = Inr rs" "NewRegistry rs = Inr reg"
    by (auto simp: load_http_def split: sum.splits)
  have mem: "map_of reg a = Some r \<longleftrightarrow> r \<in> set rs \<and> hr_Alias r = a" for r
    using loaded_routes_build_registry [OF rs(1)] rs(2) by auto
  have view: "stored_view (su_routes_file io) a = map_option (\<lambda>r. json_route (persist_route r)) (m a)"
    using assms(2) by (simp add: file_holds_def)
  show "map_of reg a = (map_option reloaded \<circ> m) a"
  proof (cases "su_routes_file io")
    case None
    then have "rs = []" using Load_cases [OF rs(1)] by (auto simp: text_of_def)
    with mem view None show ?thesis by (cases "map_of reg a"; cases "m a") (auto simp: stored_view_def)
  next
    case (Some content)
    have "\<exists>doc. content = JSONDoc doc False \<and> load_entries (md_Version doc) [] (md_Routes doc) = Inr rs"
      using rs(1) assms(3) Some open_private_missing
      by (auto simp: Load_def text_of_def split: sum.splits bool.splits file_text.splits if_splits)
    then obtain doc where doc: "content = JSONDoc doc False" "load_entries metadataVersion [] (md_Routes doc) = Inr rs"
      using assms(2) Some by (auto simp: file_holds_def current_version_def)
    from load_entries_view [OF doc(2), of "map_of reg" a] mem
    have "rel_option (\<lambda>p r. \<exists>d. hex_decode (pr_CapabilityDigest p) = Some d \<and> r = restore_route metadataVersion p d)
        (map_option (\<lambda>r. json_route (persist_route r)) (m a)) (map_of reg a)"
      using view Some doc(1) by (simp add: stored_view_def)
    then show ?thesis
      by (cases "m a"; cases "map_of reg a")
        (auto simp: reloaded_def json_route_def persist_route_def saved_digest)
  qed
qed

lemma load_ssh_reloads:
  assumes "load_ssh io reg = Inr ssh" and "ssh_file_holds m (su_ssh_file io)"
    and "is_missing (su_ssh_read io) \<Longrightarrow> su_ssh_file io = None"
  shows "map_of ssh = map_option ssh_reloaded \<circ> m"
proof
  fix a
  from assms(1) obtain rs where rs: "Ssh_Load (su_ssh_read io) (text_of (su_ssh_file io)) = Inr rs" "Ssh_NewRegistry rs = Inr ssh"
    by (auto simp: load_ssh_def split: sum.splits if_splits)
  have mem: "map_of ssh a = Some r \<longleftrightarrow> r \<in> set rs \<and> sr_Alias r = a" for r
    using Ssh_loaded [OF rs] by auto
  have view: "ssh_stored_view (su_ssh_file io) a = map_option (\<lambda>r. ssh_json_route (ssh_persist_route r)) (m a)"
    using assms(2) by (simp add: ssh_file_holds_def)
  show "map_of ssh a = (map_option ssh_reloaded \<circ> m) a"
  proof (cases "su_ssh_file io")
    case None
    then have "rs = []" using Ssh_Load_cases [OF rs(1)] by (auto simp: text_of_def)
    with mem view None show ?thesis by (cases "map_of ssh a"; cases "m a") (auto simp: ssh_stored_view_def)
  next
    case (Some content)
    have "\<exists>doc. content = JSONDoc doc False \<and> ssh_load_entries [] [] (sd_Routes doc) = Inr rs"
      using rs(1) assms(3) Some open_private_missing
      by (auto simp: Ssh_Load_def text_of_def split: sum.splits bool.splits file_text.splits if_splits)
    then obtain doc where doc: "content = JSONDoc doc False" "ssh_load_entries [] [] (sd_Routes doc) = Inr rs"
      by auto
    from ssh_load_entries_view [OF doc(2), of "map_of ssh" a] mem
    have "rel_option (\<lambda>p r. \<exists>d. hex_decode (ps_CapabilityDigest p) = Some d \<and> r = ssh_restore_route p d)
        (map_option (\<lambda>r. ssh_json_route (ssh_persist_route r)) (m a)) (map_of ssh a)"
      using view Some doc(1) by (simp add: ssh_stored_view_def)
    then show ?thesis
      by (cases "m a"; cases "map_of ssh a")
        (auto simp: ssh_reloaded_def ssh_json_route_def ssh_persist_route_def saved_digest)
  qed
qed
end
