(* ===== verification/Daemon_Run.thy ===== *)
theory Daemon_Run
  imports Startup Control_Server
begin

text \<open>
  The running daemon as a whole. The control server, the HTTP gateway and the SSH gateway share the two route
  registries and the activity log (\<open>runWithConfig\<close> hands the same objects to all three), so every step of
  one of them is followed by \<open>share\<close>, which shows its effect to the others. Steps are exchanges on the
  control channel, requests that the HTTP server hands to the gateway, logins on the SSH gateway and requests
  of the web console, in any order.
\<close>

section \<open>Steps\<close>

definition share :: "daemon \<Rightarrow> control \<Rightarrow> daemon" where
  "share d s = d
     \<lparr>dm_control := s,
      dm_http := (dm_http d)\<lparr>hd_routes := cs_registry s, hd_activity := cs_activity s\<rparr>,
      dm_ssh := (dm_ssh d)
        \<lparr>sx_routes := (case cs_ssh s of None \<Rightarrow> sx_routes (dm_ssh d) | Some cfg \<Rightarrow> sc_Registry cfg),
         sx_activity := cs_activity s\<rparr>\<rparr>"

definition serve_control ::
  "control_calls \<Rightarrow> control_request option \<Rightarrow> daemon \<Rightarrow> control_response \<times> daemon" where
  "serve_control c received d =
     (case handle c (dm_control d) received of (response, s) \<Rightarrow> (response, share d s))"

definition serve_http ::
  "surroundings \<Rightarrow> in_request \<Rightarrow> daemon \<Rightarrow> (reply \<times> (via \<times> out_request) list) \<times> daemon" where
  "serve_http sv request d =
     (case ServeHTTP (sv\<lparr>sv_secrets := cs_secrets (dm_control d), sv_egress := cs_egress (dm_control d)\<rparr>)
             (dm_http d) request of
        (r, tried, h) \<Rightarrow>
          ((r, tried), share (d\<lparr>dm_http := h\<rparr>)
             ((dm_control d)\<lparr>cs_registry := hd_routes h, cs_activity := hd_activity h\<rparr>)))"

type_synonym ssh_login = "(ssh_auth_error + (string, string) amap) \<times> ssh_server"

definition serve_login :: "(ssh_server \<Rightarrow> ssh_login) \<Rightarrow> daemon \<Rightarrow> (ssh_auth_error + (string, string) amap) \<times> daemon" where
  "serve_login authenticate d =
     (case authenticate (dm_ssh d) of
        (r, x) \<Rightarrow> (r, share (d\<lparr>dm_ssh := x\<rparr>) ((dm_control d)\<lparr>cs_activity := sx_activity x\<rparr>)))"

definition serve_console :: "console_step \<Rightarrow> daemon \<Rightarrow> web_reply option \<times> daemon" where
  "serve_console x d =
     (case dm_web d of
        None \<Rightarrow> (None, d)
      | Some (_, token, client) \<Rightarrow>
          (case console_serve token client x (dm_control d) of (r, s) \<Rightarrow> (Some r, share d s)))"

datatype daemon_event =
    ControlExchange control_calls "control_request option"
  | HttpRequest surroundings in_request
  | PasswordLogin log_calls conn_metadata string
  | KeyLogin log_calls conn_metadata string
  | ConsoleRequest console_step

fun daemon_step :: "daemon \<Rightarrow> daemon_event \<Rightarrow> daemon" where
  "daemon_step d (ControlExchange c received) = snd (serve_control c received d)"
| "daemon_step d (HttpRequest sv request) = snd (serve_http sv request d)"
| "daemon_step d (PasswordLogin calls md password) =
     snd (serve_login (\<lambda>x. authenticatePassword calls x md password) d)"
| "daemon_step d (KeyLogin calls md fingerprint) =
     snd (serve_login (\<lambda>x. authenticatePublicKey calls x md fingerprint) d)"
| "daemon_step d (ConsoleRequest x) = snd (serve_console x d)"

definition daemon_run :: "daemon \<Rightarrow> daemon_event list \<Rightarrow> daemon" where
  "daemon_run d events = foldl daemon_step d events"

section \<open>The invariant\<close>

definition daemon_inv :: "daemon \<Rightarrow> bool" where
  "daemon_inv d \<longleftrightarrow> control_inv (dm_control d) \<and> cs_ssh (dm_control d) \<noteq> None \<and> share d (dm_control d) = d
     \<and> (\<exists>log. gateway_run (dm_http d) [] log)"

lemma share_control [simp]: "dm_control (share d s) = s" "share (share d s) s = share d s"
  by (simp_all add: share_def split: option.splits)

lemma share_routes [simp]:
  "hd_routes (dm_http (share d s)) = cs_registry s" "hd_activity (dm_http (share d s)) = cs_activity s"
  "dm_web (share d s) = dm_web d"
  by (simp_all add: share_def)

lemma share_ssh_routes: "cs_ssh s = Some cfg \<Longrightarrow> sx_routes (dm_ssh (share d s)) = sc_Registry cfg"
  by (simp add: share_def)

lemma share_gateway: "gateway_run (dm_http d) fl log \<Longrightarrow> gateway_run (dm_http (share d s)) fl log"
  using gateway_run.recorded [OF gateway_run.reconfigure] by (simp add: share_def)

lemma share_inv:
  assumes "control_inv s" "cs_ssh s \<noteq> None" "gateway_run (dm_http d) [] log"
  shows "daemon_inv (share d s)"
  using assms share_gateway [OF assms(3), of s] unfolding daemon_inv_def share_control by blast

lemma daemon_inv_routes:
  "daemon_inv d \<Longrightarrow> hd_routes (dm_http d) = cs_registry (dm_control d) \<and> hd_activity (dm_http d) = cs_activity (dm_control d)"
  unfolding daemon_inv_def using share_routes by metis

text \<open>An action's effect on the activity log alone.\<close>

lemma activity_inv [simp]:
  "control_inv (s\<lparr>cs_activity := act\<rparr>) = control_inv s" "disk_current (s\<lparr>cs_activity := act\<rparr>) = disk_current s"
  by (simp_all add: control_inv_def ssh_view_def disk_current_def)

lemma record_usage_cases:
  "record_usage reg a usage = reg
   \<or> (\<exists>r u. map_of reg a = Some r \<and> record_usage reg a usage = AList.update a (r\<lparr>hr_Usage := u\<rparr>) reg)"
  by (auto simp: record_usage_def RecordLLMUsage_def split: option.splits sum.splits if_splits)

lemma ServeHTTP_routes:
  assumes "ServeHTTP sv h request = (r, tried, h')"
  shows "(\<exists>a usage. hd_routes h' = record_usage (hd_routes h) a usage)
    \<and> ((\<forall>a route. Lookup (hd_routes h) a \<noteq> Inr route) \<longrightarrow> tried = [] \<and> hd_routes h' = hd_routes h)"
  using assms
proof (cases rule: ServeHTTP_cases)
  case (finished outcome h1)
  have "hd_routes h1 = hd_routes h" using admit_finished [OF finished(1)] by auto
  then have "hd_routes h' = hd_routes h" using finished(3) by (simp add: record_result_def split: option.splits)
  moreover have "record_usage (hd_routes h) [] None = hd_routes h" by (simp add: record_usage_def)
  ultimately show ?thesis using finished(2) by metis
next
  case (admitted route a s token h1)
  from admit_admitted [OF admitted(1)] have "hd_routes h1 = hd_routes h" "Lookup (hd_routes h) a = Inr route"
    by auto
  then show ?thesis unfolding admitted(4) by (auto simp: record_result_def finish_admitted_def)
qed

lemma http_step:
  assumes "daemon_inv d" "serve_http sv request d = (out, d')"
  shows "daemon_inv d' \<and> (disk_current (dm_control d) \<longrightarrow> disk_current (dm_control d'))"
proof -
  let ?sv = "sv\<lparr>sv_secrets := cs_secrets (dm_control d), sv_egress := cs_egress (dm_control d)\<rparr>"
  obtain r tried h where s: "ServeHTTP ?sv (dm_http d) request = (r, tried, h)" by (metis prod.exhaust)
  define s' where "s' = (dm_control d)\<lparr>cs_registry := hd_routes h\<rparr>"
  have d': "d' = share (d\<lparr>dm_http := h\<rparr>) (s'\<lparr>cs_activity := hd_activity h\<rparr>)"
    using assms(2) by (simp add: serve_http_def s s'_def)
  have inv: "control_inv (dm_control d)" and ssh: "cs_ssh s' \<noteq> None"
    using assms(1) by (simp_all add: daemon_inv_def s'_def)
  have "control_inv s' \<and> (disk_current (dm_control d) \<longrightarrow> disk_current s')"
  proof -
    obtain a usage where "hd_routes h = record_usage (cs_registry (dm_control d)) a usage"
      using ServeHTTP_routes [OF s] daemon_inv_routes [OF assms(1)] by auto
    with record_usage_cases [of "cs_registry (dm_control d)" a usage] inv usage_update [OF inv _ refl]
    show ?thesis unfolding s'_def by (elim disjE exE) auto
  qed
  moreover obtain log where "gateway_run (dm_http d) [] log" using assms(1) by (auto simp: daemon_inv_def)
  then obtain log' where "gateway_run h [] log'" using serving_leaves_nothing_in_flight [OF _ s] by blast
  ultimately show ?thesis using ssh share_inv [of _ "d\<lparr>dm_http := h\<rparr>"] by (simp add: d')
qed

lemma control_step:
  assumes "daemon_inv d" "control_inv s" "cs_ssh s \<noteq> None"
  shows "daemon_inv (share d s)"
  using assms share_inv by (auto simp: daemon_inv_def)

lemma login_step:
  assumes "daemon_inv d" "serve_login authenticate d = (r, d')"
  shows "daemon_inv d' \<and> disk_current (dm_control d') = disk_current (dm_control d)"
proof -
  obtain q x where q: "authenticate (dm_ssh d) = (q, x)" by (metis prod.exhaust)
  have d': "d' = share (d\<lparr>dm_ssh := x\<rparr>) ((dm_control d)\<lparr>cs_activity := sx_activity x\<rparr>)"
    using assms(2) by (simp add: serve_login_def q)
  obtain log where "gateway_run (dm_http (d\<lparr>dm_ssh := x\<rparr>)) [] log" "control_inv (dm_control d)"
      "cs_ssh (dm_control d) \<noteq> None"
    using assms(1) by (auto simp: daemon_inv_def)
  then show ?thesis using share_inv by (simp add: d')
qed

text \<open>The condition on the calls of a step under which the files follow memory.\<close>

definition timely_event :: "daemon_event \<Rightarrow> bool" where
  "timely_event e \<longleftrightarrow>
     (case e of
        ControlExchange c received \<Rightarrow> timely (c, received)
      | ConsoleRequest x \<Rightarrow> on_time (st_calls x) \<and> all_writes_ok (kc_save (st_calls x))
          \<and> all_writes_ok (kc_save_back (st_calls x))
      | _ \<Rightarrow> True)"

lemma console_step_cases:
  assumes "daemon_inv d"
  shows "daemon_step d (ConsoleRequest x) = d
    \<or> (\<exists>received. daemon_step d (ConsoleRequest x) = share d (snd (handle (st_calls x) (dm_control d) received)))"
proof (cases "dm_web d")
  case None
  then show ?thesis by (simp add: serve_console_def)
next
  case (Some web)
  obtain address token client where web: "web = (address, token, client)" by (metis prod.exhaust)
  have same: "share d (dm_control d) = d" using assms by (simp add: daemon_inv_def)
  show ?thesis
    using Some same Do_step console_serve_state [of token client x "dm_control d"]
    by (auto simp: serve_console_def web split: prod.splits option.splits) metis
qed

lemma daemon_step_inv:
  assumes "daemon_inv d"
  shows "daemon_inv (daemon_step d e)
    \<and> (timely_event e \<longrightarrow> disk_current (dm_control d) \<longrightarrow> disk_current (dm_control (daemon_step d e)))"
proof -
  have inv: "control_inv (dm_control d)" and ssh: "cs_ssh (dm_control d) \<noteq> None"
    using assms by (simp_all add: daemon_inv_def)
  note handled = handle_inv [OF inv] handle_disk [OF inv] and stepped = control_step [OF assms]
  show ?thesis
  proof (cases e)
    case (ControlExchange c received)
    then show ?thesis
      using stepped handled ssh
      by (auto simp: serve_control_def timely_event_def split: prod.splits) (metis snd_conv option.distinct(1))+
  next
    case (HttpRequest sv request)
    then show ?thesis using http_step [OF assms] by (metis daemon_step.simps(2) prod.collapse)
  next
    case (PasswordLogin calls md password)
    then show ?thesis using login_step [OF assms] by (metis daemon_step.simps(3) prod.collapse)
  next
    case (KeyLogin calls md fingerprint)
    then show ?thesis using login_step [OF assms] by (metis daemon_step.simps(4) prod.collapse)
  next
    case (ConsoleRequest x)
    from console_step_cases [OF assms, of x] show ?thesis
      using assms stepped handled ssh
      by (auto simp: ConsoleRequest timely_event_def timely_def split: option.splits)
  qed
qed

lemma daemon_run_inv:
  assumes "daemon_inv d"
  shows "daemon_inv (daemon_run d events)
    \<and> (list_all timely_event events \<longrightarrow> disk_current (dm_control d) \<longrightarrow> disk_current (dm_control (daemon_run d events)))"
  using assms
proof (induction events arbitrary: d)
  case (Cons e events)
  from Cons.IH [of "daemon_step d e"] daemon_step_inv [OF Cons.prems, of e] show ?case
    by (auto simp: daemon_run_def)
qed (simp add: daemon_run_def)

section \<open>From the start\<close>

lemma startup_daemon_inv:
  assumes "runWithConfig io config = (Inr d, effects)"
  shows "daemon_inv d"
proof -
  from started [OF assms] obtain loaded cfg where s: "load_state io config = Inr loaded"
    "cs_registry (dm_control d) = ld_registry loaded" "cs_ssh (dm_control d) = Some cfg"
    "sc_Registry cfg = ld_ssh loaded"
    "dm_http d = NewHandler (ld_registry loaded) (Some NewMemoryRecorder)"
    "sx_routes (dm_ssh d) = ld_ssh loaded"
    "cs_activity (dm_control d) = Some NewMemoryRecorder" "sx_activity (dm_ssh d) = Some NewMemoryRecorder" by metis
  have "share d (dm_control d) = d" using s by (simp add: share_def NewHandler_def)
  moreover have "gateway_run (dm_http d) [] []" using s(5) gateway_run.start by simp
  ultimately show ?thesis using started_inv [OF s(1-4)] s(3) by (auto simp: daemon_inv_def)
qed

text \<open>
  C3: whatever happens to a daemon that was started, in whatever order requests arrive on the control
  channel, the relay, the SSH gateway and the console, and whether or not the calls they make succeed: the
  control server's invariant holds, the gateways see exactly the routes the control server has, and the HTTP
  gateway's state is one that a run of it with nothing in flight reaches.
\<close>

theorem daemon_invariant:
  assumes "runWithConfig io config = (Inr d, effects)" and "d' = daemon_run d events"
  shows "control_inv (dm_control d') \<and> hd_routes (dm_http d') = cs_registry (dm_control d')
    \<and> (\<exists>cfg. cs_ssh (dm_control d') = Some cfg \<and> sx_routes (dm_ssh d') = sc_Registry cfg)
    \<and> (\<exists>log. gateway_run (dm_http d') [] log)"
proof -
  have i: "daemon_inv d'" using daemon_run_inv [OF startup_daemon_inv [OF assms(1)]] assms(2) by simp
  then obtain cfg where cfg: "cs_ssh (dm_control d') = Some cfg" by (auto simp: daemon_inv_def)
  moreover have "share d' (dm_control d') = d'" using i by (simp add: daemon_inv_def)
  ultimately have "sx_routes (dm_ssh d') = sc_Registry cfg" using share_ssh_routes by metis
  with i cfg daemon_inv_routes [OF i] show ?thesis by (auto simp: daemon_inv_def)
qed

theorem daemon_invariant_witness:
  "\<exists>d effects. runWithConfig sample_io sample_config = (Inr d, effects)
    \<and> control_inv (dm_control (daemon_run d [ControlExchange sample_calls (Some sample_request),
         ControlExchange sample_calls None]))"
  using sample_started daemon_invariant [OF _ refl] by blast

section \<open>Stopping everything\<close>

definition refuses_all :: "daemon \<Rightarrow> bool" where
  "refuses_all d \<longleftrightarrow>
     (\<forall>sv request. snd (fst (serve_http sv request d)) = [])
   \<and> (\<forall>calls md secret.
        \<not> is_ok (fst (serve_login (\<lambda>x. authenticatePassword calls x md secret) d))
      \<and> \<not> is_ok (fst (serve_login (\<lambda>x. authenticatePublicKey calls x md secret) d)))"

definition off :: "daemon \<Rightarrow> bool" where
  "off d \<longleftrightarrow> (\<forall>a r. map_of (cs_registry (dm_control d)) a = Some r \<longrightarrow> \<not> hr_Enabled r)
     \<and> (\<forall>a r. ssh_view (dm_control d) a = Some r \<longrightarrow> \<not> sr_Enabled r)"

definition traffic :: "daemon_event \<Rightarrow> bool" where
  "traffic e \<longleftrightarrow> (case e of HttpRequest _ _ \<Rightarrow> True | PasswordLogin _ _ _ \<Rightarrow> True | KeyLogin _ _ _ \<Rightarrow> True | _ \<Rightarrow> False)"

lemma off_lookup:
  assumes "daemon_inv d" "off d"
  shows "Lookup (hd_routes (dm_http d)) a \<noteq> Inr route"
    and "\<not> is_ok (LookupByUsername (sx_routes (dm_ssh d)) name)"
proof -
  show "Lookup (hd_routes (dm_http d)) a \<noteq> Inr route"
    using assms daemon_inv_routes [OF assms(1)] by (auto simp: Lookup_def off_def split: option.splits)
  obtain cfg where cfg: "cs_ssh (dm_control d) = Some cfg" "sx_routes (dm_ssh d) = sc_Registry cfg"
    using assms(1) share_ssh_routes unfolding daemon_inv_def by (metis option.exhaust)
  then have "ssh_registry_inv (sx_routes (dm_ssh d))" using assms(1) by (simp add: daemon_inv_def control_inv_def)
  then show "\<not> is_ok (LookupByUsername (sx_routes (dm_ssh d)) name)"
    using LookupByUsername_iff assms(2) cfg by (fastforce simp: is_ok_iff off_def ssh_view_def)
qed

lemma off_refuses:
  assumes "daemon_inv d" "off d"
  shows "refuses_all d"
proof -
  have "snd (fst (serve_http sv request d)) = []" for sv request
    using ServeHTTP_routes off_lookup(1) [OF assms] by (simp add: serve_http_def split: prod.splits)
  moreover have "\<not> is_ok (fst (serve_login (\<lambda>x. authenticatePassword calls x md secret) d))"
      "\<not> is_ok (fst (serve_login (\<lambda>x. authenticatePublicKey calls x md secret) d))" for calls md secret
    using off_lookup(2) [OF assms, of "cm_User md"]
    by (auto simp: serve_login_def authenticatePassword_def authenticatePublicKey_def is_ok_def split: sum.splits)
  ultimately show ?thesis by (simp add: refuses_all_def)
qed

lemma traffic_off:
  assumes "daemon_inv d" "off d" "traffic e"
  shows "off (daemon_step d e)"
proof (cases e)
  case (HttpRequest sv request)
  then show ?thesis
    using assms(2) ServeHTTP_routes off_lookup(1) [OF assms(1,2)] daemon_inv_routes [OF assms(1)]
    by (auto simp: serve_http_def off_def split: prod.splits)
qed (use assms(2,3) in \<open>auto simp: traffic_def serve_login_def off_def split: prod.splits\<close>)

lemma traffic_run_off:
  assumes "daemon_inv d" "off d" "list_all traffic events"
  shows "off (daemon_run d events)"
  using assms
proof (induction events arbitrary: d)
  case (Cons e events)
  then show ?case using traffic_off daemon_step_inv by (simp add: daemon_run_def)
qed (simp add: daemon_run_def)

lemma traffic_timely: "list_all traffic events \<Longrightarrow> list_all timely_event events"
  by (auto simp: list_all_iff traffic_def timely_event_def split: daemon_event.splits)

lemma stopped:
  assumes inv: "daemon_inv d" and served: "serve_control c (Some r) d = (response, d1)"
    and stop: "rq_Action r = ''stop_all''" "re_OK response"
  shows "daemon_inv d1 \<and> off d1 \<and> disk_current (dm_control d1)"
proof -
  define s where "s = dm_control d"
  have i: "control_inv s" using inv by (simp add: daemon_inv_def s_def)
  have h: "handle c s (Some r) = stopAll c s" and d1: "d1 = share d (snd (stopAll c s))" "re_OK (fst (stopAll c s))"
    using served stop
    by (auto simp: serve_control_def handle_def dispatch_stop_all fail_def s_def split: prod.splits if_splits)
  note parts = stop_all_ok [OF i d1(2)]
  have "off d1"
    using parts unfolding off_def d1(1) share_control
    by (auto simp: DisableAll_view Ssh_DisableAll_view split: option.splits)
  moreover have "daemon_inv d1" using daemon_step_inv [OF inv, of "ControlExchange c (Some r)"] served by simp
  ultimately show ?thesis using parts d1(1) by simp
qed

section \<open>Restarting\<close>

text \<open>The start finds the files as the state left them.\<close>

definition finds_files :: "startup_io \<Rightarrow> control \<Rightarrow> bool" where
  "finds_files io s \<longleftrightarrow> su_routes_file io = cs_file s \<and> (is_missing (su_routes_read io) \<longrightarrow> cs_file s = None)
     \<and> (\<forall>cfg. cs_ssh s = Some cfg \<longrightarrow>
          su_ssh_file io = sc_File cfg \<and> (is_missing (su_ssh_read io) \<longrightarrow> sc_File cfg = None))"

lemma restarted_views:
  assumes start: "runWithConfig io config = (Inr d, effects)" and finds: "finds_files io s"
    and disk: "disk_current s" and ssh: "cs_ssh s \<noteq> None"
  shows "map_of (cs_registry (dm_control d)) = map_option reloaded \<circ> map_of (cs_registry s)
    \<and> ssh_view (dm_control d) = map_option ssh_reloaded \<circ> ssh_view s"
proof -
  from started [OF start] obtain loaded cfg where l: "load_state io config = Inr loaded"
    "cs_registry (dm_control d) = ld_registry loaded" "cs_ssh (dm_control d) = Some cfg"
    "sc_Registry cfg = ld_ssh loaded" by metis
  obtain old where old: "cs_ssh s = Some old" using ssh by blast
  have f: "file_holds (map_of (cs_registry s)) (su_routes_file io)" "ssh_file_holds (map_of (sc_Registry old)) (su_ssh_file io)"
    using disk finds old by (simp_all add: disk_current_def finds_files_def)
  note loads = load_state_ok [OF l(1)]
  have "map_of (ld_registry loaded) = map_option reloaded \<circ> map_of (cs_registry s)"
    using finds by (intro load_http_reloads [OF conjunct1 [OF loads] f(1)]) (simp add: finds_files_def)
  moreover have "map_of (ld_ssh loaded) = map_option ssh_reloaded \<circ> map_of (sc_Registry old)"
    using finds old by (intro load_ssh_reloads [OF conjunct2 [OF loads] f(2)]) (simp add: finds_files_def)
  ultimately show ?thesis using l(2-4) old by (simp add: ssh_view_def)
qed

lemma reloaded_parts:
  "hr_Enabled (reloaded r) = hr_Enabled r" "hr_CapabilityDigest (reloaded r) = hr_CapabilityDigest r"
  "sr_Enabled (ssh_reloaded q) = sr_Enabled q" "sr_CapabilityDigest (ssh_reloaded q) = sr_CapabilityDigest q"
  by (simp_all add: reloaded_def restore_route_def json_route_def persist_route_def ssh_reloaded_def
      ssh_restore_route_def ssh_json_route_def ssh_persist_route_def Let_def)

lemma reloaded_storable: "storable r \<Longrightarrow> reloaded r = normal_route r"
  by (simp add: reloaded_def json_persist restore_persist storable_def)

lemma ssh_reloaded_storable: "ssh_storable r \<Longrightarrow> ssh_reloaded r = ssh_normal_route r"
  by (simp add: ssh_reloaded_def ssh_json_persist ssh_restore_persist ssh_storable_def)

lemma restart_off:
  assumes "runWithConfig io config = (Inr d', effects)" "finds_files io (dm_control d)"
    "disk_current (dm_control d)" "daemon_inv d" "off d"
  shows "off d'"
  using restarted_views [OF assms(1-3)] assms(4,5)
  by (auto simp: daemon_inv_def off_def reloaded_parts)

text \<open>
  C2: once \<open>stop_all\<close> has succeeded, nothing gets through any more: whatever requests and logins
  arrive in whatever order, no request is sent upstream and no SSH login succeeds, until the control channel is
  used again; and restarting the daemon on its files does not bring anything back.
\<close>

theorem stop_all_cuts_off:
  assumes "daemon_inv d" "serve_control c (Some r) d = (response, d1)"
    and "rq_Action r = ''stop_all''" "re_OK response" and "list_all traffic events"
  shows "refuses_all (daemon_run d1 events)
    \<and> (\<forall>io config d' effects. finds_files io (dm_control (daemon_run d1 events))
         \<longrightarrow> runWithConfig io config = (Inr d', effects) \<longrightarrow> refuses_all d')"
proof -
  let ?d = "daemon_run d1 events"
  note s = stopped [OF assms(1-4)]
  have o: "off ?d" using traffic_run_off assms(5) s by blast
  have i: "daemon_inv ?d" and disk: "disk_current (dm_control ?d)"
    using daemon_run_inv [of d1 events] s traffic_timely [OF assms(5)] by blast+
  show ?thesis
    using off_refuses [OF i o] off_refuses startup_daemon_inv restart_off [OF _ _ disk i o] by blast
qed

theorem stop_all_cuts_off_witness:
  "\<exists>d response d1. daemon_inv d \<and> map_of (cs_registry (dm_control d)) ''api'' = Some sample_route
    \<and> serve_control sample_calls (Some sample_request) d = (response, d1) \<and> refuses_all (daemon_run d1 [])"
proof -
  obtain d0 effects where "runWithConfig sample_io sample_config = (Inr d0, effects)" using sample_started by blast
  then have "daemon_inv d0" by (rule startup_daemon_inv)
  then obtain log where "gateway_run (dm_http d0) [] log" by (auto simp: daemon_inv_def)
  moreover have ssh: "cs_ssh sample_control \<noteq> None" by (simp add: sample_control_def)
  ultimately have i: "daemon_inv (share d0 sample_control)" using share_inv sample_control_inv by blast
  have h: "handle sample_calls sample_control (Some sample_request) = stopAll sample_calls sample_control"
    by (simp add: handle_def dispatch_stop_all sample_request_def sample_control_def protocolVersion_def validToken_iff)
  obtain response d1 where s: "serve_control sample_calls (Some sample_request) (share d0 sample_control) = (response, d1)"
    by fastforce
  then have "re_OK response" using sample_stop_ok by (auto simp: serve_control_def h split: prod.splits)
  with stop_all_cuts_off [OF i s, of "[]"] have "refuses_all (daemon_run d1 [])" by (simp add: sample_request_def)
  moreover have "map_of (cs_registry (dm_control (share d0 sample_control))) ''api'' = Some sample_route"
    by (simp add: sample_control_def)
  ultimately show ?thesis using i s by blast
qed

lemma fresh_start_current:
  assumes "runWithConfig io config = (Inr d, effects)" "su_routes_file io = None" "su_ssh_file io = None"
  shows "disk_current (dm_control d)"
proof -
  from started [OF assms(1)] obtain loaded cfg where l: "load_state io config = Inr loaded"
    "cs_registry (dm_control d) = ld_registry loaded" "cs_ssh (dm_control d) = Some cfg"
    "sc_Registry cfg = ld_ssh loaded" "cs_file (dm_control d) = su_routes_file io" "sc_File cfg = su_ssh_file io" by metis
  have "file_holds Map.empty (su_routes_file io)" "ssh_file_holds Map.empty (su_ssh_file io)"
    using assms(2,3) by (simp_all add: file_holds_def current_version_def stored_view_def ssh_file_holds_def ssh_stored_view_def)
  with load_http_reloads load_ssh_reloads load_state_ok [OF l(1)] assms(2,3)
  have "map_of (ld_registry loaded) = Map.empty" "map_of (ld_ssh loaded) = Map.empty" by fastforce+
  with l assms(2,3) show ?thesis
    by (simp add: disk_current_def file_holds_def current_version_def stored_view_def ssh_file_holds_def ssh_stored_view_def)
qed


lemma sample_stop_fresh:
  assumes "runWithConfig sample_io sample_config = (Inr d, effects)"
    and "s = dm_control (daemon_run d [ControlExchange sample_calls (Some sample_request)])"
  shows "\<exists>cfg. cs_file s = Some (JSONDoc \<lparr>md_Version = metadataVersion, md_Routes = []\<rparr> False)
    \<and> cs_ssh s = Some cfg \<and> sc_File cfg = Some (JSONDoc \<lparr>sd_Version = sshMetadataVersion, sd_Routes = []\<rparr> False)"
proof -
  obtain loaded cfg where l: "load_state sample_io sample_config = Inr loaded"
    "cs_registry (dm_control d) = ld_registry loaded" "cs_ssh (dm_control d) = Some cfg"
    "sc_Registry cfg = ld_ssh loaded" "cs_token (dm_control d) = rt_ControlToken sample_config"
    using started [OF assms(1)] by metis
  with sample_loaded have e: "ld_registry loaded = []" "ld_ssh loaded = []" by auto
  have "handle sample_calls (dm_control d) (Some sample_request) = stopAll sample_calls (dm_control d)"
    by (simp add: handle_def dispatch_stop_all sample_request_def l(5) sample_config_def protocolVersion_def validToken_iff)
  then have "s = snd (stopAll sample_calls (dm_control d))"
    using assms(2) by (simp add: daemon_run_def serve_control_def split: prod.splits)
  moreover have "Save sample_writes [] f = (None, Some (JSONDoc \<lparr>md_Version = metadataVersion, md_Routes = []\<rparr> False))"
    "Ssh_Save sample_writes [] g = (None, Some (JSONDoc \<lparr>sd_Version = sshMetadataVersion, sd_Routes = []\<rparr> False))" for f g
    using sample_writes_ok
    by (simp_all add: Save_def route_document_def all_writes_ok_def install_private_def json_document_def
        Ssh_Save_def ssh_route_document_def ssh_json_document_def)
  ultimately show ?thesis
    using l(2-4) e
    by (simp add: stopAll_def save_routes_def save_ssh_def sample_calls_writes DisableAll_def Ssh_DisableAll_def
        List_routes_def Ssh_List_def succeed_def Let_def)
qed


end
