(* ===== verification/Cli.thy ===== *)
theory Cli
  imports Web_Ui
begin

text \<open>
  Command \<open>airlock\<close> (\<open>cmd/airlock/main.go\<close>): the operator's command line. A run turns its arguments
  into at most one request on the control channel, or creates a token file. Flags are parsed as package
  \<open>flag\<close> parses them. The files, what \<open>time.ParseDuration\<close> makes of a text, and what the strict
  JSON decoder makes of a specification are arguments; so is the controller that answers the request, which is
  the client of the control channel (\<open>Do\<close>) for the token that was read.
\<close>

section \<open>Flags\<close>

datatype flag_kind = TextFlag | BoolFlag | DurationFlag

type_synonym flag_values = "(string \<times> string) list"

definition true_texts :: "string list" where
  "true_texts = [''1'', ''t'', ''T'', ''TRUE'', ''true'', ''True'']"

definition false_texts :: "string list" where
  "false_texts = [''0'', ''f'', ''F'', ''FALSE'', ''false'', ''False'']"

definition flag_accepts :: "(string \<Rightarrow> int option) \<Rightarrow> flag_kind \<Rightarrow> string \<Rightarrow> bool" where
  "flag_accepts duration kind v =
     (case kind of
        TextFlag \<Rightarrow> True
      | BoolFlag \<Rightarrow> v \<in> set true_texts \<or> v \<in> set false_texts
      | DurationFlag \<Rightarrow> duration v \<noteq> None)"

definition split_flag :: "string \<Rightarrow> string \<times> string option" where
  "split_flag s =
     (let name = takeWhile (\<lambda>c. c \<noteq> CHR ''='') s in
      (name, if name = s then None else Some (drop (Suc (length name)) s)))"

definition flag_body :: "string \<Rightarrow> string" where
  "flag_body s = (if s ! 1 = CHR ''-'' then drop 2 s else drop 1 s)"

text \<open>The values that were set, the last one first, and the arguments after the flags; \<open>None\<close> is an error.\<close>

fun parse_flags ::
  "(string \<Rightarrow> int option) \<Rightarrow> (string \<times> flag_kind) list \<Rightarrow> flag_values \<Rightarrow> string list
   \<Rightarrow> (flag_values \<times> string list) option" where
  "parse_flags duration known values [] = Some (values, [])"
| "parse_flags duration known values (s # rest) =
     (if length s < 2 \<or> hd s \<noteq> CHR ''-'' then Some (values, s # rest)
      else if s = ''--'' then Some (values, rest)
      else
        if flag_body s = [] \<or> hd (flag_body s) = CHR ''-'' \<or> hd (flag_body s) = CHR ''='' then None
        else (case split_flag (flag_body s) of (name, given) \<Rightarrow>
          (case map_of known name of
             None \<Rightarrow> None
           | Some kind \<Rightarrow>
               (case given of
                  Some v \<Rightarrow>
                    if flag_accepts duration kind v then parse_flags duration known ((name, v) # values) rest
                    else None
                | None \<Rightarrow>
                    if kind = BoolFlag then parse_flags duration known ((name, ''true'') # values) rest
                    else (case rest of
                      [] \<Rightarrow> None
                    | v # rest' \<Rightarrow>
                        if flag_accepts duration kind v
                        then parse_flags duration known ((name, v) # values) rest' else None)))))"

definition text_flag :: "flag_values \<Rightarrow> string \<Rightarrow> string \<Rightarrow> string" where
  "text_flag values name fallback = (case map_of values name of None \<Rightarrow> fallback | Some v \<Rightarrow> v)"

definition bool_flag :: "flag_values \<Rightarrow> string \<Rightarrow> bool" where
  "bool_flag values name \<longleftrightarrow> (case map_of values name of None \<Rightarrow> False | Some v \<Rightarrow> v \<in> set true_texts)"

section \<open>What a run reads and what it prints\<close>

record cli_io =
  io_duration :: "string \<Rightarrow> int option"
  io_calls :: "string \<Rightarrow> file_calls"
  io_file :: "string \<Rightarrow> bytes"
  io_create :: create_calls
  io_random :: "bytes option"
  io_http_spec :: "bytes \<Rightarrow> create_http_route file_text"
  io_ssh_spec :: "bytes \<Rightarrow> create_ssh_route file_text"
  io_proxy_spec :: "bytes \<Rightarrow> string file_text"

datatype cli_output =
    PrintedVersion | PrintedUsage | FlagError | PrintedCreatedToken string | PrintedError message
  | PrintedResponse control_response | PrintedCreated created_route

type_synonym cli_result = "int \<times> cli_output"

definition printError :: "message \<Rightarrow> cli_result" where
  "printError e = (1, PrintedError e)"

text \<open>A flag set that failed to parse has printed its error; otherwise the command prints its usage.\<close>

definition usage :: cli_result where
  "usage = (2, PrintedUsage)"

section \<open>Requests\<close>

definition call :: "'s controller \<Rightarrow> control_request \<Rightarrow> 's \<Rightarrow> (message + control_response) \<times> 's" where
  "call controller request s =
     (case controller request s of
        (Inl e, s') \<Rightarrow> (Inl (English e), s')
      | (Inr response, s') \<Rightarrow>
          (if \<not> re_OK response then Inl (case re_Error response of None \<Rightarrow> English [] | Some e \<Rightarrow> e)
           else Inr response, s'))"

definition execute :: "'s controller \<Rightarrow> control_request \<Rightarrow> 's \<Rightarrow> cli_result \<times> 's" where
  "execute controller request s =
     (case call controller request s of
        (Inl e, s') \<Rightarrow> (printError e, s')
      | (Inr response, s') \<Rightarrow> ((0, PrintedResponse response), s'))"

definition executeCreate :: "'s controller \<Rightarrow> control_request \<Rightarrow> 's \<Rightarrow> cli_result \<times> 's" where
  "executeCreate controller request s =
     (case call controller request s of
        (Inl e, s') \<Rightarrow> (printError e, s')
      | (Inr response, s') \<Rightarrow>
          (case re_Created response of
             None \<Rightarrow> (printError (English ''airlockd did not return the created route''), s')
           | Some created \<Rightarrow> ((0, PrintedCreated created), s')))"

definition executeSSHCreate :: "'s controller \<Rightarrow> create_ssh_route \<Rightarrow> 's \<Rightarrow> cli_result \<times> 's" where
  "executeSSHCreate controller spec s =
     (case call controller ((blank_request ''create_ssh_route'')\<lparr>rq_CreateSSH := Some spec\<rparr>) s of
        (Inl e, s') \<Rightarrow> (printError e, s')
      | (Inr response, s') \<Rightarrow>
          (case re_Created response of
             None \<Rightarrow> (printError (English ''airlockd did not return the created SSH route''), s')
           | Some created \<Rightarrow> ((0, PrintedCreated created), s')))"

definition readSpec :: "cli_io \<Rightarrow> (bytes \<Rightarrow> 'd file_text) \<Rightarrow> string \<Rightarrow> message + 'd" where
  "readSpec io decoder p =
     (case Read (io_calls io p) (io_file io p) p 65536 of
        Inl e \<Rightarrow> Inl (English (''read protected spec: '' @ e))
      | Inr contents \<Rightarrow>
          (case decoder contents of
             NotJSON \<Rightarrow> Inl (English ''decode protected spec'')
           | JSONDoc spec trailing \<Rightarrow>
               if trailing then Inl (English ''protected spec has trailing data'') else Inr spec))"

definition runRouteCreate ::
  "cli_io \<Rightarrow> 's controller \<Rightarrow> string \<Rightarrow> string list \<Rightarrow> 's \<Rightarrow> cli_result \<times> 's" where
  "runRouteCreate io controller kind args s =
     (case parse_flags (io_duration io) [(''file'', TextFlag), (''allow-all-confirmed'', BoolFlag)] [] args of
        None \<Rightarrow> ((2, FlagError), s)
      | Some (values, rest) \<Rightarrow>
          let file = text_flag values ''file'' [] in
          if rest \<noteq> [] \<or> file = [] \<or> \<not> filepath_IsAbs file then (usage, s)
          else if kind = ''http'' \<or> kind = ''llm'' then
            (case readSpec io (io_http_spec io) file of
               Inl e \<Rightarrow> (printError e, s)
             | Inr spec \<Rightarrow>
                 executeCreate controller
                   ((blank_request (if kind = ''llm'' then ''create_llm_route'' else ''create_http_route''))
                      \<lparr>rq_Create := Some spec\<rparr>) s)
          else if kind = ''ssh'' then
            (case readSpec io (io_ssh_spec io) file of
               Inl e \<Rightarrow> (printError e, s)
             | Inr spec \<Rightarrow>
                 if cr_AllowAllCommands spec \<and> \<not> bool_flag values ''allow-all-confirmed''
                 then (printError (English ''unrestricted SSH exec requires --allow-all-confirmed''), s)
                 else executeSSHCreate controller spec s)
          else (usage, s))"

definition runRoutes :: "cli_io \<Rightarrow> 's controller \<Rightarrow> string list \<Rightarrow> 's \<Rightarrow> cli_result \<times> 's" where
  "runRoutes io controller args s =
     (case args of
        [a] \<Rightarrow> if a = ''list'' then execute controller (blank_request ''list_routes'') s else (usage, s)
      | [a, b] \<Rightarrow>
          if a = ''enable'' then
            execute controller ((blank_request ''set_route_enabled'')\<lparr>rq_Alias := b, rq_Enabled := True\<rparr>) s
          else if a = ''disable'' then
            execute controller ((blank_request ''set_route_enabled'')\<lparr>rq_Alias := b, rq_Enabled := False\<rparr>) s
          else if a = ''health'' then execute controller ((blank_request ''test_route_health'')\<lparr>rq_Alias := b\<rparr>) s
          else if a = ''delete'' then execute controller ((blank_request ''delete_route'')\<lparr>rq_Alias := b\<rparr>) s
          else if a = ''create'' then runRouteCreate io controller b [] s
          else if a = ''stop-all'' \<and> b = ''--yes'' then execute controller (blank_request ''stop_all'') s
          else (usage, s)
      | a # b # rest \<Rightarrow> if a = ''create'' then runRouteCreate io controller b rest s else (usage, s)
      | [] \<Rightarrow> (usage, s))"

definition runSSH :: "cli_io \<Rightarrow> 's controller \<Rightarrow> string list \<Rightarrow> 's \<Rightarrow> cli_result \<times> 's" where
  "runSSH io controller args s =
     (case args of
        [] \<Rightarrow> (usage, s)
      | a # rest \<Rightarrow>
          if a \<noteq> ''probe'' then (usage, s)
          else (case parse_flags (io_duration io) [(''address'', TextFlag), (''egress'', TextFlag)] [] rest of
            None \<Rightarrow> ((2, FlagError), s)
          | Some (values, left) \<Rightarrow>
              let address = text_flag values ''address'' [] in
              if left \<noteq> [] \<or> address = [] then (usage, s)
              else execute controller
                ((blank_request ''probe_ssh_host_key'')\<lparr>rq_ProbeSSH := Some
                   \<lparr>pk_Address = address, pk_Egress = text_flag values ''egress'' ''Direct''\<rparr>\<rparr>) s))"

definition runProxy :: "cli_io \<Rightarrow> 's controller \<Rightarrow> string list \<Rightarrow> 's \<Rightarrow> cli_result \<times> 's" where
  "runProxy io controller args s =
     (if args = [''clear'', ''--yes''] then execute controller (blank_request ''clear_proxy'') s
      else case args of
        [] \<Rightarrow> (usage, s)
      | a # rest \<Rightarrow>
          if a \<noteq> ''set'' then (usage, s)
          else (case parse_flags (io_duration io) [(''file'', TextFlag)] [] rest of
            None \<Rightarrow> ((2, FlagError), s)
          | Some (values, left) \<Rightarrow>
              let file = text_flag values ''file'' [] in
              if left \<noteq> [] \<or> file = [] \<or> \<not> filepath_IsAbs file then (usage, s)
              else (case readSpec io (io_proxy_spec io) file of
                Inl e \<Rightarrow> (printError e, s)
              | Inr url \<Rightarrow> execute controller ((blank_request ''configure_proxy'')\<lparr>rq_ProxyURL := url\<rparr>) s)))"

definition runCommand :: "cli_io \<Rightarrow> 's controller \<Rightarrow> string list \<Rightarrow> 's \<Rightarrow> cli_result \<times> 's" where
  "runCommand io controller args s =
     (case args of
        [] \<Rightarrow> (usage, s)
      | [a] \<Rightarrow> if a = ''status'' then execute controller (blank_request ''status'') s else (usage, s)
      | a # rest \<Rightarrow>
          if a = ''routes'' then runRoutes io controller rest s
          else if a = ''ssh'' then runSSH io controller rest s
          else if a = ''proxy'' then runProxy io controller rest s
          else (usage, s))"

section \<open>A run\<close>

record root_options =
  ro_socket :: string
  ro_dataDir :: string
  ro_tokenFile :: string
  ro_timeout :: int

definition newClient :: "cli_io \<Rightarrow> root_options \<Rightarrow> string + control_client" where
  "newClient io options =
     (if ro_timeout options < second \<or> ro_timeout options > 120 * second
      then Inl ''timeout must be between 1s and 2m''
      else if ro_tokenFile options = [] \<or> \<not> filepath_IsAbs (ro_tokenFile options)
      then Inl ''--token-file must be an absolute protected token path''
      else if ro_socket options \<noteq> [] \<and> ro_dataDir options \<noteq> [] then Inl ''use either --socket or --data-dir''
      else if ro_socket options = [] \<and> (ro_dataDir options = [] \<or> \<not> filepath_IsAbs (ro_dataDir options))
      then Inl ''--data-dir must be an absolute server data directory when --socket is not used''
      else case (if ro_socket options = [] then map_sum id pt_Socket (PathsForDirectory (ro_dataDir options))
                 else Inr (ro_socket options)) of
        Inl e \<Rightarrow> Inl e
      | Inr socket \<Rightarrow>
          (case ReadToken (io_calls io (ro_tokenFile options)) (io_file io (ro_tokenFile options))
                  (ro_tokenFile options) of
             Inl e \<Rightarrow> Inl (''read control token: '' @ e)
           | Inr token \<Rightarrow> NewClient socket token))"

text \<open>The content of the output file before and after.\<close>

definition runToken :: "cli_io \<Rightarrow> string list \<Rightarrow> bytes option \<Rightarrow> cli_result \<times> bytes option" where
  "runToken io args present =
     (case args of
        [] \<Rightarrow> (usage, present)
      | a # rest \<Rightarrow>
          if a \<noteq> ''generate'' then (usage, present)
          else (case parse_flags (io_duration io) [(''output'', TextFlag)] [] rest of
            None \<Rightarrow> ((2, FlagError), present)
          | Some (values, left) \<Rightarrow>
              let output = text_flag values ''output'' [] in
              if left \<noteq> [] \<or> output = [] then (usage, present)
              else (case CreateToken (io_create io) (io_random io) output present of
                (Inl e, f) \<Rightarrow> (printError (English e), f)
              | (Inr _, f) \<Rightarrow> ((0, PrintedCreatedToken output), f))))"

definition root_flags :: "(string \<times> flag_kind) list" where
  "root_flags = [(''socket'', TextFlag), (''data-dir'', TextFlag), (''token-file'', TextFlag), (''timeout'', DurationFlag)]"

definition root_options_of :: "cli_io \<Rightarrow> flag_values \<Rightarrow> root_options" where
  "root_options_of io values =
     \<lparr>ro_socket = text_flag values ''socket'' [], ro_dataDir = text_flag values ''data-dir'' [],
      ro_tokenFile = text_flag values ''token-file'' [],
      ro_timeout = (case Option.bind (map_of values ''timeout'') (io_duration io) of
                      None \<Rightarrow> 20 * second | Some t \<Rightarrow> t)\<rparr>"

text \<open>The controller is made for the client and its timeout; the output file only matters to \<open>token\<close>.\<close>

definition run_cli ::
  "cli_io \<Rightarrow> (control_client \<Rightarrow> int \<Rightarrow> 's controller) \<Rightarrow> string list \<Rightarrow> bytes option \<times> 's
   \<Rightarrow> cli_result \<times> bytes option \<times> 's" where
  "run_cli io connect args st =
     (case st of (present, s) \<Rightarrow>
        (case args of
           [] \<Rightarrow> (usage, present, s)
         | a # rest \<Rightarrow>
             if a = ''version'' \<or> a = ''--version'' \<or> a = ''-version'' then ((0, PrintedVersion), present, s)
             else if a = ''token'' then (case runToken io rest present of (r, f) \<Rightarrow> (r, f, s))
             else (case parse_flags (io_duration io) root_flags [] args of
               None \<Rightarrow> ((2, FlagError), present, s)
             | Some (values, command) \<Rightarrow>
                 if command = [] then (usage, present, s)
                 else let options = root_options_of io values in
                   (case newClient io options of
                      Inl e \<Rightarrow> ((2, PrintedError (English e)), present, s)
                    | Inr client \<Rightarrow>
                        (case runCommand io (connect client (ro_timeout options)) command s of
                           (r, s') \<Rightarrow> (r, present, s'))))))"

section \<open>What a command line asks for\<close>

text \<open>A flag counts when the flags parse, nothing is left over and its value is an absolute path.\<close>

definition spec_file :: "cli_io \<Rightarrow> (string \<times> flag_kind) list \<Rightarrow> string list \<Rightarrow> (flag_values \<times> string) option" where
  "spec_file io known args =
     (case parse_flags (io_duration io) known [] args of
        Some (values, []) \<Rightarrow>
          (let file = text_flag values ''file'' [] in if filepath_IsAbs file then Some (values, file) else None)
      | _ \<Rightarrow> None)"

definition spec_of :: "message + 'd \<Rightarrow> 'd option" where
  "spec_of r = (case r of Inl _ \<Rightarrow> None | Inr d \<Rightarrow> Some d)"

definition create_request :: "cli_io \<Rightarrow> string \<Rightarrow> string list \<Rightarrow> control_request option" where
  "create_request io kind args =
     (case spec_file io [(''file'', TextFlag), (''allow-all-confirmed'', BoolFlag)] args of
        None \<Rightarrow> None
      | Some (values, file) \<Rightarrow>
          if kind = ''http'' then
            map_option (\<lambda>d. (blank_request ''create_http_route'')\<lparr>rq_Create := Some d\<rparr>)
              (spec_of (readSpec io (io_http_spec io) file))
          else if kind = ''llm'' then
            map_option (\<lambda>d. (blank_request ''create_llm_route'')\<lparr>rq_Create := Some d\<rparr>)
              (spec_of (readSpec io (io_http_spec io) file))
          else if kind = ''ssh'' then
            Option.bind (spec_of (readSpec io (io_ssh_spec io) file)) (\<lambda>d.
              if cr_AllowAllCommands d \<and> \<not> bool_flag values ''allow-all-confirmed'' then None
              else Some ((blank_request ''create_ssh_route'')\<lparr>rq_CreateSSH := Some d\<rparr>))
          else None)"

definition routes_request :: "cli_io \<Rightarrow> string list \<Rightarrow> control_request option" where
  "routes_request io args =
     (case args of
        a # b # rest \<Rightarrow>
          if a = ''create'' then create_request io b rest
          else if rest \<noteq> [] then None
          else if a = ''enable'' \<or> a = ''disable'' then
            Some ((blank_request ''set_route_enabled'')\<lparr>rq_Alias := b, rq_Enabled := (a = ''enable'')\<rparr>)
          else if a = ''health'' then Some ((blank_request ''test_route_health'')\<lparr>rq_Alias := b\<rparr>)
          else if a = ''delete'' then Some ((blank_request ''delete_route'')\<lparr>rq_Alias := b\<rparr>)
          else if (a, b) = (''stop-all'', ''--yes'') then Some (blank_request ''stop_all'')
          else None
      | _ \<Rightarrow> if args = [''list''] then Some (blank_request ''list_routes'') else None)"

definition ssh_request_of :: "cli_io \<Rightarrow> string list \<Rightarrow> control_request option" where
  "ssh_request_of io args =
     (case args of
        [] \<Rightarrow> None
      | a # rest \<Rightarrow>
          (case parse_flags (io_duration io) [(''address'', TextFlag), (''egress'', TextFlag)] [] rest of
             Some (values, []) \<Rightarrow>
               if a \<noteq> ''probe'' \<or> text_flag values ''address'' [] = [] then None
               else Some ((blank_request ''probe_ssh_host_key'')\<lparr>rq_ProbeSSH := Some
                 \<lparr>pk_Address = text_flag values ''address'' [],
                  pk_Egress = text_flag values ''egress'' ''Direct''\<rparr>\<rparr>)
           | _ \<Rightarrow> None))"

definition proxy_request :: "cli_io \<Rightarrow> string list \<Rightarrow> control_request option" where
  "proxy_request io args =
     (if args = [''clear'', ''--yes''] then Some (blank_request ''clear_proxy'')
      else case args of
        [] \<Rightarrow> None
      | a # rest \<Rightarrow>
          (case spec_file io [(''file'', TextFlag)] rest of
             None \<Rightarrow> None
           | Some (values, file) \<Rightarrow>
               if a \<noteq> ''set'' then None
               else map_option (\<lambda>url. (blank_request ''configure_proxy'')\<lparr>rq_ProxyURL := url\<rparr>)
                 (spec_of (readSpec io (io_proxy_spec io) file))))"

text \<open>The request a command stands for, if any: the reference the program is compared with.\<close>

definition command_request :: "cli_io \<Rightarrow> string list \<Rightarrow> control_request option" where
  "command_request io args =
     (if args = [''status''] then Some (blank_request ''status'')
      else case args of
        a # b # rest \<Rightarrow>
          if a = ''routes'' then routes_request io (b # rest)
          else if a = ''ssh'' then ssh_request_of io (b # rest)
          else if a = ''proxy'' then proxy_request io (b # rest)
          else None
      | _ \<Rightarrow> None)"

definition creates :: "control_request \<Rightarrow> bool" where
  "creates r \<longleftrightarrow> rq_Create r \<noteq> None \<or> rq_CreateSSH r \<noteq> None"

definition answered :: "'s controller \<Rightarrow> control_request \<Rightarrow> 's \<Rightarrow> bool" where
  "answered controller r s \<longleftrightarrow>
     (case fst (controller r s) of
        Inl _ \<Rightarrow> False
      | Inr response \<Rightarrow> re_OK response \<and> (creates r \<longrightarrow> re_Created response \<noteq> None))"

text \<open>
  The outcome of a command that stands for a request: nothing is sent and the exit code is 1 or 2, or exactly
  the request is sent and the exit code tells whether it was answered with success.
\<close>

definition obeys :: "'s controller \<Rightarrow> 's \<Rightarrow> control_request option \<Rightarrow> cli_result \<times> 's \<Rightarrow> bool" where
  "obeys controller s request out \<longleftrightarrow>
     (case request of
        None \<Rightarrow> snd out = s \<and> fst (fst out) \<in> {1, 2}
      | Some r \<Rightarrow> snd out = snd (controller r s) \<and> fst (fst out) = (if answered controller r s then 0 else 1))"

lemma obeys_none [simp]:
  "obeys controller s None (usage, s)" "obeys controller s None (printError e, s)"
  "obeys controller s None ((2, x), s)"
  by (simp_all add: obeys_def usage_def printError_def)

lemmas call_cases = call_def printError_def answered_def obeys_def

lemma obeys_execute [simp]:
  "\<not> creates r \<Longrightarrow> obeys controller s (Some r) (execute controller r s)"
  "creates r \<Longrightarrow> obeys controller s (Some r) (executeCreate controller r s)"
  by (cases "controller r s"; auto simp: execute_def executeCreate_def call_cases split: sum.splits option.splits)+

lemma obeys_executeSSH [simp]:
  "obeys controller s (Some ((blank_request ''create_ssh_route'')\<lparr>rq_CreateSSH := Some d\<rparr>)) (executeSSHCreate controller d s)"
  by (cases "controller ((blank_request ''create_ssh_route'')\<lparr>rq_CreateSSH := Some d\<rparr>) s")
    (auto simp: executeSSHCreate_def call_cases creates_def split: sum.splits option.splits)

lemma creates_blank [simp]:
  "creates (blank_request a) = False" "creates (r\<lparr>rq_Alias := x\<rparr>) = creates r"
  "creates (r\<lparr>rq_Enabled := b\<rparr>) = creates r" "creates (r\<lparr>rq_ProbeSSH := q\<rparr>) = creates r"
  "creates (r\<lparr>rq_ProxyURL := x\<rparr>) = creates r" "creates (r\<lparr>rq_Create := Some d\<rparr>)"
  by (simp_all add: creates_def blank_request_def)

lemma abs_path: "filepath_IsAbs p \<Longrightarrow> p \<noteq> []"
  by (auto simp: filepath_IsAbs_def has_prefix_def)

lemmas request_defs = spec_file_def spec_of_def Let_def abs_path

lemma runRouteCreate_obeys:
  "obeys controller s (create_request io kind args) (runRouteCreate io controller kind args s)"
  by (auto simp: runRouteCreate_def create_request_def request_defs
      split: option.splits prod.splits list.splits sum.splits)

lemma runRoutes_obeys: "obeys controller s (routes_request io args) (runRoutes io controller args s)"
  by (auto simp: runRoutes_def routes_request_def runRouteCreate_obeys split: list.splits)

lemma runSSH_obeys: "obeys controller s (ssh_request_of io args) (runSSH io controller args s)"
  by (auto simp: runSSH_def ssh_request_of_def Let_def split: list.splits option.splits prod.splits)

lemma runProxy_obeys: "obeys controller s (proxy_request io args) (runProxy io controller args s)"
  by (auto simp: runProxy_def proxy_request_def request_defs
      split: list.splits option.splits prod.splits sum.splits)

lemma runCommand_obeys: "obeys controller s (command_request io args) (runCommand io controller args s)"
  by (auto simp: runCommand_def command_request_def runRoutes_obeys runSSH_obeys runProxy_obeys split: list.splits)

section \<open>A run sends at most one request\<close>

text \<open>The client, timeout and request of a run, when its arguments make one.\<close>

definition run_request :: "cli_io \<Rightarrow> string list \<Rightarrow> (control_client \<times> int \<times> control_request) option" where
  "run_request io args =
     (if args = [] \<or> hd args \<in> {''version'', ''--version'', ''-version'', ''token''} then None
      else case parse_flags (io_duration io) root_flags [] args of
        None \<Rightarrow> None
      | Some (values, command) \<Rightarrow>
          (case newClient io (root_options_of io values) of
             Inl _ \<Rightarrow> None
           | Inr client \<Rightarrow>
               map_option (\<lambda>r. (client, ro_timeout (root_options_of io values), r)) (command_request io command)))"

lemma run_cli_outcome:
  assumes "run_cli io connect args (present, s) = ((code, out), present', s')"
  shows "case run_request io args of
      None \<Rightarrow> s' = s \<and> (code = 0 \<longrightarrow> args \<noteq> [] \<and> hd args \<in> {''version'', ''--version'', ''-version'', ''token''})
    | Some (client, timeout, r) \<Rightarrow>
        s' = snd (connect client timeout r s) \<and> present' = present
        \<and> code = (if answered (connect client timeout) r s then 0 else 1)"
proof (cases "args = [] \<or> hd args \<in> {''version'', ''--version'', ''-version'', ''token''}")
  case True
  then have "run_request io args = None" by (auto simp: run_request_def)
  with assms True show ?thesis
    by (cases args) (auto simp: run_cli_def usage_def split: if_splits prod.splits)
next
  case False
  then obtain a rest where a: "args = a # rest" "a \<notin> {''version'', ''--version'', ''-version'', ''token''}"
    by (cases args) auto
  show ?thesis
  proof (cases "parse_flags (io_duration io) root_flags [] args")
    case None
    with assms a show ?thesis by (auto simp: run_cli_def run_request_def)
  next
    case (Some parsed)
    obtain vs command where p: "parsed = (vs, command)" by (cases parsed)
    let ?options = "root_options_of io vs"
    show ?thesis
    proof (cases "newClient io ?options")
      case (Inl e)
      with assms a Some p show ?thesis by (auto simp: run_cli_def run_request_def usage_def split: if_splits)
    next
      case (Inr client)
      let ?controller = "connect client (ro_timeout ?options)"
      have q: "run_request io args
          = map_option (\<lambda>r. (client, ro_timeout ?options, r)) (command_request io command)"
        using a Some p Inr by (simp add: run_request_def)
      show ?thesis
      proof (cases "command = []")
        case True
        have "command_request io [] = None" by (simp add: command_request_def)
        with True assms a Some p q show ?thesis by (auto simp: run_cli_def usage_def)
      next
        case nonempty: False
        have "((code, out), s') = runCommand io ?controller command s" "present' = present"
          using nonempty assms a Some p Inr by (auto simp: run_cli_def Let_def split: prod.splits)
        then show ?thesis
          using runCommand_obeys [of ?controller s io command] q
          by (auto simp: obeys_def split: option.splits dest: sym)
      qed
    qed
  qed
qed

section \<open>Confirmation, and where secrets come from\<close>

definition names_flag :: "string \<Rightarrow> string \<Rightarrow> bool" where
  "names_flag a name \<longleftrightarrow> hd a = CHR ''-'' \<and> fst (split_flag (flag_body a)) = name"

lemma parsed_flag_given:
  "parse_flags duration known vs args = Some (vs', rest) \<Longrightarrow> (name, v) \<in> set vs' \<Longrightarrow>
   (name, v) \<in> set vs \<or> (\<exists>a \<in> set args. names_flag a name)"
proof (induction duration known vs args arbitrary: vs' rest rule: parse_flags.induct)
  case (2 duration known vs s args)
  obtain n given where n: "split_flag (flag_body s) = (n, given)" by (cases "split_flag (flag_body s)")
  show ?case
  proof (cases "length s < 2 \<or> hd s \<noteq> CHR ''-'' \<or> s = ''--''")
    case True
    with 2(4,5) show ?thesis by (auto split: if_splits)
  next
    case False
    then have here: "names_flag s n" by (simp add: names_flag_def n)
    from False 2(4) obtain kind where k: "map_of known n = Some kind"
      "\<not> (flag_body s = [] \<or> hd (flag_body s) = CHR ''-'' \<or> hd (flag_body s) = CHR ''='')"
      by (auto simp: n split: option.splits if_splits)
    have "\<not> length s < 2" "\<not> (length s < 2 \<or> hd s \<noteq> CHR ''-'')" "s \<noteq> ''--''" using False by auto
    note IH = 2(1) [OF this(2,3) k(2) n [symmetric] k(1)] 2(2) [OF this(2,3) k(2) n [symmetric] k(1)]
      2(3) [OF this(2,3) k(2) n [symmetric] k(1)]
    show ?thesis
      using 2(4,5) False k here IH
      by (auto simp: n split: option.splits if_splits list.splits)
  qed
qed auto

lemma bool_flag_given:
  assumes "parse_flags duration known [] args = Some (vs, rest)" "bool_flag vs name"
  shows "\<exists>a \<in> set args. names_flag a name"
proof -
  obtain v where "map_of vs name = Some v" using assms(2) by (auto simp: bool_flag_def split: option.splits)
  then show ?thesis using parsed_flag_given [OF assms(1) map_of_SomeD] by auto
qed

text \<open>The file was private and small enough when it was opened, and the decoder took all of it.\<close>

definition from_spec :: "cli_io \<Rightarrow> (bytes \<Rightarrow> 'd file_text) \<Rightarrow> string \<Rightarrow> 'd \<Rightarrow> bool" where
  "from_spec io decoder file d \<longleftrightarrow> filepath_IsAbs file
     \<and> (\<exists>info. fc_lstat (io_calls io file) = StatOk info \<and> IsPrivateRegularFile info)
     \<and> length (io_file io file) \<le> 65536 \<and> decoder (io_file io file) = JSONDoc d False"

lemma Read_ok:
  assumes "Read os content p maxBytes = Inr contents"
  shows "(\<exists>info. fc_lstat os = StatOk info \<and> IsPrivateRegularFile info) \<and> contents = content
    \<and> int (length content) \<le> maxBytes"
  using assms
  by (auto simp: Read_def Let_def nat_less_iff split: if_splits lstat_result.splits)

lemma readSpec_ok:
  assumes "spec_of (readSpec io decoder file) = Some d" "filepath_IsAbs file"
  shows "from_spec io decoder file d"
  using assms Read_ok [of "io_calls io file" "io_file io file" "file" 65536]
  by (auto simp: spec_of_def readSpec_def from_spec_def split: sum.splits file_text.splits if_splits)

lemma spec_file_ok:
  "spec_file io known args = Some (vs, file) \<Longrightarrow>
   parse_flags (io_duration io) known [] args = Some (vs, []) \<and> filepath_IsAbs file"
  by (auto simp: spec_file_def Let_def split: option.splits prod.splits list.splits if_splits)

text \<open>What a command line ever asks for, and what it has shown or read for it.\<close>

inductive cli_request :: "cli_io \<Rightarrow> string list \<Rightarrow> control_request \<Rightarrow> bool" for io args where
  ask_plain: "a \<in> {''status'', ''list_routes''} \<Longrightarrow> cli_request io args (blank_request a)"
| ask_final: "last args = ''--yes'' \<Longrightarrow> a \<in> {''stop_all'', ''clear_proxy''} \<Longrightarrow>
    cli_request io args (blank_request a)"
| ask_route: "a \<in> {''set_route_enabled'', ''test_route_health'', ''delete_route''} \<Longrightarrow>
    cli_request io args ((blank_request a)\<lparr>rq_Alias := b, rq_Enabled := e\<rparr>)"
| ask_http: "a \<in> {''create_http_route'', ''create_llm_route''} \<Longrightarrow> from_spec io (io_http_spec io) p d \<Longrightarrow>
    cli_request io args ((blank_request a)\<lparr>rq_Create := Some d\<rparr>)"
| ask_ssh: "from_spec io (io_ssh_spec io) p q \<Longrightarrow>
    (cr_AllowAllCommands q \<Longrightarrow> \<exists>a \<in> set args. names_flag a ''allow-all-confirmed'') \<Longrightarrow>
    cli_request io args ((blank_request ''create_ssh_route'')\<lparr>rq_CreateSSH := Some q\<rparr>)"
| ask_probe: "cli_request io args ((blank_request ''probe_ssh_host_key'')\<lparr>rq_ProbeSSH := Some t\<rparr>)"
| ask_proxy: "from_spec io (io_proxy_spec io) p url \<Longrightarrow>
    cli_request io args ((blank_request ''configure_proxy'')\<lparr>rq_ProxyURL := url\<rparr>)"

lemma cli_request_Cons: "cli_request io args r \<Longrightarrow> args \<noteq> [] \<Longrightarrow> cli_request io (a # args) r"
  by (induction rule: cli_request.induct) (auto intro: cli_request.intros)

lemma create_request_asks:
  assumes "create_request io kind args = Some r"
  shows "cli_request io args r"
proof -
  obtain vs p where f: "spec_file io [(''file'', TextFlag), (''allow-all-confirmed'', BoolFlag)] args = Some (vs, p)"
    using assms by (auto simp: create_request_def split: option.splits)
  note ok = spec_file_ok [OF f]
  note given = bool_flag_given [OF conjunct1 [OF ok], of "''allow-all-confirmed''"]
    and read = readSpec_ok [OF _ conjunct2 [OF ok]]
  consider d a where "r = (blank_request a)\<lparr>rq_Create := Some d\<rparr>" "a \<in> {''create_http_route'', ''create_llm_route''}"
      "spec_of (readSpec io (io_http_spec io) p) = Some d"
    | q where "r = (blank_request ''create_ssh_route'')\<lparr>rq_CreateSSH := Some q\<rparr>"
      "spec_of (readSpec io (io_ssh_spec io) p) = Some q" "cr_AllowAllCommands q \<longrightarrow> bool_flag vs ''allow-all-confirmed''"
    using assms by (auto simp: create_request_def f split: if_splits bind_splits)
  then show ?thesis
    by cases (use ask_http [OF _ read] ask_ssh [OF read] given in \<open>simp_all, blast?\<close>)
qed

lemma create_request_Nil [simp]: "create_request io kind [] = None"
  by (simp add: create_request_def spec_file_def text_flag_def filepath_IsAbs_def has_prefix_def)

lemma ask_alias:
  assumes "a \<in> {''set_route_enabled'', ''test_route_health'', ''delete_route''}"
  shows "cli_request io args ((blank_request a)\<lparr>rq_Alias := b\<rparr>)"
  using ask_route [OF assms, where b = b and e = False] by (simp add: blank_request_def)

lemma routes_request_asks:
  assumes "routes_request io args = Some r"
  shows "cli_request io args r"
proof -
  consider (creation) b left where "args = ''create'' # b # left" "create_request io b left = Some r"
    | (other) "\<forall>b left. args = ''create'' # b # left \<longrightarrow> False"
    using assms by (cases "\<exists>b left. args = ''create'' # b # left") (auto simp: routes_request_def)
  then show ?thesis
  proof cases
    case (creation b left)
    from creation(2) have "left \<noteq> []" by (cases left) auto
    with create_request_asks [OF creation(2)] creation(1) cli_request_Cons show ?thesis by simp
  next
    case other
    with assms show ?thesis
      by (auto simp: routes_request_def intro: ask_plain ask_final ask_route ask_alias split: list.splits if_splits)
  qed
qed

lemma proxy_request_asks:
  assumes "proxy_request io args = Some r"
  shows "cli_request io args r"
proof (cases "args = [''clear'', ''--yes'']")
  case True
  with assms show ?thesis by (auto simp: proxy_request_def intro: ask_final)
next
  case False
  with assms obtain left vs p url where "spec_file io [(''file'', TextFlag)] left = Some (vs, p)"
      "spec_of (readSpec io (io_proxy_spec io) p) = Some url"
      "r = (blank_request ''configure_proxy'')\<lparr>rq_ProxyURL := url\<rparr>"
    by (auto simp: proxy_request_def split: list.splits option.splits if_splits)
  with readSpec_ok [of io "io_proxy_spec io" p url] spec_file_ok [of io _ left vs p] show ?thesis
    by (auto intro: ask_proxy)
qed

lemma ssh_request_asks: "ssh_request_of io args = Some r \<Longrightarrow> cli_request io args r"
  by (auto simp: ssh_request_of_def intro: ask_probe split: list.splits option.splits if_splits)

lemma command_request_asks:
  assumes "command_request io args = Some r"
  shows "cli_request io args r"
proof -
  consider "r = blank_request ''status''" | a left where "args = a # left" "left \<noteq> []"
      "routes_request io left = Some r \<or> ssh_request_of io left = Some r \<or> proxy_request io left = Some r"
    using assms by (auto simp: command_request_def split: list.splits if_splits)
  then show ?thesis
  proof cases
    case (2 a left)
    then have "cli_request io left r" using routes_request_asks ssh_request_asks proxy_request_asks by blast
    with 2 cli_request_Cons show ?thesis by simp
  qed (simp add: ask_plain)
qed

text \<open>
  the command line asks before it does what cannot be taken back, and takes no secret from its
  arguments: stopping every route and clearing the proxy are only ever requested by a command that ends in
  \<open>--yes\<close>, a route that allows every SSH command only when \<open>--allow-all-confirmed\<close> was
  given, and what a creation or a proxy setup sends is the whole content of a private regular file of at most
  64 KiB, named by an absolute path.
\<close>

theorem cli_confirms:
  assumes "command_request io args = Some r"
  shows "(rq_Action r \<in> {''stop_all'', ''clear_proxy''} \<longrightarrow> last args = ''--yes'')
    \<and> (\<forall>d. rq_Create r = Some d \<longrightarrow> (\<exists>file. from_spec io (io_http_spec io) file d))
    \<and> (\<forall>d. rq_CreateSSH r = Some d \<longrightarrow> (\<exists>file. from_spec io (io_ssh_spec io) file d)
         \<and> (cr_AllowAllCommands d \<longrightarrow> (\<exists>a \<in> set args. names_flag a ''allow-all-confirmed'')))
    \<and> (rq_ProxyURL r \<noteq> [] \<longrightarrow> (\<exists>file. from_spec io (io_proxy_spec io) file (rq_ProxyURL r)))"
  using command_request_asks [OF assms]
  by cases (auto simp: blank_request_def)

section \<open>Runs\<close>

text \<open>
  C18: a run of the command line does what its arguments say and no more: when they stand for a request
  (\<open>command_request\<close>, under the client its options and its token file give), exactly that request is
  sent, and the exit code is 0 exactly when it was answered with success, and with the new route when it creates
  one; otherwise nothing is sent, and the exit code is 0 only for printing the version or creating a token.
\<close>

theorem cli_sends_what_it_says:
  assumes "run_cli io connect args (present, s) = ((code, out), present', s')"
  shows "case run_request io args of
      None \<Rightarrow> s' = s \<and> (code = 0 \<longrightarrow> args \<noteq> [] \<and> hd args \<in> {''version'', ''--version'', ''-version'', ''token''})
    | Some (client, timeout, r) \<Rightarrow>
        s' = snd (connect client timeout r s) \<and> present' = present
        \<and> code = (if answered (connect client timeout) r s then 0 else 1)"
  by (rule run_cli_outcome [OF assms])

text \<open>The whole way: the command line, its client, and the control server that answers it.\<close>

lemma newClient_token:
  assumes "newClient io options = Inr client"
  shows "filepath_IsAbs (ro_tokenFile options)
    \<and> (\<exists>info. fc_lstat (io_calls io (ro_tokenFile options)) = StatOk info \<and> IsPrivateRegularFile info)
    \<and> cc_token client = trim_space (io_file io (ro_tokenFile options)) \<and> length (cc_token client) \<in> {32..128}"
  using assms Read_ok [of "io_calls io (ro_tokenFile options)" "io_file io (ro_tokenFile options)" "ro_tokenFile options" maxTokenBytes]
  by (auto simp: newClient_def ReadToken_def NewClient_def Let_def split: if_splits sum.splits)

text \<open>
  a command line is no way around the control server: whatever its arguments and files are and
  whatever becomes of the exchange, a run leaves the server's invariant and token as they were, and it can
  change the server only with an absolutely named, private regular file that holds the server's token.
\<close>

theorem cli_needs_the_token:
  assumes "control_inv s" and "run_cli io (\<lambda>client timeout. Do cl w c (Some client)) args (present, s) = ((code, out), present', s')"
  shows "control_inv s' \<and> cs_token s' = cs_token s
    \<and> (s' \<noteq> s \<longrightarrow> (\<exists>file info. filepath_IsAbs file \<and> fc_lstat (io_calls io file) = StatOk info
         \<and> IsPrivateRegularFile info \<and> utf8_coerce (trim_space (io_file io file)) = cs_token s))"
proof (cases "run_request io args")
  case None
  with run_cli_outcome [OF assms(2)] assms(1) show ?thesis by simp
next
  case (Some q)
  obtain client timeout r where q: "q = (client, timeout, r)" by (metis prod.exhaust)
  with run_cli_outcome [OF assms(2)] Some have s': "s' = snd (Do cl w c (Some client) r s)" by simp
  obtain options where "newClient io options = Inr client"
    using Some q by (auto simp: run_request_def split: if_splits option.splits sum.splits)
  note token = newClient_token [OF this]
  have "s' \<noteq> s \<longrightarrow> utf8_coerce (cc_token client) = cs_token s"
    using Do_unauthenticated(1) [of "Some client" s cl w c r] s' by auto
  with token Do_inv [OF assms(1), of cl w c "Some client" r] s' show ?thesis by metis
qed

section \<open>A sample run\<close>

definition sample_cli :: cli_io where
  "sample_cli = \<lparr>io_duration = (\<lambda>_. None), io_calls = (\<lambda>_. sample_file_calls),
     io_file = (\<lambda>_. replicate 32 (CHR ''t'') @ [LF]),
     io_create = sample_create, io_random = None,
     io_http_spec = (\<lambda>_. NotJSON), io_ssh_spec = (\<lambda>_. NotJSON), io_proxy_spec = (\<lambda>_. NotJSON)\<rparr>"

definition sample_args :: "string list" where
  "sample_args = [''--data-dir'', ''/a'', ''--token-file'', ''/t'', ''routes'', ''stop-all'', ''--yes'']"

lemma sample_token: "ReadToken sample_file_calls (replicate 32 (CHR ''t'') @ [LF]) ''/t'' = Inr (replicate 32 (CHR ''t''))"
  by code_simp

lemma sample_run_request:
  "run_request sample_cli sample_args
     = Some (\<lparr>cc_socketPath = ''/a/control.sock'', cc_token = replicate 32 (CHR ''t'')\<rparr>, 20 * second, blank_request ''stop_all'')"
proof -
  have p: "parse_flags (\<lambda>_. None) root_flags [] sample_args
      = Some ([(''token-file'', ''/t''), (''data-dir'', ''/a'')], [''routes'', ''stop-all'', ''--yes''])" by code_simp
  have d: "PathsForDirectory ''/a'' = Inr \<lparr>pt_Directory = ''/a'', pt_Socket = ''/a/control.sock''\<rparr>" by code_simp
  have "newClient sample_cli (root_options_of sample_cli [(''token-file'', ''/t''), (''data-dir'', ''/a'')])
      = Inr \<lparr>cc_socketPath = ''/a/control.sock'', cc_token = replicate 32 (CHR ''t'')\<rparr>"
    by (simp add: newClient_def root_options_of_def text_flag_def d sample_cli_def sample_token NewClient_def
        validControlEndpoint_def filepath_IsAbs_def has_prefix_def second_def)
  moreover have "sample_args \<noteq> [] \<and> hd sample_args \<notin> {''version'', ''--version'', ''-version'', ''token''}"
    by (simp add: sample_args_def)
  moreover have "ro_timeout (root_options_of sample_cli [(''token-file'', ''/t''), (''data-dir'', ''/a'')]) = 20 * second"
    by (simp add: root_options_of_def)
  moreover have "command_request sample_cli [''routes'', ''stop-all'', ''--yes''] = Some (blank_request ''stop_all'')"
    by (simp add: command_request_def routes_request_def)
  moreover have "io_duration sample_cli = (\<lambda>_. None)" by (simp add: sample_cli_def)
  ultimately show ?thesis using p by (simp add: run_request_def del: parse_flags.simps)
qed

theorem cli_sends_what_it_says_witness:
  "\<exists>code out present' s'. run_cli sample_cli (\<lambda>client timeout r s. (Inr (error_response (English [])), s + 1)) sample_args (None, 0)
     = ((code, out), present', s') \<and> s' = (1 :: nat) \<and> code = 1"
proof -
  let ?connect = "\<lambda>(client :: control_client) (timeout :: int) (r :: control_request) s.
    (Inr (error_response (English [])) :: string + control_response, s + 1 :: nat)"
  obtain code out present' s' where r: "run_cli sample_cli ?connect sample_args (None, 0) = ((code, out), present', s')"
    by (metis prod.exhaust)
  from cli_sends_what_it_says [OF r] r show ?thesis
    by (simp add: sample_run_request answered_def error_response_def)
qed

theorem cli_confirms_witness:
  "command_request sample_cli [''routes'', ''stop-all'', ''--yes''] = Some (blank_request ''stop_all'')
   \<and> last [''routes'', ''stop-all'', ''--yes''] = ''--yes''"
proof -
  have r: "command_request sample_cli [''routes'', ''stop-all'', ''--yes''] = Some (blank_request ''stop_all'')"
    by (simp add: command_request_def routes_request_def)
  from cli_confirms [OF r] r show ?thesis by (simp add: blank_request_def)
qed

theorem cli_needs_the_token_witness:
  "\<exists>code out present' s'. run_cli sample_cli
       (\<lambda>client timeout. Do \<lparr>cl_dial_ok = True, cl_deadline_ok = True, cl_write_ok = True, cl_delivered = True, cl_read_ok = True\<rparr>
          \<lparr>wr_request_length = (\<lambda>_. 0), wr_response_length = (\<lambda>_. 0)\<rparr> sample_calls (Some client)) sample_args (None, sample_control)
     = ((code, out), present', s') \<and> control_inv s'"
  using cli_needs_the_token [OF sample_control_inv] by (metis prod.exhaust)

end
