(* ===== verification/Spec2Isabelle.thy ===== *)
theory Spec2Isabelle
  imports Activity Http_Serve Ssh_Session Control_Secrets Daemon_Run Cli
begin

text \<open>
  Airlock is a relay that runs on the operator's machine. Agents reach fixed upstream services through it with a
  local capability token, while the addresses and credentials of those services stay with the daemon. This
  development models its Go code (\<open>cmd/\<close> and \<open>internal/\<close>) and proves what makes it correct.

  \<^bold>\<open>Parts and how they interact.\<close>
  The daemon (\<open>airlockd\<close>) holds two route registries, one for HTTP and LLM routes and one for SSH routes, each
  with a metadata file; a secret store with the protected targets; an egress manager; an activity log and a
  command audit. The HTTP gateway and the SSH gateway look routes up and forward what their policies allow. The
  control server changes routes, secrets and the proxy on behalf of clients that know the control token; its
  clients are the web console and the command \<open>airlock\<close>.

  \<^bold>\<open>Go itself.\<close>
  \<^item> \<open>Go_Prelude\<close>: byte strings and package \<open>strings\<close>, Go maps as association lists, sets as sorted lists,
    results as sums (\<open>Inl\<close> the error).
  \<^item> \<open>Go_Codec\<close>: hex, base64, UTF-8, SHA-256 and constant-time comparison, executable.
  \<^item> \<open>Go_Url\<close>, \<open>Go_Net\<close>, \<open>Go_Json\<close>: \<open>net/url\<close>, headers, IP addresses, and the JSON scanner.
  \<^item> \<open>Interfaces\<close>, \<open>Registry_Store\<close>: the contracts as locales (bounded log, slot pool, route registry, secret
    slot, secret backend, registry with its file), each interpreted where the code provides it; the contract of the
    console's controller is in \<open>Web_Ui\<close>.

  \<^bold>\<open>Components, by theory.\<close>
  \<^item> \<open>Capability\<close> (\<open>internal/capability/token.go\<close>), \<open>Activity\<close> (\<open>internal/activity/recorder.go\<close>),
    \<open>Private_File\<close> (\<open>internal/securefs\<close> and the guarded open and replacement that the stores repeat),
    \<open>Secure_File\<close> (\<open>internal/securefile/securefile.go\<close>).
  \<^item> \<open>Routes\<close>, \<open>Routes_File\<close> (\<open>internal/routes\<close>); \<open>Ssh_Registry\<close>, \<open>Ssh_File\<close>, \<open>Ssh_Audit\<close>
    (\<open>registry.go\<close>, \<open>file_store.go\<close> and \<open>audit.go\<close> of \<open>internal/sshgw\<close>). A registry is the map of the Go
    struct; a file is absent, not JSON, or a decoded document, possibly with trailing data.
  \<^item> \<open>Secrets\<close> (\<open>store.go\<close>, \<open>keychain_store.go\<close>, \<open>file_store.go\<close> of \<open>internal/secrets\<close>) and
    \<open>Platform_Store\<close> (the backends of \<open>keychain_linux.go\<close>, \<open>keychain_windows.go\<close> and \<open>keychain_darwin.go\<close>).
  \<^item> \<open>Egress\<close> (\<open>internal/egress/manager.go\<close>).
  \<^item> \<open>Http_Llm\<close> (\<open>internal/httpgw/llm.go\<close>), \<open>Http_Gateway\<close> (\<open>handler.go\<close>); about them \<open>Http_Paths\<close> (paths,
    upstream URLs, redirects), \<open>Http_Limits\<close> (limits in every interleaving) and \<open>Http_Serve\<close> (\<open>ServeHTTP\<close>).
  \<^item> \<open>Ssh_Upstream\<close> (\<open>upstream.go\<close>, \<open>probe.go\<close>, \<open>identity.go\<close>), \<open>Ssh_Server\<close> (\<open>server.go\<close>); about them
    \<open>Ssh_Session\<close> (authentication, sessions, work, slots).
  \<^item> \<open>Control_View\<close>, \<open>Control\<close>, \<open>Control_Actions\<close> (\<open>internal/control/server.go\<close>: state and messages; the HTTP
    and migration actions; the SSH actions, health checks, \<open>dispatch\<close> and \<open>handle\<close>); about them \<open>Control_Laws\<close>,
    \<open>Control_Routes\<close>, \<open>Control_Secrets\<close> and \<open>Control_Server\<close>. \<open>Control_Endpoint\<close> is \<open>transport_unix.go\<close>,
    \<open>client.go\<close> and \<open>Listen\<close>.
  \<^item> \<open>Web_Ui\<close> (\<open>internal/webui/server.go\<close>) and, on top of the control server, \<open>Web_Console\<close>.
  \<^item> \<open>Daemon\<close> (\<open>cmd/airlockd/main.go\<close>), \<open>Startup\<close> (what a start establishes and a restart brings back) and
    \<open>Daemon_Run\<close> (the running daemon, all services over the shared registries).
  \<^item> \<open>Cli\<close> (\<open>cmd/airlock/main.go\<close>).

  A Go struct with state is a record and its methods are functions that return the changed record. A call into the
  operating system, the network, the clock, the random source or a third-party library (SSH, keyrings, TLS) is an
  argument: a record of outcomes for one operation (\<open>read_calls\<close>, \<open>write_calls\<close>, \<open>control_calls\<close>), or a function
  when what it is asked depends on the code (\<open>network\<close>, \<open>ssh_library\<close>, \<open>keyring\<close>). Every outcome, errors
  included, is a branch of the model. English texts are kept as they are; a Chinese message of the control server is
  its English rendering under the constructor \<open>Localized\<close>.

  \<^bold>\<open>What is proved.\<close>
  \<^item> The whole daemon: whatever the files hold, a daemon that starts is well formed, and every sequence of control
    exchanges, requests, logins and console requests keeps it so; after \<open>stop_all\<close> nothing gets through, not even
    after a restart; a restart brings the routes back.
  \<^item> Control server: a failed action changes nothing, files follow memory, no action without the token, responses
    do not depend on secrets, what creation, deletion and migration do. Its clients: the console is a gate in front
    of four operations, the command line sends exactly the request its arguments name.
  \<^item> HTTP gateway: what is sent upstream is authorised and stays below the target; redirects stay in the route; LLM
    bodies obey the policy; limits hold in every interleaving, and a request that waits as told is admitted.
  \<^item> SSH gateway: who is authenticated, what a session may start, host key pinning, bounds on connections.
  \<^item> Stores: round trips and refinements of maps, for files, keyrings and the chunked Windows credentials.

  \<^bold>\<open>Bounds and fuel.\<close>
  \<open>unsafePath\<close> decodes sixteen times as the code does; the property covers any number of further decodings. The
  JSON scanner gets twice the length of the text and two as fuel (it consumes a character at every second step at
  the latest) and stops at the depth 10000 of the library; the walks over the members of an object get the length
  of the text and one. \<open>extract_usage\<close> gets the length of its text and one;
  more fuel is proved to make no difference. \<open>parse_modes\<close> and \<open>parse_flags\<close> recurse on what is left. Usage counters,
  terminal modes and file modes are words; lengths, times and limits are unbounded, since the code compares them
  with small constants only.

  \<^bold>\<open>Not modelled, and why.\<close>
  \<^item> Copying and flushing of byte streams (a reply is its status, headers and bytes; SSH data is an effect of the
    work), and the wiping of secrets from memory, which no result depends on.
  \<^item> Goroutines and locks: what a lock protects is one step, and runs are sequences of steps; timeouts are outcomes.
  \<^item> The decoding of JSON documents into structs by the library, and \<open>time.ParseDuration\<close>: the decoded value is an
    argument. Encoding and decoding again is modelled as what it does to strings (invalid UTF-8 is replaced).
  \<^item> The mux of \<open>net/http\<close>, which hands \<open>/r/\<close> to the gateway and answers \<open>/healthz\<close>; the signals that stop the
    daemon; usage texts and the HTML page of the console.
  \<^item> The Windows variants of the endpoint and of the private files (\<open>transport_windows.go\<close>, \<open>private_windows.go\<close>):
    calls of system interfaces without logic of their own.
  \<^item> The order among equals that \<open>sort.Slice\<close> leaves open is fixed to that of a stable sort.
  \<^item> That a restart finds the metadata files as they were left is a hypothesis (\<open>finds_files\<close>).
\<close>


definition sample_event :: activity_event where
  "sample_event = \<lparr>ev_ID = [], ev_Time = 0, ev_RouteAlias = ''gh'', ev_Category = ''HTTP'', ev_EventType = ''request'',
     ev_Caller = ''loopback'', ev_Action = ''GET request'', ev_Result = ''allowed'', ev_DurationMS = 3,
     ev_Egress = ''Direct''\<rparr>"


end
